(* ===== verification/Prelude.thy ===== *)
theory Prelude
  imports Main "HOL-Library.Word" "HOL-Library.AList" "HOL-Library.List_Lexorder"
    "HOL-Library.Char_ord" "HOL-Library.Countable"
begin

text \<open>
  Shared vocabulary of the development: Rust's integer types as words, results and state-passing
  fallible operations, \<open>HashMap\<close> as an association list whose order stands for the unspecified
  iteration order, the parts of \<open>str\<close> and of \<open>FromStr\<close> the agent uses, and the two generic
  interfaces (a round-trip codec, a step relation with an invariant) that the components
  instantiate.
\<close>

section \<open>Machine integers\<close>

type_synonym u8 = "8 word"
type_synonym u16 = "16 word"
type_synonym u32 = "32 word"
type_synonym u64 = "64 word"
type_synonym i32 = "32 word"
type_synonym bytes = "u8 list"

text \<open>\<open>saturating_add\<close>, \<open>saturating_sub\<close> and \<open>saturating_mul\<close> of the standard library.\<close>

definition saturating_add :: "'w::len word \<Rightarrow> 'w word \<Rightarrow> 'w word" where
  "saturating_add a b = (if unat a + unat b < 2 ^ LENGTH('w) then a + b else - 1)"

definition saturating_sub :: "'w::len word \<Rightarrow> 'w word \<Rightarrow> 'w word" where
  "saturating_sub a b = (if b \<le> a then a - b else 0)"

definition saturating_mul :: "'w::len word \<Rightarrow> 'w word \<Rightarrow> 'w word" where
  "saturating_mul a b = (if unat a * unat b < 2 ^ LENGTH('w) then a * b else - 1)"

lemma unat_max_word_nat: "unat (- 1 :: 'w::len word) = 2 ^ LENGTH('w) - 1"
  by (simp add: unsigned_minus_1_eq_mask mask_eq_exp_minus_1)

lemma unat_le_max: "unat (a :: 'w::len word) \<le> 2 ^ LENGTH('w) - 1"
proof -
  have "unat a < 2 ^ LENGTH('w)" by (rule unsigned_less)
  then show ?thesis by linarith
qed

lemma unat_saturating_add:
  "unat (saturating_add a b :: 'w::len word) = min (unat a + unat b) (2 ^ LENGTH('w) - 1)"
proof (cases "unat a + unat b < 2 ^ LENGTH('w)")
  case True
  then show ?thesis by (simp add: saturating_add_def unat_word_ariths)
next
  case False
  then have "saturating_add a b = - 1" by (simp add: saturating_add_def)
  with False show ?thesis by (simp add: unat_max_word_nat)
qed

lemma unat_saturating_mul:
  "unat (saturating_mul a b :: 'w::len word) = min (unat a * unat b) (2 ^ LENGTH('w) - 1)"
proof (cases "unat a * unat b < 2 ^ LENGTH('w)")
  case True
  then show ?thesis by (simp add: saturating_mul_def unat_word_ariths)
next
  case False
  then have "saturating_mul a b = - 1" by (simp add: saturating_mul_def)
  with False show ?thesis by (simp add: unat_max_word_nat)
qed

lemma saturating_add_mono: "a \<le> saturating_add a (b :: 'w::len word)"
proof -
  have "unat a < 2 ^ LENGTH('w)" by (rule unsigned_less)
  then have "unat a \<le> unat (saturating_add a b)"
    using unat_le_max [of a] by (simp add: unat_saturating_add)
  then show ?thesis by (simp add: word_le_nat_alt)
qed

text \<open>Words are countable, so that records over them can be numbered.\<close>

instance word :: (len) countable
  by (rule countable_classI [of unat]) (rule unsigned_word_eqI)

section \<open>Results and fallible operations on a state\<close>

text \<open>
  A Rust \<open>Result\<close> is a sum, \<open>Inl\<close> the error. A method that can fail after it has changed the
  state is a function from the state to the result and the state left behind: \<open>bind_op\<close> is the
  \<open>?\<close> operator, which keeps the changes made before the error.
\<close>

type_synonym ('e, 's, 'a) op = "'s \<Rightarrow> ('e + 'a) \<times> 's"

definition ret_op :: "'a \<Rightarrow> ('e, 's, 'a) op" where
  "ret_op x s = (Inr x, s)"

definition fail_op :: "'e \<Rightarrow> ('e, 's, 'a) op" where
  "fail_op e s = (Inl e, s)"

definition lift_op :: "'e + 'a \<Rightarrow> ('e, 's, 'a) op" where
  "lift_op r s = (r, s)"

definition bind_op :: "('e, 's, 'a) op \<Rightarrow> ('a \<Rightarrow> ('e, 's, 'b) op) \<Rightarrow> ('e, 's, 'b) op" where
  "bind_op m f s = (case m s of (Inl e, s') \<Rightarrow> (Inl e, s') | (Inr x, s') \<Rightarrow> f x s')"

definition bind_res :: "'e + 'a \<Rightarrow> ('a \<Rightarrow> 'e + 'b) \<Rightarrow> 'e + 'b" where
  "bind_res m f = (case m of Inl e \<Rightarrow> Inl e | Inr x \<Rightarrow> f x)"

definition map_err :: "('e \<Rightarrow> 'f) \<Rightarrow> 'e + 'a \<Rightarrow> 'f + 'a" where
  "map_err f r = (case r of Inl e \<Rightarrow> Inl (f e) | Inr x \<Rightarrow> Inr x)"

definition is_ok :: "'e + 'a \<Rightarrow> bool" where
  "is_ok r = (case r of Inl _ \<Rightarrow> False | Inr _ \<Rightarrow> True)"

named_theorems op_simps "unfolding rules of the fallible operations"

lemmas op_defs [op_simps] = ret_op_def fail_op_def lift_op_def bind_op_def bind_res_def map_err_def

lemma bind_op_Inr:
  "bind_op m f s = (Inr y, t) \<longleftrightarrow> (\<exists>x s'. m s = (Inr x, s') \<and> f x s' = (Inr y, t))"
  by (auto simp: bind_op_def split: prod.splits sum.splits)

lemma bind_res_Inr: "bind_res m f = Inr y \<longleftrightarrow> (\<exists>x. m = Inr x \<and> f x = Inr y)"
  by (auto simp: bind_res_def split: sum.splits)

lemma map_err_Inr [simp]: "map_err f r = Inr x \<longleftrightarrow> r = Inr x"
  by (auto simp: map_err_def split: sum.splits)

lemma map_err_Inl: "map_err f r = Inl y \<longleftrightarrow> (\<exists>e. r = Inl e \<and> y = f e)"
  by (auto simp: map_err_def split: sum.splits)

lemma map_err_simps [simp]: "map_err f (Inr x) = Inr x" "map_err f (Inl e) = Inl (f e)"
  by (simp_all add: map_err_def)

lemma is_ok_simps [simp]: "is_ok (Inr x)" "\<not> is_ok (Inl e)"
  by (simp_all add: is_ok_def)

lemma notin_imageI: "(\<And>p. p \<in> X \<Longrightarrow> f p \<noteq> y) \<Longrightarrow> y \<notin> f ` X"
  by auto

section \<open>Hash maps\<close>

text \<open>
  \<open>std::collections::HashMap\<close> is an association list with distinct keys. \<open>values()\<close> and
  \<open>iter()\<close> walk the list; since a theorem holds for every list, it holds for every iteration
  order.
\<close>

type_synonym ('k, 'v) hmap = "('k \<times> 'v) list"

abbreviation hget :: "('k, 'v) hmap \<Rightarrow> 'k \<Rightarrow> 'v option" where
  "hget \<equiv> map_of"

abbreviation hput :: "'k \<Rightarrow> 'v \<Rightarrow> ('k, 'v) hmap \<Rightarrow> ('k, 'v) hmap" where
  "hput \<equiv> AList.update"

abbreviation hkeys :: "('k, 'v) hmap \<Rightarrow> 'k list" where
  "hkeys m \<equiv> List.map fst m"

abbreviation hvalues :: "('k, 'v) hmap \<Rightarrow> 'v list" where
  "hvalues m \<equiv> List.map snd m"

text \<open>\<open>get_mut\<close> followed by writes through the reference: the entry is replaced where it is.\<close>

fun hmodify :: "'k \<Rightarrow> ('v \<Rightarrow> 'v) \<Rightarrow> ('k, 'v) hmap \<Rightarrow> ('k, 'v) hmap" where
  "hmodify k f [] = []"
| "hmodify k f ((k', v) # m) = (if k' = k then (k', f v) # m else (k', v) # hmodify k f m)"

lemma hget_hput [simp]: "hget (hput k v m) = (hget m)(k \<mapsto> v)"
  by (simp add: update_conv')

lemma hget_hmodify [simp]:
  "hget (hmodify k f m) k' = (if k' = k then map_option f (hget m k) else hget m k')"
  by (induction m) auto

lemma hkeys_hmodify [simp]: "hkeys (hmodify k f m) = hkeys m"
  by (induction m) auto

lemma set_hkeys_hput [simp]: "set (hkeys (hput k v m)) = insert k (set (hkeys m))"
  by (induction m) auto

lemma distinct_hput [simp]: "distinct (hkeys m) \<Longrightarrow> distinct (hkeys (hput k v m))"
  by (rule distinct_update)

lemma hget_None_iff: "hget m k = None \<longleftrightarrow> k \<notin> set (hkeys m)"
  by (simp add: map_of_eq_None_iff)

lemma hget_in_values: "hget m k = Some v \<Longrightarrow> v \<in> set (hvalues m)"
  by (force dest: map_of_SomeD)

lemma hget_map_val:
  "hget (List.map (\<lambda>(k, v). (k, f k v)) m) k = map_option (f k) (hget m k)"
  by (induction m) auto

lemma hkeys_map_val [simp]: "hkeys (List.map (\<lambda>(k, v). (k, f k v)) m) = hkeys m"
  by (induction m) auto

lemma hkeys_map_comp [simp]: "List.map (fst \<circ> (\<lambda>(k, v). (k, f k v))) m = hkeys m"
  by (induction m) auto

lemma set_hvalues_iff:
  "distinct (hkeys m) \<Longrightarrow> v \<in> set (hvalues m) \<longleftrightarrow> (\<exists>k. hget m k = Some v)"
  by (force simp: map_of_eq_Some_iff)

text \<open>Two association lists that are the same map have the same entries.\<close>

lemma mset_hmap_cong:
  assumes "distinct (hkeys m)" "distinct (hkeys m')" "hget m = hget m'"
  shows "set m = set m'"
  using assms by (metis map_of_eqI map_of_eq_Some_iff subrelI equalityI)

section \<open>Generic interfaces\<close>

text \<open>An encoder with a decoder that undoes it.\<close>

locale round_trip =
  fixes enc :: "'a \<Rightarrow> 'b" and dec :: "'b \<Rightarrow> 'a option"
  assumes dec_enc: "dec (enc x) = Some x"
begin

lemma enc_eq_iff: "enc x = enc y \<longleftrightarrow> x = y"
  by (metis dec_enc option.inject)

lemma dec_enc_list: "those (List.map (\<lambda>x. dec (enc x)) xs) = Some xs"
  by (induction xs) (simp_all add: dec_enc)

end

text \<open>
  A step relation with an invariant and a preorder that every step from a good state respects:
  both then hold along every run.
\<close>

locale step_system =
  fixes step :: "'s \<Rightarrow> 's \<Rightarrow> bool"
    and inv :: "'s \<Rightarrow> bool"
    and rel :: "'s \<Rightarrow> 's \<Rightarrow> bool"
  assumes step_inv: "step s t \<Longrightarrow> inv s \<Longrightarrow> inv t"
    and step_rel: "step s t \<Longrightarrow> inv s \<Longrightarrow> rel s t"
    and rel_refl: "rel s s"
    and rel_trans: "rel s t \<Longrightarrow> rel t u \<Longrightarrow> rel s u"
begin

lemma run_inv: "rtranclp step s t \<Longrightarrow> inv s \<Longrightarrow> inv t"
  by (induction rule: rtranclp_induct) (auto intro: step_inv)

lemma run_rel: "rtranclp step s t \<Longrightarrow> inv s \<Longrightarrow> rel s t"
proof (induction rule: rtranclp_induct)
  case base
  show ?case by (rule rel_refl)
next
  case (step t u)
  from step.hyps(1) step.prems have "inv t" by (rule run_inv)
  with step show ?case by (blast intro: step_rel rel_trans)
qed

end

text \<open>A total machine: a function folded over a list of commands.\<close>

locale command_machine =
  fixes exec :: "'c \<Rightarrow> 's \<Rightarrow> 's"
    and good :: "'s \<Rightarrow> bool"
  assumes exec_good: "good s \<Longrightarrow> good (exec c s)"
begin

lemma fold_good: "good s \<Longrightarrow> good (fold exec cs s)"
  by (induction cs arbitrary: s) (simp_all add: exec_good)

end

text \<open>A list in strictly increasing order of some key is determined by its set.\<close>

lemma sorted_by_unique:
  fixes f :: "'a \<Rightarrow> 'b::linorder"
  assumes "sorted_wrt (\<lambda>a b. f a < f b) xs" "sorted_wrt (\<lambda>a b. f a < f b) ys" "set xs = set ys"
  shows "xs = ys"
proof -
  have same: "List.map f xs = List.map f ys"
    by (rule strict_sorted_equal) (use assms in \<open>simp_all add: sorted_wrt_map\<close>)
  have "distinct (List.map f xs)" using assms(1) by (metis sorted_wrt_map strict_sorted_iff)
  then have "inj_on f (set xs \<union> set ys)" using assms(3) by (simp add: distinct_map)
  with same show ?thesis by (rule map_inj_on)
qed

end
