(* ===== verification/Rust_Std.thy ===== *)
theory Rust_Std
  imports Prelude
begin

text \<open>
  The parts of Rust's standard library the agent relies on and that have an algorithmic content:
  string searching and splitting, \<open>trim\<close>, decimal formatting and parsing of unsigned integers, and
  the little- and big-endian byte forms of \<open>u64\<close>. A \<open>string\<close> is the UTF-8 byte sequence of a
  \<open>String\<close>; whitespace and letter case are the ASCII ones.
\<close>

section \<open>Strings\<close>

definition starts_with :: "string \<Rightarrow> string \<Rightarrow> bool" where
  "starts_with s p = (take (length p) s = p)"

definition strip_prefix :: "string \<Rightarrow> string \<Rightarrow> string option" where
  "strip_prefix s p = (if starts_with s p then Some (drop (length p) s) else None)"

fun str_contains :: "string \<Rightarrow> string \<Rightarrow> bool" where
  "str_contains [] p = (p = [])"
| "str_contains (c # s) p = (starts_with (c # s) p \<or> str_contains s p)"

definition is_whitespace :: "char \<Rightarrow> bool" where
  "is_whitespace c = ((of_char c :: nat) \<in> {9, 10, 11, 12, 13, 32})"

definition trim :: "string \<Rightarrow> string" where
  "trim s = rev (dropWhile is_whitespace (rev (dropWhile is_whitespace s)))"

definition to_lower :: "string \<Rightarrow> string" where
  "to_lower = List.map (\<lambda>c. let n = (of_char c :: nat)
     in if 65 \<le> n \<and> n \<le> 90 then char_of (n + 32) else c)"

text \<open>\<open>s.replace('/', "-")\<close>.\<close>

definition slash_to_dash :: "string \<Rightarrow> string" where
  "slash_to_dash = List.map (\<lambda>c. if c = CHR ''/'' then CHR ''-'' else c)"

text \<open>\<open>split(c)\<close>: at least one piece; \<open>splitn(2, c)\<close>: the second piece keeps further separators.\<close>

fun split_on :: "char \<Rightarrow> string \<Rightarrow> string list" where
  "split_on c [] = [[]]"
| "split_on c (x # xs) =
     (if x = c then [] # split_on c xs
      else (case split_on c xs of [] \<Rightarrow> [[x]] | y # ys \<Rightarrow> (x # y) # ys))"

fun splitn2 :: "char \<Rightarrow> string \<Rightarrow> string \<times> string option" where
  "splitn2 c [] = ([], None)"
| "splitn2 c (x # xs) =
     (if x = c then ([], Some xs) else (let (a, b) = splitn2 c xs in (x # a, b)))"

definition rsplit_once :: "char \<Rightarrow> string \<Rightarrow> (string \<times> string) option" where
  "rsplit_once c s = (case splitn2 c (rev s) of
     (b, None) \<Rightarrow> None | (b, Some a) \<Rightarrow> Some (rev a, rev b))"

text \<open>\<open>lines()\<close>: a final line terminator opens no further line; \<open>\\r\<close> before it is dropped.\<close>

definition strip_cr :: "string \<Rightarrow> string" where
  "strip_cr s = (if s \<noteq> [] \<and> last s = char_of (13::nat) then butlast s else s)"

definition lines_of :: "string \<Rightarrow> string list" where
  "lines_of s = (let ps = split_on (char_of (10::nat)) s
     in List.map strip_cr (butlast ps) @ (if last ps = [] then [] else [last ps]))"

definition split_whitespace :: "string \<Rightarrow> string list" where
  "split_whitespace s =
     filter (\<lambda>p. p \<noteq> []) (split_on CHR '' '' (List.map (\<lambda>c. if is_whitespace c then CHR '' '' else c) s))"

lemma starts_with_iff: "starts_with s p \<longleftrightarrow> (\<exists>t. s = p @ t)"
proof
  assume "starts_with s p"
  then have "s = p @ drop (length p) s"
    unfolding starts_with_def by (metis append_take_drop_id)
  then show "\<exists>t. s = p @ t" ..
qed (auto simp: starts_with_def)

lemma starts_with_append [simp]: "starts_with (p @ t) p"
  by (simp add: starts_with_def)

lemma strip_prefix_append [simp]: "strip_prefix (p @ t) p = Some t"
  by (simp add: strip_prefix_def)

lemma str_contains_iff: "str_contains s p \<longleftrightarrow> (\<exists>a b. s = a @ p @ b)"
proof (induction s)
  case Nil
  then show ?case by simp
next
  case (Cons c s)
  have "(\<exists>a b. c # s = a @ p @ b) \<longleftrightarrow> (\<exists>b. c # s = p @ b) \<or> (\<exists>a b. s = a @ p @ b)"
    by (metis append_Cons append_Nil list.exhaust list.inject)
  with Cons.IH show ?case by (simp add: starts_with_iff)
qed

lemma no_slash_slash_to_dash: "CHR ''/'' \<notin> set (slash_to_dash s)"
  by (auto simp: slash_to_dash_def)

lemma slash_to_dash_append [simp]: "slash_to_dash (s @ t) = slash_to_dash s @ slash_to_dash t"
  by (simp add: slash_to_dash_def)

lemma slash_to_dash_id: "CHR ''/'' \<notin> set s \<Longrightarrow> slash_to_dash s = s"
  unfolding slash_to_dash_def by (induction s) auto

lemma splitn2_append: "c \<notin> set a \<Longrightarrow> splitn2 c (a @ c # b) = (a, Some b)"
  by (induction a) auto

lemma splitn2_none: "c \<notin> set a \<Longrightarrow> splitn2 c a = (a, None)"
  by (induction a) auto

lemma splitn2_parts: "splitn2 c s = (a, r) \<Longrightarrow> c \<notin> set a \<and> s = (case r of None \<Rightarrow> a | Some b \<Rightarrow> a @ c # b)"
  by (induction s arbitrary: a) (auto split: if_split_asm prod.split_asm option.splits)

lemma splitn2_iff:
  "splitn2 c s = (a, None) \<longleftrightarrow> s = a \<and> c \<notin> set a"
  "splitn2 c s = (a, Some b) \<longleftrightarrow> s = a @ c # b \<and> c \<notin> set a"
  using splitn2_parts [of c s a] splitn2_none [of c a] splitn2_append [of c a b] by fastforce+

lemma rsplit_once_append: "c \<notin> set b \<Longrightarrow> rsplit_once c (a @ c # b) = Some (a, b)"
  using splitn2_append [of c "rev b" "rev a"] by (simp add: rsplit_once_def)

lemma split_on_nonempty [simp]: "split_on c s \<noteq> []"
  by (induction s) (auto split: list.splits)

lemma split_on_append: "c \<notin> set a \<Longrightarrow> split_on c (a @ c # b) = a # split_on c b"
  by (induction a) auto

lemma split_on_none: "c \<notin> set a \<Longrightarrow> split_on c a = [a]"
  by (induction a) auto

lemma dropWhile_hd: "xs = [] \<or> \<not> P (hd xs) \<Longrightarrow> dropWhile P xs = xs"
  by (cases xs) auto

lemma trim_idem [simp]: "trim (trim s) = trim s"
proof -
  let ?w = is_whitespace and ?a = "dropWhile is_whitespace s"
  let ?t = "rev (dropWhile ?w (rev ?a))"
  obtain b where b: "?a = ?t @ b" by (metis rev_append rev_rev_ident takeWhile_dropWhile_id)
  have "?t = [] \<or> \<not> ?w (hd ?t)"
  proof (cases "?t = []")
    case False
    then have "hd ?a = hd ?t" using b by (metis hd_append2)
    moreover have "?a \<noteq> []" using False b by (metis append_is_Nil_conv)
    ultimately show ?thesis using hd_dropWhile [of ?w s] by simp
  qed simp
  then have 1: "dropWhile ?w ?t = ?t" by (rule dropWhile_hd)
  have "rev ?t = [] \<or> \<not> ?w (hd (rev ?t))"
    unfolding rev_rev_ident using hd_dropWhile [of ?w "rev ?a"] by blast
  then have "dropWhile ?w (rev ?t) = rev ?t" by (rule dropWhile_hd)
  with 1 show ?thesis by (simp add: trim_def)
qed

section \<open>Decimal integers\<close>

definition digit_char :: "nat \<Rightarrow> char" where
  "digit_char d = char_of (48 + d)"

definition char_digit :: "char \<Rightarrow> nat option" where
  "char_digit c = (let n = (of_char c :: nat) in if 48 \<le> n \<and> n \<le> 57 then Some (n - 48) else None)"

fun show_nat :: "nat \<Rightarrow> string" where
  "show_nat n = (if n < 10 then [digit_char n] else show_nat (n div 10) @ [digit_char (n mod 10)])"

declare show_nat.simps [simp del]

fun digits_value :: "nat \<Rightarrow> string \<Rightarrow> nat option" where
  "digits_value acc [] = Some acc"
| "digits_value acc (c # cs) =
     (case char_digit c of None \<Rightarrow> None | Some d \<Rightarrow> digits_value (10 * acc + d) cs)"

text \<open>
  \<open>str::parse\<close> at an unsigned type with values below \<open>bound\<close>: an optional \<open>+\<close>, then at least one
  digit, and no overflow.
\<close>

definition parse_uint :: "nat \<Rightarrow> string \<Rightarrow> nat option" where
  "parse_uint bound s =
     (let t = (case s of [] \<Rightarrow> [] | c # cs \<Rightarrow> if c = CHR ''+'' then cs else s)
      in if t = [] then None
         else (case digits_value 0 t of None \<Rightarrow> None
               | Some n \<Rightarrow> if n < bound then Some n else None))"

definition parse_u16 :: "string \<Rightarrow> u16 option" where
  "parse_u16 s = map_option word_of_nat (parse_uint (2 ^ 16) s)"

definition parse_u64 :: "string \<Rightarrow> u64 option" where
  "parse_u64 s = map_option word_of_nat (parse_uint (2 ^ 64) s)"

lemma char_digit_digit_char [simp]: "d < 10 \<Longrightarrow> char_digit (digit_char d) = Some d"
  by (simp add: char_digit_def digit_char_def of_char_of)

lemma digits_value_append:
  "digits_value acc (s @ t) = (case digits_value acc s of None \<Rightarrow> None | Some n \<Rightarrow> digits_value n t)"
  by (induction s arbitrary: acc) (auto split: option.splits)

lemma show_nat_digits: "set (show_nat n) \<subseteq> digit_char ` {..<10}"
proof (induction n rule: show_nat.induct)
  case (1 n)
  then show ?case by (cases "n < 10") (auto simp: show_nat.simps [of n])
qed

lemma show_nat_nonempty [simp]: "show_nat n \<noteq> []"
  by (subst show_nat.simps) simp

lemma digits_value_show_nat: "digits_value 0 (show_nat n) = Some n"
proof (induction n rule: show_nat.induct)
  case (1 n)
  show ?case
  proof (cases "n < 10")
    case True
    then show ?thesis by (simp add: show_nat.simps [of n])
  next
    case False
    with 1 show ?thesis by (simp add: show_nat.simps [of n] digits_value_append)
  qed
qed

lemma digit_char_not:
  "char_digit c = None \<Longrightarrow> c \<notin> set (show_nat n)"
  using show_nat_digits [of n] by auto

lemma show_nat_inj [simp]: "show_nat m = show_nat n \<longleftrightarrow> m = n"
  by (metis digits_value_show_nat option.inject)

lemma parse_uint_show_nat: "n < bound \<Longrightarrow> parse_uint bound (show_nat n) = Some n"
proof -
  assume n: "n < bound"
  have "CHR ''+'' \<notin> set (show_nat n)"
    by (rule digit_char_not) (simp add: char_digit_def)
  moreover obtain c cs where cs: "show_nat n = c # cs"
    by (cases "show_nat n") auto
  ultimately have "c \<noteq> CHR ''+''" by auto
  with cs have "parse_uint bound (show_nat n) =
      (case digits_value 0 (show_nat n) of None \<Rightarrow> None
       | Some v \<Rightarrow> if v < bound then Some v else None)"
    by (simp add: parse_uint_def del: digits_value.simps)
  with n show ?thesis by (simp add: digits_value_show_nat)
qed

lemma parse_u16_show [simp]: "parse_u16 (show_nat (unat (p :: u16))) = Some p"
  by (simp add: parse_u16_def parse_uint_show_nat unsigned_less [of p, simplified])

section \<open>Byte forms of \<open>u64\<close>\<close>

fun nat_to_le :: "nat \<Rightarrow> nat \<Rightarrow> bytes" where
  "nat_to_le 0 n = []"
| "nat_to_le (Suc k) n = word_of_nat (n mod 256) # nat_to_le k (n div 256)"

fun le_to_nat :: "bytes \<Rightarrow> nat" where
  "le_to_nat [] = 0"
| "le_to_nat (b # bs) = unat b + 256 * le_to_nat bs"

definition to_le_bytes :: "u64 \<Rightarrow> bytes" where
  "to_le_bytes w = nat_to_le 8 (unat w)"

definition from_le_bytes :: "bytes \<Rightarrow> u64" where
  "from_le_bytes bs = word_of_nat (le_to_nat bs)"

definition to_be_bytes :: "u64 \<Rightarrow> bytes" where
  "to_be_bytes w = rev (to_le_bytes w)"

definition from_be_bytes :: "bytes \<Rightarrow> u64" where
  "from_be_bytes bs = from_le_bytes (rev bs)"

lemma length_nat_to_le [simp]: "length (nat_to_le k n) = k"
  by (induction k arbitrary: n) auto

lemma length_to_le_bytes [simp]: "length (to_le_bytes w) = 8"
  by (simp add: to_le_bytes_def)

lemma length_to_be_bytes [simp]: "length (to_be_bytes w) = 8"
  by (simp add: to_be_bytes_def)

lemma le_to_nat_to_le: "le_to_nat (nat_to_le k n) = n mod 256 ^ k"
proof (induction k arbitrary: n)
  case 0
  then show ?case by simp
next
  case (Suc k)
  have "unat (word_of_nat (n mod 256) :: u8) = n mod 256"
    by (simp add: unat_of_nat)
  with Suc show ?case by (simp add: mod_mult2_eq)
qed

lemma from_to_le_bytes [simp]: "from_le_bytes (to_le_bytes w) = w"
proof -
  have "unat w < 2 ^ LENGTH(64)" by (rule unsigned_less)
  then have "unat w mod 256 ^ 8 = unat w" by simp
  then show ?thesis by (simp add: from_le_bytes_def to_le_bytes_def le_to_nat_to_le)
qed

lemma from_to_be_bytes [simp]: "from_be_bytes (to_be_bytes w) = w"
  by (simp add: from_be_bytes_def to_be_bytes_def)

text \<open>Big-endian keys sort as the numbers they encode.\<close>

lemma list_less_snoc:
  fixes a b :: "'a::linorder"
  assumes "length xs = length ys"
  shows "xs @ [a] < ys @ [b] \<longleftrightarrow> xs < ys \<or> (xs = ys \<and> a < b)"
  using assms
proof (induction xs ys rule: list_induct2)
  case Nil
  then show ?case by simp
next
  case (Cons x xs y ys)
  then show ?case by auto
qed

lemma nat_to_le_inj: "m < 256 ^ k \<Longrightarrow> n < 256 ^ k \<Longrightarrow> nat_to_le k m = nat_to_le k n \<longleftrightarrow> m = n"
  by (metis le_to_nat_to_le mod_less)

lemma nat_to_be_less:
  "m < 256 ^ k \<Longrightarrow> n < 256 ^ k \<Longrightarrow> rev (nat_to_le k m) < rev (nat_to_le k n) \<longleftrightarrow> m < n"
proof (induction k arbitrary: m n)
  case 0
  then show ?case by simp
next
  case (Suc k)
  have b: "m div 256 < 256 ^ k" "n div 256 < 256 ^ k"
    using Suc.prems by (simp_all add: less_mult_imp_div_less mult.commute)
  have w: "(word_of_nat (m mod 256) :: u8) < word_of_nat (n mod 256) \<longleftrightarrow> m mod 256 < n mod 256"
    by (simp add: word_less_nat_alt unat_of_nat)
  have "m < n \<longleftrightarrow> m div 256 < n div 256 \<or> (m div 256 = n div 256 \<and> m mod 256 < n mod 256)"
  proof -
    have "m = 256 * (m div 256) + m mod 256" "n = 256 * (n div 256) + n mod 256" by simp_all
    moreover have "m mod 256 < 256" "n mod 256 < 256" by simp_all
    ultimately show ?thesis by linarith
  qed
  moreover have "rev (nat_to_le (Suc k) m) < rev (nat_to_le (Suc k) n) \<longleftrightarrow>
      rev (nat_to_le k (m div 256)) < rev (nat_to_le k (n div 256)) \<or>
      (nat_to_le k (m div 256) = nat_to_le k (n div 256) \<and>
       (word_of_nat (m mod 256) :: u8) < word_of_nat (n mod 256))"
    by (simp only: nat_to_le.simps rev.simps list_less_snoc length_rev length_nat_to_le
        rev_is_rev_conv)
  ultimately show ?case
    by (simp only: Suc.IH [OF b] nat_to_le_inj [OF b] w)
qed

lemma to_be_bytes_less [simp]: "to_be_bytes v < to_be_bytes w \<longleftrightarrow> v < w"
proof -
  have "unat v < 2 ^ LENGTH(64)" "unat w < 2 ^ LENGTH(64)" by (rule unsigned_less)+
  then show ?thesis
    by (simp add: to_be_bytes_def to_le_bytes_def nat_to_be_less word_less_nat_alt)
qed

lemma to_be_bytes_inj [simp]: "to_be_bytes v = to_be_bytes w \<longleftrightarrow> v = w"
  by (metis from_to_be_bytes)

lemma to_be_bytes_le [simp]: "to_be_bytes v \<le> to_be_bytes w \<longleftrightarrow> v \<le> w"
  by (metis linorder_not_less to_be_bytes_less)

section \<open>Bytes of a string\<close>

text \<open>\<open>str::as_bytes\<close>: the bytes order as the strings do.\<close>

definition str_bytes :: "string \<Rightarrow> bytes" where
  "str_bytes = List.map of_char"

lemma of_char_u8_nat: "unat (of_char c :: u8) = of_char c"
proof -
  have "of_char c < (256 :: nat)" by simp
  moreover have "(of_char c :: u8) = word_of_nat (of_char c)"
    by (simp add: of_nat_of_char)
  ultimately show ?thesis by (simp add: unat_of_nat)
qed

lemma of_char_u8_less [simp]: "(of_char c :: u8) < of_char d \<longleftrightarrow> c < d"
  by (simp add: word_less_nat_alt of_char_u8_nat less_char_def)

lemma of_char_u8_inj [simp]: "(of_char c :: u8) = of_char d \<longleftrightarrow> c = d"
  by (metis of_char_u8_less linorder_neq_iff)

lemma str_bytes_less [simp]: "str_bytes s < str_bytes t \<longleftrightarrow> s < t"
proof (induction s arbitrary: t)
  case Nil
  then show ?case by (cases t) (simp_all add: str_bytes_def)
next
  case (Cons c s)
  then show ?case by (cases t) (simp_all add: str_bytes_def)
qed

lemma str_bytes_inj [simp]: "str_bytes s = str_bytes t \<longleftrightarrow> s = t"
  by (metis str_bytes_less linorder_neq_iff)

text \<open>
  \<open>str::from_utf8\<close>: the well-formed byte sequences of the Unicode standard. A \<open>string\<close> of the model is
  the bytes of a Rust string.
\<close>

definition is_continuation :: "u8 \<Rightarrow> bool" where
  "is_continuation b = (0x80 \<le> b \<and> b \<le> 0xBF)"

fun valid_utf8 :: "bytes \<Rightarrow> bool" where
  "valid_utf8 [] = True"
| "valid_utf8 (b # bs) =
     (if b < 0x80 then valid_utf8 bs
      else if 0xC2 \<le> b \<and> b \<le> 0xDF then (case bs of c # r \<Rightarrow> is_continuation c \<and> valid_utf8 r | _ \<Rightarrow> False)
      else if 0xE0 \<le> b \<and> b \<le> 0xEF then
        (case bs of c # d # r \<Rightarrow> (if b = 0xE0 then 0xA0 \<le> c \<and> c \<le> 0xBF
              else if b = 0xED then 0x80 \<le> c \<and> c \<le> 0x9F else is_continuation c) \<and>
            is_continuation d \<and> valid_utf8 r | _ \<Rightarrow> False)
      else if 0xF0 \<le> b \<and> b \<le> 0xF4 then
        (case bs of c # d # e # r \<Rightarrow> (if b = 0xF0 then 0x90 \<le> c \<and> c \<le> 0xBF
              else if b = 0xF4 then 0x80 \<le> c \<and> c \<le> 0x8F else is_continuation c) \<and>
            is_continuation d \<and> is_continuation e \<and> valid_utf8 r | _ \<Rightarrow> False)
      else False)"

definition bytes_str :: "bytes \<Rightarrow> string" where
  "bytes_str bs = List.map (\<lambda>b. char_of (unat b)) bs"

lemma bytes_str_bytes [simp]: "bytes_str (str_bytes s) = s"
  by (simp add: bytes_str_def str_bytes_def comp_def of_char_u8_nat)

lemma valid_utf8_ascii: "(\<And>b. b \<in> set bs \<Longrightarrow> b < 0x80) \<Longrightarrow> valid_utf8 bs"
  by (induction bs) auto

end
