(* ===== verification/Filesystem.thy ===== *)
theory Filesystem
  imports Rust_Std
begin

text \<open>
  \<open>std::path\<close> and \<open>std::fs\<close>. A path is the string the program builds; two paths name the same file
  when they have the same root and the same components (empty and \<open>.\<close> components do not count, as
  in \<open>Path::components\<close>). The file system maps path keys to contents and keeps the directories
  that exist. Which calls fail is decided by the environment (\<open>fs_fault\<close>): a failing write may
  leave other bytes behind. Symbolic links and the resolution of \<open>..\<close> are not modelled.
\<close>

section \<open>Paths\<close>

type_synonym path_key = "bool \<times> string list"

definition is_absolute :: "string \<Rightarrow> bool" where
  "is_absolute p = (take 1 p = ''/'')"

definition components :: "string \<Rightarrow> string list" where
  "components p = filter (\<lambda>c. c \<noteq> [] \<and> c \<noteq> ''.'') (split_on CHR ''/'' p)"

definition path_key :: "string \<Rightarrow> path_key" where
  "path_key p = (is_absolute p, components p)"

text \<open>\<open>Path::join\<close>: an absolute right-hand side replaces the left-hand side.\<close>

definition path_join :: "string \<Rightarrow> string \<Rightarrow> string" where
  "path_join a b =
     (if is_absolute b then b
      else if a = [] \<or> last a = CHR ''/'' then a @ b
      else a @ ''/'' @ b)"

definition parent_key :: "path_key \<Rightarrow> path_key" where
  "parent_key k = (fst k, butlast (snd k))"

lemma split_on_concat: "split_on c (a @ c # b) = split_on c a @ split_on c b"
  by (induction a) (auto split: list.splits)

lemma components_append: "components (a @ CHR ''/'' # b) = components a @ components b"
  by (simp add: components_def split_on_concat)

lemma components_Nil [simp]: "components [] = []"
  by (simp add: components_def)

lemma components_join:
  "\<not> is_absolute b \<Longrightarrow> components (path_join a b) = components a @ components b"
proof -
  assume b: "\<not> is_absolute b"
  show ?thesis
  proof (cases "a \<noteq> [] \<and> last a = CHR ''/''")
    case True
    then obtain a' where a: "a = a' @ [CHR ''/'']"
      by (metis append_butlast_last_id)
    then have "components a = components a'"
      using components_append [of a' "[]"] by simp
    with a b show ?thesis
      by (simp add: path_join_def components_append)
  next
    case False
    with b show ?thesis by (auto simp: path_join_def components_append)
  qed
qed

lemma is_absolute_join [simp]:
  "\<not> is_absolute b \<Longrightarrow> a \<noteq> [] \<Longrightarrow> is_absolute (path_join a b) = is_absolute a"
  by (cases a) (auto simp: path_join_def is_absolute_def)

lemma path_join_absolute: "is_absolute b \<Longrightarrow> path_join a b = b"
  by (simp add: path_join_def)

lemma path_join_nonempty [simp]: "a \<noteq> [] \<Longrightarrow> path_join a b \<noteq> []"
  by (cases b) (auto simp: path_join_def is_absolute_def)

text \<open>A plain file name: one component.\<close>

definition plain_name :: "string \<Rightarrow> bool" where
  "plain_name n = (n \<noteq> [] \<and> n \<noteq> ''.'' \<and> CHR ''/'' \<notin> set n)"

lemma plain_name_components: "plain_name n \<Longrightarrow> components n = [n]"
  by (simp add: plain_name_def components_def split_on_none)

lemma plain_name_relative: "plain_name n \<Longrightarrow> \<not> is_absolute n"
  by (cases n) (auto simp: plain_name_def is_absolute_def)

lemma path_key_join_plain:
  "plain_name n \<Longrightarrow> d \<noteq> [] \<Longrightarrow> path_key (path_join d n) = (is_absolute d, components d @ [n])"
  by (simp add: path_key_def plain_name_relative components_join plain_name_components)

section \<open>Files\<close>

datatype io_error = NotFound | AlreadyExists | NotADirectory | IsADirectory | OtherIo string

text \<open>The \<open>Display\<close> of an OS error, with Linux's messages.\<close>

fun io_msg :: "io_error \<Rightarrow> string" where
  "io_msg NotFound = ''No such file or directory (os error 2)''"
| "io_msg AlreadyExists = ''File exists (os error 17)''"
| "io_msg NotADirectory = ''Not a directory (os error 20)''"
| "io_msg IsADirectory = ''Is a directory (os error 21)''"
| "io_msg (OtherIo m) = m"

datatype fs_call =
    CreateDirAll path_key
  | ReadFile path_key
  | WriteFile path_key
  | SetMode path_key

record io_fault =
  fault_msg :: string
  fault_residue :: "bytes option"

record fs =
  fs_files :: "(path_key, bytes) hmap"
  fs_dirs :: "path_key list"
  fs_modes :: "(path_key, nat) hmap"
  fs_fault :: "fs_call \<Rightarrow> io_fault option"

definition file_at :: "fs \<Rightarrow> string \<Rightarrow> bytes option" where
  "file_at f p = hget (fs_files f) (path_key p)"

definition is_dir_key :: "fs \<Rightarrow> path_key \<Rightarrow> bool" where
  "is_dir_key f k = (snd k = [] \<or> k \<in> set (fs_dirs f))"

definition path_exists :: "fs \<Rightarrow> string \<Rightarrow> bool" where
  "path_exists f p = (file_at f p \<noteq> None \<or> is_dir_key f (path_key p))"

definition ancestor_keys :: "path_key \<Rightarrow> path_key list" where
  "ancestor_keys k = List.map (\<lambda>i. (fst k, take i (snd k))) [1..<Suc (length (snd k))]"

definition fs_create_dir_all :: "string \<Rightarrow> (io_error, fs, unit) op" where
  "fs_create_dir_all p f =
     (case fs_fault f (CreateDirAll (path_key p)) of
        Some e \<Rightarrow> (Inl (OtherIo (fault_msg e)), f)
      | None \<Rightarrow>
          if is_dir_key f (path_key p) then (Inr (), f)
          else if hget (fs_files f) (path_key p) \<noteq> None then (Inl AlreadyExists, f)
          else if list_ex (\<lambda>k. hget (fs_files f) k \<noteq> None) (ancestor_keys (path_key p))
            then (Inl NotADirectory, f)
          else (Inr (), f\<lparr>fs_dirs := ancestor_keys (path_key p) @ fs_dirs f\<rparr>))"

definition fs_write :: "string \<Rightarrow> bytes \<Rightarrow> (io_error, fs, unit) op" where
  "fs_write p b f =
     (case fs_fault f (WriteFile (path_key p)) of
        Some e \<Rightarrow> (Inl (OtherIo (fault_msg e)),
          (case fault_residue e of None \<Rightarrow> f
           | Some r \<Rightarrow> f\<lparr>fs_files := hput (path_key p) r (fs_files f)\<rparr>))
      | None \<Rightarrow>
          if is_dir_key f (path_key p) then (Inl IsADirectory, f)
          else if \<not> is_dir_key f (parent_key (path_key p)) then (Inl NotFound, f)
          else (Inr (), f\<lparr>fs_files := hput (path_key p) b (fs_files f)\<rparr>))"

definition fs_read :: "string \<Rightarrow> fs \<Rightarrow> io_error + bytes" where
  "fs_read p f =
     (case fs_fault f (ReadFile (path_key p)) of
        Some e \<Rightarrow> Inl (OtherIo (fault_msg e))
      | None \<Rightarrow>
          (case file_at f p of
             Some b \<Rightarrow> Inr b
           | None \<Rightarrow> if is_dir_key f (path_key p) then Inl IsADirectory else Inl NotFound))"

text \<open>\<open>read_to_string\<close> fails on a file that is not UTF-8.\<close>

definition fs_read_to_string :: "string \<Rightarrow> fs \<Rightarrow> io_error + string" where
  "fs_read_to_string p f = bind_res (fs_read p f) (\<lambda>b.
     if valid_utf8 b then Inr (bytes_str b) else Inl (OtherIo ''stream did not contain valid UTF-8''))"

definition fs_set_mode :: "string \<Rightarrow> nat \<Rightarrow> (io_error, fs, unit) op" where
  "fs_set_mode p m f =
     (case fs_fault f (SetMode (path_key p)) of
        Some e \<Rightarrow> (Inl (OtherIo (fault_msg e)), f)
      | None \<Rightarrow>
          if path_exists f p then (Inr (), f\<lparr>fs_modes := hput (path_key p) m (fs_modes f)\<rparr>)
          else (Inl NotFound, f))"

text \<open>No environment fault on any call.\<close>

definition healthy :: "fs \<Rightarrow> bool" where
  "healthy f = (\<forall>c. fs_fault f c = None)"

named_theorems fs_simps "effects of the file system calls"

lemma fs_write_ok:
  "fs_write p b f = (Inr u, g) \<Longrightarrow> g = f\<lparr>fs_files := hput (path_key p) b (fs_files f)\<rparr>"
  by (auto simp: fs_write_def split: option.splits if_splits)

lemma file_at_write:
  "fs_write p b f = (Inr u, g) \<Longrightarrow>
     file_at g q = (if path_key q = path_key p then Some b else file_at f q)"
  by (auto dest!: fs_write_ok simp: file_at_def)

lemma fs_write_fault [fs_simps]: "fs_write p b f = (r, g) \<Longrightarrow> fs_fault g = fs_fault f"
  by (auto simp: fs_write_def split: option.splits if_splits)

lemma fs_write_dirs [fs_simps]: "fs_write p b f = (r, g) \<Longrightarrow> fs_dirs g = fs_dirs f"
  by (auto simp: fs_write_def split: option.splits if_splits)

lemma fs_write_healthy: "fs_write p b f = (r, g) \<Longrightarrow> healthy f \<Longrightarrow> healthy g"
  by (simp add: healthy_def fs_write_fault)

lemma create_dir_files: "fs_create_dir_all p f = (r, g) \<Longrightarrow> fs_files g = fs_files f"
  by (auto simp: fs_create_dir_all_def split: option.splits if_splits)

lemma create_dir_file_at: "fs_create_dir_all p f = (r, g) \<Longrightarrow> file_at g q = file_at f q"
  by (simp add: file_at_def create_dir_files)

lemma create_dir_fault: "fs_create_dir_all p f = (r, g) \<Longrightarrow> fs_fault g = fs_fault f"
  by (auto simp: fs_create_dir_all_def split: option.splits if_splits)

lemma create_dir_healthy: "fs_create_dir_all p f = (r, g) \<Longrightarrow> healthy f \<Longrightarrow> healthy g"
  by (simp add: healthy_def create_dir_fault)

lemma create_dir_is_dir: "fs_create_dir_all p f = (Inr u, g) \<Longrightarrow> is_dir_key g (path_key p)"
  by (cases "snd (path_key p)" rule: rev_cases)
    (auto simp: fs_create_dir_all_def is_dir_key_def ancestor_keys_def image_iff prod_eq_iff
      split: option.splits if_splits)

lemma fs_read_ok: "fs_read p f = Inr b \<Longrightarrow> file_at f p = Some b"
  by (auto simp: fs_read_def split: option.splits if_splits)

lemma fs_read_healthy: "healthy f \<Longrightarrow> file_at f p = Some b \<Longrightarrow> fs_read p f = Inr b"
  by (simp add: fs_read_def healthy_def)

lemma read_to_string_healthy:
  "healthy f \<Longrightarrow> file_at f p = Some (str_bytes s) \<Longrightarrow> valid_utf8 (str_bytes s) \<Longrightarrow> fs_read_to_string p f = Inr s"
  by (simp add: fs_read_to_string_def fs_read_healthy bind_res_def)

lemma file_at_exists: "file_at f p = Some b \<Longrightarrow> path_exists f p"
  by (simp add: path_exists_def)

section \<open>The file store interface\<close>

text \<open>
  What the components that keep files rely on: a successful write replaces the content of exactly
  the files with the same key. Writing a list of files leaves, for every key, the last content
  written to it.
\<close>

locale file_store =
  fixes put_file :: "'p \<Rightarrow> 'b \<Rightarrow> 's \<Rightarrow> ('e + unit) \<times> 's"
    and content :: "'s \<Rightarrow> 'p \<Rightarrow> 'b option"
    and key :: "'p \<Rightarrow> 'k"
  assumes content_write:
    "put_file p b s = (Inr u, t) \<Longrightarrow> content t q = (if key q = key p then Some b else content s q)"
begin

fun write_all :: "('p \<times> 'b) list \<Rightarrow> 's \<Rightarrow> ('e + unit) \<times> 's" where
  "write_all [] s = (Inr (), s)"
| "write_all ((p, b) # pbs) s =
     (case put_file p b s of (Inl e, t) \<Rightarrow> (Inl e, t) | (Inr _, t) \<Rightarrow> write_all pbs t)"

lemma write_all_content:
  "write_all pbs s = (Inr u, t) \<Longrightarrow>
     content t q = (case map_of (rev (List.map (\<lambda>(p, b). (key p, b)) pbs)) (key q) of
                      Some b \<Rightarrow> Some b | None \<Rightarrow> content s q)"
proof (induction pbs s rule: write_all.induct)
  case (1 s)
  then show ?case by simp
next
  case (2 p b pbs s)
  from "2.prems" obtain v t' where w: "put_file p b s = (Inr v, t')" and r: "write_all pbs t' = (Inr u, t)"
    by (auto split: prod.splits sum.splits)
  from "2.IH" [OF w [symmetric]] r have
    "content t q = (case map_of (rev (List.map (\<lambda>(p, b). (key p, b)) pbs)) (key q) of
        Some b \<Rightarrow> Some b | None \<Rightarrow> content t' q)" by simp
  then show ?case
    by (simp add: content_write [OF w] map_add_def split: option.splits)
qed

lemma write_all_other:
  "write_all pbs s = (Inr u, t) \<Longrightarrow> key q \<notin> key ` fst ` set pbs \<Longrightarrow> content t q = content s q"
proof -
  assume w: "write_all pbs s = (Inr u, t)" and q: "key q \<notin> key ` fst ` set pbs"
  from q have "map_of (rev (List.map (\<lambda>(p, b). (key p, b)) pbs)) (key q) = None"
    by (force simp: map_of_eq_None_iff)
  then show ?thesis by (simp add: write_all_content [OF w])
qed

lemma write_all_in:
  assumes w: "write_all pbs s = (Inr u, t)" and d: "distinct (List.map (key \<circ> fst) pbs)"
    and m: "(p, b) \<in> set pbs"
  shows "content t p = Some b"
proof -
  let ?m = "List.map (\<lambda>(p, b). (key p, b)) pbs"
  from d have "distinct (List.map fst (rev ?m))"
    by (simp add: rev_map [symmetric] comp_def case_prod_beta)
  moreover from m have "(key p, b) \<in> set (rev ?m)" by force
  ultimately have "map_of (rev ?m) (key p) = Some b" by simp
  then show ?thesis by (simp add: write_all_content [OF w])
qed

end

interpretation disk_files: file_store fs_write file_at path_key
  by unfold_locales (rule file_at_write)

text \<open>A disk with nothing on it and no faults.\<close>

definition empty_fs :: fs where
  "empty_fs = \<lparr> fs_files = [], fs_dirs = [], fs_modes = [], fs_fault = (\<lambda>_. None) \<rparr>"

end
