(* ===== verification/External.thy ===== *)
theory External
  imports Rust_Std "HOL-Library.Countable" "HOL-Library.Finite_Map"
begin

text \<open>
  The crates the agent calls and whose code is not part of the repository, as parameters: a record
  of the operations used, and a locale with the documented behaviour the agent relies on. The
  sled database, the JSON codec of serde, SHA-256, zstd and the textual form of a UUID. Each
  contract is satisfied by a concrete instance at the end of the theory, which the witnesses use.
\<close>

section \<open>sled\<close>

text \<open>
  A database holds named trees, each an ordered map from byte keys to byte values. Every mutator
  can fail; a call on a tree the program opened acts on that tree. \<open>sled_iter\<close> yields results, as
  \<open>Tree::iter\<close> does.
\<close>

datatype sled_cmd =
    OpenTree string
  | Insert string bytes bytes
  | Remove string bytes
  | ApplyBatch string "(bytes \<times> bytes) list"

record 'd sled =
  sled_open :: "string \<Rightarrow> string + 'd"
  sled_do :: "sled_cmd \<Rightarrow> (string, 'd, unit) op"
  sled_get :: "string \<Rightarrow> bytes \<Rightarrow> 'd \<Rightarrow> string + bytes option"
  sled_iter :: "string \<Rightarrow> 'd \<Rightarrow> (string + bytes \<times> bytes) list"
  sled_tree_names :: "'d \<Rightarrow> string list"
  sled_flush :: "string \<Rightarrow> 'd \<Rightarrow> string + unit"

type_synonym trees = "string \<Rightarrow> (bytes \<rightharpoonup> bytes) option"

definition tree_of :: "trees \<Rightarrow> string \<Rightarrow> (bytes \<rightharpoonup> bytes)" where
  "tree_of T n = (case T n of None \<Rightarrow> Map.empty | Some m \<Rightarrow> m)"

fun sled_effect :: "sled_cmd \<Rightarrow> trees \<Rightarrow> trees" where
  "sled_effect (OpenTree n) T = T(n := Some (tree_of T n))"
| "sled_effect (Insert n k v) T = T(n := Some ((tree_of T n)(k \<mapsto> v)))"
| "sled_effect (Remove n k) T = T(n := Some ((tree_of T n)(k := None)))"
| "sled_effect (ApplyBatch n kvs) T = T(n := Some (tree_of T n ++ map_of (rev kvs)))"

lemma tree_of_effect [simp]:
  "tree_of (sled_effect (OpenTree n) T) n' = tree_of T n'"
  "tree_of (sled_effect (Insert n k v) T) n' =
     (if n' = n then (tree_of T n)(k \<mapsto> v) else tree_of T n')"
  "tree_of (sled_effect (Remove n k) T) n' =
     (if n' = n then (tree_of T n)(k := None) else tree_of T n')"
  "tree_of (sled_effect (ApplyBatch n kvs) T) n' =
     (if n' = n then tree_of T n ++ map_of (rev kvs) else tree_of T n')"
  by (auto simp: tree_of_def sled_effect.simps)

declare sled_effect.simps [simp del]

locale sled_api =
  fixes S :: "'d sled" and trees :: "'d \<Rightarrow> trees" and sound :: "'d \<Rightarrow> bool"
  assumes do_effect: "sled_do S c d = (Inr u, d') \<Longrightarrow> trees d' = sled_effect c (trees d)"
    and do_sound: "sound d \<Longrightarrow> \<exists>d'. sled_do S c d = (Inr (), d') \<and> sound d'"
    and get_value: "sled_get S n k d = Inr v \<Longrightarrow> v = tree_of (trees d) n k"
    and get_sound: "sound d \<Longrightarrow> \<exists>v. sled_get S n k d = Inr v"
    and iter_sound: "sound d \<Longrightarrow> \<exists>kvs. sled_iter S n d = List.map Inr kvs \<and>
       sorted_wrt (<) (List.map fst kvs) \<and> map_of kvs = tree_of (trees d) n"
    and names_sound: "sound d \<Longrightarrow> set (sled_tree_names S d) = dom (trees d)"
    and flush_sound: "sound d \<Longrightarrow> sled_flush S n d = Inr ()"
begin

lemma sled_do_sound:
  assumes "sound d"
  obtains d' where "sled_do S c d = (Inr (), d')" "sound d'" "trees d' = sled_effect c (trees d)"
  using do_sound [OF assms] do_effect by metis

lemma sled_get_sound: "sound d \<Longrightarrow> sled_get S n k d = Inr (tree_of (trees d) n k)"
  by (metis get_sound get_value)

lemma sled_iter_sound:
  assumes "sound d"
  obtains kvs where "sled_iter S n d = List.map Inr kvs" "sorted_wrt (<) (List.map fst kvs)"
    "map_of kvs = tree_of (trees d) n" "distinct (List.map fst kvs)"
    "set kvs = {(k, v). tree_of (trees d) n k = Some v}"
proof -
  obtain kvs where kvs: "sled_iter S n d = List.map Inr kvs" "sorted_wrt (<) (List.map fst kvs)"
    "map_of kvs = tree_of (trees d) n"
    using iter_sound [OF assms] by metis
  from kvs(2) have "distinct (List.map fst kvs)" by (simp add: strict_sorted_iff)
  then have "set kvs = {(k, v). map_of kvs k = Some v}" by auto
  with kvs(3) \<open>distinct (List.map fst kvs)\<close> show ?thesis
    using kvs that by simp
qed

end

section \<open>serde\_json\<close>

record 'a json =
  js_enc :: "'a \<Rightarrow> string + bytes"
  js_dec :: "bytes \<Rightarrow> string + 'a"

text \<open>
  Serialising the agent's types does not fail, and reading the text back gives the value. The order in which
  a hash map is written is not determined; \<open>js_enc\<close> stands for the text that is written, and no property
  compares two texts of one.
\<close>

locale json_api =
  fixes J :: "'a json"
  assumes js_enc_total: "\<exists>b. js_enc J x = Inr b"
    and js_round: "js_enc J x = Inr b \<Longrightarrow> js_dec J b = Inr x"
begin

definition json :: "'a \<Rightarrow> bytes" where
  "json x = projr (js_enc J x)"

lemma js_enc_json: "js_enc J x = Inr (json x)"
  unfolding json_def using js_enc_total [of x] by auto

lemma js_dec_json: "js_dec J (json x) = Inr x"
  by (rule js_round) (rule js_enc_json)

sublocale round_trip json "\<lambda>b. case js_dec J b of Inl _ \<Rightarrow> None | Inr x \<Rightarrow> Some x"
  by unfold_locales (simp add: js_dec_json)

end

section \<open>SHA-256 and zstd\<close>

text \<open>\<open>sha_hex\<close> is the lower-case hexadecimal digest.\<close>

record blob_codec =
  sha_hex :: "bytes \<Rightarrow> string"
  zstd_encode :: "bytes \<Rightarrow> nat \<Rightarrow> string + bytes"
  zstd_decode :: "bytes \<Rightarrow> string + bytes"

locale zstd_api =
  fixes B :: "blob_codec"
  assumes zstd_round: "zstd_encode B x l = Inr c \<Longrightarrow> zstd_decode B c = Inr x"

section \<open>UUIDs\<close>

text \<open>A \<open>Uuid\<close> is its 128-bit value; the textual form is the crate's.\<close>

type_synonym uuid = "128 word"

record uuid_api =
  uuid_str :: "uuid \<Rightarrow> string"
  uuid_parse :: "string \<Rightarrow> uuid option"

locale uuid_text =
  fixes U :: uuid_api
  assumes uuid_round: "uuid_parse U (uuid_str U x) = Some x"
    and uuid_trim: "trim (uuid_str U x) = uuid_str U x"
    and uuid_nonempty: "uuid_str U x \<noteq> []"
begin

sublocale round_trip "uuid_str U" "uuid_parse U"
  by unfold_locales (rule uuid_round)

end

section \<open>Broadcast channels\<close>

text \<open>
  \<open>tokio::sync::broadcast\<close>. A channel keeps the last \<open>cap\<close> of the messages sent. A receiver is the number of messages it has
  left behind; a call gives it nothing while there is none, the next message, or, when it is more than
  \<open>cap\<close> behind, an error that moves it to the oldest message kept. The capacities of the agent are powers of two,
  which are not rounded up.
\<close>

type_synonym 'a receiver = "nat \<Rightarrow> 'a list \<Rightarrow> nat \<Rightarrow> ('a option \<times> nat) option"

locale broadcast_api =
  fixes recv :: "'a receiver"
  assumes recv_kept: "pos < length sent \<Longrightarrow> length sent \<le> pos + cap \<Longrightarrow> recv cap sent pos = Some (Some (sent ! pos), Suc pos)"
    and recv_lagged: "pos + cap < length sent \<Longrightarrow> recv cap sent pos = Some (None, length sent - cap)"
    and recv_waits: "length sent \<le> pos \<Longrightarrow> recv cap sent pos = None"

section \<open>Instances\<close>

text \<open>
  A database as a list of trees, each an association list kept in key order. It satisfies the
  contract of \<open>sled\<close> with no failing call.
\<close>

type_synonym ref_db = "(string \<times> (bytes \<times> bytes) list) list"

fun ins_sorted :: "bytes \<Rightarrow> bytes \<Rightarrow> (bytes \<times> bytes) list \<Rightarrow> (bytes \<times> bytes) list" where
  "ins_sorted k v [] = [(k, v)]"
| "ins_sorted k v ((k', v') # r) =
     (if k < k' then (k, v) # (k', v') # r
      else if k = k' then (k, v) # r
      else (k', v') # ins_sorted k v r)"

definition ref_tree :: "ref_db \<Rightarrow> string \<Rightarrow> (bytes \<times> bytes) list" where
  "ref_tree d n = (case map_of d n of None \<Rightarrow> [] | Some t \<Rightarrow> t)"

fun ref_do :: "sled_cmd \<Rightarrow> ref_db \<Rightarrow> (string + unit) \<times> ref_db" where
  "ref_do (OpenTree n) d = (Inr (), AList.update n (ref_tree d n) d)"
| "ref_do (Insert n k v) d = (Inr (), AList.update n (ins_sorted k v (ref_tree d n)) d)"
| "ref_do (Remove n k) d =
     (Inr (), AList.update n (filter (\<lambda>(k', v). k' \<noteq> k) (ref_tree d n)) d)"
| "ref_do (ApplyBatch n kvs) d =
     (Inr (), AList.update n (fold (\<lambda>(k, v). ins_sorted k v) kvs (ref_tree d n)) d)"

definition ref_sled :: "ref_db sled" where
  "ref_sled = \<lparr> sled_open = (\<lambda>_. Inr []), sled_do = ref_do,
     sled_get = (\<lambda>n k d. Inr (map_of (ref_tree d n) k)),
     sled_iter = (\<lambda>n d. List.map Inr (ref_tree d n)),
     sled_tree_names = List.map fst,
     sled_flush = (\<lambda>_ _. Inr ()) \<rparr>"

definition ref_trees :: "ref_db \<Rightarrow> trees" where
  "ref_trees d n = map_option map_of (map_of d n)"

definition ref_sound :: "ref_db \<Rightarrow> bool" where
  "ref_sound d = list_all (\<lambda>(n, t). sorted_wrt (<) (List.map fst t)) d"

lemma set_ins_sorted: "set (List.map fst (ins_sorted k v t)) = insert k (set (List.map fst t))"
  by (induction k v t rule: ins_sorted.induct) auto

lemma sorted_ins_sorted:
  "sorted_wrt (<) (List.map fst t) \<Longrightarrow> sorted_wrt (<) (List.map fst (ins_sorted k v t))"
proof (induction k v t rule: ins_sorted.induct)
  case (1 k v)
  then show ?case by simp
next
  case (2 k v k' v' r)
  then show ?case using set_ins_sorted [of k v r] by (auto simp: not_less_iff_gr_or_eq)
qed

lemma map_of_ins_sorted: "map_of (ins_sorted k v t) = (map_of t)(k \<mapsto> v)"
  by (induction k v t rule: ins_sorted.induct) auto

lemma sorted_batch:
  "sorted_wrt (<) (List.map fst t) \<Longrightarrow>
     sorted_wrt (<) (List.map fst (fold (\<lambda>(k, v). ins_sorted k v) kvs t))"
  by (induction kvs arbitrary: t) (auto simp: sorted_ins_sorted)

lemma map_of_batch:
  "map_of (fold (\<lambda>(k, v). ins_sorted k v) kvs t) = map_of t ++ map_of (rev kvs)"
  by (induction kvs arbitrary: t)
    (auto simp: map_of_ins_sorted map_add_def fun_eq_iff split: option.splits)

lemma map_of_remove: "map_of (filter (\<lambda>(k', v). k' \<noteq> k) t) = (map_of t)(k := None)"
  by (induction t) auto

lemma tree_of_ref: "tree_of (ref_trees d) n = map_of (ref_tree d n)"
  by (simp add: tree_of_def ref_trees_def ref_tree_def split: option.splits)

lemma ref_trees_update:
  "ref_trees (AList.update n t d) = (ref_trees d)(n := Some (map_of t))"
  by (auto simp: ref_trees_def update_conv')

lemma ref_do_effect: "ref_do c d = (r, d') \<Longrightarrow> ref_trees d' = sled_effect c (ref_trees d)"
  by (cases c)
    (auto simp: sled_effect.simps ref_trees_update tree_of_ref map_of_ins_sorted map_of_batch map_of_remove)

lemma ref_sound_tree: "ref_sound d \<Longrightarrow> sorted_wrt (<) (List.map fst (ref_tree d n))"
  by (auto simp: ref_sound_def ref_tree_def list_all_iff split: option.splits dest!: map_of_SomeD)

lemma ref_sound_update:
  "ref_sound d \<Longrightarrow> sorted_wrt (<) (List.map fst t) \<Longrightarrow> ref_sound (AList.update n t d)"
  unfolding ref_sound_def by (induction d) auto

lemma ref_do_sound: "ref_sound d \<Longrightarrow> \<exists>d'. ref_do c d = (Inr (), d') \<and> ref_sound d'"
proof (cases c)
  case (Remove n k)
  moreover assume d: "ref_sound d"
  moreover have "sorted_wrt (<) (List.map fst (filter (\<lambda>(k', v). k' \<noteq> k) (ref_tree d n)))"
    using ref_sound_tree [OF d, of n] by (simp add: sorted_wrt_map sorted_wrt_filter)
  ultimately show ?thesis by (simp add: ref_sound_update)
qed (auto intro!: ref_sound_update sorted_ins_sorted sorted_batch ref_sound_tree)

interpretation ref_sled: sled_api ref_sled ref_trees ref_sound
proof (unfold_locales, goal_cases)
  case (1 c d u d')
  then show ?case by (simp add: ref_sled_def ref_do_effect)
next
  case (2 d c)
  then show ?case by (simp add: ref_sled_def ref_do_sound)
next
  case (3 n k d v)
  then show ?case by (simp add: ref_sled_def tree_of_ref)
next
  case (4 d n k)
  then show ?case by (simp add: ref_sled_def)
next
  case (5 d n)
  then show ?case by (auto simp: ref_sled_def tree_of_ref ref_sound_tree)
next
  case (6 d)
  then show ?case
    by (auto simp: ref_sled_def ref_trees_def dom_def map_of_eq_None_iff image_iff)
next
  case (7 d n)
  then show ?case by (simp add: ref_sled_def)
qed

text \<open>A codec for any countable type: the value's number, in unary.\<close>

definition count_json :: "'a::countable json" where
  "count_json = \<lparr> js_enc = (\<lambda>x. Inr (replicate (to_nat x) 0)),
     js_dec = (\<lambda>b. Inr (from_nat (length b))) \<rparr>"

interpretation count_json: json_api count_json
  by unfold_locales (auto simp: count_json_def)

text \<open>A digest that is the data itself and a compressor that records the level in front.\<close>

definition ref_blob :: blob_codec where
  "ref_blob = \<lparr> sha_hex = List.map (\<lambda>b. char_of (unat b)),
     zstd_encode = (\<lambda>x l. Inr (word_of_nat l # x)),
     zstd_decode = (\<lambda>c. case c of [] \<Rightarrow> Inl ''empty frame'' | _ # x \<Rightarrow> Inr x) \<rparr>"

interpretation ref_blob: zstd_api ref_blob
  by unfold_locales (auto simp: ref_blob_def)

text \<open>UUIDs written in decimal.\<close>

definition ref_uuid :: uuid_api where
  "ref_uuid = \<lparr> uuid_str = (\<lambda>u. show_nat (unat u)),
     uuid_parse = (\<lambda>s. map_option word_of_nat (parse_uint (2 ^ 128) s)) \<rparr>"

lemma trim_show_nat: "trim (show_nat n) = show_nat n"
proof -
  have "\<not> is_whitespace c" if "c \<in> set (show_nat n)" for c
    using that show_nat_digits [of n] by (auto simp: is_whitespace_def digit_char_def)
  then have "dropWhile is_whitespace (show_nat n) = show_nat n"
    and "dropWhile is_whitespace (rev (show_nat n)) = rev (show_nat n)"
    by (metis dropWhile_eq_self_iff hd_in_set set_rev)+
  then show ?thesis by (simp add: trim_def)
qed

lemma ref_uuid_round: "uuid_parse ref_uuid (uuid_str ref_uuid x) = Some x"
proof -
  have "unat x < 2 ^ LENGTH(128)" by (rule unsigned_less)
  then show ?thesis by (simp add: ref_uuid_def parse_uint_show_nat)
qed

interpretation ref_uuid: uuid_text ref_uuid
  by unfold_locales
    (rule ref_uuid_round, simp_all add: ref_uuid_def trim_show_nat)

text \<open>A receiver on the list of the messages sent.\<close>

definition ref_recv :: "'a receiver" where
  "ref_recv cap sent pos =
     (if length sent \<le> pos then None
      else if pos + cap < length sent then Some (None, length sent - cap)
      else Some (Some (sent ! pos), Suc pos))"

interpretation ref_recv: broadcast_api ref_recv
  by unfold_locales (simp_all add: ref_recv_def)

end
