(* ===== verification/Storage_Policy.thy ===== *)
theory Storage_Policy
  imports Filesystem External
begin

text \<open>
  The storage tiers of \<open>agent/src/storage/mod.rs\<close>: the policy enum with its replica count, its
  erasure parameters and its compression level, the tables that the read paths keep under the
  policy's name, the object metadata, and the errors of the storage module with their texts.
\<close>

datatype storage_policy = Hot | Warm | Cold | Archive

text \<open>\<open>impl Display\<close>; \<open>format!("{:?}", policy).to_lowercase()\<close> gives the same names.\<close>

fun policy_display :: "storage_policy \<Rightarrow> string" where
  "policy_display Hot = ''hot''"
| "policy_display Warm = ''warm''"
| "policy_display Cold = ''cold''"
| "policy_display Archive = ''archive''"

fun policy_debug :: "storage_policy \<Rightarrow> string" where
  "policy_debug Hot = ''Hot''"
| "policy_debug Warm = ''Warm''"
| "policy_debug Cold = ''Cold''"
| "policy_debug Archive = ''Archive''"

definition policy_default :: storage_policy where
  "policy_default = Warm"

fun replicas :: "storage_policy \<Rightarrow> nat" where
  "replicas Hot = 3"
| "replicas _ = 1"

fun erasure_coding :: "storage_policy \<Rightarrow> (nat \<times> nat) option" where
  "erasure_coding Hot = None"
| "erasure_coding Warm = Some (4, 2)"
| "erasure_coding Cold = Some (6, 3)"
| "erasure_coding Archive = Some (8, 4)"

fun zstd_level :: "storage_policy \<Rightarrow> nat" where
  "zstd_level Hot = 0"
| "zstd_level Warm = 3"
| "zstd_level Cold = 19"
| "zstd_level Archive = 22"

text \<open>The policy named by a header or a message; anything unknown is warm.\<close>

definition policy_from_str :: "string \<Rightarrow> storage_policy" where
  "policy_from_str s =
     (if s = ''hot'' then Hot else if s = ''cold'' then Cold
      else if s = ''archive'' then Archive else Warm)"

text \<open>\<open>get_chunks\<close>: data shards, parity shards, compression level under a stored policy name.\<close>

definition chunk_layout :: "string \<Rightarrow> nat \<times> nat \<times> nat" where
  "chunk_layout p =
     (if p = ''hot'' then (1, 0, 0) else if p = ''warm'' then (4, 2, 3)
      else if p = ''cold'' then (6, 3, 19) else if p = ''archive'' then (8, 4, 22)
      else (1, 0, 0))"

text \<open>\<open>read_shards\<close>: the number of shards under a stored policy name.\<close>

definition total_shards :: "string \<Rightarrow> nat" where
  "total_shards p =
     (if p = ''hot'' then 1 else if p = ''warm'' then 6 else if p = ''cold'' then 9
      else if p = ''archive'' then 12 else 1)"

record object_metadata =
  om_bucket :: string
  om_key :: string
  size_bytes :: u64
  om_created_at :: string
  modified_at :: string
  etag :: string
  om_policy :: string
  om_replicas :: nat

instance object_metadata_ext :: (countable) countable
  by (rule countable_classI [of "\<lambda>m. to_nat ((om_bucket m, om_key m, size_bytes m,
      om_created_at m, modified_at m, etag m, om_policy m, om_replicas m), object_metadata.more m)"])
    (auto intro!: object_metadata.equality)

datatype storage_error =
    IoErr io_error
  | SledErr string
  | JsonErr string
  | OpenIndexFailed string
  | OpenTreeFailed string
  | ObjectNotFound string string
  | ZstdErr string
  | DecompressFailed string
  | ErasureTooShort
  | ErasurePrefixTooLong
  | InsufficientShards
  | DataCorruption string string
  | Utf8Err
  | Panic

text \<open>The \<open>Display\<close> text of the error (without the position in an invalid UTF-8 text); a panic has none.\<close>

fun storage_error_msg :: "storage_error \<Rightarrow> string" where
  "storage_error_msg (IoErr e) = io_msg e"
| "storage_error_msg (SledErr e) = e"
| "storage_error_msg (JsonErr e) = e"
| "storage_error_msg (OpenIndexFailed e) = ''Failed to open index DB: '' @ e"
| "storage_error_msg (OpenTreeFailed e) = ''Failed to open bucket tree: '' @ e"
| "storage_error_msg (ObjectNotFound b k) = ''Object not found: '' @ b @ ''/'' @ k"
| "storage_error_msg (ZstdErr e) = e"
| "storage_error_msg (DecompressFailed e) = ''Decompression failed: '' @ e"
| "storage_error_msg ErasureTooShort = ''Erasure decoded data too short to contain length prefix''"
| "storage_error_msg ErasurePrefixTooLong = ''Erasure length prefix exceeds decoded data''"
| "storage_error_msg InsufficientShards = ''Insufficient shards to recover data''"
| "storage_error_msg (DataCorruption a b) =
     ''Data corruption detected: expected '' @ a @ '', got '' @ b"
| "storage_error_msg Utf8Err = ''invalid utf-8 sequence''"
| "storage_error_msg Panic = []"

definition data_parity :: "storage_policy \<Rightarrow> nat \<times> nat" where
  "data_parity p = (case erasure_coding p of None \<Rightarrow> (1, 0) | Some x \<Rightarrow> x)"

lemma policy_lower [simp]: "to_lower (policy_debug p) = policy_display p"
  by (induction p; code_simp)

lemma chunk_layout_policy [simp]:
  "chunk_layout (policy_display p) = (fst (data_parity p), snd (data_parity p), zstd_level p)"
  by (cases p) (simp_all add: chunk_layout_def data_parity_def)

lemma total_shards_policy [simp]:
  "total_shards (policy_display p) = fst (data_parity p) + snd (data_parity p)"
  by (cases p) (simp_all add: total_shards_def data_parity_def)

lemma data_parity_pos [simp]: "0 < fst (data_parity p)"
  by (cases p) (simp_all add: data_parity_def)

lemma policy_from_display [simp]: "policy_from_str (policy_display p) = p"
  by (cases p) (simp_all add: policy_from_str_def)

interpretation policy_names: round_trip policy_display "\<lambda>s. Some (policy_from_str s)"
  by unfold_locales simp

text \<open>
  The tables agree: for every policy the write path's parameters, the read path's table and the
  shard count of the replication path, each looked up under the name the write path stores, are the
  same numbers, and the name read back from a header or message is the policy itself.
\<close>

theorem policy_tables_agree:
  "chunk_layout (to_lower (policy_debug p)) =
     (fst (data_parity p), snd (data_parity p), zstd_level p)
   \<and> total_shards (to_lower (policy_debug p)) = fst (data_parity p) + snd (data_parity p)
   \<and> policy_from_str (policy_display p) = p
   \<and> (zstd_level p = 0 \<longleftrightarrow> p = Hot)"
  unfolding policy_lower
  by (simp only: chunk_layout_policy total_shards_policy policy_from_display) (cases p; simp)

end
