(* ===== verification/Erasure.thy ===== *)
theory Erasure
  imports Storage_Policy
begin

text \<open>
  \<open>encode_erasure\<close> and \<open>decode_erasure\<close> of \<open>agent/src/storage/chunks.rs\<close>: the data behind an 8-byte
  little-endian length is cut into equal shards, the last ones padded with zeros, and the parity
  shards are zeros. \<open>usize\<close> is 64 bits wide; the sum of the length prefix wraps as it does in a
  release build and the slice that follows panics (a debug build panics at the sum).
\<close>

section \<open>Operations\<close>

definition length_prefixed :: "bytes \<Rightarrow> bytes" where
  "length_prefixed data = to_le_bytes (word_of_nat (length data)) @ data"

text \<open>\<open>usize::div_ceil\<close>.\<close>

definition div_ceil :: "nat \<Rightarrow> nat \<Rightarrow> nat" where
  "div_ceil a b = (if a mod b = 0 then a div b else a div b + 1)"

definition data_shard :: "bytes \<Rightarrow> nat \<Rightarrow> nat \<Rightarrow> bytes" where
  "data_shard prefixed shard_size i =
     (let start = i * shard_size; stop = min (start + shard_size) (length prefixed)
      in if start < stop
         then take (stop - start) (drop start prefixed) @ replicate (shard_size - (stop - start)) 0
         else replicate shard_size 0)"

definition encode_erasure :: "bytes \<Rightarrow> nat \<Rightarrow> nat \<Rightarrow> storage_error + bytes list" where
  "encode_erasure data data_shards parity_shards =
     (if data_shards = 0 then Inl Panic
      else let prefixed = length_prefixed data;
               shard_size = div_ceil (length prefixed) data_shards
           in Inr (List.map (data_shard prefixed shard_size) [0..<data_shards]
                   @ replicate parity_shards (replicate shard_size 0)))"

fun collect_shards :: "bytes list \<Rightarrow> nat \<Rightarrow> bytes" where
  "collect_shards shards 0 = []"
| "collect_shards [] (Suc n) = []"
| "collect_shards (s # shards) (Suc n) = s @ collect_shards shards n"

definition decode_erasure :: "bytes list \<Rightarrow> nat \<Rightarrow> nat \<Rightarrow> storage_error + bytes" where
  "decode_erasure shards data_shards parity_shards =
     (let combined = collect_shards shards data_shards in
      if length combined < 8 then Inl ErasureTooShort
      else let data_len = from_le_bytes (take 8 combined); stop = 8 + data_len in
           if unat stop > length combined then Inl ErasurePrefixTooLong
           else if unat stop < 8 then Inl Panic
           else Inr (take (unat stop - 8) (drop 8 combined)))"

section \<open>Lemmas\<close>

lemma collect_shards_concat: "collect_shards shards n = concat (take n shards)"
  by (induction shards n rule: collect_shards.induct) auto

lemma div_ceil_covers: "0 < n \<Longrightarrow> a \<le> n * div_ceil a n"
proof -
  assume "0 < n"
  then have "a mod n < n" by simp
  moreover have "a = n * (a div n) + a mod n" by simp
  ultimately have "a \<le> n * (a div n) + n" by linarith
  then show ?thesis by (auto simp: div_ceil_def)
qed

lemma div_ceil_tight: "0 < n \<Longrightarrow> n * div_ceil a n < a + n"
proof -
  assume n: "0 < n"
  have eq: "a = n * (a div n) + a mod n" by simp
  show ?thesis
  proof (cases "a mod n = 0")
    case True
    with eq n show ?thesis by (simp add: div_ceil_def)
  next
    case False
    with eq have "n * (a div n) < a" by linarith
    with False show ?thesis by (simp add: div_ceil_def)
  qed
qed

lemma concat_chunks:
  "concat (List.map (\<lambda>i. take k (drop (i * k) xs)) [0..<n]) = take (n * k) xs"
proof (induction n)
  case 0
  then show ?case by simp
next
  case (Suc n)
  have "take (Suc n * k) xs = take (n * k + k) xs" by (simp add: add.commute)
  also have "\<dots> = take (n * k) xs @ take k (drop (n * k) xs)" by (rule take_add)
  finally show ?case using Suc.IH by simp
qed

lemma length_data_shard [simp]: "length (data_shard p k i) = k"
  by (auto simp: data_shard_def Let_def)

text \<open>A shard is a slice of the data followed by zeros.\<close>

lemma data_shard_slice:
  assumes "i < n" "length p \<le> n * k"
  shows "data_shard p k i = take k (drop (i * k) (p @ replicate (n * k - length p) 0))"
proof -
  have bound: "i * k + k \<le> n * k"
    using assms(1) by (metis Suc_leI add.commute mult_Suc mult_le_mono1)
  show ?thesis
  proof (cases "i * k < min (i * k + k) (length p)")
    case True
    then have "i * k < length p" by simp
    moreover have "k - (length p - i * k) \<le> n * k - length p" using bound by linarith
    ultimately show ?thesis using True
      by (auto simp: data_shard_def Let_def min_def)
  next
    case False
    then have "length p \<le> i * k \<or> k = 0" by auto
    moreover have "n * k - length p - (i * k - length p) \<ge> k" if "length p \<le> i * k"
      using that bound by linarith
    ultimately show ?thesis using False
      by (auto simp: data_shard_def Let_def)
  qed
qed

lemma length_length_prefixed [simp]: "length (length_prefixed d) = 8 + length d"
  by (simp add: length_prefixed_def)

lemma concat_data_shards:
  assumes "0 < n"
  shows "concat (List.map (data_shard p (div_ceil (length p) n)) [0..<n]) =
     p @ replicate (n * div_ceil (length p) n - length p) 0"
proof -
  let ?k = "div_ceil (length p) n" and ?q = "p @ replicate (n * div_ceil (length p) n - length p) 0"
  have le: "length p \<le> n * ?k" using div_ceil_covers [OF assms] by simp
  have "List.map (data_shard p ?k) [0..<n] = List.map (\<lambda>i. take ?k (drop (i * ?k) ?q)) [0..<n]"
    using data_shard_slice [OF _ le] by (intro map_cong) auto
  then have "concat (List.map (data_shard p ?k) [0..<n]) = take (n * ?k) ?q"
    by (simp only: concat_chunks)
  with le show ?thesis by simp
qed

lemma encode_erasure_Inr:
  "encode_erasure d n m = Inr sh \<Longrightarrow> 0 < n \<and> length sh = n + m \<and>
     take n sh = List.map (data_shard (length_prefixed d) (div_ceil (8 + length d) n)) [0..<n] \<and>
     drop n sh = replicate m (replicate (div_ceil (8 + length d) n) 0)"
  by (auto simp: encode_erasure_def Let_def split: if_splits)

lemma encode_erasure_total: "0 < n \<Longrightarrow> \<exists>sh. encode_erasure d n m = Inr sh"
  by (simp add: encode_erasure_def Let_def)

lemma encode_erasure_shard_length:
  assumes "encode_erasure d n m = Inr sh" "s \<in> set sh"
  shows "length s = div_ceil (8 + length d) n"
  using assms by (auto simp: encode_erasure_def Let_def split: if_splits)

text \<open>What \<open>decode_erasure\<close> makes of a byte string that starts with a length prefix.\<close>

lemma decode_prefixed:
  assumes "concat (take n sh) = length_prefixed d @ pad" "length d < 2 ^ 64 - 8"
  shows "decode_erasure sh n m = Inr d"
proof -
  have u: "unat (8 + word_of_nat (length d) :: u64) = 8 + length d"
    using assms(2) by (simp add: unat_word_ariths unat_of_nat)
  have t: "take 8 (concat (take n sh)) = to_le_bytes (word_of_nat (length d))"
    and dr: "drop 8 (concat (take n sh)) = d @ pad"
    using assms(1) by (simp_all add: length_prefixed_def)
  from assms(1) have "length (concat (take n sh)) = 8 + length d + length pad" by simp
  then show ?thesis
    by (simp add: decode_erasure_def Let_def collect_shards_concat t dr u)
qed

section \<open>The interface of the code\<close>

text \<open>
  What the object store relies on: encoding never fails for a positive shard count and yields
  \<open>n + m\<close> shards, and the first \<open>n\<close> of them, whatever follows, decode to the data.
\<close>

locale shard_code =
  fixes encode :: "bytes \<Rightarrow> nat \<Rightarrow> nat \<Rightarrow> 'e + bytes list"
    and decode :: "bytes list \<Rightarrow> nat \<Rightarrow> nat \<Rightarrow> 'e + bytes"
    and fits :: "bytes \<Rightarrow> bool"
  assumes encode_ok: "0 < n \<Longrightarrow> \<exists>sh. encode d n m = Inr sh"
    and encode_length: "encode d n m = Inr sh \<Longrightarrow> length sh = n + m"
    and recover: "0 < n \<Longrightarrow> fits d \<Longrightarrow> encode d n m = Inr sh \<Longrightarrow> decode (take n sh @ ps) n m' = Inr d"
begin

lemma recover_prefix:
  "0 < n \<Longrightarrow> fits d \<Longrightarrow> encode d n m = Inr sh \<Longrightarrow> take n got = take n sh \<Longrightarrow>
     decode got n m' = Inr d"
  by (metis append_take_drop_id recover)

lemma recover_all: "0 < n \<Longrightarrow> fits d \<Longrightarrow> encode d n m = Inr sh \<Longrightarrow> decode sh n m = Inr d"
  by (rule recover_prefix) simp_all

lemma encode_inj:
  assumes "0 < n" "fits d" "fits d'" "encode d n m = Inr sh" "encode d' n m = Inr sh"
  shows "d = d'"
  using recover_all [OF assms(1,2,4)] recover_all [OF assms(1,3,5)] by simp

end

definition erasure_fits :: "bytes \<Rightarrow> bool" where
  "erasure_fits d = (length d < 2 ^ 64 - 8)"

interpretation erasure: shard_code encode_erasure decode_erasure erasure_fits
proof (unfold_locales, goal_cases)
  case (1 n d m)
  then show ?case by (rule encode_erasure_total)
next
  case (2 d n m sh)
  then show ?case by (simp add: encode_erasure_Inr)
next
  case (3 n d m sh ps m')
  note e = encode_erasure_Inr [OF 3(3)]
  then have "length (take n sh) = n" by simp
  then have "concat (take n (take n sh @ ps)) = concat (take n sh)" by simp
  also have "\<dots> = length_prefixed d @
      replicate (n * div_ceil (8 + length d) n - (8 + length d)) 0"
    using e concat_data_shards [OF 3(1), of "length_prefixed d"] by simp
  finally show ?case
    by (rule decode_prefixed) (use 3(2) in \<open>simp add: erasure_fits_def\<close>)
qed

section \<open>Properties\<close>

text \<open>
  C24. Erasure round trip. Encoding with at least one data shard succeeds; decoding any vector whose
  first \<open>n\<close> shards are the data shards gives the data back, whichever parity shards are present.
\<close>

theorem erasure_round_trip:
  assumes "0 < n" "length d < 2 ^ 64 - 8"
  shows "\<exists>sh. encode_erasure d n m = Inr sh \<and> length sh = n + m \<and>
    (\<forall>ps m'. decode_erasure (take n sh @ ps) n m' = Inr d)"
proof -
  obtain sh where "encode_erasure d n m = Inr sh" using encode_erasure_total [OF assms(1)] by blast
  moreover from assms(2) have "erasure_fits d" by (simp add: erasure_fits_def)
  ultimately show ?thesis
    using erasure.recover [OF assms(1)] erasure.encode_length by blast
qed

theorem erasure_round_trip_witness:
  "\<exists>sh. encode_erasure [7, 8, 9] 4 2 = Inr sh \<and> length sh = 4 + 2 \<and>
    (\<forall>ps m'. decode_erasure (take 4 sh @ ps) 4 m' = Inr [7, 8, 9])"
  by (rule erasure_round_trip) simp_all

text \<open>
  Storage overhead. All shards of one encoding have the same length, the data shards together
  hold the 8-byte prefix and the data with fewer than \<open>n\<close> bytes of padding.
\<close>

theorem erasure_overhead:
  assumes "encode_erasure d n m = Inr sh"
  shows "\<exists>k. set sh \<subseteq> {s. length s = k} \<and> 8 + length d \<le> n * k \<and> n * k < 8 + length d + n"
proof -
  from encode_erasure_Inr [OF assms] have "0 < n" by simp
  then show ?thesis
    using encode_erasure_shard_length [OF assms] div_ceil_covers [of n] div_ceil_tight [of n]
    by blast
qed

theorem erasure_overhead_witness:
  "\<exists>k. set (projr (encode_erasure [7, 8, 9] 2 1)) \<subseteq> {s. length s = k} \<and>
     8 + length [7 :: u8, 8, 9] \<le> 2 * k \<and> 2 * k < 8 + length [7 :: u8, 8, 9] + 2"
  by (rule erasure_overhead [of _ _ 1]) (simp add: encode_erasure_def Let_def)

text \<open>
  The parity shards carry no information: they are the same for any two data of one length, so
  no decoder can rebuild a lost data shard from them.
\<close>

theorem parity_is_constant:
  assumes "length d = length d'" "encode_erasure d n m = Inr sh" "encode_erasure d' n m = Inr sh'"
  shows "drop n sh = drop n sh' \<and> set (concat (drop n sh)) \<subseteq> {0}"
  using encode_erasure_Inr [OF assms(2)] encode_erasure_Inr [OF assms(3)] assms(1) by auto

theorem parity_is_constant_witness:
  "drop 1 (projr (encode_erasure [1] 1 1)) = drop 1 (projr (encode_erasure [2] 1 1)) \<and>
   set (concat (drop 1 (projr (encode_erasure [1] 1 1)))) \<subseteq> {0}"
  by (rule parity_is_constant [of "[1]" "[2]" 1 1]) (simp_all add: encode_erasure_def Let_def)

text \<open>
  Decoding is total on arbitrary shard contents except for one case: it panics exactly when the
  combined data shards hold at least 8 bytes and their length prefix is within 8 of \<open>u64::MAX\<close>, where
  the bounds check of the code overflows.
\<close>

theorem decode_panics_iff:
  "decode_erasure sh n m = Inl Panic \<longleftrightarrow>
     8 \<le> length (concat (take n sh)) \<and>
     2 ^ 64 - 8 \<le> unat (from_le_bytes (take 8 (concat (take n sh))))"
proof -
  let ?w = "from_le_bytes (take 8 (concat (take n sh)))"
  have "unat ?w < 2 ^ LENGTH(64)" by (rule unsigned_less)
  then have w: "unat ?w < 2 ^ 64" by simp
  have "unat (8 + ?w) = (8 + unat ?w) mod 2 ^ 64" by (simp add: unat_word_ariths)
  with w have "unat (8 + ?w) = (if 2 ^ 64 - 8 \<le> unat ?w then 8 + unat ?w - 2 ^ 64 else 8 + unat ?w)"
    by (simp add: mod_if)
  with w show ?thesis
    by (auto simp: decode_erasure_def Let_def collect_shards_concat)
qed

end
