(* ===== verification/Index.thy ===== *)
theory Index
  imports Storage_Policy
begin

text \<open>
  The object index, \<open>agent/src/storage/index.rs\<close>: one sled database per data directory behind a
  process-wide cache of handles, one tree per bucket, the key's bytes mapped to the JSON of the
  metadata. The operations are modelled call by call; the lemmas relate them to the abstract index,
  a map from bucket and key to metadata.
\<close>

section \<open>State\<close>

text \<open>
  \<open>d_dbs\<close> is \<open>DB_CACHE\<close>: the open databases by path. A handle is the path's key, since every clone
  of the \<open>Arc\<close> sees the same database.
\<close>

record 'd disk =
  d_fs :: fs
  d_dbs :: "(path_key, 'd) hmap"

record 'd storage_env =
  se_sled :: "'d sled"
  se_json :: "object_metadata json"
  se_blob :: blob_codec

definition db_path :: "string \<Rightarrow> string" where
  "db_path data_dir = path_join data_dir ''objects.db''"

definition bucket_tree :: "string \<Rightarrow> string" where
  "bucket_tree bucket = ''bucket:'' @ bucket"

section \<open>Operations\<close>

definition get_db :: "'d storage_env \<Rightarrow> string \<Rightarrow> (storage_error, 'd disk, path_key) op" where
  "get_db E data_dir s =
     (let p = db_path data_dir; h = path_key p in
      case hget (d_dbs s) h of
        Some db \<Rightarrow> (Inr h, s)
      | None \<Rightarrow>
          (case sled_open (se_sled E) p of
             Inl e \<Rightarrow> (Inl (OpenIndexFailed e), s)
           | Inr opened \<Rightarrow> (Inr h, s\<lparr>d_dbs := hput h opened (d_dbs s)\<rparr>)))"

text \<open>A sled call through a handle; a handle of \<open>get_db\<close> is always in the cache.\<close>

definition db_do ::
  "'d storage_env \<Rightarrow> (string \<Rightarrow> storage_error) \<Rightarrow> path_key \<Rightarrow> sled_cmd \<Rightarrow> (storage_error, 'd disk, unit) op"
where
  "db_do E err h c s =
     (case hget (d_dbs s) h of
        None \<Rightarrow> (Inl Panic, s)
      | Some d \<Rightarrow> (let (r, d') = sled_do (se_sled E) c d
                  in (map_err err r, s\<lparr>d_dbs := hput h d' (d_dbs s)\<rparr>)))"

definition db_read ::
  "path_key \<Rightarrow> ('d \<Rightarrow> storage_error + 'a) \<Rightarrow> (storage_error, 'd disk, 'a) op"
where
  "db_read h f s = (case hget (d_dbs s) h of None \<Rightarrow> (Inl Panic, s) | Some d \<Rightarrow> (f d, s))"

definition init_index :: "'d storage_env \<Rightarrow> string \<Rightarrow> (storage_error, 'd disk, unit) op" where
  "init_index E data_dir = bind_op (get_db E data_dir) (\<lambda>_. ret_op ())"

definition get_bucket_tree ::
  "'d storage_env \<Rightarrow> path_key \<Rightarrow> string \<Rightarrow> (storage_error, 'd disk, string) op"
where
  "get_bucket_tree E h bucket =
     bind_op (db_do E OpenTreeFailed h (OpenTree (bucket_tree bucket)))
       (\<lambda>_. ret_op (bucket_tree bucket))"

text \<open>\<open>now1\<close> and \<open>now2\<close> are the two readings of the clock.\<close>

definition index_put_object ::
  "'d storage_env \<Rightarrow> string \<Rightarrow> string \<Rightarrow> string \<Rightarrow> string \<Rightarrow> string \<Rightarrow> string \<Rightarrow> nat \<Rightarrow> storage_policy
   \<Rightarrow> (storage_error, 'd disk, unit) op"
where
  "index_put_object E now1 now2 data_dir bucket key tag nbytes policy =
     bind_op (get_db E data_dir) (\<lambda>h.
     bind_op (get_bucket_tree E h bucket) (\<lambda>tree.
     let metadata = \<lparr> om_bucket = bucket, om_key = key, size_bytes = word_of_nat nbytes,
           om_created_at = now1, modified_at = now2, etag = tag,
           om_policy = to_lower (policy_debug policy), om_replicas = replicas policy \<rparr> in
     bind_op (lift_op (map_err JsonErr (js_enc (se_json E) metadata))) (\<lambda>txt.
     db_do E SledErr h (Insert tree (str_bytes key) txt))))"

definition index_get_object ::
  "'d storage_env \<Rightarrow> string \<Rightarrow> string \<Rightarrow> string \<Rightarrow> (storage_error, 'd disk, object_metadata) op"
where
  "index_get_object E data_dir bucket key =
     bind_op (get_db E data_dir) (\<lambda>h.
     bind_op (get_bucket_tree E h bucket) (\<lambda>tree.
     bind_op (db_read h (\<lambda>d. map_err SledErr (sled_get (se_sled E) tree (str_bytes key) d)))
       (\<lambda>found. case found of
          None \<Rightarrow> fail_op (ObjectNotFound bucket key)
        | Some data \<Rightarrow> lift_op (map_err JsonErr (js_dec (se_json E) data)))))"

definition index_delete_object ::
  "'d storage_env \<Rightarrow> string \<Rightarrow> string \<Rightarrow> string \<Rightarrow> (storage_error, 'd disk, unit) op"
where
  "index_delete_object E data_dir bucket key =
     bind_op (get_db E data_dir) (\<lambda>h.
     bind_op (get_bucket_tree E h bucket) (\<lambda>tree.
     db_do E SledErr h (Remove tree (str_bytes key))))"

definition prefix_matches :: "string option \<Rightarrow> object_metadata \<Rightarrow> bool" where
  "prefix_matches prefix_opt m =
     (case prefix_opt of None \<Rightarrow> True | Some p \<Rightarrow> starts_with (om_key m) p)"

fun list_loop ::
  "object_metadata json \<Rightarrow> string option \<Rightarrow> nat \<Rightarrow> (string + bytes \<times> bytes) list
   \<Rightarrow> object_metadata list \<Rightarrow> storage_error + object_metadata list"
where
  "list_loop J prefix_opt limit [] results = Inr results"
| "list_loop J prefix_opt limit (item # items) results =
     (if length results \<ge> limit then Inr results
      else case item of
        Inl e \<Rightarrow> Inl (SledErr e)
      | Inr (k, value) \<Rightarrow>
          (case js_dec J value of
             Inl e \<Rightarrow> Inl (JsonErr e)
           | Inr metadata \<Rightarrow>
               if prefix_matches prefix_opt metadata
               then list_loop J prefix_opt limit items (results @ [metadata])
               else list_loop J prefix_opt limit items results))"

definition index_list_objects ::
  "'d storage_env \<Rightarrow> string \<Rightarrow> string \<Rightarrow> string option \<Rightarrow> nat option
   \<Rightarrow> (storage_error, 'd disk, object_metadata list) op"
where
  "index_list_objects E data_dir bucket prefix_opt max_keys =
     bind_op (get_db E data_dir) (\<lambda>h.
     bind_op (get_bucket_tree E h bucket) (\<lambda>tree.
     let limit = (case max_keys of None \<Rightarrow> 1000 | Some m \<Rightarrow> m) in
     db_read h (\<lambda>d. list_loop (se_json E) prefix_opt limit (sled_iter (se_sled E) tree d) [])))"

text \<open>\<open>bucket_exists\<close> opens the tree, and opening a tree creates it.\<close>

definition bucket_exists ::
  "'d storage_env \<Rightarrow> string \<Rightarrow> string \<Rightarrow> (storage_error, 'd disk, bool) op"
where
  "bucket_exists E data_dir bucket =
     bind_op (get_db E data_dir) (\<lambda>h s.
       let (r, s') = db_do E SledErr h (OpenTree (bucket_tree bucket)) s in (Inr (is_ok r), s'))"

definition index_create_bucket ::
  "'d storage_env \<Rightarrow> string \<Rightarrow> string \<Rightarrow> (storage_error, 'd disk, unit) op"
where
  "index_create_bucket E data_dir bucket =
     bind_op (get_db E data_dir) (\<lambda>h. db_do E SledErr h (OpenTree (bucket_tree bucket)))"

text \<open>The loop of \<open>list_buckets\<close>; a tree whose name is not UTF-8 ends it with an error.\<close>

fun bucket_names :: "string list \<Rightarrow> storage_error + string list" where
  "bucket_names [] = Inr []"
| "bucket_names (n # ns) =
     (if \<not> valid_utf8 (str_bytes n) then Inl Utf8Err
      else bind_res (bucket_names ns) (\<lambda>buckets.
        Inr (case strip_prefix n ''bucket:'' of None \<Rightarrow> buckets | Some b \<Rightarrow> b # buckets)))"

definition list_buckets ::
  "'d storage_env \<Rightarrow> string \<Rightarrow> (storage_error, 'd disk, string list) op"
where
  "list_buckets E data_dir =
     bind_op (get_db E data_dir) (\<lambda>h.
     db_read h (\<lambda>d. bucket_names (sled_tree_names (se_sled E) d)))"

section \<open>The abstract index\<close>

definition index_db :: "'d disk \<Rightarrow> string \<Rightarrow> 'd option" where
  "index_db s data_dir = hget (d_dbs s) (path_key (db_path data_dir))"

text \<open>The trees of a data directory's database.\<close>

definition index_trees :: "('d \<Rightarrow> trees) \<Rightarrow> 'd disk \<Rightarrow> string \<Rightarrow> trees" where
  "index_trees tr s data_dir = (case index_db s data_dir of None \<Rightarrow> (\<lambda>_. None) | Some d \<Rightarrow> tr d)"

definition trees_view ::
  "object_metadata json \<Rightarrow> trees \<Rightarrow> string \<Rightarrow> string \<Rightarrow> object_metadata option"
where
  "trees_view J T bucket key =
     (case tree_of T (bucket_tree bucket) (str_bytes key) of
        None \<Rightarrow> None
      | Some v \<Rightarrow> (case js_dec J v of Inl _ \<Rightarrow> None | Inr m \<Rightarrow> Some m))"

definition index_view ::
  "'d storage_env \<Rightarrow> ('d \<Rightarrow> trees) \<Rightarrow> 'd disk \<Rightarrow> string \<Rightarrow> string \<Rightarrow> string \<Rightarrow> object_metadata option"
where
  "index_view E tr s data_dir = trees_view (se_json E) (index_trees tr s data_dir)"

definition index_ready :: "('d \<Rightarrow> bool) \<Rightarrow> 'd disk \<Rightarrow> string \<Rightarrow> bool" where
  "index_ready sound s data_dir = (\<exists>d. index_db s data_dir = Some d \<and> sound d)"

text \<open>Every stored value is the JSON of metadata that names its own bucket and key.\<close>

definition index_wf :: "object_metadata json \<Rightarrow> trees \<Rightarrow> bool" where
  "index_wf J T = (\<forall>b kb v. tree_of T (bucket_tree b) kb = Some v \<longrightarrow>
     (\<exists>m. js_dec J v = Inr m \<and> om_bucket m = b \<and> str_bytes (om_key m) = kb))"

lemma bucket_tree_inj [simp]: "bucket_tree a = bucket_tree b \<longleftrightarrow> a = b"
  by (simp add: bucket_tree_def)

section \<open>The storage contract\<close>

text \<open>The crates behind the store, each with its documented behaviour.\<close>

locale storage_api =
  db: sled_api "se_sled E" trees sound + js: json_api "se_json E" + zs: zstd_api "se_blob E"
  for E :: "'d storage_env" and trees :: "'d \<Rightarrow> trees" and sound :: "'d \<Rightarrow> bool"
begin

text \<open>
  One database command through the handle: the file system is untouched, the trees change as the
  command says, and the other databases of the process stay as they are.
\<close>

lemma db_do_ready:
  assumes "index_ready sound s dd"
  obtains s' where "db_do E err (path_key (db_path dd)) c s = (Inr (), s')"
    "index_ready sound s' dd" "d_fs s' = d_fs s"
    "index_trees trees s' dd = sled_effect c (index_trees trees s dd)"
    "\<And>dd'. path_key (db_path dd') \<noteq> path_key (db_path dd) \<Longrightarrow> index_db s' dd' = index_db s dd'"
proof -
  from assms obtain d where d: "index_db s dd = Some d" "sound d" by (auto simp: index_ready_def)
  from db.sled_do_sound [OF d(2), of c] obtain d' where
    d': "sled_do (se_sled E) c d = (Inr (), d')" "sound d'" "trees d' = sled_effect c (trees d)"
    by blast
  let ?s = "s\<lparr>d_dbs := hput (path_key (db_path dd)) d' (d_dbs s)\<rparr>"
  have "db_do E err (path_key (db_path dd)) c s = (Inr (), ?s)"
    using d d' by (simp add: db_do_def index_db_def)
  moreover have "index_db ?s dd = Some d'" by (simp add: index_db_def)
  ultimately show ?thesis
    using that [of ?s] d d' by (auto simp: index_ready_def index_trees_def index_db_def)
qed

lemma get_db_ready: "index_ready sound s dd \<Longrightarrow> get_db E dd s = (Inr (path_key (db_path dd)), s)"
  by (auto simp: index_ready_def index_db_def get_db_def Let_def)

lemma get_bucket_tree_ready:
  assumes "index_ready sound s dd"
  obtains s' where "get_bucket_tree E (path_key (db_path dd)) b s = (Inr (bucket_tree b), s')"
    "index_ready sound s' dd" "d_fs s' = d_fs s"
    "index_trees trees s' dd = sled_effect (OpenTree (bucket_tree b)) (index_trees trees s dd)"
  using db_do_ready [OF assms, of OpenTreeFailed "OpenTree (bucket_tree b)"] that
  unfolding get_bucket_tree_def bind_op_def ret_op_def
  by (metis (mono_tags, lifting) case_prod_conv old.sum.simps(6))

lemma get_ready:
  "index_ready sound s dd \<Longrightarrow>
     db_read (path_key (db_path dd)) (\<lambda>d. map_err SledErr (sled_get (se_sled E) n k d)) s =
       (Inr (tree_of (index_trees trees s dd) n k), s)"
  by (auto simp: index_ready_def db_read_def index_db_def index_trees_def db.sled_get_sound)

lemma put_ready:
  fixes md :: object_metadata
  assumes r: "index_ready sound s dd"
    and md: "md = \<lparr> om_bucket = b, om_key = k, size_bytes = word_of_nat n, om_created_at = now1,
      modified_at = now2, etag = tag, om_policy = policy_display p, om_replicas = replicas p \<rparr>"
  obtains s' where "index_put_object E now1 now2 dd b k tag n p s = (Inr (), s')"
    "index_ready sound s' dd" "d_fs s' = d_fs s"
    "index_trees trees s' dd =
       sled_effect (Insert (bucket_tree b) (str_bytes k) (js.json md))
         (sled_effect (OpenTree (bucket_tree b)) (index_trees trees s dd))"
proof -
  obtain s1 where 1: "get_bucket_tree E (path_key (db_path dd)) b s = (Inr (bucket_tree b), s1)"
    "index_ready sound s1 dd" "d_fs s1 = d_fs s"
    "index_trees trees s1 dd = sled_effect (OpenTree (bucket_tree b)) (index_trees trees s dd)"
    by (rule get_bucket_tree_ready [OF r])
  obtain s2 where 2: "db_do E SledErr (path_key (db_path dd))
      (Insert (bucket_tree b) (str_bytes k) (js.json md)) s1 = (Inr (), s2)"
    "index_ready sound s2 dd" "d_fs s2 = d_fs s1"
    "index_trees trees s2 dd = sled_effect (Insert (bucket_tree b) (str_bytes k) (js.json md))
       (index_trees trees s1 dd)"
    by (rule db_do_ready [OF 1(2)])
  have "index_put_object E now1 now2 dd b k tag n p s = (Inr (), s2)"
    using 1(1) 2(1) unfolding md
    by (simp add: index_put_object_def get_db_ready [OF r] bind_op_def lift_op_def Let_def
        js.js_enc_json)
  then show ?thesis using that 1 2 by simp
qed

lemma get_index_ready:
  assumes r: "index_ready sound s dd"
  obtains s' where "index_get_object E dd b k s =
      ((case tree_of (index_trees trees s dd) (bucket_tree b) (str_bytes k) of
          None \<Rightarrow> Inl (ObjectNotFound b k)
        | Some v \<Rightarrow> map_err JsonErr (js_dec (se_json E) v)), s')"
    "index_ready sound s' dd" "d_fs s' = d_fs s"
    "index_trees trees s' dd = sled_effect (OpenTree (bucket_tree b)) (index_trees trees s dd)"
proof -
  obtain s1 where 1: "get_bucket_tree E (path_key (db_path dd)) b s = (Inr (bucket_tree b), s1)"
    "index_ready sound s1 dd" "d_fs s1 = d_fs s"
    "index_trees trees s1 dd = sled_effect (OpenTree (bucket_tree b)) (index_trees trees s dd)"
    by (rule get_bucket_tree_ready [OF r])
  have "index_get_object E dd b k s =
      ((case tree_of (index_trees trees s dd) (bucket_tree b) (str_bytes k) of
          None \<Rightarrow> Inl (ObjectNotFound b k)
        | Some v \<Rightarrow> map_err JsonErr (js_dec (se_json E) v)), s1)"
    using 1(1) get_ready [OF 1(2), of "bucket_tree b" "str_bytes k"] 1(4)
    by (simp add: index_get_object_def get_db_ready [OF r] bind_op_def lift_op_def fail_op_def
        split: option.splits)
  then show ?thesis using that 1 by simp
qed

lemma delete_ready:
  assumes r: "index_ready sound s dd"
  obtains s' where "index_delete_object E dd b k s = (Inr (), s')"
    "index_ready sound s' dd" "d_fs s' = d_fs s"
    "index_trees trees s' dd = sled_effect (Remove (bucket_tree b) (str_bytes k))
       (sled_effect (OpenTree (bucket_tree b)) (index_trees trees s dd))"
proof -
  obtain s1 where 1: "get_bucket_tree E (path_key (db_path dd)) b s = (Inr (bucket_tree b), s1)"
    "index_ready sound s1 dd" "d_fs s1 = d_fs s"
    "index_trees trees s1 dd = sled_effect (OpenTree (bucket_tree b)) (index_trees trees s dd)"
    by (rule get_bucket_tree_ready [OF r])
  obtain s2 where 2: "db_do E SledErr (path_key (db_path dd))
      (Remove (bucket_tree b) (str_bytes k)) s1 = (Inr (), s2)"
    "index_ready sound s2 dd" "d_fs s2 = d_fs s1"
    "index_trees trees s2 dd = sled_effect (Remove (bucket_tree b) (str_bytes k))
       (index_trees trees s1 dd)"
    by (rule db_do_ready [OF 1(2)])
  have "index_delete_object E dd b k s = (Inr (), s2)"
    using 1(1) 2(1) by (simp add: index_delete_object_def get_db_ready [OF r] bind_op_def)
  then show ?thesis using that 1 2 by simp
qed

lemma list_ready:
  assumes r: "index_ready sound s dd"
  obtains s' kvs where "index_list_objects E dd b pfx mx s =
      (list_loop (se_json E) pfx (case mx of None \<Rightarrow> 1000 | Some m \<Rightarrow> m) (List.map Inr kvs) [], s')"
    "index_ready sound s' dd" "d_fs s' = d_fs s"
    "index_trees trees s' dd = sled_effect (OpenTree (bucket_tree b)) (index_trees trees s dd)"
    "sorted_wrt (<) (List.map fst kvs)"
    "set kvs = {(k, v). tree_of (index_trees trees s dd) (bucket_tree b) k = Some v}"
proof -
  obtain s1 where 1: "get_bucket_tree E (path_key (db_path dd)) b s = (Inr (bucket_tree b), s1)"
    "index_ready sound s1 dd" "d_fs s1 = d_fs s"
    "index_trees trees s1 dd = sled_effect (OpenTree (bucket_tree b)) (index_trees trees s dd)"
    by (rule get_bucket_tree_ready [OF r])
  from 1(2) obtain d where d: "index_db s1 dd = Some d" "sound d" by (auto simp: index_ready_def)
  obtain kvs where kvs: "sled_iter (se_sled E) (bucket_tree b) d = List.map Inr kvs"
    "sorted_wrt (<) (List.map fst kvs)"
    "set kvs = {(k, v). tree_of (trees d) (bucket_tree b) k = Some v}"
    by (rule db.sled_iter_sound [OF d(2), of "bucket_tree b"]) blast
  have "tree_of (trees d) (bucket_tree b) = tree_of (index_trees trees s dd) (bucket_tree b)"
    using d(1) 1(4) by (simp add: index_trees_def)
  moreover have "index_list_objects E dd b pfx mx s =
      (list_loop (se_json E) pfx (case mx of None \<Rightarrow> 1000 | Some m \<Rightarrow> m) (List.map Inr kvs) [], s1)"
    using 1(1) d(1) kvs(1)
    by (simp add: index_list_objects_def get_db_ready [OF r] bind_op_def db_read_def
        index_db_def Let_def)
  ultimately show ?thesis using that [OF _ 1(2,3,4) kvs(2)] kvs(3) by simp
qed

text \<open>The commands on the abstract index.\<close>

lemma view_open [simp]:
  "trees_view (se_json E) (sled_effect (OpenTree n) T) = trees_view (se_json E) T"
  by (intro ext) (simp add: trees_view_def)

lemma view_insert [simp]:
  "trees_view (se_json E) (sled_effect (Insert (bucket_tree b) (str_bytes k) (js.json md)) T) b' k' =
     (if b' = b \<and> k' = k then Some md else trees_view (se_json E) T b' k')"
  by (simp add: trees_view_def js.js_dec_json)

lemma view_remove [simp]:
  "trees_view (se_json E) (sled_effect (Remove (bucket_tree b) (str_bytes k)) T) b' k' =
     (if b' = b \<and> k' = k then None else trees_view (se_json E) T b' k')"
  by (simp add: trees_view_def)

lemma wf_open [simp]: "index_wf (se_json E) (sled_effect (OpenTree n) T) = index_wf (se_json E) T"
  by (simp add: index_wf_def)

lemma wf_insert:
  "index_wf (se_json E) T \<Longrightarrow> om_bucket md = b \<Longrightarrow> om_key md = k \<Longrightarrow>
     index_wf (se_json E) (sled_effect (Insert (bucket_tree b) (str_bytes k) (js.json md)) T)"
  by (auto simp: index_wf_def js.js_dec_json)

lemma wf_remove:
  "index_wf (se_json E) T \<Longrightarrow> index_wf (se_json E) (sled_effect (Remove (bucket_tree b) kb) T)"
  by (auto simp: index_wf_def)

lemma get_index_view:
  assumes "index_ready sound s dd" "index_wf (se_json E) (index_trees trees s dd)"
  shows "fst (index_get_object E dd b k s) =
    (case index_view E trees s dd b k of None \<Rightarrow> Inl (ObjectNotFound b k) | Some md \<Rightarrow> Inr md)"
proof -
  obtain s' where s': "index_get_object E dd b k s =
      ((case tree_of (index_trees trees s dd) (bucket_tree b) (str_bytes k) of
          None \<Rightarrow> Inl (ObjectNotFound b k)
        | Some v \<Rightarrow> map_err JsonErr (js_dec (se_json E) v)), s')"
    by (rule get_index_ready [OF assms(1)])
  show ?thesis
  proof (cases "tree_of (index_trees trees s dd) (bucket_tree b) (str_bytes k)")
    case None
    with s' show ?thesis by (simp add: index_view_def trees_view_def)
  next
    case (Some v)
    with assms(2) obtain md where "js_dec (se_json E) v = Inr md"
      unfolding index_wf_def by blast
    with Some s' show ?thesis by (simp add: index_view_def trees_view_def)
  qed
qed

end

section \<open>Listing\<close>

text \<open>The loop stops after \<open>limit\<close> matching objects and keeps the tree's order.\<close>

lemma list_loop_take:
  assumes "\<And>k v. (k, v) \<in> set kvs \<Longrightarrow> js_dec J v = Inr (dec v)"
  shows "list_loop J pfx limit (List.map Inr kvs) acc =
    Inr (acc @ take (limit - length acc) (filter (prefix_matches pfx) (List.map (\<lambda>kv. dec (snd kv)) kvs)))"
  using assms
proof (induction kvs arbitrary: acc)
  case Nil
  then show ?case by simp
next
  case (Cons kv kvs)
  obtain k v where kv: "kv = (k, v)" by (cases kv)
  have d: "js_dec J v = Inr (dec v)" using Cons.prems [of k v] kv by simp
  have IH: "list_loop J pfx limit (List.map Inr kvs) acc' =
      Inr (acc' @ take (limit - length acc') (filter (prefix_matches pfx) (List.map (\<lambda>kv. dec (snd kv)) kvs)))"
    for acc' by (rule Cons.IH) (use Cons.prems in auto)
  have "take (limit - length acc) (x # xs) = x # take (limit - Suc (length acc)) xs"
    if "length acc < limit" for x :: object_metadata and xs
    using that by (simp add: take_Cons')
  then show ?case using d IH kv by (auto simp: not_le)
qed

lemma sorted_keys_map:
  assumes "sorted_wrt (<) (List.map fst kvs)"
    and "\<And>k v. (k, v) \<in> set kvs \<Longrightarrow> str_bytes (om_key (dec v)) = k"
  shows "sorted_wrt (\<lambda>m n. om_key m < om_key n) (List.map (\<lambda>kv. dec (snd kv)) kvs)"
proof -
  have "sorted_wrt (\<lambda>x y. fst x < fst y) kvs" using assms(1) by (simp add: sorted_wrt_map)
  then have "sorted_wrt (\<lambda>x y. om_key (dec (snd x)) < om_key (dec (snd y))) kvs"
    by (rule sorted_wrt_mono_rel [rotated])
      (metis assms(2) prod.collapse str_bytes_less)
  then show ?thesis by (simp add: sorted_wrt_map)
qed

context storage_api begin

lemma list_view:
  assumes r: "index_ready sound s dd" and wf: "index_wf (se_json E) (index_trees trees s dd)"
  obtains s' mds where
    "index_list_objects E dd b pfx mx s =
       (Inr (take (case mx of None \<Rightarrow> 1000 | Some m \<Rightarrow> m) (filter (prefix_matches pfx) mds)), s')"
    "sorted_wrt (\<lambda>m n. om_key m < om_key n) mds"
    "set mds = {m. \<exists>k. index_view E trees s dd b k = Some m}"
proof -
  obtain s' kvs where l: "index_list_objects E dd b pfx mx s =
      (list_loop (se_json E) pfx (case mx of None \<Rightarrow> 1000 | Some m \<Rightarrow> m) (List.map Inr kvs) [], s')"
    and sorted: "sorted_wrt (<) (List.map fst kvs)"
    and kvs: "set kvs = {(k, v). tree_of (index_trees trees s dd) (bucket_tree b) k = Some v}"
    by (rule list_ready [OF r])
  define dec where "dec v = projr (js_dec (se_json E) v)" for v
  have dec: "js_dec (se_json E) v = Inr (dec v) \<and> str_bytes (om_key (dec v)) = k"
    if "(k, v) \<in> set kvs" for k v
    using that wf unfolding kvs index_wf_def dec_def by fastforce
  let ?mds = "List.map (\<lambda>kv. dec (snd kv)) kvs"
  have "list_loop (se_json E) pfx limit (List.map Inr kvs) [] =
      Inr (take limit (filter (prefix_matches pfx) ?mds))" for limit
    using list_loop_take [of kvs "se_json E" dec pfx limit "[]"] dec by simp
  moreover have "sorted_wrt (\<lambda>m n. om_key m < om_key n) ?mds"
    by (rule sorted_keys_map [OF sorted]) (simp add: dec)
  moreover have "set ?mds = {m. \<exists>k. index_view E trees s dd b k = Some m}" (is "?A = ?B")
  proof
    show "?A \<subseteq> ?B"
    proof
      fix m assume "m \<in> ?A"
      then obtain k v where kv: "(k, v) \<in> set kvs" "m = dec v" by auto
      with dec [OF kv(1)] have "index_view E trees s dd b (om_key m) = Some m"
        by (auto simp: index_view_def trees_view_def kvs)
      then show "m \<in> ?B" by blast
    qed
    show "?B \<subseteq> ?A"
    proof
      fix m assume "m \<in> ?B"
      then obtain k where k: "trees_view (se_json E) (index_trees trees s dd) b k = Some m"
        by (auto simp: index_view_def)
      then obtain v where "tree_of (index_trees trees s dd) (bucket_tree b) (str_bytes k) = Some v"
        "js_dec (se_json E) v = Inr m"
        by (auto simp: trees_view_def split: option.split_asm sum.split_asm)
      then have "(str_bytes k, v) \<in> set kvs" "dec v = m" by (auto simp: kvs dec_def)
      then show "m \<in> ?A" by force
    qed
  qed
  ultimately show ?thesis using that l by simp
qed

end

section \<open>A concrete store\<close>

definition ref_env :: "ref_db storage_env" where
  "ref_env = \<lparr> se_sled = ref_sled, se_json = count_json, se_blob = ref_blob \<rparr>"

interpretation ref_store: storage_api ref_env ref_trees ref_sound
  unfolding storage_api_def ref_env_def
  by (simp add: ref_sled.sled_api_axioms count_json.json_api_axioms ref_blob.zstd_api_axioms)

text \<open>A node whose index is open and empty, with no files and no faults.\<close>

definition ref_disk :: "ref_db disk" where
  "ref_disk = \<lparr> d_fs = empty_fs, d_dbs = [(path_key (db_path ''/data''), [])] \<rparr>"

lemma ref_disk_ready [simp]: "index_ready ref_sound ref_disk ''/data''"
  by (simp add: index_ready_def index_db_def ref_disk_def ref_sound_def)

lemma ref_disk_wf [simp]: "index_wf (se_json ref_env) (index_trees ref_trees ref_disk ''/data'')"
  by (simp add: index_wf_def index_trees_def index_db_def ref_disk_def tree_of_ref ref_tree_def)

section \<open>Properties\<close>

text \<open>
  C32. Writing metadata: on a sound, open index the call succeeds, leaves every file alone, and
  changes the abstract index at exactly the given bucket and key, to a record with the caller's
  key, bucket, etag and size, the policy's name and its replica count.
\<close>

theorem index_put_refines:
  assumes "storage_api E trees sound" "index_ready sound s dd"
  shows "\<exists>s'. index_put_object E now1 now2 dd b k tag n p s = (Inr (), s') \<and>
    index_ready sound s' dd \<and> d_fs s' = d_fs s \<and>
    index_view E trees s' dd b' k' =
      (if b' = b \<and> k' = k
       then Some \<lparr> om_bucket = b, om_key = k, size_bytes = word_of_nat n, om_created_at = now1,
         modified_at = now2, etag = tag, om_policy = policy_display p, om_replicas = replicas p \<rparr>
       else index_view E trees s dd b' k')"
proof -
  note api = assms(1)
  obtain s' where "index_put_object E now1 now2 dd b k tag n p s = (Inr (), s')"
    "index_ready sound s' dd" "d_fs s' = d_fs s"
    "index_trees trees s' dd =
       sled_effect (Insert (bucket_tree b) (str_bytes k) (json_api.json (se_json E)
         \<lparr> om_bucket = b, om_key = k, size_bytes = word_of_nat n, om_created_at = now1,
         modified_at = now2, etag = tag, om_policy = policy_display p, om_replicas = replicas p \<rparr>))
         (sled_effect (OpenTree (bucket_tree b)) (index_trees trees s dd))"
    by (rule storage_api.put_ready [OF api assms(2) refl])
  then show ?thesis
    by (simp add: index_view_def storage_api.view_insert [OF api] storage_api.view_open [OF api])
qed

theorem index_put_refines_witness:
  "\<exists>s'. index_put_object ref_env ''t1'' ''t2'' ''/data'' ''b'' ''k'' ''tag'' 5 Cold ref_disk = (Inr (), s') \<and>
    index_ready ref_sound s' ''/data'' \<and> d_fs s' = d_fs ref_disk \<and>
    index_view ref_env ref_trees s' ''/data'' ''b'' ''k'' =
      (if ''b'' = ''b'' \<and> ''k'' = ''k''
       then Some \<lparr> om_bucket = ''b'', om_key = ''k'', size_bytes = word_of_nat 5,
         om_created_at = ''t1'', modified_at = ''t2'', etag = ''tag'',
         om_policy = policy_display Cold, om_replicas = replicas Cold \<rparr>
       else index_view ref_env ref_trees ref_disk ''/data'' ''b'' ''k'')"
  by (rule index_put_refines [OF ref_store.storage_api_axioms ref_disk_ready])

text \<open>
  Deleting: on a sound, open index the call succeeds whether or not the object exists, removes
  exactly the entry of that bucket and key, and changes no file: the chunk files of the object stay
  on disk.
\<close>

theorem index_delete_refines:
  assumes "storage_api E trees sound" "index_ready sound s dd"
  shows "\<exists>s'. index_delete_object E dd b k s = (Inr (), s') \<and>
    index_ready sound s' dd \<and> d_fs s' = d_fs s \<and>
    index_view E trees s' dd b' k' =
      (if b' = b \<and> k' = k then None else index_view E trees s dd b' k')"
proof -
  note api = assms(1)
  obtain s' where "index_delete_object E dd b k s = (Inr (), s')"
    "index_ready sound s' dd" "d_fs s' = d_fs s"
    "index_trees trees s' dd = sled_effect (Remove (bucket_tree b) (str_bytes k))
       (sled_effect (OpenTree (bucket_tree b)) (index_trees trees s dd))"
    by (rule storage_api.delete_ready [OF api assms(2)])
  then show ?thesis
    by (simp add: index_view_def storage_api.view_remove [OF api] storage_api.view_open [OF api])
qed

theorem index_delete_refines_witness:
  "\<exists>s'. index_delete_object ref_env ''/data'' ''b'' ''k'' ref_disk = (Inr (), s') \<and>
    index_ready ref_sound s' ''/data'' \<and> d_fs s' = d_fs ref_disk \<and>
    index_view ref_env ref_trees s' ''/data'' ''b'' ''k'' =
      (if ''b'' = ''b'' \<and> ''k'' = ''k'' then None
       else index_view ref_env ref_trees ref_disk ''/data'' ''b'' ''k'')"
  by (rule index_delete_refines [OF ref_store.storage_api_axioms ref_disk_ready])

text \<open>
  C33. Listing: the answer is the first \<open>max_keys\<close> (1000 by default) objects of the bucket whose key
  has the prefix, in the order of their keys; no object is missed or repeated, and objects that do
  not match do not count against the limit.
\<close>

theorem index_list_refines:
  assumes "storage_api E trees sound" "index_ready sound s dd"
    and "index_wf (se_json E) (index_trees trees s dd)"
  shows "\<exists>mds. fst (index_list_objects E dd b pfx mx s) =
       Inr (take (case mx of None \<Rightarrow> 1000 | Some m \<Rightarrow> m) (filter (prefix_matches pfx) mds)) \<and>
     sorted_wrt (\<lambda>m n. om_key m < om_key n) mds \<and>
     set mds = {m. \<exists>k. index_view E trees s dd b k = Some m}"
proof -
  obtain s' mds where "index_list_objects E dd b pfx mx s =
       (Inr (take (case mx of None \<Rightarrow> 1000 | Some m \<Rightarrow> m) (filter (prefix_matches pfx) mds)), s')"
    "sorted_wrt (\<lambda>m n. om_key m < om_key n) mds"
    "set mds = {m. \<exists>k. index_view E trees s dd b k = Some m}"
    by (rule storage_api.list_view [OF assms])
  then show ?thesis by auto
qed

text \<open>Three objects, filed in an order that is not that of their keys.\<close>

definition filed :: "string \<Rightarrow> object_metadata" where
  "filed k = \<lparr> om_bucket = ''b'', om_key = k, size_bytes = word_of_nat 5, om_created_at = ''t1'', modified_at = ''t2'',
     etag = ''tag'', om_policy = policy_display Cold, om_replicas = replicas Cold \<rparr>"

definition file_key :: "string \<Rightarrow> ref_db disk \<Rightarrow> ref_db disk" where
  "file_key k s = snd (index_put_object ref_env ''t1'' ''t2'' ''/data'' ''b'' k ''tag'' 5 Cold s)"

definition three_filed :: "ref_db disk" where
  "three_filed = file_key ''x'' (file_key ''l/a'' (file_key ''l/b'' ref_disk))"

lemma file_key:
  assumes "index_ready ref_sound s ''/data''" "index_wf (se_json ref_env) (index_trees ref_trees s ''/data'')"
  shows "index_ready ref_sound (file_key k s) ''/data''"
    "index_wf (se_json ref_env) (index_trees ref_trees (file_key k s) ''/data'')"
    "index_view ref_env ref_trees (file_key k s) ''/data'' ''b'' k' =
      (if k' = k then Some (filed k) else index_view ref_env ref_trees s ''/data'' ''b'' k')"
proof -
  obtain s' where s': "index_put_object ref_env ''t1'' ''t2'' ''/data'' ''b'' k ''tag'' 5 Cold s = (Inr (), s')"
    "index_ready ref_sound s' ''/data''"
    "index_trees ref_trees s' ''/data'' = sled_effect (Insert (bucket_tree ''b'') (str_bytes k) (json_api.json (se_json ref_env) (filed k)))
       (sled_effect (OpenTree (bucket_tree ''b'')) (index_trees ref_trees s ''/data''))"
    by (rule ref_store.put_ready [OF assms(1) filed_def])
  have f: "file_key k s = s'" using s'(1) by (simp add: file_key_def)
  show "index_ready ref_sound (file_key k s) ''/data''" unfolding f by (rule s'(2))
  show "index_wf (se_json ref_env) (index_trees ref_trees (file_key k s) ''/data'')"
    unfolding f s'(3) by (rule ref_store.wf_insert) (simp_all only: ref_store.wf_open assms(2) filed_def object_metadata.simps)
  show "index_view ref_env ref_trees (file_key k s) ''/data'' ''b'' k' =
      (if k' = k then Some (filed k) else index_view ref_env ref_trees s ''/data'' ''b'' k')"
    unfolding f index_view_def s'(3) by (simp only: ref_store.view_insert ref_store.view_open simp_thms)
qed

lemma three_filed:
  "index_ready ref_sound three_filed ''/data''" "index_wf (se_json ref_env) (index_trees ref_trees three_filed ''/data'')"
  "{m. \<exists>k. index_view ref_env ref_trees three_filed ''/data'' ''b'' k = Some m} = {filed ''l/a'', filed ''l/b'', filed ''x''}"
proof -
  have none: "index_view ref_env ref_trees ref_disk ''/data'' ''b'' k = None" for k
    by (simp add: index_view_def trees_view_def index_trees_def index_db_def ref_disk_def tree_of_ref ref_tree_def)
  note one = file_key [OF ref_disk_ready ref_disk_wf, of "''l/b''"]
  note two = file_key [OF one(1,2), of "''l/a''"]
  note three = file_key [OF two(1,2), of "''x''", folded three_filed_def]
  show "index_ready ref_sound three_filed ''/data''" "index_wf (se_json ref_env) (index_trees ref_trees three_filed ''/data'')"
    by (rule three)+
  have v: "index_view ref_env ref_trees three_filed ''/data'' ''b'' k =
      (if k = ''x'' then Some (filed ''x'') else if k = ''l/a'' then Some (filed ''l/a'')
       else if k = ''l/b'' then Some (filed ''l/b'') else None)" for k
    by (simp only: one(3) two(3) three(3) none)
  have "(\<exists>k. index_view ref_env ref_trees three_filed ''/data'' ''b'' k = Some m) \<longleftrightarrow>
      m = filed ''l/a'' \<or> m = filed ''l/b'' \<or> m = filed ''x''" for m
  proof
    assume "\<exists>k. index_view ref_env ref_trees three_filed ''/data'' ''b'' k = Some m"
    then obtain k where "index_view ref_env ref_trees three_filed ''/data'' ''b'' k = Some m" by blast
    then show "m = filed ''l/a'' \<or> m = filed ''l/b'' \<or> m = filed ''x''" unfolding v by (simp split: if_split_asm)
  next
    assume "m = filed ''l/a'' \<or> m = filed ''l/b'' \<or> m = filed ''x''"
    then show "\<exists>k. index_view ref_env ref_trees three_filed ''/data'' ''b'' k = Some m"
      unfolding v by (elim disjE) (rule exI [of _ "''l/a''"], simp, rule exI [of _ "''l/b''"], simp, rule exI [of _ "''x''"], simp)
  qed
  then show "{m. \<exists>k. index_view ref_env ref_trees three_filed ''/data'' ''b'' k = Some m} = {filed ''l/a'', filed ''l/b'', filed ''x''}"
    by (simp only: insert_compr mem_Collect_eq empty_iff) (simp only: empty_iff simp_thms)
qed

theorem index_list_refines_witness:
  "fst (index_list_objects ref_env ''/data'' ''b'' (Some ''l/'') (Some 1) three_filed) = Inr [filed ''l/a''] \<and>
   fst (index_list_objects ref_env ''/data'' ''b'' (Some ''l/'') None three_filed) = Inr [filed ''l/a'', filed ''l/b''] \<and>
   fst (index_list_objects ref_env ''/data'' ''b'' None None three_filed) = Inr [filed ''l/a'', filed ''l/b'', filed ''x'']"
proof -
  let ?all = "[filed ''l/a'', filed ''l/b'', filed ''x'']"
  have s: "sorted_wrt (\<lambda>m n. om_key m < om_key n) ?all" by (simp add: filed_def)
  have "fst (index_list_objects ref_env ''/data'' ''b'' pfx mx three_filed) =
      Inr (take (case mx of None \<Rightarrow> 1000 | Some m \<Rightarrow> m) (filter (prefix_matches pfx) ?all))" for pfx mx
  proof -
    obtain mds where m: "fst (index_list_objects ref_env ''/data'' ''b'' pfx mx three_filed) =
        Inr (take (case mx of None \<Rightarrow> 1000 | Some m \<Rightarrow> m) (filter (prefix_matches pfx) mds))"
      "sorted_wrt (\<lambda>m n. om_key m < om_key n) mds" "set mds = set ?all"
      using index_list_refines [OF ref_store.storage_api_axioms three_filed(1,2), of "''b''" pfx mx] three_filed(3) by auto
    with sorted_by_unique [OF m(2) s m(3)] show ?thesis by simp
  qed
  then show ?thesis by (simp add: prefix_matches_def starts_with_def filed_def)
qed

lemma bucket_names_set:
  "list_all (\<lambda>n. valid_utf8 (str_bytes n)) ns \<Longrightarrow> \<exists>bs. bucket_names ns = Inr bs \<and> set bs = {b. bucket_tree b \<in> set ns}"
proof (induction ns)
  case (Cons n ns)
  then obtain bs where "bucket_names ns = Inr bs" "set bs = {b. bucket_tree b \<in> set ns}" by auto
  moreover have "strip_prefix n ''bucket:'' = Some b \<longleftrightarrow> n = bucket_tree b" for b
    by (auto simp: strip_prefix_def starts_with_iff bucket_tree_def)
  ultimately show ?case using Cons.prems by (cases "strip_prefix n ''bucket:''") (force simp: bind_res_def)+
qed simp

text \<open>
  The list of buckets: on a sound, open index whose tree names are UTF-8, it names exactly the
  buckets that have a tree, and changes nothing.
\<close>

lemma list_buckets_exact:
  assumes "storage_api E trees sound" "index_ready sound s dd"
    and "\<And>n. index_trees trees s dd n \<noteq> None \<Longrightarrow> valid_utf8 (str_bytes n)"
  shows "\<exists>bs. list_buckets E dd s = (Inr bs, s) \<and> set bs = {b. index_trees trees s dd (bucket_tree b) \<noteq> None}"
proof -
  note api = assms(1)
  have sled: "sled_api (se_sled E) trees sound" using api by (simp add: storage_api_def)
  from assms(2) obtain d where d: "index_db s dd = Some d" "sound d" by (auto simp: index_ready_def)
  then have t: "index_trees trees s dd = trees d" by (simp add: index_trees_def)
  have names: "set (sled_tree_names (se_sled E) d) = dom (trees d)" by (rule sled_api.names_sound [OF sled d(2)])
  have "list_all (\<lambda>n. valid_utf8 (str_bytes n)) (sled_tree_names (se_sled E) d)"
    using assms(3) names t by (auto simp: list_all_iff)
  from bucket_names_set [OF this] obtain bs where
    "bucket_names (sled_tree_names (se_sled E) d) = Inr bs" "set bs = {b. bucket_tree b \<in> dom (trees d)}"
    using names by auto
  then show ?thesis
    using d(1) t storage_api.get_db_ready [OF api assms(2)]
    by (auto simp: list_buckets_def bind_op_def db_read_def index_db_def)
qed

text \<open>
  The existence check of a bucket creates the bucket: on a sound, open index it answers true for
  every name, and afterwards the bucket's tree is there.
\<close>

theorem bucket_exists_creates:
  assumes "storage_api E trees sound" "index_ready sound s dd"
  shows "\<exists>s'. bucket_exists E dd b s = (Inr True, s') \<and> index_ready sound s' dd \<and>
    index_trees trees s' dd (bucket_tree b) \<noteq> None"
proof -
  note api = assms(1)
  obtain s' where "db_do E SledErr (path_key (db_path dd)) (OpenTree (bucket_tree b)) s = (Inr (), s')"
    "index_ready sound s' dd"
    "index_trees trees s' dd = sled_effect (OpenTree (bucket_tree b)) (index_trees trees s dd)"
    by (rule storage_api.db_do_ready [OF api assms(2)])
  then show ?thesis
    by (simp add: bucket_exists_def bind_op_def storage_api.get_db_ready [OF api assms(2)]
        sled_effect.simps)
qed

theorem bucket_exists_creates_witness:
  "\<exists>s'. bucket_exists ref_env ''/data'' ''missing'' ref_disk = (Inr True, s') \<and>
    index_ready ref_sound s' ''/data'' \<and>
    index_trees ref_trees s' ''/data'' (bucket_tree ''missing'') \<noteq> None"
  by (rule bucket_exists_creates [OF ref_store.storage_api_axioms ref_disk_ready])

end
