(* ===== verification/Chunks.thy ===== *)
theory Chunks
  imports Erasure Index
begin

text \<open>
  The object store, \<open>agent/src/storage/chunks.rs\<close> and the entry points of
  \<open>agent/src/storage/mod.rs\<close>: an object is compressed, cut into shards, each shard written to a file
  named after bucket, key and shard number beside a \<open>.meta\<close> file, and its metadata put into the
  index. Reading goes the other way and checks the digest.
\<close>

section \<open>Operations\<close>

definition on_fs :: "(io_error, fs, 'a) op \<Rightarrow> (storage_error, 'd disk, 'a) op" where
  "on_fs m s = (let (r, f) = m (d_fs s) in (map_err IoErr r, s\<lparr>d_fs := f\<rparr>))"

definition compress :: "blob_codec \<Rightarrow> bytes \<Rightarrow> nat \<Rightarrow> storage_error + bytes" where
  "compress B data level =
     (if level = 0 then Inr data else map_err ZstdErr (zstd_encode B data level))"

definition decompress :: "blob_codec \<Rightarrow> bytes \<Rightarrow> storage_error + bytes" where
  "decompress B data = map_err DecompressFailed (zstd_decode B data)"

definition chunks_dir :: "string \<Rightarrow> string \<Rightarrow> string" where
  "chunks_dir data_dir bucket = path_join (path_join data_dir ''chunks'') bucket"

text \<open>\<open>format!("{}-{}", bucket, key).replace("/", "-")\<close>.\<close>

definition object_id :: "string \<Rightarrow> string \<Rightarrow> string" where
  "object_id bucket key = slash_to_dash (bucket @ ''-'' @ key)"

definition chunk_id :: "string \<Rightarrow> nat \<Rightarrow> string" where
  "chunk_id oid i = oid @ ''-shard-'' @ show_nat i"

definition shard_meta_text :: "nat \<Rightarrow> string \<Rightarrow> nat \<Rightarrow> string" where
  "shard_meta_text i hash original_size =
     ''shard='' @ show_nat i @ '',hash='' @ hash @ '',original_size='' @ show_nat original_size"

fun write_shards ::
  "blob_codec \<Rightarrow> string \<Rightarrow> string \<Rightarrow> nat \<Rightarrow> nat \<Rightarrow> bytes list \<Rightarrow> (io_error, fs, unit) op"
where
  "write_shards B dir oid original_size i [] = ret_op ()"
| "write_shards B dir oid original_size i (shard # shards) =
     (let chunk_path = path_join dir (chunk_id oid i); metadata_path = chunk_path @ ''.meta'' in
      bind_op (fs_write chunk_path shard) (\<lambda>_.
      bind_op (fs_write metadata_path
        (str_bytes (shard_meta_text i (sha_hex B shard) original_size))) (\<lambda>_.
      write_shards B dir oid original_size (Suc i) shards)))"

text \<open>The readings of the clock: two for the index entry, two for the returned metadata.\<close>

definition put_chunks ::
  "'d storage_env \<Rightarrow> string \<times> string \<times> string \<times> string \<Rightarrow> string \<Rightarrow> string \<Rightarrow> string \<Rightarrow> bytes
   \<Rightarrow> storage_policy \<Rightarrow> (storage_error, 'd disk, object_metadata) op"
where
  "put_chunks E now data_dir bucket key data policy =
     (let dir = chunks_dir data_dir bucket; (n1, n2, n3, n4) = now in
      bind_op (on_fs (fs_create_dir_all dir)) (\<lambda>_.
      let object_etag = sha_hex (se_blob E) data; oid = object_id bucket key;
          level = zstd_level policy in
      bind_op (lift_op (compress (se_blob E) data level)) (\<lambda>compressed.
      let (data_shards, parity_shards) =
            (case erasure_coding policy of None \<Rightarrow> (1, 0) | Some dp \<Rightarrow> dp) in
      bind_op (lift_op (encode_erasure compressed data_shards parity_shards)) (\<lambda>shards.
      bind_op (on_fs (write_shards (se_blob E) dir oid (length data) 0 shards)) (\<lambda>_.
      bind_op (index_put_object E n1 n2 data_dir bucket key object_etag (length data) policy) (\<lambda>_.
      ret_op \<lparr> om_bucket = bucket, om_key = key, size_bytes = word_of_nat (length data),
        om_created_at = n3, modified_at = n4, etag = object_etag,
        om_policy = to_lower (policy_debug policy), om_replicas = replicas policy \<rparr>))))))"

text \<open>Shard files are read in order; a missing parity shard is skipped.\<close>

fun load_shards ::
  "fs \<Rightarrow> string \<Rightarrow> string \<Rightarrow> nat \<Rightarrow> nat list \<Rightarrow> storage_error + bytes list"
where
  "load_shards f dir oid data_shards [] = Inr []"
| "load_shards f dir oid data_shards (i # is) =
     (let chunk_path = path_join dir (chunk_id oid i) in
      if path_exists f chunk_path
      then bind_res (map_err IoErr (fs_read chunk_path f)) (\<lambda>b.
           bind_res (load_shards f dir oid data_shards is) (\<lambda>bs. Inr (b # bs)))
      else if i < data_shards then Inl InsufficientShards
      else load_shards f dir oid data_shards is)"

text \<open>What follows the index lookup, on the files alone.\<close>

definition read_object ::
  "blob_codec \<Rightarrow> fs \<Rightarrow> string \<Rightarrow> string \<Rightarrow> string \<Rightarrow> object_metadata \<Rightarrow> storage_error + bytes"
where
  "read_object B f data_dir bucket key metadata =
     (let (data_shards, parity_shards, level) = chunk_layout (om_policy metadata) in
      bind_res (load_shards f (chunks_dir data_dir bucket) (object_id bucket key) data_shards
        [0..<data_shards + parity_shards]) (\<lambda>shards.
      bind_res (decode_erasure shards data_shards parity_shards) (\<lambda>compressed.
      bind_res (if level > 0 then decompress B compressed else Inr compressed) (\<lambda>data.
      if sha_hex B data \<noteq> etag metadata then Inl (DataCorruption (etag metadata) (sha_hex B data))
      else Inr data))))"

definition get_chunks ::
  "'d storage_env \<Rightarrow> string \<Rightarrow> string \<Rightarrow> string \<Rightarrow> (storage_error, 'd disk, bytes) op"
where
  "get_chunks E data_dir bucket key =
     bind_op (index_get_object E data_dir bucket key) (\<lambda>metadata s.
       (read_object (se_blob E) (d_fs s) data_dir bucket key metadata, s))"

text \<open>\<open>read_shards\<close> builds the object id from the bucket as it is and the key with dashes.\<close>

definition replica_object_id :: "string \<Rightarrow> string \<Rightarrow> string" where
  "replica_object_id bucket key = bucket @ ''-'' @ slash_to_dash key"

fun read_shard_files ::
  "blob_codec \<Rightarrow> fs \<Rightarrow> string \<Rightarrow> string \<Rightarrow> nat list \<Rightarrow> storage_error + (nat \<times> string \<times> bytes) list"
where
  "read_shard_files B f dir oid [] = Inr []"
| "read_shard_files B f dir oid (i # is) =
     (let shard_path = path_join dir (chunk_id oid i) in
      if path_exists f shard_path
      then bind_res (map_err IoErr (fs_read shard_path f)) (\<lambda>data.
           bind_res (read_shard_files B f dir oid is) (\<lambda>r. Inr ((i, sha_hex B data, data) # r)))
      else read_shard_files B f dir oid is)"

definition read_shards ::
  "'d storage_env \<Rightarrow> string \<Rightarrow> string \<Rightarrow> string
   \<Rightarrow> (storage_error, 'd disk, (nat \<times> string \<times> bytes) list) op"
where
  "read_shards E data_dir bucket key =
     bind_op (index_get_object E data_dir bucket key) (\<lambda>meta s.
       (read_shard_files (se_blob E) (d_fs s) (chunks_dir data_dir bucket)
          (replica_object_id bucket key) [0..<total_shards (om_policy meta)], s))"

section \<open>Shard paths\<close>

lemma chunk_id_plain: "CHR ''/'' \<notin> set oid \<Longrightarrow> plain_name (chunk_id oid i)"
proof -
  assume "CHR ''/'' \<notin> set oid"
  moreover have "CHR ''/'' \<notin> set (show_nat i)"
    by (rule digit_char_not) (simp add: char_digit_def)
  moreover have "length (chunk_id oid i) > 1" by (simp add: chunk_id_def)
  ultimately show ?thesis by (auto simp: plain_name_def chunk_id_def)
qed

lemma chunk_meta_plain: "CHR ''/'' \<notin> set oid \<Longrightarrow> plain_name (chunk_id oid i @ ''.meta'')"
  using chunk_id_plain [of oid i] by (auto simp: plain_name_def)

lemma object_id_no_slash: "CHR ''/'' \<notin> set (object_id b k)"
  by (simp add: object_id_def no_slash_slash_to_dash del: slash_to_dash_append)

lemma chunk_id_inj [simp]: "chunk_id oid i = chunk_id oid j \<longleftrightarrow> i = j"
  by (simp add: chunk_id_def)

lemma chunk_id_not_meta: "chunk_id oid i \<noteq> chunk_id oid' j @ ''.meta''"
proof
  assume "chunk_id oid i = chunk_id oid' j @ ''.meta''"
  then have "last (chunk_id oid i) = CHR ''a''" by simp
  then have "last (show_nat i) = CHR ''a''" by (simp add: chunk_id_def)
  then have "CHR ''a'' \<in> set (show_nat i)" by (metis last_in_set show_nat_nonempty)
  moreover have "CHR ''a'' \<notin> set (show_nat i)"
    by (rule digit_char_not) (simp add: char_digit_def)
  ultimately show False by simp
qed

definition shard_path :: "string \<Rightarrow> string \<Rightarrow> nat \<Rightarrow> string" where
  "shard_path dir oid i = path_join dir (chunk_id oid i)"

lemma path_join_app: "\<not> is_absolute n \<Longrightarrow> n \<noteq> [] \<Longrightarrow> path_join d n @ x = path_join d (n @ x)"
  by (cases n) (auto simp: path_join_def is_absolute_def)

lemma shard_key:
  "CHR ''/'' \<notin> set oid \<Longrightarrow> dir \<noteq> [] \<Longrightarrow>
     path_key (shard_path dir oid i) = (is_absolute dir, components dir @ [chunk_id oid i])"
  by (simp add: shard_path_def path_key_join_plain chunk_id_plain)

lemma shard_meta_key:
  "CHR ''/'' \<notin> set oid \<Longrightarrow> dir \<noteq> [] \<Longrightarrow> path_key (shard_path dir oid i @ ''.meta'') =
     (is_absolute dir, components dir @ [chunk_id oid i @ ''.meta''])"
  using chunk_id_plain [of oid i]
  by (simp add: shard_path_def path_join_app plain_name_relative path_key_join_plain
      chunk_meta_plain plain_name_def)

lemma chunks_dir_nonempty [simp]: "dd \<noteq> [] \<Longrightarrow> chunks_dir dd b \<noteq> []"
  by (simp add: chunks_dir_def)

section \<open>Writing and loading shards\<close>

text \<open>The files of an object: each shard and its \<open>.meta\<close> file.\<close>

fun shard_files :: "blob_codec \<Rightarrow> string \<Rightarrow> string \<Rightarrow> nat \<Rightarrow> nat \<Rightarrow> bytes list \<Rightarrow> (string \<times> bytes) list"
where
  "shard_files B dir oid n i [] = []"
| "shard_files B dir oid n i (s # ss) =
     (shard_path dir oid i, s)
     # (shard_path dir oid i @ ''.meta'', str_bytes (shard_meta_text i (sha_hex B s) n))
     # shard_files B dir oid n (Suc i) ss"

lemma write_shards_all: "write_shards B dir oid n i ss f = disk_files.write_all (shard_files B dir oid n i ss) f"
  by (induction B dir oid n i ss arbitrary: f rule: write_shards.induct)
    (auto simp: op_simps Let_def shard_path_def split: prod.splits sum.splits)

lemma shard_files_paths:
  "p \<in> fst ` set (shard_files B dir oid n i ss) \<Longrightarrow>
     \<exists>j \<ge> i. p = shard_path dir oid j \<or> p = shard_path dir oid j @ ''.meta''"
proof (induction ss arbitrary: i)
  case Nil
  then show ?case by simp
next
  case (Cons s ss)
  then consider "p = shard_path dir oid i" | "p = shard_path dir oid i @ ''.meta''"
    | "p \<in> fst ` set (shard_files B dir oid n (Suc i) ss)" by auto
  then show ?case
  proof cases
    case 3
    from Cons.IH [OF this] show ?thesis using Suc_leD by blast
  qed auto
qed

lemma shard_files_distinct:
  assumes "CHR ''/'' \<notin> set oid" "dir \<noteq> []"
  shows "distinct (List.map (path_key \<circ> fst) (shard_files B dir oid n i ss))"
proof (induction ss arbitrary: i)
  case Nil
  then show ?case by simp
next
  case (Cons s ss)
  have "path_key p \<noteq> path_key (shard_path dir oid i) \<and>
      path_key p \<noteq> path_key (shard_path dir oid i @ ''.meta'')"
    if p: "p \<in> fst ` set (shard_files B dir oid n (Suc i) ss)" for p
  proof -
    obtain j where "i < j" "p = shard_path dir oid j \<or> p = shard_path dir oid j @ ''.meta''"
      using shard_files_paths [OF p] by (auto simp: Suc_le_eq)
    then show ?thesis
      using chunk_id_not_meta [of oid i oid j] chunk_id_not_meta [of oid j oid i]
      by (auto simp: shard_key [OF assms] shard_meta_key [OF assms])
  qed
  then have "path_key (shard_path dir oid i) \<notin> path_key ` fst ` set (shard_files B dir oid n (Suc i) ss)"
    and "path_key (shard_path dir oid i @ ''.meta'') \<notin> path_key ` fst ` set (shard_files B dir oid n (Suc i) ss)"
    by (rule_tac notin_imageI; blast)+
  moreover have "path_key (shard_path dir oid i) \<noteq> path_key (shard_path dir oid i @ ''.meta'')"
    using assms chunk_id_not_meta by (simp add: shard_key shard_meta_key)
  ultimately show ?case using Cons.IH [of "Suc i"] by (simp add: image_image)
qed

lemma shard_in_files: "j < length ss \<Longrightarrow> (shard_path dir oid (i + j), ss ! j) \<in> set (shard_files B dir oid n i ss)"
proof (induction ss arbitrary: i j)
  case Nil
  then show ?case by simp
next
  case (Cons s ss)
  then show ?case using Cons.IH [of "j - 1" "Suc i"] by (cases j) auto
qed

lemma write_shards_file:
  assumes "write_shards B dir oid n 0 ss f = (Inr u, g)" "CHR ''/'' \<notin> set oid" "dir \<noteq> []"
    "j < length ss"
  shows "file_at g (shard_path dir oid j) = Some (ss ! j)"
  using disk_files.write_all_in [OF assms(1) [unfolded write_shards_all] shard_files_distinct [OF assms(2,3)]]
    shard_in_files [OF assms(4), of dir oid 0] by simp

lemma write_shards_other:
  assumes "write_shards B dir oid n 0 ss f = (Inr u, g)"
    and "\<And>j. path_key q \<noteq> path_key (shard_path dir oid j)"
    and "\<And>j. path_key q \<noteq> path_key (shard_path dir oid j @ ''.meta'')"
  shows "file_at g q = file_at f q"
proof (rule disk_files.write_all_other [OF assms(1) [unfolded write_shards_all]])
  show "path_key q \<notin> path_key ` fst ` set (shard_files B dir oid n 0 ss)"
  proof
    assume "path_key q \<in> path_key ` fst ` set (shard_files B dir oid n 0 ss)"
    then obtain p where p: "p \<in> fst ` set (shard_files B dir oid n 0 ss)" "path_key q = path_key p"
      by (rule imageE)
    from shard_files_paths [OF p(1)] p(2) assms(2,3) show False by metis
  qed
qed

lemma write_shards_frame:
  "write_shards B dir oid n i ss f = (r, g) \<Longrightarrow> fs_dirs g = fs_dirs f \<and> fs_fault g = fs_fault f"
  by (induction B dir oid n i ss arbitrary: f rule: write_shards.induct)
    (auto simp: op_simps Let_def fs_simps split: prod.split_asm sum.split_asm)

lemma load_shards_append:
  "load_shards f dir oid ds (xs @ ys) =
     bind_res (load_shards f dir oid ds xs) (\<lambda>as. bind_res (load_shards f dir oid ds ys) (\<lambda>bs. Inr (as @ bs)))"
  by (induction xs) (auto simp: op_simps Let_def split: sum.splits)

lemma load_shards_files:
  assumes "healthy f" "\<And>i. i \<in> set is \<Longrightarrow> file_at f (shard_path dir oid i) = Some (D i)"
  shows "load_shards f dir oid ds is = Inr (List.map D is)"
  using assms(2)
  by (induction "is")
    (auto simp: op_simps shard_path_def [symmetric] Let_def file_at_exists fs_read_healthy [OF assms(1)])

text \<open>Parity shards may be present, altered or missing, as long as no directory has their name.\<close>

lemma load_shards_optional:
  assumes "healthy f" "\<And>i. i \<in> set is \<Longrightarrow> ds \<le> i"
    "\<And>i. i \<in> set is \<Longrightarrow> \<not> is_dir_key f (path_key (shard_path dir oid i))"
  shows "\<exists>bs. load_shards f dir oid ds is = Inr bs"
  using assms(2,3)
proof (induction "is")
  case Nil
  then show ?case by simp
next
  case (Cons i "is")
  then obtain bs where bs: "load_shards f dir oid ds is = Inr bs" by auto
  show ?case
  proof (cases "file_at f (shard_path dir oid i)")
    case None
    with Cons.prems bs show ?thesis
      by (simp add: Let_def shard_path_def [symmetric] path_exists_def leD)
  next
    case (Some b)
    with bs show ?thesis
      by (simp add: op_simps Let_def shard_path_def [symmetric] file_at_exists fs_read_healthy [OF assms(1)])
  qed
qed

lemma load_shards_missing:
  assumes "healthy f" "\<And>j. j < i \<Longrightarrow> \<exists>b. file_at f (shard_path dir oid j) = Some b"
    and "\<not> path_exists f (shard_path dir oid i)" "i < ds" "ds \<le> n"
  shows "load_shards f dir oid ds [0..<n] = Inl InsufficientShards"
proof -
  from assms(4,5) have "i < n" by simp
  then have split: "[0..<n] = [0..<i] @ i # [Suc i..<n]"
    using upt_add_eq_append [of 0 i "n - i"] by (simp add: upt_conv_Cons)
  from assms(2) obtain D where "\<And>j. j < i \<Longrightarrow> file_at f (shard_path dir oid j) = Some (D j)" by metis
  then have "load_shards f dir oid ds [0..<i] = Inr (List.map D [0..<i])"
    by (intro load_shards_files [OF assms(1)]) auto
  with assms(3,4) show ?thesis
    unfolding split by (simp add: load_shards_append op_simps Let_def shard_path_def [symmetric])
qed

section \<open>Reading an object\<close>

text \<open>
  The shards of an object are on disk: every data shard file holds its shard, and a parity shard
  file that is missing is not a directory either.
\<close>

definition shards_on_disk :: "fs \<Rightarrow> string \<Rightarrow> string \<Rightarrow> bytes list \<Rightarrow> nat \<Rightarrow> nat \<Rightarrow> bool" where
  "shards_on_disk f dir oid sh d m \<longleftrightarrow>
     (\<forall>i < d. file_at f (shard_path dir oid i) = Some (sh ! i)) \<and>
     (\<forall>i < d + m. \<not> is_dir_key f (path_key (shard_path dir oid i)))"

lemma load_shards_on_disk:
  assumes "healthy f" "shards_on_disk f dir oid sh d m" "d \<le> length sh"
  shows "\<exists>bs. load_shards f dir oid d [0..<d + m] = Inr (take d sh @ bs)"
proof -
  have "load_shards f dir oid d [0..<d] = Inr (List.map ((!) sh) [0..<d])"
    by (rule load_shards_files [OF assms(1)]) (use assms(2) in \<open>auto simp: shards_on_disk_def\<close>)
  moreover have "List.map ((!) sh) [0..<d] = take d sh"
    using assms(3) by (simp add: list_eq_iff_nth_eq)
  moreover obtain bs where "load_shards f dir oid d [d..<d + m] = Inr bs"
    using load_shards_optional [OF assms(1), of "[d..<d + m]" d dir oid] assms(2)
    by (auto simp: shards_on_disk_def)
  moreover have "[0..<d + m] = [0..<d] @ [d..<d + m]" using upt_add_eq_append [of 0 d m] by simp
  ultimately show ?thesis
    by (simp add: load_shards_append op_simps)
qed

context zstd_api begin

lemma decompress_compress:
  "compress B data l = Inr c \<Longrightarrow> (if l > 0 then decompress B c else Inr c) = Inr data"
  by (auto simp: compress_def decompress_def zstd_round split: if_splits)

lemma read_object_ok:
  assumes "healthy f" "om_policy md = policy_display p" "etag md = sha_hex B data"
    and "compress B data (zstd_level p) = Inr c" "erasure_fits c"
    and "encode_erasure c (fst (data_parity p)) (snd (data_parity p)) = Inr sh"
    and "shards_on_disk f (chunks_dir dd b) (object_id b k) sh (fst (data_parity p)) (snd (data_parity p))"
  shows "read_object B f dd b k md = Inr data"
proof -
  let ?d = "fst (data_parity p)" and ?m = "snd (data_parity p)"
  have "?d \<le> length sh" using erasure.encode_length [OF assms(6)] by simp
  then obtain bs where "load_shards f (chunks_dir dd b) (object_id b k) ?d [0..<?d + ?m] =
      Inr (take ?d sh @ bs)"
    using load_shards_on_disk [OF assms(1,7)] by blast
  moreover have "decode_erasure (take ?d sh @ bs) ?d ?m = Inr c"
    by (rule erasure.recover [OF data_parity_pos assms(5,6)])
  ultimately show ?thesis
    using assms(2,3) decompress_compress [OF assms(4)]
    by (simp add: read_object_def op_simps)
qed

end

section \<open>What a successful upload did\<close>

lemma put_chunksD:
  assumes "put_chunks E (n1, n2, n3, n4) dd b k data p s = (Inr md, s')"
  obtains c sh f1 f2 where
    "fs_create_dir_all (chunks_dir dd b) (d_fs s) = (Inr (), f1)"
    "compress (se_blob E) data (zstd_level p) = Inr c"
    "encode_erasure c (fst (data_parity p)) (snd (data_parity p)) = Inr sh"
    "write_shards (se_blob E) (chunks_dir dd b) (object_id b k) (length data) 0 sh f1 = (Inr (), f2)"
    "index_put_object E n1 n2 dd b k (sha_hex (se_blob E) data) (length data) p (s\<lparr>d_fs := f2\<rparr>) = (Inr (), s')"
    "md = \<lparr> om_bucket = b, om_key = k, size_bytes = word_of_nat (length data),
        om_created_at = n3, modified_at = n4, etag = sha_hex (se_blob E) data,
        om_policy = policy_display p, om_replicas = replicas p \<rparr>"
proof -
  obtain d m where dm: "(case erasure_coding p of None \<Rightarrow> (1, 0) | Some dp \<Rightarrow> dp) = (d, m)"
    by (cases "case erasure_coding p of None \<Rightarrow> (1, 0) | Some dp \<Rightarrow> dp")
  then have dp: "data_parity p = (d, m)" by (simp add: data_parity_def)
  from assms dm that show ?thesis
    unfolding put_chunks_def dp
    by (auto simp: op_simps Let_def on_fs_def split: prod.split_asm sum.split_asm)
qed

lemma d_fs_index [simp]:
  "index_db (s\<lparr>d_fs := f\<rparr>) dd = index_db s dd"
  "index_trees tr (s\<lparr>d_fs := f\<rparr>) dd = index_trees tr s dd"
  "index_ready sound (s\<lparr>d_fs := f\<rparr>) dd = index_ready sound s dd"
  "index_view E tr (s\<lparr>d_fs := f\<rparr>) dd = index_view E tr s dd"
  by (simp_all add: index_db_def index_trees_def index_ready_def index_view_def)

lemma write_shards_not_dir:
  assumes "write_shards B dir oid n i ss f = (Inr u, g)" "j < length ss"
  shows "\<not> is_dir_key g (path_key (shard_path dir oid (i + j)))"
  using assms
proof (induction ss arbitrary: i j f)
  case Nil
  then show ?case by simp
next
  case (Cons s ss)
  from Cons.prems(1) obtain f1 f2 where
    w: "fs_write (shard_path dir oid i) s f = (Inr (), f1)"
    and m: "fs_write (shard_path dir oid i @ ''.meta'') (str_bytes (shard_meta_text i (sha_hex B s) n)) f1 = (Inr (), f2)"
    and r: "write_shards B dir oid n (Suc i) ss f2 = (Inr u, g)"
    by (auto simp: op_simps Let_def shard_path_def split: prod.split_asm sum.split_asm)
  show ?case
  proof (cases j)
    case 0
    have "fs_dirs g = fs_dirs f"
      using write_shards_frame [OF r] fs_write_dirs [OF m] fs_write_dirs [OF w] by simp
    moreover have "\<not> is_dir_key f (path_key (shard_path dir oid i))"
      using w by (auto simp: fs_write_def split: option.split_asm if_split_asm)
    ultimately show ?thesis using 0 by (simp add: is_dir_key_def)
  next
    case (Suc j')
    then show ?thesis using Cons.IH [OF r, of j'] Cons.prems(2) by simp
  qed
qed

text \<open>After an upload the shards are on disk and the index has the object.\<close>

lemma put_chunks_result:
  assumes api: "storage_api E trees sound" and ready: "index_ready sound s dd" and "dd \<noteq> []"
    and put: "put_chunks E (n1, n2, n3, n4) dd b k data p s = (Inr md, s')"
  obtains c sh where
    "compress (se_blob E) data (zstd_level p) = Inr c"
    "encode_erasure c (fst (data_parity p)) (snd (data_parity p)) = Inr sh"
    "shards_on_disk (d_fs s') (chunks_dir dd b) (object_id b k) sh (fst (data_parity p)) (snd (data_parity p))"
    "\<forall>i < length sh. file_at (d_fs s') (shard_path (chunks_dir dd b) (object_id b k) i) = Some (sh ! i)"
    "index_ready sound s' dd"
    "index_trees trees s' dd = sled_effect (Insert (bucket_tree b) (str_bytes k)
       (json_api.json (se_json E) (md\<lparr>om_created_at := n1, modified_at := n2\<rparr>)))
         (sled_effect (OpenTree (bucket_tree b)) (index_trees trees s dd))"
    "om_policy md = policy_display p" "etag md = sha_hex (se_blob E) data" "om_bucket md = b" "om_key md = k"
    "fs_fault (d_fs s') = fs_fault (d_fs s)"
proof -
  from put_chunksD [OF put] obtain c sh f1 f2 where
    mk: "fs_create_dir_all (chunks_dir dd b) (d_fs s) = (Inr (), f1)"
    and c: "compress (se_blob E) data (zstd_level p) = Inr c"
    and sh: "encode_erasure c (fst (data_parity p)) (snd (data_parity p)) = Inr sh"
    and w: "write_shards (se_blob E) (chunks_dir dd b) (object_id b k) (length data) 0 sh f1 = (Inr (), f2)"
    and i: "index_put_object E n1 n2 dd b k (sha_hex (se_blob E) data) (length data) p (s\<lparr>d_fs := f2\<rparr>) = (Inr (), s')"
    and md: "md = \<lparr> om_bucket = b, om_key = k, size_bytes = word_of_nat (length data),
        om_created_at = n3, modified_at = n4, etag = sha_hex (se_blob E) data,
        om_policy = policy_display p, om_replicas = replicas p \<rparr>"
    by metis
  from ready have "index_ready sound (s\<lparr>d_fs := f2\<rparr>) dd" by simp
  from storage_api.put_ready [OF api this refl, of n1 n2 b k "sha_hex (se_blob E) data" "length data" p] i
  have s': "index_ready sound s' dd" "d_fs s' = f2"
    "index_trees trees s' dd = sled_effect (Insert (bucket_tree b) (str_bytes k)
       (json_api.json (se_json E) (md\<lparr>om_created_at := n1, modified_at := n2\<rparr>)))
         (sled_effect (OpenTree (bucket_tree b)) (index_trees trees s dd))"
    unfolding md by (metis (no_types, lifting) d_fs_index(2) disk.select_convs(1) disk.surjective
        disk.update_convs(1) object_metadata.update_convs(4,5) prod.inject)+
  have len: "length sh = fst (data_parity p) + snd (data_parity p)"
    by (rule erasure.encode_length [OF sh])
  have files: "file_at f2 (shard_path (chunks_dir dd b) (object_id b k) i) = Some (sh ! i)"
    if "i < length sh" for i
    by (rule write_shards_file [OF w object_id_no_slash]) (use \<open>dd \<noteq> []\<close> that in simp_all)
  then have "shards_on_disk f2 (chunks_dir dd b) (object_id b k) sh (fst (data_parity p)) (snd (data_parity p))"
    using write_shards_not_dir [OF w] len by (auto simp: shards_on_disk_def)
  moreover have "fs_fault f2 = fs_fault (d_fs s)"
    using write_shards_frame [OF w] create_dir_fault [OF mk] by simp
  ultimately show ?thesis
    using that [OF c sh _ _ s'(1,3)] s'(2) files md by simp
qed

end
