(* ===== verification/Object_Store.thy ===== *)
theory Object_Store
  imports Chunks
begin

text \<open>
  The entry points of \<open>agent/src/storage/mod.rs\<close> and what the object store promises: an upload
  succeeds on a healthy disk and is read back, other objects are not disturbed, a damaged or missing
  shard is reported, and the places where the file naming breaks these promises.
\<close>

section \<open>Entry points\<close>

definition init_storage :: "'d storage_env \<Rightarrow> string \<Rightarrow> (storage_error, 'd disk, unit) op" where
  "init_storage E data_dir = bind_op (init_index E data_dir) (\<lambda>_. ret_op ())"

definition put_object ::
  "'d storage_env \<Rightarrow> string \<times> string \<times> string \<times> string \<Rightarrow> string \<Rightarrow> string \<Rightarrow> string \<Rightarrow> bytes
   \<Rightarrow> storage_policy \<Rightarrow> (storage_error, 'd disk, object_metadata) op"
where
  "put_object E now data_dir bucket key data policy =
     put_chunks E now data_dir bucket key data policy"

definition get_object ::
  "'d storage_env \<Rightarrow> string \<Rightarrow> string \<Rightarrow> string \<Rightarrow> (storage_error, 'd disk, bytes) op"
where
  "get_object E data_dir bucket key = get_chunks E data_dir bucket key"

definition delete_object ::
  "'d storage_env \<Rightarrow> string \<Rightarrow> string \<Rightarrow> string \<Rightarrow> (storage_error, 'd disk, unit) op"
where
  "delete_object E data_dir bucket key = index_delete_object E data_dir bucket key"

definition list_objects ::
  "'d storage_env \<Rightarrow> string \<Rightarrow> string \<Rightarrow> string option \<Rightarrow> nat option
   \<Rightarrow> (storage_error, 'd disk, object_metadata list) op"
where
  "list_objects E data_dir bucket prefix_opt max_keys =
     index_list_objects E data_dir bucket prefix_opt max_keys"

lemmas store_defs = put_object_def get_object_def delete_object_def list_objects_def

section \<open>Uploads succeed\<close>

text \<open>
  A disk an object can be written to: no faults, the chunk directory can be made, and no directory
  has the name of one of the object's files.
\<close>

definition can_store :: "fs \<Rightarrow> string \<Rightarrow> string \<Rightarrow> bool" where
  "can_store f dir oid \<longleftrightarrow> healthy f \<and> is_ok (fst (fs_create_dir_all dir f)) \<and>
     (\<forall>i. \<not> is_dir_key f (path_key (shard_path dir oid i)) \<and>
          \<not> is_dir_key f (path_key (shard_path dir oid i @ ''.meta'')))"

lemma create_dir_dirs:
  "fs_create_dir_all p f = (r, g) \<Longrightarrow> is_dir_key g k \<Longrightarrow> is_dir_key f k \<or> k \<in> set (ancestor_keys (path_key p))"
  by (auto simp: fs_create_dir_all_def is_dir_key_def split: option.splits if_splits)

lemma is_dir_create_dir: "is_dir_key f k \<Longrightarrow> fs_create_dir_all p f = (r, g) \<Longrightarrow> is_dir_key g k"
  by (auto simp: fs_create_dir_all_def is_dir_key_def split: option.splits if_splits)

lemma ancestor_short: "k \<in> set (ancestor_keys (path_key p)) \<Longrightarrow> length (snd k) \<le> length (components p)"
  by (auto simp: ancestor_keys_def path_key_def)

lemma shard_not_ancestor:
  assumes "CHR ''/'' \<notin> set oid" "dir \<noteq> []" "length (components dir') \<le> length (components dir)"
  shows "path_key (shard_path dir oid i) \<notin> set (ancestor_keys (path_key dir'))"
    and "path_key (shard_path dir oid i @ ''.meta'') \<notin> set (ancestor_keys (path_key dir'))"
  using ancestor_short [of _ dir'] assms(3)
  by (fastforce simp: shard_key [OF assms(1,2)] shard_meta_key [OF assms(1,2)])+

lemma fs_write_into:
  assumes "healthy f" "\<not> is_dir_key f (path_key p)" "is_dir_key f (parent_key (path_key p))"
  shows "fs_write p b f = (Inr (), f\<lparr>fs_files := hput (path_key p) b (fs_files f)\<rparr>)"
  using assms by (simp add: fs_write_def healthy_def)

lemma is_dir_key_files [simp]: "is_dir_key (f\<lparr>fs_files := x\<rparr>) k = is_dir_key f k"
  by (simp add: is_dir_key_def)

lemma healthy_files [simp]: "healthy (f\<lparr>fs_files := x\<rparr>) = healthy f"
  by (simp add: healthy_def)

lemma write_shards_succeeds:
  assumes "healthy f" "CHR ''/'' \<notin> set oid" "dir \<noteq> []" "is_dir_key f (path_key dir)"
    and "\<And>j. \<not> is_dir_key f (path_key (shard_path dir oid j))"
    and "\<And>j. \<not> is_dir_key f (path_key (shard_path dir oid j @ ''.meta''))"
  shows "\<exists>g. write_shards B dir oid n i ss f = (Inr (), g)"
  using assms(1,4,5,6)
proof (induction ss arbitrary: i f)
  case Nil
  then show ?case by (simp add: op_simps)
next
  case (Cons s ss)
  have parent: "parent_key (path_key (shard_path dir oid j)) = path_key dir"
    "parent_key (path_key (shard_path dir oid j @ ''.meta'')) = path_key dir" for j
    using assms(2,3) by (simp_all add: parent_key_def shard_key shard_meta_key) (simp_all add: path_key_def)
  let ?f1 = "f\<lparr>fs_files := hput (path_key (shard_path dir oid i)) s (fs_files f)\<rparr>"
  let ?m = "str_bytes (shard_meta_text i (sha_hex B s) n)"
  let ?f2 = "?f1\<lparr>fs_files := hput (path_key (shard_path dir oid i @ ''.meta'')) ?m (fs_files ?f1)\<rparr>"
  have "fs_write (shard_path dir oid i) s f = (Inr (), ?f1)"
    using Cons.prems by (simp add: fs_write_into parent)
  moreover have "fs_write (shard_path dir oid i @ ''.meta'') ?m ?f1 = (Inr (), ?f2)"
    by (rule fs_write_into) (use Cons.prems in \<open>simp_all add: parent\<close>)
  moreover have "\<exists>g. write_shards B dir oid n (Suc i) ss ?f2 = (Inr (), g)"
    by (rule Cons.IH) (use Cons.prems in simp_all)
  ultimately show ?case
    by (auto simp: op_simps Let_def shard_path_def)
qed

lemma can_store_dir:
  assumes "can_store f dir oid" "CHR ''/'' \<notin> set oid" "dir \<noteq> []"
  obtains f1 where "fs_create_dir_all dir f = (Inr (), f1)" "healthy f1" "is_dir_key f1 (path_key dir)"
    "\<And>j. \<not> is_dir_key f1 (path_key (shard_path dir oid j))"
    "\<And>j. \<not> is_dir_key f1 (path_key (shard_path dir oid j @ ''.meta''))"
proof -
  obtain r f1 where f1: "fs_create_dir_all dir f = (r, f1)" by fastforce
  with assms(1) have "r = Inr ()" by (cases r) (simp_all add: can_store_def)
  with f1 have f1: "fs_create_dir_all dir f = (Inr (), f1)" by simp
  have "\<not> is_dir_key f1 (path_key (shard_path dir oid j))"
    "\<not> is_dir_key f1 (path_key (shard_path dir oid j @ ''.meta''))" for j
    using create_dir_dirs [OF f1, of "path_key (shard_path dir oid j)"]
      create_dir_dirs [OF f1, of "path_key (shard_path dir oid j @ ''.meta'')"]
      shard_not_ancestor [OF assms(2,3), of dir] assms(1)
    unfolding can_store_def by blast+
  then show ?thesis
    using that [OF f1] create_dir_healthy [OF f1] create_dir_is_dir [OF f1] assms(1)
    by (simp add: can_store_def)
qed

context storage_api begin

lemma put_chunks_succeeds:
  assumes "index_ready sound s dd" "dd \<noteq> []"
    and store: "can_store (d_fs s) (chunks_dir dd b) (object_id b k)"
    and c: "compress (se_blob E) data (zstd_level p) = Inr c"
  obtains md s' where "put_chunks E (n1, n2, n3, n4) dd b k data p s = (Inr md, s')"
proof -
  obtain d m where dm: "(case erasure_coding p of None \<Rightarrow> (1, 0) | Some dp \<Rightarrow> dp) = (d, m)"
    by (cases "case erasure_coding p of None \<Rightarrow> (1, 0) | Some dp \<Rightarrow> dp")
  then have "data_parity p = (d, m)" by (simp add: data_parity_def)
  then have "0 < d" using data_parity_pos [of p] by simp
  then obtain sh where sh: "encode_erasure c d m = Inr sh" using encode_erasure_total by blast
  obtain f1 where f1: "fs_create_dir_all (chunks_dir dd b) (d_fs s) = (Inr (), f1)" "healthy f1"
    "is_dir_key f1 (path_key (chunks_dir dd b))"
    "\<And>j. \<not> is_dir_key f1 (path_key (shard_path (chunks_dir dd b) (object_id b k) j))"
    "\<And>j. \<not> is_dir_key f1 (path_key (shard_path (chunks_dir dd b) (object_id b k) j @ ''.meta''))"
    by (rule can_store_dir [OF store object_id_no_slash]) (use \<open>dd \<noteq> []\<close> in simp_all)
  obtain f2 where f2: "write_shards (se_blob E) (chunks_dir dd b) (object_id b k) (length data) 0 sh f1 = (Inr (), f2)"
    using write_shards_succeeds [OF f1(2) object_id_no_slash _ f1(3,4,5)] \<open>dd \<noteq> []\<close> by fastforce
  have "index_ready sound (s\<lparr>d_fs := f2\<rparr>) dd" using assms(1) by simp
  then obtain s' where "index_put_object E n1 n2 dd b k (sha_hex (se_blob E) data) (length data) p (s\<lparr>d_fs := f2\<rparr>) = (Inr (), s')"
    by (rule put_ready [OF _ refl])
  with f1(1) c sh f2 dm that show ?thesis
    by (simp add: put_chunks_def op_simps Let_def on_fs_def)
qed

end

section \<open>Frame\<close>

text \<open>The index never touches the files.\<close>

lemma db_do_fs: "db_do E err h c s = (r, s') \<Longrightarrow> d_fs s' = d_fs s"
  by (auto simp: db_do_def Let_def split: option.split_asm prod.split_asm)

lemma get_db_fs: "get_db E dd s = (r, s') \<Longrightarrow> d_fs s' = d_fs s"
  by (auto simp: get_db_def Let_def split: option.split_asm sum.split_asm)

lemma get_bucket_tree_fs: "get_bucket_tree E h b s = (r, s') \<Longrightarrow> d_fs s' = d_fs s"
  by (auto simp: get_bucket_tree_def op_simps dest: db_do_fs split: prod.split_asm sum.split_asm)

lemma index_put_fs: "index_put_object E n1 n2 dd b k tag n p s = (r, s') \<Longrightarrow> d_fs s' = d_fs s"
  by (auto simp: index_put_object_def op_simps Let_def dest!: db_do_fs get_db_fs get_bucket_tree_fs
      split: prod.split_asm sum.split_asm)

lemma index_get_fs: "index_get_object E dd b k s = (r, s') \<Longrightarrow> d_fs s' = d_fs s"
  by (auto simp: index_get_object_def op_simps db_read_def dest!: get_db_fs get_bucket_tree_fs
      split: prod.split_asm sum.split_asm option.split_asm)

text \<open>An upload changes the files of its own object only; the directories it adds lead to them.\<close>

lemma put_chunks_frame:
  assumes put: "put_chunks E (n1, n2, n3, n4) dd b k data p s = (Inr md, s')"
  shows "fs_fault (d_fs s') = fs_fault (d_fs s)"
    and "is_dir_key (d_fs s) q \<Longrightarrow> is_dir_key (d_fs s') q"
    and "is_dir_key (d_fs s') q \<Longrightarrow>
      is_dir_key (d_fs s) q \<or> q \<in> set (ancestor_keys (path_key (chunks_dir dd b)))"
    and "(\<And>j. path_key x \<noteq> path_key (shard_path (chunks_dir dd b) (object_id b k) j)) \<Longrightarrow>
      (\<And>j. path_key x \<noteq> path_key (shard_path (chunks_dir dd b) (object_id b k) j @ ''.meta'')) \<Longrightarrow>
      file_at (d_fs s') x = file_at (d_fs s) x"
proof -
  from put_chunksD [OF put] obtain sh f1 f2 where
    mk: "fs_create_dir_all (chunks_dir dd b) (d_fs s) = (Inr (), f1)"
    and w: "write_shards (se_blob E) (chunks_dir dd b) (object_id b k) (length data) 0 sh f1 = (Inr (), f2)"
    and i: "index_put_object E n1 n2 dd b k (sha_hex (se_blob E) data) (length data) p (s\<lparr>d_fs := f2\<rparr>) = (Inr (), s')"
    by metis
  have fs: "d_fs s' = f2" using index_put_fs [OF i] by simp
  have dirs: "is_dir_key f2 q \<longleftrightarrow> is_dir_key f1 q" for q
    using write_shards_frame [OF w] by (simp add: is_dir_key_def)
  show "fs_fault (d_fs s') = fs_fault (d_fs s)"
    using write_shards_frame [OF w] create_dir_fault [OF mk] fs by simp
  show "is_dir_key (d_fs s) q \<Longrightarrow> is_dir_key (d_fs s') q"
    using is_dir_create_dir [OF _ mk] fs dirs by simp
  show "is_dir_key (d_fs s') q \<Longrightarrow>
      is_dir_key (d_fs s) q \<or> q \<in> set (ancestor_keys (path_key (chunks_dir dd b)))"
    using create_dir_dirs [OF mk] fs dirs by simp
  show "file_at (d_fs s') x = file_at (d_fs s) x"
    if "\<And>j. path_key x \<noteq> path_key (shard_path (chunks_dir dd b) (object_id b k) j)"
      "\<And>j. path_key x \<noteq> path_key (shard_path (chunks_dir dd b) (object_id b k) j @ ''.meta'')"
    using write_shards_other [OF w that] create_dir_file_at [OF mk] fs by simp
qed

lemma load_shards_cong:
  assumes "\<And>i. i \<in> set is \<Longrightarrow> path_exists f (shard_path dir oid i) = path_exists g (shard_path dir oid i)"
    and "\<And>i. i \<in> set is \<Longrightarrow> fs_read (shard_path dir oid i) f = fs_read (shard_path dir oid i) g"
  shows "load_shards f dir oid ds is = load_shards g dir oid ds is"
  using assms by (induction "is") (simp_all add: Let_def shard_path_def)

lemma fs_read_cong:
  assumes "fs_fault f = fs_fault g" "file_at f p = file_at g p"
    "is_dir_key f (path_key p) = is_dir_key g (path_key p)"
  shows "fs_read p f = fs_read p g" "path_exists f p = path_exists g p"
  using assms by (auto simp: fs_read_def path_exists_def split: option.splits)

text \<open>Two objects' files have different names when the objects' identifiers differ.\<close>

lemma chunk_id_oid: "chunk_id oid i = chunk_id oid' j \<longleftrightarrow> oid = oid' \<and> i = j"
proof
  have dash: "CHR ''-'' \<notin> set (show_nat n)" for n
    by (rule digit_char_not) (simp add: char_digit_def)
  have split: "rsplit_once CHR ''-'' (chunk_id o' n) = Some (o' @ ''-shard'', show_nat n)" for o' n
    using rsplit_once_append [OF dash [of n], of "o' @ ''-shard''"] by (simp add: chunk_id_def)
  assume "chunk_id oid i = chunk_id oid' j"
  then have "Some (oid @ ''-shard'', show_nat i) = Some (oid' @ ''-shard'', show_nat j)"
    by (metis split)
  then show "oid = oid' \<and> i = j" by simp
qed simp

lemma shard_paths_apart:
  assumes "CHR ''/'' \<notin> set oid" "CHR ''/'' \<notin> set oid'" "dir \<noteq> []" "dir' \<noteq> []"
    and "oid \<noteq> oid' \<or> components dir \<noteq> components dir'"
  shows "path_key (shard_path dir oid i) \<noteq> path_key (shard_path dir' oid' j)"
    and "path_key (shard_path dir oid i) \<noteq> path_key (shard_path dir' oid' j @ ''.meta'')"
    and "path_key (shard_path dir oid i @ ''.meta'') \<noteq> path_key (shard_path dir' oid' j @ ''.meta'')"
proof -
  note keys = shard_key [OF assms(1,3)] shard_key [OF assms(2,4)] shard_meta_key [OF assms(1,3)]
    shard_meta_key [OF assms(2,4)]
  show "path_key (shard_path dir oid i) \<noteq> path_key (shard_path dir' oid' j)"
    using assms(5) chunk_id_oid [of oid i oid' j] by (simp add: keys del: split_paired_All)
  show "path_key (shard_path dir oid i) \<noteq> path_key (shard_path dir' oid' j @ ''.meta'')"
    using chunk_id_not_meta [of oid i oid' j] by (simp add: keys)
  show "path_key (shard_path dir oid i @ ''.meta'') \<noteq> path_key (shard_path dir' oid' j @ ''.meta'')"
    using assms(5) chunk_id_oid [of oid i oid' j] by (simp add: keys)
qed

text \<open>A bucket name that is one directory below \<open>chunks\<close>.\<close>

definition bucket_ok :: "string \<Rightarrow> bool" where
  "bucket_ok b = (plain_name b \<and> b \<noteq> ''..'')"

lemma shard_key_eq [simp]:
  "dd \<noteq> [] \<Longrightarrow> path_key (shard_path (chunks_dir dd b) (object_id b' k) i) =
     path_key (shard_path (chunks_dir dd b) (object_id b' k) j) \<longleftrightarrow> i = j"
  by (simp add: shard_key object_id_no_slash)

lemma chunks_dir_components:
  "bucket_ok b \<Longrightarrow> components (chunks_dir dd b) = components dd @ [''chunks'', b]"
proof -
  assume "bucket_ok b"
  then have "plain_name b" by (simp add: bucket_ok_def)
  moreover have "plain_name ''chunks''" by (simp add: plain_name_def)
  ultimately show ?thesis
    by (simp add: chunks_dir_def components_join plain_name_relative plain_name_components)
qed

lemma object_id_eq: "object_id b k = object_id b k' \<longleftrightarrow> slash_to_dash k = slash_to_dash k'"
  by (simp add: object_id_def) (simp add: slash_to_dash_def)

section \<open>Downloads\<close>

definition stored_md :: "'d storage_env \<Rightarrow> trees \<Rightarrow> string \<Rightarrow> string \<Rightarrow> storage_error + object_metadata" where
  "stored_md E T b k = (case tree_of T (bucket_tree b) (str_bytes k) of
     None \<Rightarrow> Inl (ObjectNotFound b k) | Some v \<Rightarrow> map_err JsonErr (js_dec (se_json E) v))"

context storage_api begin

lemma get_chunks_ready:
  assumes "index_ready sound s dd"
  obtains s' where "get_chunks E dd b k s =
      (bind_res (stored_md E (index_trees trees s dd) b k) (read_object (se_blob E) (d_fs s) dd b k), s')"
    "index_ready sound s' dd" "d_fs s' = d_fs s"
proof -
  obtain s1 where s1: "index_get_object E dd b k s = (stored_md E (index_trees trees s dd) b k, s1)"
    "index_ready sound s1 dd" "d_fs s1 = d_fs s"
    unfolding stored_md_def by (rule get_index_ready [OF assms])
  have "get_chunks E dd b k s =
      (bind_res (stored_md E (index_trees trees s dd) b k) (read_object (se_blob E) (d_fs s) dd b k), s1)"
    using s1 by (simp add: get_chunks_def op_simps split: sum.splits)
  then show ?thesis using that s1 by blast
qed

lemma get_chunks_value:
  "index_ready sound s dd \<Longrightarrow> fst (get_chunks E dd b k s) =
     bind_res (stored_md E (index_trees trees s dd) b k) (read_object (se_blob E) (d_fs s) dd b k)"
  by (metis get_chunks_ready fst_conv)

lemma stored_md_insert:
  "stored_md E (sled_effect (Insert (bucket_tree b) (str_bytes k) (js.json md)) T) b' k' =
     (if b' = b \<and> k' = k then Inr md else stored_md E T b' k')"
  by (simp add: stored_md_def js.js_dec_json)

lemma stored_md_open: "stored_md E (sled_effect (OpenTree n) T) b k = stored_md E T b k"
  by (simp add: stored_md_def)

text \<open>The state an upload leaves, as downloads see it.\<close>

lemma put_chunks_stored:
  assumes "index_ready sound s dd" "dd \<noteq> []"
    and put: "put_chunks E (n1, n2, n3, n4) dd b k data p s = (Inr md, s')"
  obtains c sh md' where "compress (se_blob E) data (zstd_level p) = Inr c"
    "encode_erasure c (fst (data_parity p)) (snd (data_parity p)) = Inr sh"
    "shards_on_disk (d_fs s') (chunks_dir dd b) (object_id b k) sh (fst (data_parity p)) (snd (data_parity p))"
    "\<forall>i < length sh. file_at (d_fs s') (shard_path (chunks_dir dd b) (object_id b k) i) = Some (sh ! i)"
    "index_ready sound s' dd"
    "\<forall>b' k'. stored_md E (index_trees trees s' dd) b' k' =
       (if b' = b \<and> k' = k then Inr md' else stored_md E (index_trees trees s dd) b' k')"
    "om_policy md' = policy_display p" "etag md' = sha_hex (se_blob E) data" "etag md = etag md'"
proof -
  let ?md = "md\<lparr>om_created_at := n1, modified_at := n2\<rparr>"
  obtain c sh where r: "compress (se_blob E) data (zstd_level p) = Inr c"
    "encode_erasure c (fst (data_parity p)) (snd (data_parity p)) = Inr sh"
    "shards_on_disk (d_fs s') (chunks_dir dd b) (object_id b k) sh (fst (data_parity p)) (snd (data_parity p))"
    and f: "\<forall>i < length sh. file_at (d_fs s') (shard_path (chunks_dir dd b) (object_id b k) i) = Some (sh ! i)"
    and i: "index_ready sound s' dd"
    and t: "index_trees trees s' dd = sled_effect (Insert (bucket_tree b) (str_bytes k) (js.json ?md))
       (sled_effect (OpenTree (bucket_tree b)) (index_trees trees s dd))"
    and m: "om_policy md = policy_display p" "etag md = sha_hex (se_blob E) data"
      "om_bucket md = b" "om_key md = k" "fs_fault (d_fs s') = fs_fault (d_fs s)"
    by (rule put_chunks_result [OF storage_api_axioms assms(1,2) put])
  show ?thesis
    by (rule that [OF r f i, where md' = ?md]) (simp_all add: t m stored_md_insert stored_md_open)
qed

end

lemma put_no_dir:
  assumes put: "put_chunks E (n1, n2, n3, n4) dd b k data p s = (Inr md, s')"
    and "can_store (d_fs s) (chunks_dir dd b) (object_id b k)" "dd \<noteq> []"
  shows "\<not> is_dir_key (d_fs s') (path_key (shard_path (chunks_dir dd b) (object_id b k) i))"
  using put_chunks_frame(3) [OF put, of "path_key (shard_path (chunks_dir dd b) (object_id b k) i)"]
    shard_not_ancestor(1) [OF object_id_no_slash [of b k] chunks_dir_nonempty [OF assms(3), of b] order.refl, of i]
    assms(2)
  by (auto simp: can_store_def simp del: split_paired_All)

section \<open>Round trip and damage\<close>

context storage_api begin

lemma get_after_put:
  assumes "index_ready sound s dd" "dd \<noteq> []"
    and put: "put_chunks E (n1, n2, n3, n4) dd b k data p s = (Inr md, s')"
    and c: "compress (se_blob E) data (zstd_level p) = Inr c" "length c < 2 ^ 64 - 8"
    and g: "healthy g"
      "\<And>i. i < fst (data_parity p) \<Longrightarrow>
         file_at g (shard_path (chunks_dir dd b) (object_id b k) i) =
         file_at (d_fs s') (shard_path (chunks_dir dd b) (object_id b k) i)"
      "\<And>i. i < fst (data_parity p) + snd (data_parity p) \<Longrightarrow>
         \<not> is_dir_key g (path_key (shard_path (chunks_dir dd b) (object_id b k) i))"
  shows "fst (get_chunks E dd b k (s'\<lparr>d_fs := g\<rparr>)) = Inr data"
proof -
  obtain c' sh md' where r: "compress (se_blob E) data (zstd_level p) = Inr c'"
    "encode_erasure c' (fst (data_parity p)) (snd (data_parity p)) = Inr sh"
    "shards_on_disk (d_fs s') (chunks_dir dd b) (object_id b k) sh (fst (data_parity p)) (snd (data_parity p))"
    "\<forall>i < length sh. file_at (d_fs s') (shard_path (chunks_dir dd b) (object_id b k) i) = Some (sh ! i)"
    "index_ready sound s' dd"
    "\<forall>b' k'. stored_md E (index_trees trees s' dd) b' k' =
       (if b' = b \<and> k' = k then Inr md' else stored_md E (index_trees trees s dd) b' k')"
    "om_policy md' = policy_display p" "etag md' = sha_hex (se_blob E) data" "etag md = etag md'"
    by (rule put_chunks_stored [OF assms(1,2) put])
  have disk: "shards_on_disk g (chunks_dir dd b) (object_id b k) sh (fst (data_parity p)) (snd (data_parity p))"
    using r(3) g(2,3) by (simp add: shards_on_disk_def)
  have "read_object (se_blob E) g dd b k md' = Inr data"
    by (rule zs.read_object_ok [OF g(1) r(7,8,1) _ r(2) disk]) (use c r(1) in \<open>simp add: erasure_fits_def\<close>)
  moreover have "index_ready sound (s'\<lparr>d_fs := g\<rparr>) dd" using r(5) by simp
  ultimately show ?thesis
    using r(6) by (simp add: get_chunks_value op_simps)
qed

end

text \<open>
  C1. Round trip. On a sound, open index and a disk that can hold the object, an upload succeeds, its
  answer carries the digest and size of the data, and a download that follows returns exactly the
  data, for every policy (that is for every compression level and shard count).
\<close>

theorem store_round_trip:
  assumes "storage_api E trees sound" "index_ready sound s dd" "dd \<noteq> []"
    and "can_store (d_fs s) (chunks_dir dd b) (object_id b k)"
    and "compress (se_blob E) data (zstd_level p) = Inr c" "length c < 2 ^ 64 - 8"
  shows "\<exists>md s' s''. put_object E (n1, n2, n3, n4) dd b k data p s = (Inr md, s') \<and>
    etag md = sha_hex (se_blob E) data \<and> size_bytes md = word_of_nat (length data) \<and>
    get_object E dd b k s' = (Inr data, s'')"
proof -
  note api = assms(1)
  obtain md s' where put: "put_chunks E (n1, n2, n3, n4) dd b k data p s = (Inr md, s')"
    by (rule storage_api.put_chunks_succeeds [OF api assms(2-5)])
  have "healthy (d_fs s')"
    using put_chunks_frame(1) [OF put] assms(4) by (simp add: can_store_def healthy_def)
  moreover note put_no_dir [OF put assms(4,3)]
  ultimately have "fst (get_chunks E dd b k (s'\<lparr>d_fs := d_fs s'\<rparr>)) = Inr data"
    by (intro storage_api.get_after_put [OF api assms(2,3) put assms(5,6)]) simp_all
  moreover have "etag md = sha_hex (se_blob E) data \<and> size_bytes md = word_of_nat (length data)"
    using put_chunksD [OF put] by (metis object_metadata.select_convs(3,6))
  ultimately show ?thesis
    using put by (simp add: store_defs) (metis prod.collapse)
qed

lemma ref_can_store [simp]:
  assumes "CHR ''/'' \<notin> set oid" "dir \<noteq> []" shows "can_store (d_fs ref_disk) dir oid"
proof -
  have "is_ok (fst (fs_create_dir_all dir empty_fs))"
    by (simp add: fs_create_dir_all_def empty_fs_def list_ex_iff)
  with assms show ?thesis
    by (simp add: can_store_def healthy_def ref_disk_def shard_key shard_meta_key is_dir_key_def)
      (simp add: empty_fs_def)
qed

lemma ref_compress [simp]:
  "compress (se_blob ref_env) d l = Inr (if l = 0 then d else word_of_nat l # d)"
  by (simp add: compress_def ref_env_def ref_blob_def)

theorem store_round_trip_witness:
  "\<exists>md s' s''. put_object ref_env (''t1'', ''t2'', ''t3'', ''t4'') ''/data'' ''b'' ''k/1'' [1, 2, 3] Cold ref_disk = (Inr md, s') \<and>
    etag md = sha_hex (se_blob ref_env) [1, 2, 3] \<and> size_bytes md = word_of_nat (length [1 :: u8, 2, 3]) \<and>
    get_object ref_env ''/data'' ''b'' ''k/1'' s' = (Inr [1, 2, 3], s'')"
  by (rule store_round_trip [OF ref_store.storage_api_axioms ref_disk_ready _ _ ref_compress])
    (simp_all add: object_id_no_slash)

text \<open>
  Parity shards are optional and inert. After an upload, whatever happens to the files of the
  parity shards (lost, truncated, overwritten), and to every other file, a download returns the data
  as long as the files of the data shards are as the upload left them.
\<close>

theorem get_ignores_parity:
  assumes "storage_api E trees sound" "index_ready sound s dd" "dd \<noteq> []"
    and "put_object E (n1, n2, n3, n4) dd b k data p s = (Inr md, s')"
    and "compress (se_blob E) data (zstd_level p) = Inr c" "length c < 2 ^ 64 - 8"
    and "healthy g"
    and "\<And>i. i < fst (data_parity p) \<Longrightarrow>
         file_at g (shard_path (chunks_dir dd b) (object_id b k) i) =
         file_at (d_fs s') (shard_path (chunks_dir dd b) (object_id b k) i)"
    and "\<And>i. i < fst (data_parity p) + snd (data_parity p) \<Longrightarrow>
         \<not> is_dir_key g (path_key (shard_path (chunks_dir dd b) (object_id b k) i))"
  shows "fst (get_object E dd b k (s'\<lparr>d_fs := g\<rparr>)) = Inr data"
  using storage_api.get_after_put [OF assms(1-3) _ assms(5-9)] assms(4) by (simp add: store_defs)

text \<open>A first upload to the concrete store and the state after it.\<close>

definition ref_put :: "string \<Rightarrow> string \<Rightarrow> bytes \<Rightarrow> storage_policy \<Rightarrow> ref_db disk \<Rightarrow> (storage_error + object_metadata) \<times> ref_db disk" where
  "ref_put b k d p = put_object ref_env (''t1'', ''t2'', ''t3'', ''t4'') ''/data'' b k d p"

lemma ref_put_ok:
  "put_object ref_env (''t1'', ''t2'', ''t3'', ''t4'') ''/data'' b k d p ref_disk =
     (Inr (projr (fst (ref_put b k d p ref_disk))), snd (ref_put b k d p ref_disk))"
proof -
  obtain md s' where "put_chunks ref_env (''t1'', ''t2'', ''t3'', ''t4'') ''/data'' b k d p ref_disk = (Inr md, s')"
    by (rule ref_store.put_chunks_succeeds [of ref_disk "''/data''" b k d p]) (simp_all add: object_id_no_slash)
  then show ?thesis by (simp add: ref_put_def store_defs)
qed

lemma ref_put_healthy: "healthy (d_fs (snd (ref_put b k d p ref_disk)))"
  using put_chunks_frame(1) [OF ref_put_ok [of b k d p, unfolded store_defs]]
  by (simp add: healthy_def ref_disk_def empty_fs_def)

lemma ref_put_no_dir:
  "\<not> is_dir_key (d_fs (snd (ref_put b k d p ref_disk)))
     (path_key (shard_path (chunks_dir ''/data'' b) (object_id b k) i))"
  by (rule put_no_dir [OF ref_put_ok [of b k d p, unfolded store_defs]]) (simp_all add: object_id_no_slash)

text \<open>Losing a file.\<close>

definition fs_remove :: "string \<Rightarrow> fs \<Rightarrow> fs" where
  "fs_remove x f = f\<lparr>fs_files := AList.delete (path_key x) (fs_files f)\<rparr>"

lemma fs_remove_simps [simp]:
  "file_at (fs_remove x f) y = (if path_key y = path_key x then None else file_at f y)"
  "is_dir_key (fs_remove x f) q = is_dir_key f q"
  "healthy (fs_remove x f) = healthy f"
  by (simp_all add: fs_remove_def file_at_def delete_conv')

theorem get_ignores_parity_witness:
  "fst (get_object ref_env ''/data'' ''b'' ''k'' ((snd (ref_put ''b'' ''k'' [1, 2, 3] Warm ref_disk))
      \<lparr>d_fs := fs_remove (shard_path (chunks_dir ''/data'' ''b'') (object_id ''b'' ''k'') 5)
        (d_fs (snd (ref_put ''b'' ''k'' [1, 2, 3] Warm ref_disk)))\<rparr>)) = Inr [1, 2, 3]"
  by (rule get_ignores_parity [OF ref_store.storage_api_axioms ref_disk_ready _ ref_put_ok ref_compress])
    (simp_all add: ref_put_healthy ref_put_no_dir data_parity_def)

context storage_api begin

lemma get_missing_shard:
  assumes "index_ready sound s dd" "dd \<noteq> []"
    and "put_chunks E (n1, n2, n3, n4) dd b k data p s = (Inr md, s')"
    and "healthy g" "i < fst (data_parity p)"
    and "\<not> path_exists g (shard_path (chunks_dir dd b) (object_id b k) i)"
    and "\<And>j. j < i \<Longrightarrow>
         file_at g (shard_path (chunks_dir dd b) (object_id b k) j) =
         file_at (d_fs s') (shard_path (chunks_dir dd b) (object_id b k) j)"
  shows "fst (get_chunks E dd b k (s'\<lparr>d_fs := g\<rparr>)) = Inl InsufficientShards"
proof -
  obtain c sh md' where r: "compress (se_blob E) data (zstd_level p) = Inr c"
    "encode_erasure c (fst (data_parity p)) (snd (data_parity p)) = Inr sh"
    "shards_on_disk (d_fs s') (chunks_dir dd b) (object_id b k) sh (fst (data_parity p)) (snd (data_parity p))"
    "\<forall>i < length sh. file_at (d_fs s') (shard_path (chunks_dir dd b) (object_id b k) i) = Some (sh ! i)"
    "index_ready sound s' dd"
    "\<forall>b' k'. stored_md E (index_trees trees s' dd) b' k' =
       (if b' = b \<and> k' = k then Inr md' else stored_md E (index_trees trees s dd) b' k')"
    "om_policy md' = policy_display p" "etag md' = sha_hex (se_blob E) data" "etag md = etag md'"
    by (rule put_chunks_stored [OF assms(1,2,3)])
  have "load_shards g (chunks_dir dd b) (object_id b k) (fst (data_parity p))
      [0..<fst (data_parity p) + snd (data_parity p)] = Inl InsufficientShards"
    by (rule load_shards_missing [OF assms(4) _ assms(6,5)])
      (use assms(5,7) r(3) in \<open>simp_all add: shards_on_disk_def\<close>)
  then have "read_object (se_blob E) g dd b k md' = Inl InsufficientShards"
    using r(7) by (simp add: read_object_def op_simps)
  moreover have "index_ready sound (s'\<lparr>d_fs := g\<rparr>) dd" using r(5) by simp
  ultimately show ?thesis
    using r(6) by (simp add: get_chunks_value op_simps)
qed

end

text \<open>
  A missing data shard is never repaired. After an upload, if the file of a data shard is gone
  (and nothing else has its name) and the data shards before it are intact, a download fails with
  \<open>Insufficient shards\<close>, whatever the other shards are: the parity shards do not help.
\<close>

theorem missing_data_shard_fails:
  assumes "storage_api E trees sound" "index_ready sound s dd" "dd \<noteq> []"
    and "put_object E (n1, n2, n3, n4) dd b k data p s = (Inr md, s')"
    and "healthy g" "i < fst (data_parity p)"
    and "\<not> path_exists g (shard_path (chunks_dir dd b) (object_id b k) i)"
    and "\<And>j. j < i \<Longrightarrow>
         file_at g (shard_path (chunks_dir dd b) (object_id b k) j) =
         file_at (d_fs s') (shard_path (chunks_dir dd b) (object_id b k) j)"
  shows "fst (get_object E dd b k (s'\<lparr>d_fs := g\<rparr>)) = Inl InsufficientShards"
  using storage_api.get_missing_shard [OF assms(1-3) _ assms(5-8)] assms(4) by (simp add: store_defs)

theorem missing_data_shard_fails_witness:
  "fst (get_object ref_env ''/data'' ''b'' ''k'' ((snd (ref_put ''b'' ''k'' [1, 2, 3] Warm ref_disk))
      \<lparr>d_fs := fs_remove (shard_path (chunks_dir ''/data'' ''b'') (object_id ''b'' ''k'') 1)
        (d_fs (snd (ref_put ''b'' ''k'' [1, 2, 3] Warm ref_disk)))\<rparr>)) = Inl InsufficientShards"
  by (rule missing_data_shard_fails [OF ref_store.storage_api_axioms ref_disk_ready _ ref_put_ok, where i = 1])
    (simp_all add: ref_put_healthy ref_put_no_dir data_parity_def path_exists_def)

text \<open>A lookup writes no file and never reports corruption; reading the shards reports it for a reason.\<close>

lemma index_get_object_result:
  assumes "index_get_object E dd b k s = (r, s')"
  shows "d_fs s' = d_fs s" "r \<noteq> Inl (DataCorruption x y)"
  using assms
  by (auto simp: index_get_object_def get_db_def get_bucket_tree_def db_do_def db_read_def op_simps Let_def
      split: prod.split_asm sum.split_asm option.split_asm)

lemma load_shards_error: "load_shards f dir oid n is \<noteq> Inl (DataCorruption x y)"
  by (induction "is") (auto simp: Let_def bind_res_def map_err_Inl split: sum.split)

lemma read_object_corrupt:
  assumes "read_object B f dd b k md = Inl (DataCorruption x y)"
  shows "x = etag md \<and> y \<noteq> x \<and> (\<exists>data. y = sha_hex B data)"
  using assms
  by (auto simp: read_object_def bind_res_def decompress_def decode_erasure_def load_shards_error map_err_Inl Let_def
      split: prod.split_asm sum.split_asm if_split_asm)

lemma read_object_verified: "read_object B f dd b k md = Inr data \<Longrightarrow> sha_hex B data = etag md"
  by (auto simp: read_object_def bind_res_def Let_def split: prod.split_asm sum.split_asm if_split_asm)

text \<open>
  C2. Integrity. Whatever is on disk and in the index, and however the crates behave, a download writes
  no file; bytes that it returns have the digest recorded in the object's metadata, and a report of
  corruption names that digest and a different one, the digest of other bytes.
\<close>

theorem get_is_verified:
  assumes "get_object E dd b k s = (r, s')"
  shows "d_fs s' = d_fs s \<and> (case r of
      Inr data \<Rightarrow> \<exists>md. fst (index_get_object E dd b k s) = Inr md \<and> sha_hex (se_blob E) data = etag md
    | Inl (DataCorruption expected actual) \<Rightarrow>
        (\<exists>md data. fst (index_get_object E dd b k s) = Inr md \<and> expected = etag md \<and>
          actual = sha_hex (se_blob E) data \<and> actual \<noteq> expected)
    | Inl _ \<Rightarrow> True)"
proof -
  obtain q t where look: "index_get_object E dd b k s = (q, t)" by (cases "index_get_object E dd b k s")
  note facts = index_get_object_result [OF look]
  show ?thesis
  proof (cases q)
    case (Inl e)
    then have "r = Inl e" "s' = t" using assms look by (simp_all add: store_defs get_chunks_def op_simps)
    with facts Inl show ?thesis by (auto split: storage_error.split)
  next
    case (Inr md)
    with assms look have r: "r = read_object (se_blob E) (d_fs t) dd b k md" "s' = t"
      by (auto simp: store_defs get_chunks_def op_simps)
    with facts(1) Inr look show ?thesis
      using read_object_verified [of "se_blob E" "d_fs t" dd b k md] read_object_corrupt [of "se_blob E" "d_fs t" dd b k md]
      by (auto split: sum.split storage_error.split)
  qed
qed

theorem get_is_verified_witness:
  "\<exists>data md. fst (index_get_object ref_env ''/data'' ''b'' ''k'' (snd (ref_put ''b'' ''k'' [1, 2, 3] Hot ref_disk))) = Inr md \<and>
     sha_hex (se_blob ref_env) data = etag md"
proof -
  let ?s = "snd (ref_put ''b'' ''k'' [1, 2, 3] Hot ref_disk)"
  have "fst (get_chunks ref_env ''/data'' ''b'' ''k'' (?s\<lparr>d_fs := d_fs ?s\<rparr>)) = Inr [1, 2, 3]"
    by (rule ref_store.get_after_put [OF ref_disk_ready _ ref_put_ok [unfolded store_defs] ref_compress])
      (simp_all add: ref_put_healthy ref_put_no_dir)
  then obtain s' where "get_object ref_env ''/data'' ''b'' ''k'' ?s = (Inr [1, 2, 3], s')"
    by (simp add: store_defs) (metis prod.collapse)
  from get_is_verified [OF this] show ?thesis by auto
qed

end
