(* ===== verification/Store_Isolation.thy ===== *)
theory Store_Isolation
  imports Object_Store
begin

text \<open>
  How objects share the disk: which uploads leave which downloads alone, what deletion removes, and
  what \<open>read_shards\<close> hands to replication. The chunk files are named after the bucket and the key
  with every slash turned into a dash, so distinct objects can share files; the theorems say exactly
  when they do.
\<close>

section \<open>Independent objects\<close>

lemma chunks_dir_length: "bucket_ok b \<Longrightarrow> length (components (chunks_dir dd b)) = length (components dd) + 2"
  by (simp add: chunks_dir_components)

lemma object_paths_apart:
  assumes "bucket_ok b" "bucket_ok b'" "dd \<noteq> []" "b' \<noteq> b \<or> slash_to_dash k' \<noteq> slash_to_dash k"
  shows "path_key (shard_path (chunks_dir dd b') (object_id b' k') i) \<noteq>
           path_key (shard_path (chunks_dir dd b) (object_id b k) j)"
    and "path_key (shard_path (chunks_dir dd b') (object_id b' k') i) \<noteq>
           path_key (shard_path (chunks_dir dd b) (object_id b k) j @ ''.meta'')"
proof -
  have "object_id b' k' \<noteq> object_id b k \<or> components (chunks_dir dd b') \<noteq> components (chunks_dir dd b)"
    using assms(4) object_id_eq [of b k' k] by (auto simp: chunks_dir_components assms(1,2))
  with assms(3) show "path_key (shard_path (chunks_dir dd b') (object_id b' k') i) \<noteq>
           path_key (shard_path (chunks_dir dd b) (object_id b k) j)"
    and "path_key (shard_path (chunks_dir dd b') (object_id b' k') i) \<noteq>
           path_key (shard_path (chunks_dir dd b) (object_id b k) j @ ''.meta'')"
    by (simp_all add: shard_paths_apart object_id_no_slash)
qed

lemma put_keeps_shard_file:
  assumes put: "put_chunks E (n1, n2, n3, n4) dd b k data p s = (Inr md, s')"
    and apart: "bucket_ok b" "bucket_ok b'" "dd \<noteq> []" "b' \<noteq> b \<or> slash_to_dash k' \<noteq> slash_to_dash k"
  shows "fs_read (shard_path (chunks_dir dd b') (object_id b' k') i) (d_fs s') =
           fs_read (shard_path (chunks_dir dd b') (object_id b' k') i) (d_fs s)"
    and "path_exists (d_fs s') (shard_path (chunks_dir dd b') (object_id b' k') i) =
           path_exists (d_fs s) (shard_path (chunks_dir dd b') (object_id b' k') i)"
proof -
  let ?p = "shard_path (chunks_dir dd b') (object_id b' k') i"
  have "file_at (d_fs s') ?p = file_at (d_fs s) ?p"
    using object_paths_apart [OF apart] by (intro put_chunks_frame(4) [OF put]) simp_all
  moreover have "path_key ?p \<notin> set (ancestor_keys (path_key (chunks_dir dd b)))"
    using shard_not_ancestor(1) [OF object_id_no_slash chunks_dir_nonempty [OF apart(3)]]
    by (simp add: chunks_dir_length apart(1,2))
  then have "is_dir_key (d_fs s') (path_key ?p) = is_dir_key (d_fs s) (path_key ?p)"
    using put_chunks_frame(2,3) [OF put, of "path_key ?p"] by blast
  ultimately show "fs_read ?p (d_fs s') = fs_read ?p (d_fs s)"
    and "path_exists (d_fs s') ?p = path_exists (d_fs s) ?p"
    using fs_read_cong [OF put_chunks_frame(1) [OF put]] by simp_all
qed

text \<open>
  C3. Isolation. An upload does not change what a download of any other object returns, be it data
  or an error, as long as the buckets are plain directory names and the two objects differ in the
  bucket or in the key with its slashes turned into dashes.
\<close>

theorem put_preserves_others:
  assumes "storage_api E trees sound" "index_ready sound s dd" "dd \<noteq> []"
    and "put_object E (n1, n2, n3, n4) dd b k data p s = (Inr md, s')"
    and "bucket_ok b" "bucket_ok b'" "b' \<noteq> b \<or> slash_to_dash k' \<noteq> slash_to_dash k"
  shows "fst (get_object E dd b' k' s') = fst (get_object E dd b' k' s)"
proof -
  note api = assms(1) and put = assms(4) [unfolded store_defs]
  obtain c sh md' where r: "compress (se_blob E) data (zstd_level p) = Inr c"
    "encode_erasure c (fst (data_parity p)) (snd (data_parity p)) = Inr sh"
    "shards_on_disk (d_fs s') (chunks_dir dd b) (object_id b k) sh (fst (data_parity p)) (snd (data_parity p))"
    "\<forall>i < length sh. file_at (d_fs s') (shard_path (chunks_dir dd b) (object_id b k) i) = Some (sh ! i)"
    "index_ready sound s' dd"
    "\<forall>b' k'. stored_md E (index_trees trees s' dd) b' k' =
       (if b' = b \<and> k' = k then Inr md' else stored_md E (index_trees trees s dd) b' k')"
    "om_policy md' = policy_display p" "etag md' = sha_hex (se_blob E) data" "etag md = etag md'"
    by (rule storage_api.put_chunks_stored [OF api assms(2,3) put])
  have "stored_md E (index_trees trees s' dd) b' k' = stored_md E (index_trees trees s dd) b' k'"
    using r(6) assms(7) by auto
  moreover have "read_object (se_blob E) (d_fs s') dd b' k' m = read_object (se_blob E) (d_fs s) dd b' k' m" for m
  proof -
    have "load_shards (d_fs s') (chunks_dir dd b') (object_id b' k') ds xs =
        load_shards (d_fs s) (chunks_dir dd b') (object_id b' k') ds xs" for ds xs
      by (rule load_shards_cong) (rule put_keeps_shard_file [OF put assms(5,6,3,7)])+
    then show ?thesis by (simp add: read_object_def)
  qed
  ultimately show ?thesis
    by (simp add: store_defs storage_api.get_chunks_value [OF api r(5)] storage_api.get_chunks_value [OF api assms(2)]
        bind_res_def split: sum.splits)
qed

theorem put_preserves_others_witness:
  "fst (get_object ref_env ''/data'' ''b'' ''k2'' (snd (ref_put ''b'' ''k'' [1, 2, 3] Warm ref_disk))) =
   fst (get_object ref_env ''/data'' ''b'' ''k2'' ref_disk)"
  by (rule put_preserves_others [OF ref_store.storage_api_axioms ref_disk_ready _ ref_put_ok])
    (simp_all add: bucket_ok_def plain_name_def slash_to_dash_def)

section \<open>Objects that share files\<close>

lemma object_id_shared:
  "slash_to_dash k' = slash_to_dash k \<Longrightarrow> object_id b k' = object_id b k"
  by (simp add: object_id_eq)

lemma put_chunks_made_dir:
  assumes put: "put_chunks E (n1, n2, n3, n4) dd b k data p s = (Inr md, s')"
  shows "is_dir_key (d_fs s') (path_key (chunks_dir dd b))"
proof -
  from put_chunksD [OF put] obtain sh f1 f2 where
    mk: "fs_create_dir_all (chunks_dir dd b) (d_fs s) = (Inr (), f1)"
    and w: "write_shards (se_blob E) (chunks_dir dd b) (object_id b k) (length data) 0 sh f1 = (Inr (), f2)"
    and i: "index_put_object E n1 n2 dd b k (sha_hex (se_blob E) data) (length data) p (s\<lparr>d_fs := f2\<rparr>) = (Inr (), s')"
    by metis
  then show ?thesis
    using create_dir_is_dir [OF mk] write_shards_frame [OF w] index_put_fs [OF i]
    by (simp add: is_dir_key_def)
qed

text \<open>After an upload the disk can take another object of the bucket.\<close>

lemma put_can_store:
  assumes put: "put_chunks E (n1, n2, n3, n4) dd b k data p s = (Inr md, s')" and "dd \<noteq> []"
    and store: "can_store (d_fs s) (chunks_dir dd b) oid" and "CHR ''/'' \<notin> set oid"
  shows "can_store (d_fs s') (chunks_dir dd b) oid"
proof -
  have "healthy (d_fs s')"
    using put_chunks_frame(1) [OF put] store by (simp add: can_store_def healthy_def)
  moreover have "\<not> is_dir_key (d_fs s') (path_key (shard_path (chunks_dir dd b) oid i)) \<and>
      \<not> is_dir_key (d_fs s') (path_key (shard_path (chunks_dir dd b) oid i @ ''.meta''))" for i
    using put_chunks_frame(3) [OF put] store \<open>dd \<noteq> []\<close>
      shard_not_ancestor [OF assms(4) chunks_dir_nonempty order.refl]
    unfolding can_store_def by blast
  moreover have "is_ok (fst (fs_create_dir_all (chunks_dir dd b) (d_fs s')))"
    using put_chunks_made_dir [OF put] \<open>healthy (d_fs s')\<close> by (simp add: fs_create_dir_all_def healthy_def)
  ultimately show ?thesis by (simp add: can_store_def)
qed

text \<open>
  C38. Two keys of one bucket that differ only in slashes against dashes (as \<open>a/b\<close> and \<open>a-b\<close>) share
  their chunk files. On a healthy disk with room, uploading the second after the first under the same policy
  succeeds, leaves the first one's index entry as it is and destroys its content: its download
  reports data corruption (the two digests being different), while the second one reads back.
\<close>

theorem key_collision_destroys:
  assumes "storage_api E trees sound" "index_ready sound s dd" "dd \<noteq> []"
    and "put_object E (n1, n2, n3, n4) dd b k d1 p s = (Inr md1, s1)"
    and "can_store (d_fs s) (chunks_dir dd b) (object_id b k)"
    and "k' \<noteq> k" "slash_to_dash k' = slash_to_dash k" "sha_hex (se_blob E) d1 \<noteq> sha_hex (se_blob E) d2"
    and "compress (se_blob E) d2 (zstd_level p) = Inr c" "length c < 2 ^ 64 - 8"
  shows "\<exists>md2 s2. put_object E (n5, n6, n7, n8) dd b k' d2 p s1 = (Inr md2, s2) \<and>
    fst (index_get_object E dd b k s2) = fst (index_get_object E dd b k s1) \<and>
    fst (get_object E dd b k s2) = Inl (DataCorruption (sha_hex (se_blob E) d1) (sha_hex (se_blob E) d2)) \<and>
    fst (get_object E dd b k' s2) = Inr d2"
proof -
  note api = assms(1) and put1 = assms(4) [unfolded store_defs]
  note oid = object_id_shared [OF assms(7), of b]
  obtain c1 sh1 m1 where r1: "compress (se_blob E) d1 (zstd_level p) = Inr c1"
    "encode_erasure c1 (fst (data_parity p)) (snd (data_parity p)) = Inr sh1"
    "shards_on_disk (d_fs s1) (chunks_dir dd b) (object_id b k) sh1 (fst (data_parity p)) (snd (data_parity p))"
    "\<forall>i < length sh1. file_at (d_fs s1) (shard_path (chunks_dir dd b) (object_id b k) i) = Some (sh1 ! i)"
    "index_ready sound s1 dd"
    "\<forall>b' k'. stored_md E (index_trees trees s1 dd) b' k' =
       (if b' = b \<and> k' = k then Inr m1 else stored_md E (index_trees trees s dd) b' k')"
    "om_policy m1 = policy_display p" "etag m1 = sha_hex (se_blob E) d1" "etag md1 = etag m1"
    by (rule storage_api.put_chunks_stored [OF api assms(2,3) put1])
  have store: "can_store (d_fs s1) (chunks_dir dd b) (object_id b k')"
    using put_can_store [OF put1 assms(3,5)] by (simp add: oid object_id_no_slash)
  obtain md2 s2 where put2: "put_chunks E (n5, n6, n7, n8) dd b k' d2 p s1 = (Inr md2, s2)"
    by (rule storage_api.put_chunks_succeeds [OF api r1(5) assms(3) store assms(9)])
  obtain c2 sh2 m2 where r2: "compress (se_blob E) d2 (zstd_level p) = Inr c2"
    "encode_erasure c2 (fst (data_parity p)) (snd (data_parity p)) = Inr sh2"
    "shards_on_disk (d_fs s2) (chunks_dir dd b) (object_id b k') sh2 (fst (data_parity p)) (snd (data_parity p))"
    "\<forall>i < length sh2. file_at (d_fs s2) (shard_path (chunks_dir dd b) (object_id b k') i) = Some (sh2 ! i)"
    "index_ready sound s2 dd"
    "\<forall>b' k''. stored_md E (index_trees trees s2 dd) b' k'' =
       (if b' = b \<and> k'' = k' then Inr m2 else stored_md E (index_trees trees s1 dd) b' k'')"
    "om_policy m2 = policy_display p" "etag m2 = sha_hex (se_blob E) d2" "etag md2 = etag m2"
    by (rule storage_api.put_chunks_stored [OF api r1(5) assms(3) put2])
  have healthy: "healthy (d_fs s2)"
    using put_chunks_frame(1) [OF put2] store by (simp add: healthy_def can_store_def)
  have c2: "c2 = c" using r2(1) assms(9) by simp
  let ?m = "\<lambda>m. m\<lparr>etag := sha_hex (se_blob E) d2\<rparr>"
  have read: "read_object (se_blob E) (d_fs s2) dd b k' m = Inr d2"
    if "om_policy m = policy_display p" "etag m = sha_hex (se_blob E) d2" for m
    by (rule zstd_api.read_object_ok [OF _ healthy that r2(1) _ r2(2,3)])
      (use api assms(10) c2 in \<open>simp_all add: storage_api_def erasure_fits_def\<close>)
  from read [of "?m m1"] have "read_object (se_blob E) (d_fs s2) dd b k m1 =
      Inl (DataCorruption (sha_hex (se_blob E) d1) (sha_hex (se_blob E) d2))"
    using r1(7,8) assms(8)
    by (auto simp: read_object_def oid op_simps split: sum.split_asm sum.splits if_split_asm)
  moreover from read [OF r2(7,8)] have "read_object (se_blob E) (d_fs s2) dd b k' m2 = Inr d2" .
  moreover have "fst (index_get_object E dd b k s) = stored_md E (index_trees trees s dd) b k"
    if "index_ready sound s dd" for s
    using storage_api.get_index_ready [OF api that, of b k] unfolding stored_md_def by (metis fst_conv)
  ultimately show ?thesis
    using r1(5,6) r2(5,6) assms(6) put2 by (simp add: store_defs storage_api.get_chunks_value [OF api r2(5)] op_simps)
qed

theorem key_collision_destroys_witness:
  "\<exists>md2 s2. put_object ref_env (''t1'', ''t2'', ''t3'', ''t4'') ''/data'' ''b'' ''a-b'' [2] Hot (snd (ref_put ''b'' ''a/b'' [1] Hot ref_disk)) = (Inr md2, s2) \<and>
    fst (index_get_object ref_env ''/data'' ''b'' ''a/b'' s2) =
      fst (index_get_object ref_env ''/data'' ''b'' ''a/b'' (snd (ref_put ''b'' ''a/b'' [1] Hot ref_disk))) \<and>
    fst (get_object ref_env ''/data'' ''b'' ''a/b'' s2) =
      Inl (DataCorruption (sha_hex (se_blob ref_env) [1]) (sha_hex (se_blob ref_env) [2])) \<and>
    fst (get_object ref_env ''/data'' ''b'' ''a-b'' s2) = Inr [2]"
  by (rule key_collision_destroys [OF ref_store.storage_api_axioms ref_disk_ready _ ref_put_ok _ _ _ _ ref_compress])
    (simp_all add: object_id_no_slash slash_to_dash_def ref_env_def ref_blob_def)

section \<open>Deletion\<close>

text \<open>
  Deleting. The call succeeds on a sound, open index; the object's download then reports that it
  does not exist, every other object's download answers as before, and no file has been removed: the
  chunk files of the object stay on the disk.
\<close>

theorem delete_hides_object:
  assumes "storage_api E trees sound" "index_ready sound s dd"
  shows "\<exists>s'. delete_object E dd b k s = (Inr (), s') \<and> d_fs s' = d_fs s \<and>
    fst (get_object E dd b k s') = Inl (ObjectNotFound b k) \<and>
    (b' \<noteq> b \<or> k' \<noteq> k \<longrightarrow> fst (get_object E dd b' k' s') = fst (get_object E dd b' k' s))"
proof -
  note api = assms(1)
  obtain s' where del: "index_delete_object E dd b k s = (Inr (), s')"
    and s': "index_ready sound s' dd" "d_fs s' = d_fs s"
    "index_trees trees s' dd = sled_effect (Remove (bucket_tree b) (str_bytes k))
       (sled_effect (OpenTree (bucket_tree b)) (index_trees trees s dd))"
    by (rule storage_api.delete_ready [OF api assms(2)])
  have "stored_md E (index_trees trees s' dd) b'' k'' =
      (if b'' = b \<and> k'' = k then Inl (ObjectNotFound b k) else stored_md E (index_trees trees s dd) b'' k'')"
    for b'' k'' by (simp add: stored_md_def s'(3))
  then show ?thesis
    using del s'(2)
    by (simp add: store_defs storage_api.get_chunks_value [OF api s'(1)]
        storage_api.get_chunks_value [OF api assms(2)] op_simps)
qed

theorem delete_hides_object_witness:
  "\<exists>s'. delete_object ref_env ''/data'' ''b'' ''k'' ref_disk = (Inr (), s') \<and> d_fs s' = d_fs ref_disk \<and>
    fst (get_object ref_env ''/data'' ''b'' ''k'' s') = Inl (ObjectNotFound ''b'' ''k'') \<and>
    (''b'' \<noteq> ''b'' \<or> ''l'' \<noteq> ''k'' \<longrightarrow> fst (get_object ref_env ''/data'' ''b'' ''l'' s') =
       fst (get_object ref_env ''/data'' ''b'' ''l'' ref_disk))"
  by (rule delete_hides_object [OF ref_store.storage_api_axioms ref_disk_ready])

section \<open>Reading shards for replication\<close>

lemma read_shard_files_present:
  assumes "healthy f" "\<And>i. i \<in> set is \<Longrightarrow> file_at f (shard_path dir oid i) = Some (D i)"
  shows "read_shard_files B f dir oid is = Inr (List.map (\<lambda>i. (i, sha_hex B (D i), D i)) is)"
  using assms(2)
  by (induction "is")
    (auto simp: op_simps shard_path_def [symmetric] Let_def file_at_exists fs_read_healthy [OF assms(1)])

lemma read_shard_files_absent:
  assumes "\<And>i. i \<in> set is \<Longrightarrow> \<not> path_exists f (shard_path dir oid i)"
  shows "read_shard_files B f dir oid is = Inr []"
  using assms by (induction "is") (auto simp: shard_path_def Let_def)

lemma replica_object_id_plain:
  "CHR ''/'' \<notin> set b \<Longrightarrow> replica_object_id b k = object_id b k"
  by (simp add: replica_object_id_def object_id_def slash_to_dash_id) (simp add: slash_to_dash_def)

context storage_api begin

lemma read_shards_value:
  assumes "index_ready sound s dd" "stored_md E (index_trees trees s dd) b k = Inr md"
  shows "fst (read_shards E dd b k s) =
    read_shard_files (se_blob E) (d_fs s) (chunks_dir dd b) (replica_object_id b k) [0..<total_shards (om_policy md)]"
proof -
  obtain s1 where "index_get_object E dd b k s = (stored_md E (index_trees trees s dd) b k, s1)" "d_fs s1 = d_fs s"
    unfolding stored_md_def by (rule get_index_ready [OF assms(1)])
  with assms(2) show ?thesis by (simp add: read_shards_def op_simps)
qed

end

lemma read_shards_after_put:
  assumes "storage_api E trees sound" "index_ready sound s dd" "dd \<noteq> []"
    and "put_object E (n1, n2, n3, n4) dd b k data p s = (Inr md, s')"
    and "healthy (d_fs s)" "CHR ''/'' \<notin> set b"
    and "compress (se_blob E) data (zstd_level p) = Inr c" "length c < 2 ^ 64 - 8"
  shows "\<exists>sh. fst (read_shards E dd b k s') =
      Inr (List.map (\<lambda>i. (i, sha_hex (se_blob E) (sh ! i), sh ! i)) [0..<total_shards (policy_display p)]) \<and>
    length sh = total_shards (policy_display p) \<and>
    encode_erasure c (fst (data_parity p)) (snd (data_parity p)) = Inr sh \<and>
    decode_erasure sh (fst (data_parity p)) (snd (data_parity p)) = Inr c"
proof -
  note api = assms(1) and put = assms(4) [unfolded store_defs]
  obtain c' sh md' where r: "compress (se_blob E) data (zstd_level p) = Inr c'"
    "encode_erasure c' (fst (data_parity p)) (snd (data_parity p)) = Inr sh"
    "shards_on_disk (d_fs s') (chunks_dir dd b) (object_id b k) sh (fst (data_parity p)) (snd (data_parity p))"
    "\<forall>i < length sh. file_at (d_fs s') (shard_path (chunks_dir dd b) (object_id b k) i) = Some (sh ! i)"
    "index_ready sound s' dd"
    "\<forall>b' k'. stored_md E (index_trees trees s' dd) b' k' =
       (if b' = b \<and> k' = k then Inr md' else stored_md E (index_trees trees s dd) b' k')"
    "om_policy md' = policy_display p" "etag md' = sha_hex (se_blob E) data" "etag md = etag md'"
    by (rule storage_api.put_chunks_stored [OF api assms(2,3) put])
  have len: "length sh = total_shards (policy_display p)" using erasure.encode_length [OF r(2)] by simp
  have "healthy (d_fs s')" using put_chunks_frame(1) [OF put] assms(5) by (simp add: healthy_def)
  then have "read_shard_files (se_blob E) (d_fs s') (chunks_dir dd b) (object_id b k) [0..<length sh] =
      Inr (List.map (\<lambda>i. (i, sha_hex (se_blob E) (sh ! i), sh ! i)) [0..<length sh])"
    by (rule read_shard_files_present) (use r(4) in simp)
  moreover have cc: "c' = c" "erasure_fits c" using r(1) assms(7,8) by (simp_all add: erasure_fits_def)
  with erasure.recover_all [OF data_parity_pos _ r(2)]
  have "decode_erasure sh (fst (data_parity p)) (snd (data_parity p)) = Inr c" by simp
  ultimately show ?thesis
    using r(2,6,7) len cc(1)
    by (intro exI [of _ sh])
      (simp add: storage_api.read_shards_value [OF api r(5), of b k md'] replica_object_id_plain [OF assms(6)])
qed

text \<open>
  What replication sees. After an upload to a bucket without a slash, \<open>read_shards\<close> returns every
  shard of the object (data and parity) in order, each with its index and digest, and the data shards
  among them decode to the compressed data.
\<close>

theorem read_shards_complete:
  assumes "storage_api E trees sound" "index_ready sound s dd" "dd \<noteq> []"
    and "put_object E (n1, n2, n3, n4) dd b k data p s = (Inr md, s')"
    and "healthy (d_fs s)" "CHR ''/'' \<notin> set b"
    and "compress (se_blob E) data (zstd_level p) = Inr c" "length c < 2 ^ 64 - 8"
  shows "\<exists>sh. fst (read_shards E dd b k s') =
      Inr (List.map (\<lambda>i. (i, sha_hex (se_blob E) (sh ! i), sh ! i)) [0..<total_shards (policy_display p)]) \<and>
    length sh = total_shards (policy_display p) \<and>
    decode_erasure sh (fst (data_parity p)) (snd (data_parity p)) = Inr c"
  using read_shards_after_put [OF assms] by blast

theorem read_shards_complete_witness:
  "\<exists>sh. fst (read_shards ref_env ''/data'' ''b'' ''a/b'' (snd (ref_put ''b'' ''a/b'' [1, 2, 3] Warm ref_disk))) =
      Inr (List.map (\<lambda>i. (i, sha_hex (se_blob ref_env) (sh ! i), sh ! i)) [0..<total_shards (policy_display Warm)]) \<and>
    length sh = total_shards (policy_display Warm) \<and>
    decode_erasure sh (fst (data_parity Warm)) (snd (data_parity Warm)) = Inr [3, 1, 2, 3]"
  by (rule read_shards_complete [OF ref_store.storage_api_axioms ref_disk_ready _ ref_put_ok])
    (simp_all add: ref_disk_def empty_fs_def healthy_def)

text \<open>The file that \<open>read_shards\<close> looks for in a bucket whose name has a slash: one directory deeper.\<close>

lemma slash_bucket_key:
  assumes "plain_name x" "plain_name y" "b = x @ ''/'' @ y" "dir \<noteq> []"
  shows "path_key (shard_path dir (replica_object_id b k) i) =
    (is_absolute dir, components dir @ [x, chunk_id (y @ ''-'' @ slash_to_dash k) i])"
proof -
  let ?n = "chunk_id (y @ ''-'' @ slash_to_dash k) i"
  have "chunk_id (replica_object_id b k) i = x @ CHR ''/'' # ?n"
    by (simp add: chunk_id_def replica_object_id_def assms(3))
  moreover have "\<not> is_absolute (x @ CHR ''/'' # ?n)"
    using assms(1) by (cases x) (auto simp: is_absolute_def plain_name_def)
  moreover have "plain_name ?n"
    by (rule chunk_id_plain) (use assms(2) no_slash_slash_to_dash in \<open>auto simp: plain_name_def\<close>)
  ultimately show ?thesis
    using assms(1,4)
    by (simp add: shard_path_def path_key_def components_join components_append plain_name_components)
qed

text \<open>
  In a bucket whose name has a slash (\<open>x/y\<close>) the names that \<open>read_shards\<close> looks for are not the
  names the upload wrote: on a disk that has nothing at those other names it returns an empty list
  without an error, so that no shard of the object is ever replicated.
\<close>

theorem slash_bucket_not_replicated:
  assumes "storage_api E trees sound" "index_ready sound s dd" "dd \<noteq> []"
    and "plain_name x" "plain_name y" "b = x @ ''/'' @ y"
    and "put_object E (n1, n2, n3, n4) dd b k data p s = (Inr md, s')"
    and "\<And>i. \<not> path_exists (d_fs s) (shard_path (chunks_dir dd b) (replica_object_id b k) i)"
  shows "fst (read_shards E dd b k s') = Inr []"
proof -
  note api = assms(1) and put = assms(7) [unfolded store_defs]
  obtain c' sh md' where r: "compress (se_blob E) data (zstd_level p) = Inr c'"
    "encode_erasure c' (fst (data_parity p)) (snd (data_parity p)) = Inr sh"
    "shards_on_disk (d_fs s') (chunks_dir dd b) (object_id b k) sh (fst (data_parity p)) (snd (data_parity p))"
    "\<forall>i < length sh. file_at (d_fs s') (shard_path (chunks_dir dd b) (object_id b k) i) = Some (sh ! i)"
    "index_ready sound s' dd"
    "\<forall>b' k'. stored_md E (index_trees trees s' dd) b' k' =
       (if b' = b \<and> k' = k then Inr md' else stored_md E (index_trees trees s dd) b' k')"
    "om_policy md' = policy_display p" "etag md' = sha_hex (se_blob E) data" "etag md = etag md'"
    by (rule storage_api.put_chunks_stored [OF api assms(2,3) put])
  let ?dir = "chunks_dir dd b"
  have dir: "?dir \<noteq> []" using assms(3) by simp
  note key = slash_bucket_key [OF assms(4-6) dir, of k]
  have "\<not> path_exists (d_fs s') (shard_path ?dir (replica_object_id b k) i)" for i
  proof -
    have "file_at (d_fs s') (shard_path ?dir (replica_object_id b k) i) =
        file_at (d_fs s) (shard_path ?dir (replica_object_id b k) i)"
      by (rule put_chunks_frame(4) [OF put])
        (simp_all add: key shard_key [OF object_id_no_slash dir] shard_meta_key [OF object_id_no_slash dir])
    moreover have "\<not> is_dir_key (d_fs s') (path_key (shard_path ?dir (replica_object_id b k) i))"
      using put_chunks_frame(3) [OF put] assms(8) [of i] ancestor_short [of _ ?dir]
      by (fastforce simp: key path_exists_def)
    ultimately show ?thesis using assms(8) [of i] by (simp add: path_exists_def)
  qed
  then have "read_shard_files (se_blob E) (d_fs s') ?dir (replica_object_id b k) xs = Inr []" for xs
    by (rule read_shard_files_absent)
  then show ?thesis
    using r(6) by (simp add: storage_api.read_shards_value [OF api r(5), of b k md'])
qed

theorem slash_bucket_not_replicated_witness:
  "fst (read_shards ref_env ''/data'' (''x'' @ ''/'' @ ''y'') ''k''
     (snd (ref_put (''x'' @ ''/'' @ ''y'') ''k'' [1, 2, 3] Hot ref_disk))) = Inr []"
proof (rule slash_bucket_not_replicated [OF ref_store.storage_api_axioms ref_disk_ready _ _ _ refl ref_put_ok])
  fix i
  let ?dir = "chunks_dir ''/data'' (''x'' @ ''/'' @ ''y'')"
  let ?n = "chunk_id (replica_object_id (''x'' @ ''/'' @ ''y'') ''k'') i"
  have "components ?dir = [''data'', ''chunks'', ''x'', ''y'']" by code_simp
  moreover have "\<not> is_absolute ?n" by (simp add: chunk_id_def replica_object_id_def is_absolute_def)
  ultimately show "\<not> path_exists (d_fs ref_disk) (shard_path ?dir
      (replica_object_id (''x'' @ ''/'' @ ''y'') ''k'') i)"
    by (simp add: path_exists_def file_at_def is_dir_key_def ref_disk_def empty_fs_def path_key_def
        shard_path_def components_join)
qed (simp_all add: plain_name_def)

text \<open>
  A bucket name that is an absolute path (a percent-encoded slash in front) leaves the data
  directory: the chunk directory is the bucket itself, whatever the data directory is, and a
  successful upload has written its first shard there.
\<close>

theorem absolute_bucket_escapes:
  assumes "storage_api E trees sound" "index_ready sound s dd" "dd \<noteq> []"
    and "put_object E (n1, n2, n3, n4) dd b k data p s = (Inr md, s')" "is_absolute b"
  shows "chunks_dir dd b = b \<and>
    (\<exists>shard. file_at (d_fs s') (path_join b (chunk_id (object_id b k) 0)) = Some shard)"
proof -
  note api = assms(1) and put = assms(4) [unfolded store_defs]
  have dir: "chunks_dir dd b = b" using assms(5) by (simp add: chunks_dir_def path_join_absolute)
  obtain c' sh md' where r: "compress (se_blob E) data (zstd_level p) = Inr c'"
    "encode_erasure c' (fst (data_parity p)) (snd (data_parity p)) = Inr sh"
    "shards_on_disk (d_fs s') (chunks_dir dd b) (object_id b k) sh (fst (data_parity p)) (snd (data_parity p))"
    "\<forall>i < length sh. file_at (d_fs s') (shard_path (chunks_dir dd b) (object_id b k) i) = Some (sh ! i)"
    "index_ready sound s' dd"
    "\<forall>b' k'. stored_md E (index_trees trees s' dd) b' k' =
       (if b' = b \<and> k' = k then Inr md' else stored_md E (index_trees trees s dd) b' k')"
    "om_policy md' = policy_display p" "etag md' = sha_hex (se_blob E) data" "etag md = etag md'"
    by (rule storage_api.put_chunks_stored [OF api assms(2,3) put])
  then show ?thesis
    using dir data_parity_pos [of p] by (auto simp: shards_on_disk_def shard_path_def)
qed

theorem absolute_bucket_escapes_witness:
  "chunks_dir ''/data'' ''/etc'' = ''/etc'' \<and>
    (\<exists>shard. file_at (d_fs (snd (ref_put ''/etc'' ''k'' [1, 2, 3] Hot ref_disk)))
       (path_join ''/etc'' (chunk_id (object_id ''/etc'' ''k'') 0)) = Some shard)"
  by (rule absolute_bucket_escapes [OF ref_store.storage_api_axioms ref_disk_ready _ ref_put_ok])
    (simp_all add: is_absolute_def)

end
