(* ===== verification/Placement.thy ===== *)
theory Placement
  imports Store_Isolation
begin

text \<open>
  Chunk placement, \<open>agent/src/storage/placement.rs\<close>: the nodes a chunk goes to and the test whether an
  object survives the loss of nodes. Nothing in the agent calls these functions yet; the theorems
  say what they compute and compare the test with what a download can do.
\<close>

section \<open>Operations\<close>

record node_capacity =
  nc_node_id :: uuid
  available_bytes :: u64
  used_bytes :: u64

record chunk_placement =
  cp_chunk_id :: string
  cp_node_ids :: "uuid list"
  cp_policy :: string

definition determine_placement ::
  "string \<Rightarrow> u64 \<Rightarrow> storage_policy \<Rightarrow> node_capacity list \<Rightarrow> uuid list"
where
  "determine_placement chunk chunk_size policy available_nodes =
     (if available_nodes = [] then []
      else let placement_count = replicas policy in
        List.map (\<lambda>i. nc_node_id (available_nodes ! (i mod length available_nodes)))
          [0..<min placement_count (length available_nodes)])"

definition alive_count :: "uuid list \<Rightarrow> uuid list \<Rightarrow> nat" where
  "alive_count placement failed_nodes = length (filter (\<lambda>n. n \<notin> set failed_nodes) placement)"

fun is_recoverable :: "uuid list \<Rightarrow> storage_policy \<Rightarrow> uuid list \<Rightarrow> bool" where
  "is_recoverable placement Hot failed_nodes = list_ex (\<lambda>n. n \<notin> set failed_nodes) placement"
| "is_recoverable placement Warm failed_nodes = (alive_count placement failed_nodes \<ge> 4)"
| "is_recoverable placement Cold failed_nodes = (alive_count placement failed_nodes \<ge> 6)"
| "is_recoverable placement Archive failed_nodes = (alive_count placement failed_nodes \<ge> 8)"

section \<open>Lemmas\<close>

lemma determine_placement_take:
  "determine_placement c n p nodes = take (replicas p) (List.map nc_node_id nodes)"
proof (cases "nodes = []")
  case False
  have "determine_placement c n p nodes = List.map (\<lambda>i. nc_node_id (nodes ! i)) [0..<min (replicas p) (length nodes)]"
    using False by (auto simp: determine_placement_def Let_def)
  then show ?thesis by (simp add: list_eq_iff_nth_eq)
qed (simp add: determine_placement_def)

lemma is_recoverable_count:
  "is_recoverable placement p failed \<longleftrightarrow> fst (data_parity p) \<le> alive_count placement failed"
proof (cases p)
  case Hot
  have "list_ex (\<lambda>n. n \<notin> set failed) placement \<longleftrightarrow> filter (\<lambda>n. n \<notin> set failed) placement \<noteq> []"
    by (simp add: list_ex_iff filter_empty_conv)
  with Hot show ?thesis by (simp add: data_parity_def alive_count_def Suc_le_eq)
qed (simp_all add: data_parity_def)

lemma alive_count_mono:
  "set failed' \<subseteq> set failed \<Longrightarrow> alive_count placement failed \<le> alive_count placement failed'"
  unfolding alive_count_def
  by (induction placement) (auto intro: le_SucI)

lemma alive_count_one:
  "distinct placement \<Longrightarrow> alive_count placement [n] \<ge> length placement - 1"
proof -
  assume "distinct placement"
  then have "length (filter (\<lambda>x. x \<noteq> n) placement) = length (remove1 n placement)"
    by (simp add: distinct_remove1_removeAll removeAll_filter_not_eq eq_commute)
  then show ?thesis
    unfolding alive_count_def by (simp add: length_remove1)
qed

section \<open>Properties\<close>

text \<open>
  Placement takes the first nodes of the list, as many as the policy has replicas or as there
  are; the survival test accepts exactly when at least as many placed nodes are alive as the policy
  has data shards, and never turns from yes to no when fewer nodes fail.
\<close>

theorem placement_functional:
  "determine_placement c n p nodes = take (replicas p) (List.map nc_node_id nodes) \<and>
   (is_recoverable placement p failed \<longleftrightarrow> fst (data_parity p) \<le> alive_count placement failed)"
  by (simp add: determine_placement_take is_recoverable_count)

text \<open>
  The placement of an erasure-coded policy never passes the survival test, even with no failed
  node: it names one node where the test wants as many as there are data shards.
\<close>

theorem erasure_placement_unrecoverable:
  assumes "p \<noteq> Hot"
  shows "\<not> is_recoverable (determine_placement c n p nodes) p failed"
proof -
  have "alive_count (determine_placement c n p nodes) failed \<le> replicas p"
    unfolding alive_count_def determine_placement_take
    by (rule order_trans [OF length_filter_le]) simp
  moreover have "replicas p < fst (data_parity p)" using assms by (cases p) (simp_all add: data_parity_def)
  ultimately show ?thesis by (simp add: is_recoverable_count)
qed

theorem erasure_placement_unrecoverable_witness:
  "\<not> is_recoverable (determine_placement ''c'' 10 Cold
     [\<lparr>nc_node_id = 1, available_bytes = 9, used_bytes = 0\<rparr>]) Cold []"
  by (rule erasure_placement_unrecoverable) simp

text \<open>
  The survival test promises what a download does not do: with the shards of an erasure-coded
  object on distinct nodes and only the node of one data shard lost, the test says the object is
  recoverable, yet the download without that shard fails.
\<close>

theorem recoverable_but_lost:
  assumes "storage_api E trees sound" "index_ready sound s dd" "dd \<noteq> []"
    and "put_object E (n1, n2, n3, n4) dd b k data p s = (Inr md, s')"
    and "p \<noteq> Hot" "distinct nodes" "length nodes = total_shards (policy_display p)"
    and "healthy g" "i < fst (data_parity p)"
    and "\<not> path_exists g (shard_path (chunks_dir dd b) (object_id b k) i)"
    and "\<And>j. j \<noteq> i \<Longrightarrow>
         file_at g (shard_path (chunks_dir dd b) (object_id b k) j) =
         file_at (d_fs s') (shard_path (chunks_dir dd b) (object_id b k) j)"
  shows "is_recoverable nodes p [nodes ! i] \<and>
    fst (get_object E dd b k (s'\<lparr>d_fs := g\<rparr>)) = Inl InsufficientShards"
proof
  have "fst (data_parity p) \<le> length nodes - 1"
    using assms(5,7) by (cases p) (simp_all add: data_parity_def total_shards_def)
  then show "is_recoverable nodes p [nodes ! i]"
    using alive_count_one [OF assms(6), of "nodes ! i"] by (simp add: is_recoverable_count)
  show "fst (get_object E dd b k (s'\<lparr>d_fs := g\<rparr>)) = Inl InsufficientShards"
    using storage_api.get_missing_shard [OF assms(1-3) _ assms(8-10)] assms(4,11)
    by (simp add: store_defs)
qed

theorem recoverable_but_lost_witness:
  "is_recoverable [0, 1, 2, 3, 4, 5] Warm [[0, 1, 2, 3, 4, 5] ! 0] \<and>
   fst (get_object ref_env ''/data'' ''b'' ''k'' ((snd (ref_put ''b'' ''k'' [1, 2, 3] Warm ref_disk))
      \<lparr>d_fs := fs_remove (shard_path (chunks_dir ''/data'' ''b'') (object_id ''b'' ''k'') 0)
        (d_fs (snd (ref_put ''b'' ''k'' [1, 2, 3] Warm ref_disk)))\<rparr>)) = Inl InsufficientShards"
  by (rule recoverable_but_lost [OF ref_store.storage_api_axioms ref_disk_ready _ ref_put_ok, where i = 0])
    (simp_all add: ref_put_healthy ref_put_no_dir data_parity_def total_shards_def path_exists_def)

end
