(* ===== verification/Raft_Machine.thy ===== *)
theory Raft_Machine
  imports External
begin

text \<open>
  The replicated state machine, \<open>agent/src/raft/commands.rs\<close> and the second half of
  \<open>agent/src/raft/store.rs\<close>: the commands of the log, the registry of jobs and enrolment tokens they
  act on, the machine that persists its state in sled, and snapshots. The types of openraft appear
  as far as the code reads them: a log id with its index, a membership as a type parameter \<open>'m\<close>.
  Readings of the clock are arguments. The maps are finite maps: the machine never iterates them.
\<close>

section \<open>Data\<close>

datatype raft_command =
    RegisterJob (rc_job_id: string) (rc_node_id: string) (rc_runtime: string) (rc_created_at: string)
  | UpdateJobStatus (rc_job_id: string) (rc_status: string) (rc_node_id: string)
  | AddMember (rc_node_id: string) (rc_grpc_endpoint: string)
  | RemoveMember (rc_node_id: string)
  | StoreEnrollToken (rc_token: string) (rc_expires_at: string) (rc_issued_by: string)
  | ConsumeEnrollToken (rc_token: string)

record raft_response =
  rr_success :: bool
  rr_error :: "string option"
  rr_data :: "string option"

record registered_job =
  rj_job_id :: string
  rj_node_id :: string
  rj_runtime :: string
  rj_status :: string
  rj_created_at :: string
  rj_updated_at :: string

record enroll_token =
  et_token :: string
  et_issued_by :: string
  et_expires_at :: string
  et_used :: bool

record log_id =
  lid_term :: u64
  lid_leader :: uuid
  lid_index :: u64

instance log_id_ext :: (countable) countable
  by (rule countable_classI [of "\<lambda>l. to_nat ((lid_term l, lid_leader l, lid_index l), log_id.more l)"])
    (auto intro!: log_id.equality)

record 'm stored_membership =
  sm_log_id :: "log_id option"
  sm_members :: 'm

record 'm raft_state =
  last_applied :: "log_id option"
  last_membership :: "'m stored_membership"
  job_registry :: "(string, registered_job) fmap"
  enroll_tokens :: "(string, enroll_token) fmap"

datatype 'm payload = Blank | Normal raft_command | Membership 'm

record 'm log_entry =
  le_log_id :: log_id
  le_payload :: "'m payload"

text \<open>\<open>StorageError::IO\<close>: what was touched, how, and the text of the cause.\<close>

datatype error_subject = Logs | VoteSubject | StateMachine

datatype error_verb = ReadVerb | WriteVerb

datatype raft_error = RaftIo error_subject error_verb string | RaftPanic | OpenErr string

definition io_err :: "error_subject \<Rightarrow> error_verb \<Rightarrow> string \<Rightarrow> raft_error" where
  "io_err subject verb e = RaftIo subject verb e"

definition log_read_err :: "string \<Rightarrow> raft_error" where
  "log_read_err e = io_err Logs ReadVerb e"

definition log_write_err :: "string \<Rightarrow> raft_error" where
  "log_write_err e = io_err Logs WriteVerb e"

definition vote_read_err :: "string \<Rightarrow> raft_error" where
  "vote_read_err e = io_err VoteSubject ReadVerb e"

definition vote_write_err :: "string \<Rightarrow> raft_error" where
  "vote_write_err e = io_err VoteSubject WriteVerb e"

definition sm_write_err :: "string \<Rightarrow> raft_error" where
  "sm_write_err e = io_err StateMachine WriteVerb e"

definition sm_read_err :: "string \<Rightarrow> raft_error" where
  "sm_read_err e = io_err StateMachine ReadVerb e"

section \<open>Applying a command\<close>

definition ok_response :: raft_response where
  "ok_response = \<lparr> rr_success = True, rr_error = None, rr_data = None \<rparr>"

definition err_response :: "string \<Rightarrow> raft_response" where
  "err_response e = \<lparr> rr_success = False, rr_error = Some e, rr_data = None \<rparr>"

fun apply_command :: "string \<Rightarrow> raft_command \<Rightarrow> 'm raft_state \<Rightarrow> raft_response \<times> 'm raft_state" where
  "apply_command now (RegisterJob job_id node_id runtime created_at) s =
     (if fmlookup (job_registry s) job_id \<noteq> None
      then (err_response ''already registered'', s)
      else (ok_response, s\<lparr>job_registry := fmupd job_id
        \<lparr> rj_job_id = job_id, rj_node_id = node_id, rj_runtime = runtime, rj_status = ''queued'',
          rj_created_at = created_at, rj_updated_at = created_at \<rparr> (job_registry s)\<rparr>))"
| "apply_command now (UpdateJobStatus job_id status node_id) s =
     (case fmlookup (job_registry s) job_id of
        Some job \<Rightarrow> (ok_response, s\<lparr>job_registry := fmupd job_id
          (job\<lparr>rj_status := status, rj_updated_at := now\<rparr>) (job_registry s)\<rparr>)
      | None \<Rightarrow> (err_response (''job '' @ job_id @ '' not found''), s))"
| "apply_command now (AddMember node_id grpc_endpoint) s = (ok_response, s)"
| "apply_command now (RemoveMember node_id) s = (ok_response, s)"
| "apply_command now (StoreEnrollToken token expires_at issued_by) s =
     (ok_response, s\<lparr>enroll_tokens := fmupd token
        \<lparr> et_token = token, et_issued_by = issued_by, et_expires_at = expires_at, et_used = False \<rparr>
        (enroll_tokens s)\<rparr>)"
| "apply_command now (ConsumeEnrollToken token) s =
     (case fmlookup (enroll_tokens s) token of
        Some t \<Rightarrow>
          if et_used t then (err_response ''token already used'', s)
          else (ok_response, s\<lparr>enroll_tokens := fmupd token (t\<lparr>et_used := True\<rparr>) (enroll_tokens s)\<rparr>)
      | None \<Rightarrow> (err_response ''token not found'', s))"

section \<open>The persistent machine\<close>

record ('d, 'm) sled_machine =
  mach_db :: 'd
  mach_state :: "'m raft_state"

definition default_tree :: string where
  "default_tree = ''__sled__default''"

definition default_state :: "'m \<Rightarrow> 'm raft_state" where
  "default_state no_members = \<lparr> last_applied = None,
     last_membership = \<lparr> sm_log_id = None, sm_members = no_members \<rparr>,
     job_registry = fmempty, enroll_tokens = fmempty \<rparr>"

text \<open>
  \<open>sled::open\<close> then the stored state: a database that cannot be read, no entry, and an entry that
  does not parse all give the default state.
\<close>

definition machine_open ::
  "'d sled \<Rightarrow> 'm raft_state json \<Rightarrow> 'm \<Rightarrow> string + 'd \<Rightarrow> raft_error + ('d, 'm) sled_machine"
where
  "machine_open S J no_members opened =
     bind_res (map_err OpenErr opened) (\<lambda>db.
       let stored = (case sled_get S default_tree (str_bytes ''state'') db of Inl _ \<Rightarrow> None | Inr v \<Rightarrow> v);
           st = (case stored of
               Some b \<Rightarrow> (case js_dec J b of Inl _ \<Rightarrow> default_state no_members | Inr x \<Rightarrow> x)
             | None \<Rightarrow> default_state no_members)
       in Inr \<lparr> mach_db = db, mach_state = st \<rparr>)"

text \<open>The last three lines of \<open>apply\<close> and of \<open>install_snapshot\<close>.\<close>

definition persist_state ::
  "'d sled \<Rightarrow> 'm raft_state json \<Rightarrow> (raft_error, ('d, 'm) sled_machine, unit) op"
where
  "persist_state S J m =
     (case js_enc J (mach_state m) of
        Inl e \<Rightarrow> (Inl (sm_write_err e), m)
      | Inr b \<Rightarrow>
          (case sled_do S (Insert default_tree (str_bytes ''state'') b) (mach_db m) of
             (Inl e, d) \<Rightarrow> (Inl (sm_write_err e), m\<lparr>mach_db := d\<rparr>)
           | (Inr _, d) \<Rightarrow> (map_err sm_write_err (sled_flush S default_tree d), m\<lparr>mach_db := d\<rparr>)))"

definition apply_entry :: "string \<Rightarrow> 'm log_entry \<Rightarrow> 'm raft_state \<Rightarrow> raft_response \<times> 'm raft_state" where
  "apply_entry now entry s =
     (let s = s\<lparr>last_applied := Some (le_log_id entry)\<rparr> in
      case le_payload entry of
        Blank \<Rightarrow> (ok_response, s)
      | Normal cmd \<Rightarrow> apply_command now cmd s
      | Membership m \<Rightarrow> (ok_response, s\<lparr>last_membership :=
          \<lparr> sm_log_id = Some (le_log_id entry), sm_members = m \<rparr>\<rparr>))"

text \<open>The loop of \<open>apply\<close>; each entry comes with the time it is applied at.\<close>

fun apply_entries ::
  "(string \<times> 'm log_entry) list \<Rightarrow> 'm raft_state \<Rightarrow> raft_response list \<times> 'm raft_state"
where
  "apply_entries [] s = ([], s)"
| "apply_entries ((now, entry) # entries) s =
     (let (r, s1) = apply_entry now entry s; (rs, s2) = apply_entries entries s1 in (r # rs, s2))"

definition machine_apply ::
  "'d sled \<Rightarrow> 'm raft_state json \<Rightarrow> (string \<times> 'm log_entry) list
   \<Rightarrow> (raft_error, ('d, 'm) sled_machine, raft_response list) op"
where
  "machine_apply S J entries m =
     (let (responses, st) = apply_entries entries (mach_state m) in
      bind_op (persist_state S J) (\<lambda>_. ret_op responses) (m\<lparr>mach_state := st\<rparr>))"

definition applied_state :: "('d, 'm) sled_machine \<Rightarrow> log_id option \<times> 'm stored_membership" where
  "applied_state m = (last_applied (mach_state m), last_membership (mach_state m))"

section \<open>Snapshots\<close>

record 'm snapshot_meta =
  last_log_id :: "log_id option"
  meta_membership :: "'m stored_membership"
  snapshot_id :: string

record 'm snapshot =
  snap_meta :: "'m snapshot_meta"
  snap_data :: bytes

text \<open>The builder keeps a clone of the state; \<open>fresh_id\<close> is the new UUID's text.\<close>

definition get_snapshot_builder :: "('d, 'm) sled_machine \<Rightarrow> 'm raft_state" where
  "get_snapshot_builder m = mach_state m"

definition build_snapshot :: "'m raft_state json \<Rightarrow> string \<Rightarrow> 'm raft_state \<Rightarrow> raft_error + 'm snapshot" where
  "build_snapshot J fresh_id st =
     bind_res (map_err sm_write_err (js_enc J st)) (\<lambda>data.
       Inr \<lparr> snap_meta = \<lparr> last_log_id = last_applied st, meta_membership = last_membership st,
               snapshot_id = fresh_id \<rparr>, snap_data = data \<rparr>)"

definition begin_receiving_snapshot :: bytes where
  "begin_receiving_snapshot = []"

definition install_snapshot ::
  "'d sled \<Rightarrow> 'm raft_state json \<Rightarrow> 'm snapshot_meta \<Rightarrow> bytes \<Rightarrow> (raft_error, ('d, 'm) sled_machine, unit) op"
where
  "install_snapshot S J meta data m =
     (case js_dec J data of
        Inl e \<Rightarrow> (Inl (sm_write_err e), m)
      | Inr st \<Rightarrow> persist_state S J (m\<lparr>mach_state := st\<lparr>last_applied := last_log_id meta,
          last_membership := meta_membership meta\<rparr>\<rparr>))"

definition get_current_snapshot ::
  "'m raft_state json \<Rightarrow> ('d, 'm) sled_machine \<Rightarrow> raft_error + 'm snapshot option"
where
  "get_current_snapshot J m =
     bind_res (map_err sm_read_err (js_enc J (mach_state m))) (\<lambda>data.
       if data = str_bytes ''null'' \<or> last_applied (mach_state m) = None then Inr None
       else Inr (Some \<lparr> snap_meta = \<lparr> last_log_id = last_applied (mach_state m),
               meta_membership = last_membership (mach_state m), snapshot_id = ''latest'' \<rparr>,
             snap_data = data \<rparr>))"

section \<open>Runs of commands\<close>

text \<open>The responses and the final state of a list of commands, each with its clock reading.\<close>

fun run_commands ::
  "(string \<times> raft_command) list \<Rightarrow> 'm raft_state \<Rightarrow> raft_response list \<times> 'm raft_state"
where
  "run_commands [] s = ([], s)"
| "run_commands ((now, c) # cs) s =
     (let (r, s1) = apply_command now c s; (rs, s2) = run_commands cs s1 in (r # rs, s2))"

inductive machine_step :: "'m raft_state \<Rightarrow> 'm raft_state \<Rightarrow> bool" where
  entry: "apply_entry now e s = (r, t) \<Longrightarrow> machine_step s t"

inductive_cases machine_stepE: "machine_step s t"

text \<open>The keys of the maps are the names inside the records.\<close>

definition state_wf :: "'m raft_state \<Rightarrow> bool" where
  "state_wf s \<longleftrightarrow>
     (\<forall>j r. fmlookup (job_registry s) j = Some r \<longrightarrow> rj_job_id r = j) \<and>
     (\<forall>t r. fmlookup (enroll_tokens s) t = Some r \<longrightarrow> et_token r = t)"

text \<open>Registrations only grow, and what the first writer recorded stays.\<close>

definition registry_extends :: "'m raft_state \<Rightarrow> 'm raft_state \<Rightarrow> bool" where
  "registry_extends s t \<longleftrightarrow> (\<forall>j r. fmlookup (job_registry s) j = Some r \<longrightarrow>
     (\<exists>r'. fmlookup (job_registry t) j = Some r' \<and> rj_node_id r' = rj_node_id r \<and>
        rj_runtime r' = rj_runtime r \<and> rj_created_at r' = rj_created_at r \<and> rj_job_id r' = rj_job_id r))"

lemma apply_command_wf: "apply_command now c s = (r, t) \<Longrightarrow> state_wf s \<Longrightarrow> state_wf t"
  by (cases c) (auto simp: state_wf_def split: if_split_asm option.split_asm)

lemma apply_command_extends: "apply_command now c s = (r, t) \<Longrightarrow> registry_extends s t"
  by (cases c) (auto simp: registry_extends_def split: if_split_asm option.split_asm)

lemma registry_extends_refl: "registry_extends s s"
  by (simp add: registry_extends_def)

lemma registry_extends_trans:
  assumes "registry_extends s t" "registry_extends t u" shows "registry_extends s u"
  unfolding registry_extends_def
proof (intro allI impI)
  fix j r assume "fmlookup (job_registry s) j = Some r"
  with assms(1) obtain r1 where 1: "fmlookup (job_registry t) j = Some r1" "rj_node_id r1 = rj_node_id r"
    "rj_runtime r1 = rj_runtime r" "rj_created_at r1 = rj_created_at r" "rj_job_id r1 = rj_job_id r"
    unfolding registry_extends_def by blast
  with assms(2) obtain r2 where "fmlookup (job_registry u) j = Some r2" "rj_node_id r2 = rj_node_id r1"
    "rj_runtime r2 = rj_runtime r1" "rj_created_at r2 = rj_created_at r1" "rj_job_id r2 = rj_job_id r1"
    unfolding registry_extends_def by blast
  with 1 show "\<exists>r'. fmlookup (job_registry u) j = Some r' \<and> rj_node_id r' = rj_node_id r \<and>
      rj_runtime r' = rj_runtime r \<and> rj_created_at r' = rj_created_at r \<and> rj_job_id r' = rj_job_id r"
    by simp
qed

lemma state_wf_meta [simp]:
  "state_wf (s\<lparr>last_applied := x\<rparr>) = state_wf s" "state_wf (s\<lparr>last_membership := y\<rparr>) = state_wf s"
  by (simp_all add: state_wf_def)

lemma apply_entry_wf: "apply_entry now e s = (r, t) \<Longrightarrow> state_wf s \<Longrightarrow> state_wf t"
  by (auto simp: apply_entry_def Let_def dest: apply_command_wf split: payload.split_asm)

lemma registry_extends_meta [simp]:
  "registry_extends (s\<lparr>last_applied := x\<rparr>) t = registry_extends s t"
  "registry_extends s (t\<lparr>last_applied := x\<rparr>) = registry_extends s t"
  "registry_extends s (t\<lparr>last_membership := y\<rparr>) = registry_extends s t"
  by (simp_all add: registry_extends_def)

lemma apply_entry_extends:
  assumes "apply_entry now e s = (r, t)" shows "registry_extends s t"
proof (cases "le_payload e")
  case (Normal c)
  then have "apply_command now c (s\<lparr>last_applied := Some (le_log_id e)\<rparr>) = (r, t)"
    using assms by (simp add: apply_entry_def)
  then show ?thesis using apply_command_extends by fastforce
qed (use assms in \<open>auto simp: apply_entry_def Let_def registry_extends_refl\<close>)

interpretation machine: step_system machine_step state_wf registry_extends
proof (unfold_locales, goal_cases)
  case (1 s t)
  from 1(1) obtain now e r where "apply_entry now e s = (r, t)" by (rule machine_stepE)
  then show ?case using 1(2) by (rule apply_entry_wf)
next
  case (2 s t)
  from 2(1) obtain now e r where "apply_entry now e s = (r, t)" by (rule machine_stepE)
  then show ?case by (rule apply_entry_extends)
next
  case (3 s)
  show ?case by (rule registry_extends_refl)
next
  case (4 s t u)
  then show ?case by (rule registry_extends_trans)
qed

interpretation commands: command_machine "\<lambda>(now, c) s. snd (apply_command now c s)" state_wf
proof
  fix s :: "'a raft_state" and c :: "string \<times> raft_command"
  obtain now c' where c: "c = (now, c')" by (cases c)
  obtain r t where "apply_command now c' s = (r, t)" by (cases "apply_command now c' s")
  moreover assume "state_wf s"
  ultimately show "state_wf ((\<lambda>(now, c) s. snd (apply_command now c s)) c s)"
    using apply_command_wf [of now c' s] by (simp add: c)
qed


section \<open>Properties of the commands\<close>

lemma apply_entries_run: "machine_step\<^sup>*\<^sup>* s (snd (apply_entries es s))"
proof (induction es arbitrary: s)
  case Nil
  then show ?case by simp
next
  case (Cons e es)
  obtain now entry where e: "e = (now, entry)" by (cases e)
  obtain r s1 where s1: "apply_entry now entry s = (r, s1)" by (cases "apply_entry now entry s")
  have "machine_step s s1" by (rule machine_step.entry [OF s1])
  moreover have "snd (apply_entries (e # es) s) = snd (apply_entries es s1)"
    by (simp add: e s1 split_def Let_def)
  ultimately show ?case using Cons.IH [of s1] by (simp add: converse_rtranclp_into_rtranclp)
qed

lemma apply_entries_meta:
  "length (fst (apply_entries es s)) = length es \<and>
   (es \<noteq> [] \<longrightarrow> last_applied (snd (apply_entries es s)) = Some (le_log_id (snd (last es))))"
proof (induction es arbitrary: s)
  case Nil
  then show ?case by simp
next
  case (Cons e es)
  obtain now entry where e: "e = (now, entry)" by (cases e)
  obtain r s1 where s1: "apply_entry now entry s = (r, s1)" by (cases "apply_entry now entry s")
  have "last_applied t = last_applied s'" if "apply_command now c s' = (r', t)" for c r' t and s' :: "'a raft_state"
    using that by (cases c) (auto split: if_split_asm option.split_asm)
  then have "last_applied s1 = Some (le_log_id entry)"
    using s1 by (fastforce simp: apply_entry_def Let_def split: payload.split_asm)
  then show ?case using Cons.IH [of s1] by (auto simp: e s1 split_def Let_def)
qed

text \<open>
  C7. Applying a batch of entries answers each of them, remembers the last one's log id, keeps the
  maps keyed by the records' own names, and never forgets or rewrites a registration: the node,
  runtime and creation time the first writer recorded for a job stay for good.
\<close>

theorem apply_keeps_registrations:
  assumes "state_wf s" "apply_entries es s = (rs, t)"
  shows "length rs = length es \<and> state_wf t \<and> registry_extends s t \<and>
    (es \<noteq> [] \<longrightarrow> last_applied t = Some (le_log_id (snd (last es))))"
  using machine.run_inv [OF apply_entries_run assms(1), of es]
    machine.run_rel [OF apply_entries_run assms(1), of es] apply_entries_meta [of es s] assms(2)
  by simp

theorem apply_keeps_registrations_witness:
  "let e = \<lparr> le_log_id = \<lparr> lid_term = 1, lid_leader = 7, lid_index = 4 \<rparr>,
         le_payload = Normal (RegisterJob ''j'' ''n'' ''wasm'' ''t0'') \<rparr>;
       s = default_state (0 :: nat); t = snd (apply_entries [(''now'', e)] s) in
   length (fst (apply_entries [(''now'', e)] s)) = length [(''now'', e)] \<and> state_wf t \<and> registry_extends s t \<and>
    ([(''now'', e)] \<noteq> [] \<longrightarrow> last_applied t = Some (le_log_id (snd (last [(''now'', e)]))))"
  unfolding Let_def
  by (rule apply_keeps_registrations) (simp_all add: state_wf_def default_state_def)

text \<open>How often a kind of command succeeds in a run.\<close>

definition successes :: "(raft_command \<Rightarrow> bool) \<Rightarrow> (string \<times> raft_command) list \<Rightarrow> 'm raft_state \<Rightarrow> nat" where
  "successes P cs s = length (filter (\<lambda>(c, r). P (snd c) \<and> rr_success r) (zip cs (fst (run_commands cs s))))"

definition registers :: "string \<Rightarrow> raft_command \<Rightarrow> bool" where
  "registers j c = (case c of RegisterJob j' _ _ _ \<Rightarrow> j' = j | _ \<Rightarrow> False)"

definition consumes :: "string \<Rightarrow> raft_command \<Rightarrow> bool" where
  "consumes t c = (c = ConsumeEnrollToken t)"

definition stores :: "string \<Rightarrow> raft_command \<Rightarrow> bool" where
  "stores t c = (case c of StoreEnrollToken t' _ _ \<Rightarrow> t' = t | _ \<Rightarrow> False)"

definition usable :: "string \<Rightarrow> 'm raft_state \<Rightarrow> bool" where
  "usable t s = (case fmlookup (enroll_tokens s) t of None \<Rightarrow> False | Some e \<Rightarrow> \<not> et_used e)"

lemma successes_Nil [simp]: "successes P [] s = 0"
  by (simp add: successes_def)

lemma successes_Cons:
  "apply_command now c s = (r, s1) \<Longrightarrow>
     successes P ((now, c) # cs) s = (if P c \<and> rr_success r then 1 else 0) + successes P cs s1"
  by (simp add: successes_def split_def Let_def)

lemma response_simps [simp]: "rr_success ok_response" "\<not> rr_success (err_response e)"
  by (simp_all add: ok_response_def err_response_def)

lemma command_registered:
  assumes "apply_command now c s = (r, t)"
  shows "fmlookup (job_registry t) j \<noteq> None \<longleftrightarrow> fmlookup (job_registry s) j \<noteq> None \<or> registers j c"
    and "registers j c \<Longrightarrow> rr_success r \<longleftrightarrow> fmlookup (job_registry s) j = None"
  using assms by (cases c; auto simp: registers_def split: if_split_asm option.split_asm)+

lemma command_usable:
  assumes "apply_command now c s = (r, t)"
  shows "consumes x c \<Longrightarrow> (rr_success r \<longleftrightarrow> usable x s) \<and> \<not> usable x t"
    and "stores x c \<Longrightarrow> usable x t"
    and "\<not> consumes x c \<Longrightarrow> \<not> stores x c \<Longrightarrow> usable x t = usable x s"
  using assms
  by (cases c; auto simp: consumes_def stores_def usable_def split: if_split_asm option.split_asm)+

text \<open>
  C26. First writer wins. In any run of commands from any state, whatever the order and the clock, a
  job id is registered successfully once if it was unknown and some command registers it, and never
  otherwise.
\<close>

theorem register_exactly_once:
  "successes (registers j) cs s =
     (if fmlookup (job_registry s) j = None \<and> list_ex (registers j) (List.map snd cs) then 1 else 0)"
proof (induction cs arbitrary: s)
  case Nil
  then show ?case by simp
next
  case (Cons nc cs)
  obtain now c where nc: "nc = (now, c)" by (cases nc)
  obtain r t where rt: "apply_command now c s = (r, t)" by (cases "apply_command now c s")
  show ?case
    using Cons.IH [of t] command_registered [OF rt, of j] by (auto simp: nc successes_Cons [OF rt])
qed

text \<open>
  C25. Enrolment tokens are single use as long as they are not stored again: a token that is present
  and unused is consumed successfully exactly once in a run that consumes it, and a used or unknown
  one never. The expiry time of the token plays no part.
\<close>

theorem token_single_use:
  assumes "\<not> list_ex (stores x) (List.map snd cs)"
  shows "successes (consumes x) cs s =
    (if usable x s \<and> list_ex (consumes x) (List.map snd cs) then 1 else 0)"
  using assms
proof (induction cs arbitrary: s)
  case Nil
  then show ?case by simp
next
  case (Cons nc cs)
  obtain now c where nc: "nc = (now, c)" by (cases nc)
  obtain r t where rt: "apply_command now c s = (r, t)" by (cases "apply_command now c s")
  show ?case
    using Cons.IH [of t] Cons.prems command_usable [OF rt, of x] by (auto simp: nc successes_Cons [OF rt])
qed

theorem token_single_use_witness:
  "successes (consumes ''tok'') [(''n1'', ConsumeEnrollToken ''tok''), (''n2'', ConsumeEnrollToken ''tok'')]
     (snd (apply_command ''n0'' (StoreEnrollToken ''tok'' ''past'' ''admin'') (default_state (0 :: nat)))) =
    (if usable ''tok'' (snd (apply_command ''n0'' (StoreEnrollToken ''tok'' ''past'' ''admin'') (default_state (0 :: nat)))) \<and>
        list_ex (consumes ''tok'') (List.map snd [(''n1'', ConsumeEnrollToken ''tok''), (''n2'', ConsumeEnrollToken ''tok'')])
     then 1 else 0)"
  by (rule token_single_use) (simp add: stores_def)

text \<open>
  Storing a token that was already consumed arms it again: in general a run consumes a token at
  most as often as it stores it, plus once if the token was usable at the start, and that bound is
  reached by storing and consuming in turn.
\<close>

theorem token_rearmed:
  "successes (consumes x) cs s \<le> length (filter (stores x) (List.map snd cs)) + (if usable x s then 1 else 0)
   \<and> successes (consumes x) (concat (replicate n
        [(now, StoreEnrollToken x exp by_whom), (now, ConsumeEnrollToken x)])) s = n"
proof
  show "successes (consumes x) cs s \<le> length (filter (stores x) (List.map snd cs)) + (if usable x s then 1 else 0)"
  proof (induction cs arbitrary: s)
    case Nil
    then show ?case by simp
  next
    case (Cons nc cs)
    obtain now c where nc: "nc = (now, c)" by (cases nc)
    obtain r t where rt: "apply_command now c s = (r, t)" by (cases "apply_command now c s")
    have "\<not> (consumes x c \<and> stores x c)" by (auto simp: consumes_def stores_def)
    then show ?case
      using Cons.IH [of t] command_usable [OF rt, of x]
      by (cases "consumes x c"; cases "stores x c") (auto simp: nc successes_Cons [OF rt] split: if_split_asm)
  qed
  show "successes (consumes x) (concat (replicate n
        [(now, StoreEnrollToken x exp by_whom), (now, ConsumeEnrollToken x)])) s = n"
  proof (induction n arbitrary: s)
    case 0
    then show ?case by simp
  next
    case (Suc n)
    obtain r1 s1 where 1: "apply_command now (StoreEnrollToken x exp by_whom) s = (r1, s1)" by fastforce
    obtain r2 s2 where 2: "apply_command now (ConsumeEnrollToken x) s1 = (r2, s2)" by fastforce
    have "usable x s1" by (rule command_usable(2) [OF 1]) (simp add: stores_def)
    with command_usable(1) [OF 2, of x] have "rr_success r2" by (simp add: consumes_def)
    then show ?case using Suc.IH [of s2]
      by (simp add: successes_Cons [OF 1] successes_Cons [OF 2]) (simp add: consumes_def)
  qed
qed

end
