(* ===== verification/Raft_Replica.thy ===== *)
theory Raft_Replica
  imports Raft_Machine
begin

text \<open>
  Replicas of the state machine: what two replicas that apply the same log agree on, what a restart
  recovers from sled, and what a snapshot carries to another node.
\<close>

section \<open>Two replicas\<close>

text \<open>The state without the times of the last updates, which each replica reads from its own clock.\<close>

definition erase_updates :: "'m raft_state \<Rightarrow> 'm raft_state" where
  "erase_updates s = s\<lparr>job_registry := fmmap (\<lambda>j. j\<lparr>rj_updated_at := []\<rparr>) (job_registry s)\<rparr>"

lemma erase_meta [simp]:
  "erase_updates (s\<lparr>last_applied := x\<rparr>) = (erase_updates s)\<lparr>last_applied := x\<rparr>"
  "erase_updates (s\<lparr>last_membership := y\<rparr>) = (erase_updates s)\<lparr>last_membership := y\<rparr>"
  "erase_updates (s\<lparr>enroll_tokens := z\<rparr>) = (erase_updates s)\<lparr>enroll_tokens := z\<rparr>"
  by (simp_all add: erase_updates_def)

lemma erase_fields [simp]:
  "last_applied (erase_updates s) = last_applied s" "last_membership (erase_updates s) = last_membership s"
  "enroll_tokens (erase_updates s) = enroll_tokens s"
  by (simp_all add: erase_updates_def)

lemma erase_lookup [simp]:
  "fmlookup (job_registry (erase_updates s)) j = map_option (\<lambda>j. j\<lparr>rj_updated_at := []\<rparr>) (fmlookup (job_registry s) j)"
  by (simp add: erase_updates_def)

lemma erase_upd:
  "erase_updates (s\<lparr>job_registry := fmupd j r (job_registry s)\<rparr>) =
     (erase_updates s)\<lparr>job_registry := fmupd j (r\<lparr>rj_updated_at := []\<rparr>) (job_registry (erase_updates s))\<rparr>"
  by (simp add: erase_updates_def fmap_ext)

lemma erase_eqD:
  assumes "erase_updates s = erase_updates s'"
  shows "last_applied s = last_applied s'" "last_membership s = last_membership s'"
    "enroll_tokens s = enroll_tokens s'"
    "map_option (\<lambda>j. j\<lparr>rj_updated_at := []\<rparr>) (fmlookup (job_registry s) j) =
     map_option (\<lambda>j. j\<lparr>rj_updated_at := []\<rparr>) (fmlookup (job_registry s') j)"
  using assms by (metis erase_fields erase_lookup)+

lemma apply_command_erased:
  assumes e: "erase_updates s = erase_updates s'"
  shows "fst (apply_command now c s) = fst (apply_command now' c s')"
    and "erase_updates (snd (apply_command now c s)) = erase_updates (snd (apply_command now' c s'))"
proof -
  have reg: "map_option (\<lambda>j. j\<lparr>rj_updated_at := []\<rparr>) (fmlookup (job_registry s) j) =
      map_option (\<lambda>j. j\<lparr>rj_updated_at := []\<rparr>) (fmlookup (job_registry s') j)" for j
    by (rule erase_eqD(4) [OF e])
  have none: "fmlookup (job_registry s) j = None \<longleftrightarrow> fmlookup (job_registry s') j = None" for j
    using reg [of j] by (cases "fmlookup (job_registry s) j"; cases "fmlookup (job_registry s') j") simp_all
  show "fst (apply_command now c s) = fst (apply_command now' c s')"
    using none [of "rc_job_id c"] erase_eqD(3) [OF e] by (cases c) (auto split: option.splits)
  show "erase_updates (snd (apply_command now c s)) = erase_updates (snd (apply_command now' c s'))"
  proof (cases c)
    case (RegisterJob j n r t)
    then show ?thesis using reg [of j] e
      by (cases "fmlookup (job_registry s) j"; cases "fmlookup (job_registry s') j") (simp_all add: erase_upd)
  next
    case (UpdateJobStatus j st n)
    show ?thesis
    proof (cases "fmlookup (job_registry s) j")
      case None
      with reg [of j] e UpdateJobStatus show ?thesis by (simp split: option.splits)
    next
      case (Some a)
      with reg [of j] obtain b where b: "fmlookup (job_registry s') j = Some b"
        "a\<lparr>rj_updated_at := []\<rparr> = b\<lparr>rj_updated_at := []\<rparr>"
        by (cases "fmlookup (job_registry s') j") auto
      then have "a\<lparr>rj_status := st, rj_updated_at := []\<rparr> = b\<lparr>rj_status := st, rj_updated_at := []\<rparr>"
        by (metis (no_types, lifting) registered_job.surjective registered_job.update_convs(4,6))
      with Some b(1) e UpdateJobStatus show ?thesis by (simp add: erase_upd)
    qed
  next
    case (ConsumeEnrollToken t)
    then show ?thesis using erase_eqD(3) [OF e] e by (auto split: option.splits)
  qed (use e erase_eqD(3) [OF e] in simp_all)
qed

lemma apply_entry_erased:
  assumes e: "erase_updates s = erase_updates s'"
  shows "fst (apply_entry now en s) = fst (apply_entry now' en s')"
    and "erase_updates (snd (apply_entry now en s)) = erase_updates (snd (apply_entry now' en s'))"
proof -
  have "erase_updates (s\<lparr>last_applied := x\<rparr>) = erase_updates (s'\<lparr>last_applied := x\<rparr>)" for x
    using e by simp
  note cmd = apply_command_erased [OF this]
  show "fst (apply_entry now en s) = fst (apply_entry now' en s')"
    using cmd(1) by (cases "le_payload en") (simp_all add: apply_entry_def Let_def)
  show "erase_updates (snd (apply_entry now en s)) = erase_updates (snd (apply_entry now' en s'))"
    using cmd(2) e by (cases "le_payload en") (simp_all add: apply_entry_def Let_def)
qed

text \<open>
  C6. Two replicas that apply the same log entries from states that differ at most in update times,
  each at its own times, give the same responses and end in states that differ at most in update
  times.
\<close>

theorem replicas_agree:
  assumes "erase_updates s = erase_updates s'" "List.map snd es = List.map snd es'"
  shows "fst (apply_entries es s) = fst (apply_entries es' s') \<and>
    erase_updates (snd (apply_entries es s)) = erase_updates (snd (apply_entries es' s'))"
  using assms
proof (induction es arbitrary: es' s s')
  case Nil
  then show ?case by simp
next
  case (Cons e es)
  obtain now en where e: "e = (now, en)" by (cases e)
  from Cons.prems(2) obtain now' es'' where es': "es' = (now', en) # es''" "List.map snd es = List.map snd es''"
    by (cases es') (auto simp: e)
  note en = apply_entry_erased [OF Cons.prems(1), of now en now']
  note IH = Cons.IH [OF en(2) es'(2)]
  show ?case using IH en(1) by (simp add: e es'(1) split_def Let_def)
qed

definition sample_entry :: "nat log_entry" where
  "sample_entry = \<lparr> le_log_id = \<lparr> lid_term = 1, lid_leader = 7, lid_index = 4 \<rparr>,
     le_payload = Normal (UpdateJobStatus ''j'' ''done'' ''n'') \<rparr>"

definition sample_state :: "nat raft_state" where
  "sample_state = snd (apply_command ''t0'' (RegisterJob ''j'' ''n'' ''wasm'' ''t0'') (default_state 0))"

theorem replicas_agree_witness:
  "fst (apply_entries [(''t1'', sample_entry)] sample_state) = fst (apply_entries [(''t2'', sample_entry)] sample_state) \<and>
    erase_updates (snd (apply_entries [(''t1'', sample_entry)] sample_state)) =
    erase_updates (snd (apply_entries [(''t2'', sample_entry)] sample_state))"
  by (rule replicas_agree) simp_all

text \<open>
  The update times do differ: a status update reads the clock of the replica that applies it, so
  for every state with the job registered, applying the same entry at two different times gives two
  different states.
\<close>

theorem replicas_diverge:
  assumes "fmlookup (job_registry s) j \<noteq> None" "now \<noteq> now'"
    and "le_payload e = Normal (UpdateJobStatus j st n)"
  shows "snd (apply_entry now e s) \<noteq> snd (apply_entry now' e s)"
proof -
  from assms(1) obtain r where r: "fmlookup (job_registry s) j = Some r" by blast
  have "map_option rj_updated_at (fmlookup (job_registry (snd (apply_entry t e s))) j) = Some t" for t
    using r assms(3) by (simp add: apply_entry_def)
  then show ?thesis using assms(2) by (metis option.inject)
qed

theorem replicas_diverge_witness:
  "snd (apply_entry ''t1'' sample_entry sample_state) \<noteq> snd (apply_entry ''t2'' sample_entry sample_state)"
  by (rule replicas_diverge [where j = "''j''" and st = "''done''" and n = "''n''"])
    (simp_all add: sample_state_def sample_entry_def default_state_def)

section \<open>Persistence\<close>

locale machine_store =
  db: sled_api S trees sound + js: json_api J
  for S :: "'d sled" and trees :: "'d \<Rightarrow> trees" and sound :: "'d \<Rightarrow> bool" and J :: "'m raft_state json"
begin

lemma persist_ok:
  assumes "sound (mach_db m)"
  obtains d where "persist_state S J m = (Inr (), m\<lparr>mach_db := d\<rparr>)" "sound d"
    "tree_of (trees d) default_tree (str_bytes ''state'') = Some (js.json (mach_state m))"
proof -
  obtain d where d: "sled_do S (Insert default_tree (str_bytes ''state'') (js.json (mach_state m))) (mach_db m) = (Inr (), d)"
    "sound d" "trees d = sled_effect (Insert default_tree (str_bytes ''state'') (js.json (mach_state m))) (trees (mach_db m))"
    by (rule db.sled_do_sound [OF assms])
  then show ?thesis
    using that [of d] by (simp add: persist_state_def js.js_enc_json db.flush_sound)
qed

lemma open_stored:
  assumes "sound d" "tree_of (trees d) default_tree (str_bytes ''state'') = Some (js.json st)"
  shows "machine_open S J z (Inr d) = Inr \<lparr> mach_db = d, mach_state = st \<rparr>"
  using assms by (simp add: machine_open_def op_simps db.sled_get_sound js.js_dec_json)

lemma machine_apply_ok:
  assumes "sound (mach_db m)"
  obtains d where "machine_apply S J es m = (Inr (fst (apply_entries es (mach_state m))),
      \<lparr> mach_db = d, mach_state = snd (apply_entries es (mach_state m)) \<rparr>)" "sound d"
    "tree_of (trees d) default_tree (str_bytes ''state'') = Some (js.json (snd (apply_entries es (mach_state m))))"
proof -
  let ?m = "m\<lparr>mach_state := snd (apply_entries es (mach_state m))\<rparr>"
  from assms have "sound (mach_db ?m)" by simp
  then obtain d where d: "persist_state S J ?m = (Inr (), ?m\<lparr>mach_db := d\<rparr>)" "sound d"
    "tree_of (trees d) default_tree (str_bytes ''state'') = Some (js.json (mach_state ?m))"
    by (rule persist_ok)
  then show ?thesis
    using that [of d] by (cases m) (simp add: machine_apply_def op_simps split_def Let_def)
qed

lemma install_ok:
  assumes "sound (mach_db m)"
  obtains d where "install_snapshot S J meta (js.json st) m =
      (Inr (), \<lparr> mach_db = d, mach_state = st\<lparr>last_applied := last_log_id meta, last_membership := meta_membership meta\<rparr> \<rparr>)"
    "sound d"
    "tree_of (trees d) default_tree (str_bytes ''state'') =
       Some (js.json (st\<lparr>last_applied := last_log_id meta, last_membership := meta_membership meta\<rparr>))"
proof -
  let ?m = "m\<lparr>mach_state := st\<lparr>last_applied := last_log_id meta, last_membership := meta_membership meta\<rparr>\<rparr>"
  from assms have "sound (mach_db ?m)" by simp
  then obtain d where d: "persist_state S J ?m = (Inr (), ?m\<lparr>mach_db := d\<rparr>)" "sound d"
    "tree_of (trees d) default_tree (str_bytes ''state'') = Some (js.json (mach_state ?m))"
    by (rule persist_ok)
  then show ?thesis
    using that [of d] by (simp add: install_snapshot_def js.js_dec_json)
qed

end

section \<open>A concrete machine\<close>

instance fmap :: (countable, countable) countable
proof (rule countable_classI [of "\<lambda>m. to_nat (SOME xs. fmap_of_list xs = (m :: ('a, 'b) fmap))"])
  fix m m' :: "('a, 'b) fmap"
  have "fmap_of_list (SOME xs. fmap_of_list xs = x) = x" for x :: "('a, 'b) fmap"
    by (rule someI_ex) (metis fmap_of_list_surj surjD)
  moreover assume "to_nat (SOME xs. fmap_of_list xs = m) = to_nat (SOME xs. fmap_of_list xs = m')"
  then have "(SOME xs. fmap_of_list xs = m) = (SOME xs. fmap_of_list xs = m')" by simp
  ultimately show "m = m'" by metis
qed

instance registered_job_ext :: (countable) countable
  by (rule countable_classI [of "\<lambda>j. to_nat ((rj_job_id j, rj_node_id j, rj_runtime j, rj_status j,
      rj_created_at j, rj_updated_at j), registered_job.more j)"])
    (auto intro!: registered_job.equality)

instance enroll_token_ext :: (countable) countable
  by (rule countable_classI [of "\<lambda>t. to_nat ((et_token t, et_issued_by t, et_expires_at t, et_used t), enroll_token.more t)"])
    (auto intro!: enroll_token.equality)

instance stored_membership_ext :: (countable, countable) countable
  by (rule countable_classI [of "\<lambda>l. to_nat ((sm_log_id l, sm_members l), stored_membership.more l)"])
    (auto intro!: stored_membership.equality)

instance raft_state_ext :: (countable, countable) countable
  by (rule countable_classI [of "\<lambda>s. to_nat ((last_applied s, last_membership s, job_registry s, enroll_tokens s), raft_state.more s)"])
    (auto intro!: raft_state.equality)

interpretation ref_machine: machine_store ref_sled ref_trees ref_sound "count_json :: nat raft_state json"
  by unfold_locales

definition sample_machine :: "(ref_db, nat) sled_machine" where
  "sample_machine = \<lparr> mach_db = [], mach_state = sample_state \<rparr>"

section \<open>Properties\<close>

text \<open>
  C17. Restart. On a sound database, applying a batch of entries succeeds, and the machine that a
  restart opens on the database it leaves has exactly the state the batch produced.
\<close>

theorem apply_survives_restart:
  assumes "machine_store S trees sound J" "sound (mach_db m)"
  shows "\<exists>m'. machine_apply S J es m = (Inr (fst (apply_entries es (mach_state m))), m') \<and>
    mach_state m' = snd (apply_entries es (mach_state m)) \<and>
    machine_open S J z (Inr (mach_db m')) = Inr m'"
proof -
  obtain d where d: "machine_apply S J es m = (Inr (fst (apply_entries es (mach_state m))),
      \<lparr> mach_db = d, mach_state = snd (apply_entries es (mach_state m)) \<rparr>)" "sound d"
    "tree_of (trees d) default_tree (str_bytes ''state'') =
       Some (json_api.json J (snd (apply_entries es (mach_state m))))"
    by (rule machine_store.machine_apply_ok [OF assms])
  then show ?thesis
    using machine_store.open_stored [OF assms(1) d(2,3)] by simp
qed

theorem apply_survives_restart_witness:
  "\<exists>m'. machine_apply ref_sled count_json [(''t1'', sample_entry)] sample_machine =
      (Inr (fst (apply_entries [(''t1'', sample_entry)] (mach_state sample_machine))), m') \<and>
    mach_state m' = snd (apply_entries [(''t1'', sample_entry)] (mach_state sample_machine)) \<and>
    machine_open ref_sled count_json 0 (Inr (mach_db m')) = Inr m'"
  by (rule apply_survives_restart [OF ref_machine.machine_store_axioms]) (simp add: ref_sound_def sample_machine_def)

text \<open>
  C27. Snapshots. A snapshot built on one node, of any state, installs on any other node whose
  database is sound and gives it exactly that state, also after a restart; the current snapshot of
  the installed machine decodes to that state again, and a node has no current snapshot exactly when it has
  applied nothing (the codec never writes the bytes \<open>null\<close> for a state).
\<close>

theorem snapshot_transfers_state:
  assumes "machine_store S trees sound J" "sound (mach_db m)"
    and "js_enc J st \<noteq> Inr (str_bytes ''null'')"
  shows "\<exists>sn m'. build_snapshot J fresh st = Inr sn \<and>
    install_snapshot S J (snap_meta sn) (snap_data sn) m = (Inr (), m') \<and> mach_state m' = st \<and>
    machine_open S J z (Inr (mach_db m')) = Inr m' \<and>
    (case get_current_snapshot J m' of
       Inl _ \<Rightarrow> False
     | Inr None \<Rightarrow> last_applied st = None
     | Inr (Some sn') \<Rightarrow> last_applied st \<noteq> None \<and> js_dec J (snap_data sn') = Inr st)"
proof -
  have js: "json_api J" using assms(1) by (simp add: machine_store_def)
  note enc = json_api.js_enc_json [OF js]
  let ?meta = "\<lparr> last_log_id = last_applied st, meta_membership = last_membership st, snapshot_id = fresh \<rparr>"
  let ?sn = "\<lparr> snap_meta = ?meta, snap_data = json_api.json J st \<rparr>"
  obtain d where d: "install_snapshot S J ?meta (json_api.json J st) m =
      (Inr (), \<lparr> mach_db = d, mach_state = st\<lparr>last_applied := last_log_id ?meta, last_membership := meta_membership ?meta\<rparr> \<rparr>)"
    "sound d"
    "tree_of (trees d) default_tree (str_bytes ''state'') =
       Some (json_api.json J (st\<lparr>last_applied := last_log_id ?meta, last_membership := meta_membership ?meta\<rparr>))"
    by (rule machine_store.install_ok [OF assms(1,2)])
  then have d': "install_snapshot S J ?meta (json_api.json J st) m = (Inr (), \<lparr> mach_db = d, mach_state = st \<rparr>)"
    "tree_of (trees d) default_tree (str_bytes ''state'') = Some (json_api.json J st)" by simp_all
  have "build_snapshot J fresh st = Inr ?sn"
    by (simp add: build_snapshot_def op_simps enc)
  moreover have "machine_open S J z (Inr d) = Inr \<lparr> mach_db = d, mach_state = st \<rparr>"
    by (rule machine_store.open_stored [OF assms(1) d(2) d'(2)])
  moreover have "json_api.json J st \<noteq> str_bytes ''null''" using assms(3) enc [of st] by simp
  then have "case get_current_snapshot J \<lparr> mach_db = d, mach_state = st \<rparr> of
       Inl _ \<Rightarrow> False
     | Inr None \<Rightarrow> last_applied st = None
     | Inr (Some sn') \<Rightarrow> last_applied st \<noteq> None \<and> js_dec J (snap_data sn') = Inr st"
    using json_api.js_round [OF js, OF enc [of st]] by (simp add: get_current_snapshot_def op_simps enc)
  ultimately show ?thesis
    using d'(1) by (intro exI [of _ ?sn] exI [of _ "\<lparr> mach_db = d, mach_state = st \<rparr>"]) simp
qed

theorem snapshot_transfers_state_witness:
  "\<exists>sn m'. build_snapshot count_json ''id'' sample_state = Inr sn \<and>
    install_snapshot ref_sled count_json (snap_meta sn) (snap_data sn)
      \<lparr> mach_db = [], mach_state = default_state 0 \<rparr> = (Inr (), m') \<and> mach_state m' = sample_state \<and>
    machine_open ref_sled count_json 0 (Inr (mach_db m')) = Inr m' \<and>
    (case get_current_snapshot count_json m' of
       Inl _ \<Rightarrow> False
     | Inr None \<Rightarrow> last_applied sample_state = None
     | Inr (Some sn') \<Rightarrow> last_applied sample_state \<noteq> None \<and> js_dec count_json (snap_data sn') = Inr sample_state)"
proof (rule snapshot_transfers_state [OF ref_machine.machine_store_axioms])
  have "hd (str_bytes ''null'') \<noteq> 0" "str_bytes ''null'' \<noteq> []" by code_simp+
  then show "js_enc count_json sample_state \<noteq> Inr (str_bytes ''null'')"
    by (auto simp: count_json_def) (metis hd_in_set in_set_replicate)
qed (simp add: ref_sound_def)

text \<open>
  A corrupt state is forgotten without a word: if the stored bytes do not parse, or the database
  read fails, opening the machine succeeds with the default state, with no job, no token and nothing
  applied.
\<close>

theorem corrupt_state_forgotten:
  assumes "(\<exists>b e. sled_get S default_tree (str_bytes ''state'') d = Inr (Some b) \<and> js_dec J b = Inl e) \<or>
    (\<exists>e. sled_get S default_tree (str_bytes ''state'') d = Inl e)"
  shows "machine_open S J z (Inr d) = Inr \<lparr> mach_db = d, mach_state = default_state z \<rparr>"
  using assms by (auto simp: machine_open_def op_simps)

definition failing_json :: "nat raft_state json" where
  "failing_json = \<lparr> js_enc = (\<lambda>_. Inr []), js_dec = (\<lambda>_. Inl ''expected value'') \<rparr>"

theorem corrupt_state_forgotten_witness:
  "machine_open ref_sled failing_json 0 (Inr [(default_tree, [(str_bytes ''state'', [7])])]) =
     Inr \<lparr> mach_db = [(default_tree, [(str_bytes ''state'', [7])])], mach_state = default_state 0 \<rparr>"
  by (rule corrupt_state_forgotten) (simp add: ref_sled_def ref_tree_def failing_json_def)

end
