(* ===== verification/Raft_Log.thy ===== *)
theory Raft_Log
  imports Raft_Machine
begin

text \<open>
  The log store of \<open>agent/src/raft/store.rs\<close>: entries in one sled tree under their big-endian index,
  the vote, the committed id and the last purged id in another. The lemmas relate the two trees to
  the abstract log, a partial map from index to entry.
\<close>

section \<open>Keys\<close>

definition encode_index :: "u64 \<Rightarrow> bytes" where
  "encode_index index = to_be_bytes index"

text \<open>The slice \<open>bytes[..8]\<close> panics on a shorter key.\<close>

definition decode_index :: "bytes \<Rightarrow> u64 option" where
  "decode_index b = (if length b < 8 then None else Some (from_be_bytes (take 8 b)))"

interpretation index_key: round_trip encode_index decode_index
  by unfold_locales (simp add: encode_index_def decode_index_def)

section \<open>The store\<close>

record ('m, 'v) log_codecs =
  lc_entry :: "'m log_entry json"
  lc_log_id :: "log_id json"
  lc_vote :: "'v json"

definition log_tree :: string where
  "log_tree = ''entries''"

definition meta_tree :: string where
  "meta_tree = ''meta''"

text \<open>\<open>open_tree(..).expect(..)\<close>: a failure panics.\<close>

definition open_log_tree :: "'d sled \<Rightarrow> string \<Rightarrow> (raft_error, 'd, unit) op" where
  "open_log_tree S n d = (case sled_do S (OpenTree n) d of
     (Inl _, d') \<Rightarrow> (Inl RaftPanic, d') | (Inr _, d') \<Rightarrow> (Inr (), d'))"

definition log_do :: "'d sled \<Rightarrow> (string \<Rightarrow> raft_error) \<Rightarrow> sled_cmd \<Rightarrow> (raft_error, 'd, unit) op" where
  "log_do S err c d = (let (r, d') = sled_do S c d in (map_err err r, d'))"

definition log_flush :: "'d sled \<Rightarrow> (string \<Rightarrow> raft_error) \<Rightarrow> string \<Rightarrow> (raft_error, 'd, unit) op" where
  "log_flush S err n d = (map_err err (sled_flush S n d), d)"

definition log_get ::
  "'d sled \<Rightarrow> (string \<Rightarrow> raft_error) \<Rightarrow> string \<Rightarrow> string \<Rightarrow> (raft_error, 'd, bytes option) op"
where
  "log_get S err n k d = (map_err err (sled_get S n (str_bytes k) d), d)"

definition log_store_open :: "string + 'd \<Rightarrow> raft_error + 'd" where
  "log_store_open opened = map_err OpenErr opened"

section \<open>Reading entries\<close>

text \<open>The loop over the tree: keys outside the range are not parsed.\<close>

fun collect_entries ::
  "'m log_entry json \<Rightarrow> (u64 \<Rightarrow> bool) \<Rightarrow> (string + bytes \<times> bytes) list \<Rightarrow> raft_error + 'm log_entry list"
where
  "collect_entries J in_range [] = Inr []"
| "collect_entries J in_range (item # items) =
     (case item of
        Inl e \<Rightarrow> Inl (log_read_err e)
      | Inr (k, v) \<Rightarrow>
          (case decode_index k of
             None \<Rightarrow> Inl RaftPanic
           | Some index \<Rightarrow>
               if in_range index
               then bind_res (map_err log_read_err (js_dec J v)) (\<lambda>entry.
                    bind_res (collect_entries J in_range items) (\<lambda>r. Inr (entry # r)))
               else collect_entries J in_range items))"

definition entry_index :: "'m log_entry \<Rightarrow> u64" where
  "entry_index e = lid_index (le_log_id e)"

definition try_get_log_entries ::
  "'d sled \<Rightarrow> ('m, 'v) log_codecs \<Rightarrow> (u64 \<Rightarrow> bool) \<Rightarrow> (raft_error, 'd, 'm log_entry list) op"
where
  "try_get_log_entries S C in_range =
     bind_op (open_log_tree S log_tree) (\<lambda>_ d.
       (bind_res (collect_entries (lc_entry C) in_range (sled_iter S log_tree d))
          (\<lambda>es. Inr (sort_key entry_index es)), d))"

record log_state =
  ls_last_purged :: "log_id option"
  ls_last_log :: "log_id option"

definition parse_opt :: "(string \<Rightarrow> raft_error) \<Rightarrow> 'a json \<Rightarrow> bytes option \<Rightarrow> raft_error + 'a option" where
  "parse_opt err J v = (case v of None \<Rightarrow> Inr None | Some b \<Rightarrow> bind_res (map_err err (js_dec J b)) (\<lambda>x. Inr (Some x)))"

text \<open>\<open>tree.last()\<close> is the last item of the tree's order.\<close>

definition tree_last :: "(string + bytes \<times> bytes) list \<Rightarrow> raft_error + bytes option" where
  "tree_last items = (if items = [] then Inr None
     else case last items of Inl e \<Rightarrow> Inl (log_read_err e) | Inr (k, v) \<Rightarrow> Inr (Some v))"

definition get_log_state :: "'d sled \<Rightarrow> ('m, 'v) log_codecs \<Rightarrow> (raft_error, 'd, log_state) op" where
  "get_log_state S C =
     bind_op (open_log_tree S meta_tree) (\<lambda>_.
     bind_op (open_log_tree S log_tree) (\<lambda>_.
     bind_op (log_get S log_read_err meta_tree ''last_purged'') (\<lambda>purged.
     bind_op (lift_op (parse_opt log_read_err (lc_log_id C) purged)) (\<lambda>last_purged.
     bind_op (\<lambda>d. (tree_last (sled_iter S log_tree d), d)) (\<lambda>last_item.
     bind_op (lift_op (parse_opt log_read_err (lc_entry C) last_item)) (\<lambda>last_entry.
     ret_op \<lparr> ls_last_purged = last_purged, ls_last_log = map_option le_log_id last_entry \<rparr>))))))"

section \<open>Vote and committed id\<close>

definition save_vote :: "'d sled \<Rightarrow> ('m, 'v) log_codecs \<Rightarrow> 'v \<Rightarrow> (raft_error, 'd, unit) op" where
  "save_vote S C vote =
     bind_op (lift_op (map_err vote_write_err (js_enc (lc_vote C) vote))) (\<lambda>b.
     bind_op (open_log_tree S meta_tree) (\<lambda>_.
     bind_op (log_do S vote_write_err (Insert meta_tree (str_bytes ''vote'') b)) (\<lambda>_.
     bind_op (open_log_tree S meta_tree) (\<lambda>_. log_flush S vote_write_err meta_tree))))"

definition read_vote :: "'d sled \<Rightarrow> ('m, 'v) log_codecs \<Rightarrow> (raft_error, 'd, 'v option) op" where
  "read_vote S C =
     bind_op (open_log_tree S meta_tree) (\<lambda>_.
     bind_op (log_get S vote_read_err meta_tree ''vote'') (\<lambda>v.
     lift_op (parse_opt vote_read_err (lc_vote C) v)))"

definition save_committed :: "'d sled \<Rightarrow> ('m, 'v) log_codecs \<Rightarrow> log_id option \<Rightarrow> (raft_error, 'd, unit) op" where
  "save_committed S C committed =
     bind_op (open_log_tree S meta_tree) (\<lambda>_.
     bind_op (case committed of
         Some i \<Rightarrow> bind_op (lift_op (map_err log_write_err (js_enc (lc_log_id C) i)))
           (\<lambda>b. log_do S log_write_err (Insert meta_tree (str_bytes ''committed'') b))
       | None \<Rightarrow> log_do S log_write_err (Remove meta_tree (str_bytes ''committed'')))
     (\<lambda>_. log_flush S log_write_err meta_tree))"

definition read_committed :: "'d sled \<Rightarrow> ('m, 'v) log_codecs \<Rightarrow> (raft_error, 'd, log_id option) op" where
  "read_committed S C =
     bind_op (open_log_tree S meta_tree) (\<lambda>_.
     bind_op (log_get S log_read_err meta_tree ''committed'') (\<lambda>v.
     lift_op (parse_opt log_read_err (lc_log_id C) v)))"

section \<open>Append, truncate, purge\<close>

fun batch_of :: "'m log_entry json \<Rightarrow> 'm log_entry list \<Rightarrow> raft_error + (bytes \<times> bytes) list" where
  "batch_of J [] = Inr []"
| "batch_of J (e # es) =
     bind_res (map_err log_write_err (js_enc J e)) (\<lambda>val.
     bind_res (batch_of J es) (\<lambda>r. Inr ((encode_index (entry_index e), val) # r)))"

text \<open>The callback is told of completion exactly when the call returns normally.\<close>

definition append_entries :: "'d sled \<Rightarrow> ('m, 'v) log_codecs \<Rightarrow> 'm log_entry list \<Rightarrow> (raft_error, 'd, unit) op" where
  "append_entries S C entries =
     bind_op (open_log_tree S log_tree) (\<lambda>_.
     bind_op (lift_op (batch_of (lc_entry C) entries)) (\<lambda>batch.
     bind_op (log_do S log_write_err (ApplyBatch log_tree batch)) (\<lambda>_.
     log_flush S log_write_err log_tree)))"

text \<open>The keys to remove: items that cannot be read are dropped, a short key panics.\<close>

fun select_keys :: "(u64 \<Rightarrow> bool) \<Rightarrow> (string + bytes \<times> bytes) list \<Rightarrow> raft_error + bytes list" where
  "select_keys P [] = Inr []"
| "select_keys P (Inl e # items) = select_keys P items"
| "select_keys P (Inr (k, v) # items) =
     (case decode_index k of
        None \<Rightarrow> Inl RaftPanic
      | Some index \<Rightarrow> bind_res (select_keys P items) (\<lambda>r. Inr (if P index then k # r else r)))"

fun remove_keys :: "'d sled \<Rightarrow> bytes list \<Rightarrow> (raft_error, 'd, unit) op" where
  "remove_keys S [] = ret_op ()"
| "remove_keys S (k # ks) = bind_op (log_do S log_write_err (Remove log_tree k)) (\<lambda>_. remove_keys S ks)"

definition truncate_log :: "'d sled \<Rightarrow> log_id \<Rightarrow> (raft_error, 'd, unit) op" where
  "truncate_log S i =
     bind_op (open_log_tree S log_tree) (\<lambda>_.
     bind_op (\<lambda>d. (select_keys (\<lambda>n. n \<ge> lid_index i) (sled_iter S log_tree d), d)) (\<lambda>keys.
     bind_op (remove_keys S keys) (\<lambda>_.
     log_flush S log_write_err log_tree)))"

definition purge_log :: "'d sled \<Rightarrow> ('m, 'v) log_codecs \<Rightarrow> log_id \<Rightarrow> (raft_error, 'd, unit) op" where
  "purge_log S C i =
     bind_op (open_log_tree S log_tree) (\<lambda>_.
     bind_op (open_log_tree S meta_tree) (\<lambda>_.
     bind_op (\<lambda>d. (select_keys (\<lambda>n. n \<le> lid_index i) (sled_iter S log_tree d), d)) (\<lambda>keys.
     bind_op (remove_keys S keys) (\<lambda>_.
     bind_op (lift_op (map_err log_write_err (js_enc (lc_log_id C) i))) (\<lambda>b.
     bind_op (log_do S log_write_err (Insert meta_tree (str_bytes ''last_purged'') b)) (\<lambda>_.
     log_flush S log_write_err meta_tree))))))"

section \<open>The abstract log\<close>

definition log_view :: "'m log_entry json \<Rightarrow> trees \<Rightarrow> u64 \<Rightarrow> 'm log_entry option" where
  "log_view J T i = (case tree_of T log_tree (encode_index i) of
     None \<Rightarrow> None | Some v \<Rightarrow> (case js_dec J v of Inl _ \<Rightarrow> None | Inr e \<Rightarrow> Some e))"

definition meta_view :: "'a json \<Rightarrow> string \<Rightarrow> trees \<Rightarrow> 'a option" where
  "meta_view J k T = (case tree_of T meta_tree (str_bytes k) of
     None \<Rightarrow> None | Some v \<Rightarrow> (case js_dec J v of Inl _ \<Rightarrow> None | Inr e \<Rightarrow> Some e))"

text \<open>Every key of the tree is an index, and its value is an entry of that index.\<close>

definition log_wf :: "'m log_entry json \<Rightarrow> trees \<Rightarrow> bool" where
  "log_wf J T = (\<forall>k v. tree_of T log_tree k = Some v \<longrightarrow>
     (\<exists>e. js_dec J v = Inr e \<and> k = encode_index (entry_index e)))"

definition log_set :: "'m log_entry json \<Rightarrow> trees \<Rightarrow> 'm log_entry set" where
  "log_set J T = {e. log_view J T (entry_index e) = Some e}"

definition item_entry :: "'m log_entry json \<Rightarrow> bytes \<times> bytes \<Rightarrow> 'm log_entry \<Rightarrow> bool" where
  "item_entry J kv e = (js_dec J (snd kv) = Inr e \<and> fst kv = encode_index (entry_index e))"

lemma collect_items:
  assumes "list_all2 (item_entry J) kvs es"
  shows "collect_entries J P (List.map Inr kvs) = Inr (filter (\<lambda>e. P (entry_index e)) es)"
  using assms
proof induction
  case Nil
  then show ?case by simp
next
  case (Cons kv kvs e es)
  then show ?case
    by (cases kv) (simp add: item_entry_def index_key.dec_enc op_simps)
qed

lemma select_items:
  assumes "list_all2 (item_entry J) kvs es"
  shows "select_keys P (List.map Inr kvs) = Inr (List.map (\<lambda>e. encode_index (entry_index e)) (filter (\<lambda>e. P (entry_index e)) es))"
  using assms
proof induction
  case Nil
  then show ?case by simp
next
  case (Cons kv kvs e es)
  then show ?case
    by (cases kv) (simp add: item_entry_def index_key.dec_enc op_simps)
qed

lemma last_item:
  assumes "list_all2 (item_entry J) kvs es"
  shows "bind_res (tree_last (List.map Inr kvs)) (\<lambda>v. parse_opt err J v) =
    Inr (if es = [] then None else Some (last es))"
  using assms
proof (cases kvs rule: rev_cases)
  case Nil
  with assms show ?thesis by (simp add: tree_last_def op_simps parse_opt_def)
next
  case (snoc kvs' kv)
  with assms obtain es' e where "es = es' @ [e]" "item_entry J kv e"
    by (auto simp: list_all2_append1 list_all2_Cons1)
  with snoc show ?thesis
    by (cases kv) (simp add: tree_last_def op_simps parse_opt_def item_entry_def)
qed

lemma trees_apart [simp]: "log_tree \<noteq> meta_tree" "meta_tree \<noteq> log_tree"
  by (simp_all add: log_tree_def meta_tree_def)

lemma encode_index_less [simp]: "encode_index i < encode_index j \<longleftrightarrow> i < j"
  by (simp add: encode_index_def)

lemma map_of_batch_index:
  "map_of (List.map (\<lambda>e. (encode_index (entry_index e), f e)) es) (encode_index i) =
     map_option f (map_of (List.map (\<lambda>e. (entry_index e, e)) es) i)"
  by (induction es) (auto simp: index_key.enc_eq_iff)

locale log_api =
  db: sled_api S trees sound + en: json_api "lc_entry C" + li: json_api "lc_log_id C" + vo: json_api "lc_vote C"
  for S :: "'d sled" and trees :: "'d \<Rightarrow> trees" and sound :: "'d \<Rightarrow> bool" and C :: "('m, 'v) log_codecs"
begin

lemma open_ok:
  assumes "sound d"
  obtains d' where "open_log_tree S n d = (Inr (), d')" "sound d'" "trees d' = sled_effect (OpenTree n) (trees d)"
proof -
  obtain d' where "sled_do S (OpenTree n) d = (Inr (), d')" "sound d'" "trees d' = sled_effect (OpenTree n) (trees d)"
    by (rule db.sled_do_sound [OF assms])
  then show ?thesis using that by (simp add: open_log_tree_def)
qed

lemma do_ok:
  assumes "sound d"
  obtains d' where "log_do S err c d = (Inr (), d')" "sound d'" "trees d' = sled_effect c (trees d)"
proof -
  obtain d' where "sled_do S c d = (Inr (), d')" "sound d'" "trees d' = sled_effect c (trees d)"
    by (rule db.sled_do_sound [OF assms])
  then show ?thesis using that by (simp add: log_do_def)
qed

lemma flush_ok: "sound d \<Longrightarrow> log_flush S err n d = (Inr (), d)"
  by (simp add: log_flush_def db.flush_sound)

lemma get_ok: "sound d \<Longrightarrow> log_get S err n k d = (Inr (tree_of (trees d) n (str_bytes k)), d)"
  by (simp add: log_get_def db.sled_get_sound)

lemma batch_ok: "batch_of (lc_entry C) es = Inr (List.map (\<lambda>e. (encode_index (entry_index e), en.json e)) es)"
  by (induction es) (simp_all add: op_simps en.js_enc_json)

text \<open>The items of a well-formed tree, in order.\<close>

lemma log_item:
  assumes "log_wf J t" "tree_of t log_tree k = Some v"
  shows "js_dec J v = Inr (projr (js_dec J v))" "k = encode_index (entry_index (projr (js_dec J v)))"
proof -
  from assms obtain e where "js_dec J v = Inr e" "k = encode_index (entry_index e)"
    unfolding log_wf_def by blast
  then show "js_dec J v = Inr (projr (js_dec J v))" "k = encode_index (entry_index (projr (js_dec J v)))" by simp_all
qed

lemma iter_entries:
  assumes "sound d" "log_wf (lc_entry C) (trees d)"
  obtains kvs es where "sled_iter S log_tree d = List.map Inr kvs"
    "list_all2 (item_entry (lc_entry C)) kvs es"
    "sorted_wrt (\<lambda>a b. entry_index a < entry_index b) es"
    "set es = log_set (lc_entry C) (trees d)"
proof -
  obtain kvs where kvs: "sled_iter S log_tree d = List.map Inr kvs" "sorted_wrt (<) (List.map fst kvs)"
    "set kvs = {(k, v). tree_of (trees d) log_tree k = Some v}"
    by (rule db.sled_iter_sound [OF assms(1), of log_tree]) blast
  define en where "en kv = projr (js_dec (lc_entry C) (snd kv))" for kv :: "bytes \<times> bytes"
  have dec: "js_dec (lc_entry C) (snd kv) = Inr (en kv)" "fst kv = encode_index (entry_index (en kv))"
    if "kv \<in> set kvs" for kv
    using log_item [OF assms(2), of "fst kv" "snd kv"] that kvs(3) by (auto simp: en_def)
  let ?es = "List.map en kvs"
  have "list_all2 (item_entry (lc_entry C)) kvs ?es"
    by (simp add: list_all2_conv_all_nth item_entry_def dec)
  moreover have "sorted_wrt (\<lambda>a b. entry_index a < entry_index b) ?es"
  proof -
    have "sorted_wrt (\<lambda>a b. fst a < fst b) kvs" using kvs(2) by (simp add: sorted_wrt_map)
    then have "sorted_wrt (\<lambda>a b. entry_index (en a) < entry_index (en b)) kvs"
      by (rule sorted_wrt_mono_rel [rotated]) (simp add: dec)
    then show ?thesis by (simp add: sorted_wrt_map)
  qed
  moreover have "set ?es = log_set (lc_entry C) (trees d)"
  proof (intro set_eqI iffI)
    fix e assume "e \<in> set ?es"
    then obtain kv where kv: "kv \<in> set kvs" "e = en kv" by auto
    then have "tree_of (trees d) log_tree (fst kv) = Some (snd kv)" using kvs(3) by auto
    with dec [OF kv(1)] kv(2) show "e \<in> log_set (lc_entry C) (trees d)"
      by (simp add: log_view_def log_set_def)
  next
    fix e assume "e \<in> log_set (lc_entry C) (trees d)"
    then obtain v where v: "tree_of (trees d) log_tree (encode_index (entry_index e)) = Some v" "js_dec (lc_entry C) v = Inr e"
      by (auto simp: log_view_def log_set_def split: option.split_asm sum.split_asm)
    then have "(encode_index (entry_index e), v) \<in> set kvs" using kvs(3) by simp
    moreover have "en (encode_index (entry_index e), v) = e" using v(2) by (simp add: en_def)
    ultimately show "e \<in> set ?es" by force
  qed
  ultimately show ?thesis using that [OF kvs(1)] by blast
qed

lemma log_wf_open: "log_wf (lc_entry C) (sled_effect (OpenTree n) T) = log_wf (lc_entry C) T"
  by (simp add: log_wf_def)

lemma log_view_open [simp]:
  "log_view J (sled_effect (OpenTree n) T) = log_view J T"
  "meta_view J' k (sled_effect (OpenTree n) T) = meta_view J' k T"
  by (intro ext) (simp_all add: log_view_def meta_view_def)

text \<open>Opening a tree changes neither view.\<close>

lemma open_view:
  assumes "sound d"
  obtains d' where "open_log_tree S n d = (Inr (), d')" "sound d'"
    "\<And>J. log_view J (trees d') = log_view J (trees d)"
    "tree_of (trees d') = tree_of (trees d)"
    "log_wf (lc_entry C) (trees d') = log_wf (lc_entry C) (trees d)"
proof -
  obtain d' where d': "open_log_tree S n d = (Inr (), d')" "sound d'" "trees d' = sled_effect (OpenTree n) (trees d)"
    by (rule open_ok [OF assms])
  have "tree_of (trees d') = tree_of (trees d)" by (intro ext) (simp add: d'(3))
  then show ?thesis using that [OF d'(1,2)] d'(3) by (simp add: log_wf_open)
qed

lemma remove_keys_ok:
  assumes "sound d"
  obtains d' where "remove_keys S ks d = (Inr (), d')" "sound d'"
    "tree_of (trees d') = (tree_of (trees d))(log_tree := (\<lambda>k. if k \<in> set ks then None else tree_of (trees d) log_tree k))"
  using assms
proof (induction ks arbitrary: d thesis)
  case Nil
  then show ?case by (simp add: op_simps)
next
  case (Cons k ks)
  obtain d1 where d1: "log_do S log_write_err (Remove log_tree k) d = (Inr (), d1)" "sound d1"
    "trees d1 = sled_effect (Remove log_tree k) (trees d)"
    by (rule do_ok [OF Cons.prems(2)])
  obtain d2 where d2: "remove_keys S ks d1 = (Inr (), d2)" "sound d2"
    "tree_of (trees d2) = (tree_of (trees d1))(log_tree := (\<lambda>k. if k \<in> set ks then None else tree_of (trees d1) log_tree k))"
    by (rule Cons.IH [OF _ d1(2)])
  show ?case
  proof (rule Cons.prems(1))
    show "remove_keys S (k # ks) d = (Inr (), d2)" by (simp add: op_simps d1(1) d2(1))
    show "sound d2" by (rule d2(2))
    show "tree_of (trees d2) = (tree_of (trees d))(log_tree := (\<lambda>k'. if k' \<in> set (k # ks) then None else tree_of (trees d) log_tree k'))"
      by (auto simp: d2(3) d1(3) fun_eq_iff)
  qed
qed

text \<open>Removing the selected keys restricts the view.\<close>

lemma remove_selected:
  assumes d: "sound d" "log_wf (lc_entry C) (trees d)"
  obtains ks d' where "select_keys P (sled_iter S log_tree d) = Inr ks" "remove_keys S ks d = (Inr (), d')"
    "sound d'" "log_wf (lc_entry C) (trees d')" "tree_of (trees d') meta_tree = tree_of (trees d) meta_tree"
    "log_view (lc_entry C) (trees d') = (\<lambda>i. if P i then None else log_view (lc_entry C) (trees d) i)"
proof -
  obtain kvs es where it: "sled_iter S log_tree d = List.map Inr kvs" "list_all2 (item_entry (lc_entry C)) kvs es"
    "set es = log_set (lc_entry C) (trees d)"
    by (rule iter_entries [OF d])
  let ?ks = "List.map (\<lambda>e. encode_index (entry_index e)) (filter (\<lambda>e. P (entry_index e)) es)"
  obtain d' where d': "remove_keys S ?ks d = (Inr (), d')" "sound d'"
    "tree_of (trees d') = (tree_of (trees d))(log_tree := (\<lambda>k. if k \<in> set ?ks then None else tree_of (trees d) log_tree k))"
    by (rule remove_keys_ok [OF d(1)])
  have mem: "encode_index i \<in> set ?ks \<longleftrightarrow> P i \<and> log_view (lc_entry C) (trees d) i \<noteq> None" for i
  proof -
    have "entry_index e = i" if "log_view (lc_entry C) (trees d) i = Some e" for e
    proof -
      from that obtain v where "tree_of (trees d) log_tree (encode_index i) = Some v" "js_dec (lc_entry C) v = Inr e"
        by (auto simp: log_view_def split: option.split_asm sum.split_asm)
      then show ?thesis using d(2) unfolding log_wf_def by (fastforce simp: index_key.enc_eq_iff)
    qed
    then show ?thesis by (auto simp: index_key.enc_eq_iff it(3) log_set_def image_iff)
  qed
  show ?thesis
  proof (rule that [OF _ d'(1,2)])
    show "select_keys P (sled_iter S log_tree d) = Inr ?ks" by (simp add: it(1) select_items [OF it(2)])
    show "log_wf (lc_entry C) (trees d')" using d(2) by (auto simp: log_wf_def d'(3))
    show "tree_of (trees d') meta_tree = tree_of (trees d) meta_tree" by (simp add: d'(3))
    show "log_view (lc_entry C) (trees d') = (\<lambda>i. if P i then None else log_view (lc_entry C) (trees d) i)"
    proof
      fix i show "log_view (lc_entry C) (trees d') i = (if P i then None else log_view (lc_entry C) (trees d) i)"
        using mem [of i] by (cases "encode_index i \<in> set ?ks") (auto simp: log_view_def d'(3))
    qed
  qed
qed

lemma truncate_ok:
  assumes "sound d" "log_wf (lc_entry C) (trees d)"
  obtains d' where "truncate_log S i d = (Inr (), d')" "sound d'" "log_wf (lc_entry C) (trees d')"
    "tree_of (trees d') meta_tree = tree_of (trees d) meta_tree"
    "log_view (lc_entry C) (trees d') = (\<lambda>n. if lid_index i \<le> n then None else log_view (lc_entry C) (trees d) n)"
proof -
  obtain d1 where 1: "open_log_tree S log_tree d = (Inr (), d1)" "sound d1"
    "log_view (lc_entry C) (trees d1) = log_view (lc_entry C) (trees d)"
    "tree_of (trees d1) = tree_of (trees d)" "log_wf (lc_entry C) (trees d1)"
    using open_view [OF assms(1)] assms(2) by metis
  obtain ks d2 where 2: "select_keys ((\<le>) (lid_index i)) (sled_iter S log_tree d1) = Inr ks"
    "remove_keys S ks d1 = (Inr (), d2)" "sound d2" "log_wf (lc_entry C) (trees d2)"
    "tree_of (trees d2) meta_tree = tree_of (trees d1) meta_tree"
    "log_view (lc_entry C) (trees d2) = (\<lambda>n. if lid_index i \<le> n then None else log_view (lc_entry C) (trees d1) n)"
    by (rule remove_selected [OF 1(2,5)])
  show ?thesis
    by (rule that [of d2]) (simp_all add: truncate_log_def op_simps 1 2 flush_ok cong: if_cong)
qed

lemma purge_ok:
  assumes "sound d" "log_wf (lc_entry C) (trees d)"
  obtains d' where "purge_log S C i d = (Inr (), d')" "sound d'" "log_wf (lc_entry C) (trees d')"
    "tree_of (trees d') meta_tree = (tree_of (trees d) meta_tree)(str_bytes ''last_purged'' \<mapsto> li.json i)"
    "log_view (lc_entry C) (trees d') = (\<lambda>n. if n \<le> lid_index i then None else log_view (lc_entry C) (trees d) n)"
proof -
  obtain d1 where 1: "open_log_tree S log_tree d = (Inr (), d1)" "sound d1"
    "log_view (lc_entry C) (trees d1) = log_view (lc_entry C) (trees d)"
    "tree_of (trees d1) = tree_of (trees d)" "log_wf (lc_entry C) (trees d1)"
    using open_view [OF assms(1)] assms(2) by metis
  obtain d2 where 2: "open_log_tree S meta_tree d1 = (Inr (), d2)" "sound d2"
    "log_view (lc_entry C) (trees d2) = log_view (lc_entry C) (trees d1)"
    "tree_of (trees d2) = tree_of (trees d1)" "log_wf (lc_entry C) (trees d2)"
    using open_view [OF 1(2)] 1(5) by metis
  obtain ks d3 where 3: "select_keys (\<lambda>n. n \<le> lid_index i) (sled_iter S log_tree d2) = Inr ks"
    "remove_keys S ks d2 = (Inr (), d3)" "sound d3" "log_wf (lc_entry C) (trees d3)"
    "tree_of (trees d3) meta_tree = tree_of (trees d2) meta_tree"
    "log_view (lc_entry C) (trees d3) = (\<lambda>n. if n \<le> lid_index i then None else log_view (lc_entry C) (trees d2) n)"
    by (rule remove_selected [OF 2(2,5)])
  obtain d4 where 4: "log_do S log_write_err (Insert meta_tree (str_bytes ''last_purged'') (li.json i)) d3 = (Inr (), d4)"
    "sound d4" "trees d4 = sled_effect (Insert meta_tree (str_bytes ''last_purged'') (li.json i)) (trees d3)"
    by (rule do_ok [OF 3(3)])
  have "log_view (lc_entry C) (trees d4) = log_view (lc_entry C) (trees d3)"
    by (intro ext) (simp add: log_view_def 4(3))
  moreover have "log_wf (lc_entry C) (trees d4)" using 3(4) by (simp add: log_wf_def 4(3))
  ultimately show ?thesis
    by (intro that [of d4]) (simp_all add: purge_log_def op_simps 1 2 3 4 flush_ok li.js_enc_json cong: if_cong)
qed

lemma append_ok:
  assumes "sound d" "log_wf (lc_entry C) (trees d)"
  obtains d' where "append_entries S C es d = (Inr (), d')" "sound d'" "log_wf (lc_entry C) (trees d')"
    "tree_of (trees d') meta_tree = tree_of (trees d) meta_tree"
    "log_view (lc_entry C) (trees d') = log_view (lc_entry C) (trees d) ++ map_of (rev (List.map (\<lambda>e. (entry_index e, e)) es))"
proof -
  let ?b = "List.map (\<lambda>e. (encode_index (entry_index e), en.json e)) es"
  obtain d1 where 1: "open_log_tree S log_tree d = (Inr (), d1)" "sound d1"
    "log_view (lc_entry C) (trees d1) = log_view (lc_entry C) (trees d)"
    "tree_of (trees d1) = tree_of (trees d)" "log_wf (lc_entry C) (trees d1)"
    using open_view [OF assms(1)] assms(2) by metis
  obtain d2 where 2: "log_do S log_write_err (ApplyBatch log_tree ?b) d1 = (Inr (), d2)"
    "sound d2" "trees d2 = sled_effect (ApplyBatch log_tree ?b) (trees d1)"
    by (rule do_ok [OF 1(2)])
  have "log_wf (lc_entry C) (trees d2)"
    using 1(5) by (auto simp: log_wf_def 2(3) map_add_Some_iff en.js_dec_json dest!: map_of_SomeD)
  moreover have "log_view (lc_entry C) (trees d2) =
      log_view (lc_entry C) (trees d) ++ map_of (rev (List.map (\<lambda>e. (entry_index e, e)) es))"
  proof
    fix i
    have "map_of (rev ?b) (encode_index i) = map_option en.json (map_of (rev (List.map (\<lambda>e. (entry_index e, e)) es)) i)"
      using map_of_batch_index [of en.json "rev es" i] by (simp add: rev_map)
    then show "log_view (lc_entry C) (trees d2) i =
        (log_view (lc_entry C) (trees d) ++ map_of (rev (List.map (\<lambda>e. (entry_index e, e)) es))) i"
      by (auto simp: log_view_def 2(3) 1(4) map_add_def en.js_dec_json split: option.splits)
  qed
  ultimately show ?thesis
    by (intro that [of d2]) (simp_all add: append_entries_def op_simps 1 2 flush_ok batch_ok)
qed

lemma get_entries_ok:
  assumes "sound d" "log_wf (lc_entry C) (trees d)"
  obtains d' es where "try_get_log_entries S C P d = (Inr es, d')"
    "sorted_wrt (\<lambda>a b. entry_index a < entry_index b) es"
    "set es = {e \<in> log_set (lc_entry C) (trees d). P (entry_index e)}"
proof -
  obtain d1 where 1: "open_log_tree S log_tree d = (Inr (), d1)" "sound d1"
    "log_view (lc_entry C) (trees d1) = log_view (lc_entry C) (trees d)"
    "tree_of (trees d1) = tree_of (trees d)" "log_wf (lc_entry C) (trees d1)"
    using open_view [OF assms(1)] assms(2) by metis
  obtain kvs es where it: "sled_iter S log_tree d1 = List.map Inr kvs" "list_all2 (item_entry (lc_entry C)) kvs es"
    "sorted_wrt (\<lambda>a b. entry_index a < entry_index b) es" "set es = log_set (lc_entry C) (trees d1)"
    by (rule iter_entries [OF 1(2,5)])
  let ?es = "filter (\<lambda>e. P (entry_index e)) es"
  have sorted: "sorted_wrt (\<lambda>a b. entry_index a < entry_index b) ?es" using it(3) by (rule sorted_wrt_filter)
  then have "sorted (List.map entry_index ?es)"
    by (simp add: sorted_map) (auto elim: sorted_wrt_mono_rel [rotated])
  then have "sort_key entry_index ?es = ?es" by (rule sort_key_id_if_sorted)
  then have "try_get_log_entries S C P d = (Inr ?es, d1)"
    by (simp add: try_get_log_entries_def op_simps 1(1) it(1) collect_items [OF it(2)])
  moreover have "log_set (lc_entry C) (trees d1) = log_set (lc_entry C) (trees d)"
    by (simp add: log_set_def 1(3))
  ultimately show ?thesis using that [OF _ sorted] it(4) by auto
qed

end

end
