(* ===== verification/Raft_Log_Spec.thy ===== *)
theory Raft_Log_Spec
  imports Raft_Log
begin

text \<open>
  What the log store promises openraft: reads return the abstract log in order, append overrides by
  index, truncate and purge cut the log on either side, and the vote, the committed id and the
  purged id are read back as they were saved.
\<close>

section \<open>Log state and metadata\<close>

lemma sorted_last_max:
  "sorted_wrt (\<lambda>a b. f a < (f b :: 'b::linorder)) es \<Longrightarrow> e \<in> set es \<Longrightarrow> f e \<le> f (last es)"
  by (induction es rule: rev_induct) (auto simp: sorted_wrt_append less_imp_le)

text \<open>The last entry of an abstract log.\<close>

definition last_of_log :: "'m log_entry set \<Rightarrow> log_id option \<Rightarrow> bool" where
  "last_of_log L l = (case l of None \<Rightarrow> L = {}
     | Some i \<Rightarrow> (\<exists>e \<in> L. le_log_id e = i \<and> (\<forall>e' \<in> L. entry_index e' \<le> lid_index i)))"

context log_api begin

lemma log_state_ok:
  assumes "sound d" "log_wf (lc_entry C) (trees d)"
    and "parse_opt log_read_err (lc_log_id C) (tree_of (trees d) meta_tree (str_bytes ''last_purged'')) = Inr lp"
  obtains d' l where "get_log_state S C d = (Inr \<lparr> ls_last_purged = lp, ls_last_log = l \<rparr>, d')"
    "last_of_log (log_set (lc_entry C) (trees d)) l"
proof -
  obtain d1 where 1: "open_log_tree S meta_tree d = (Inr (), d1)" "sound d1"
    "log_view (lc_entry C) (trees d1) = log_view (lc_entry C) (trees d)"
    "tree_of (trees d1) = tree_of (trees d)" "log_wf (lc_entry C) (trees d1)"
    using open_view [OF assms(1)] assms(2) by metis
  obtain d2 where 2: "open_log_tree S log_tree d1 = (Inr (), d2)" "sound d2"
    "log_view (lc_entry C) (trees d2) = log_view (lc_entry C) (trees d1)"
    "tree_of (trees d2) = tree_of (trees d1)" "log_wf (lc_entry C) (trees d2)"
    using open_view [OF 1(2)] 1(5) by metis
  obtain kvs es where it: "sled_iter S log_tree d2 = List.map Inr kvs" "list_all2 (item_entry (lc_entry C)) kvs es"
    "sorted_wrt (\<lambda>a b. entry_index a < entry_index b) es" "set es = log_set (lc_entry C) (trees d2)"
    by (rule iter_entries [OF 2(2,5)])
  let ?l = "if es = [] then None else Some (le_log_id (last es))"
  have li: "bind_res (tree_last (List.map Inr kvs)) (\<lambda>v. parse_opt log_read_err (lc_entry C) v) =
      Inr (if es = [] then None else Some (last es))" by (rule last_item [OF it(2)])
  have "get_log_state S C d = (Inr \<lparr> ls_last_purged = lp, ls_last_log = ?l \<rparr>, d2)"
    using assms(3) li
    by (auto simp: get_log_state_def op_simps 1 2 get_ok it(1) split: sum.split_asm)
  moreover have "last_of_log (set es) ?l"
    using sorted_last_max [OF it(3)] by (auto simp: last_of_log_def entry_index_def)
  moreover have "set es = log_set (lc_entry C) (trees d)" using it(4) by (simp add: log_set_def 1 2)
  ultimately show ?thesis using that by metis
qed

lemma vote_ok:
  assumes "sound d"
  obtains d' d'' where "save_vote S C v d = (Inr (), d')" "read_vote S C d' = (Inr (Some v), d'')"
    "sound d'" "tree_of (trees d') = (tree_of (trees d))(meta_tree := (tree_of (trees d) meta_tree)(str_bytes ''vote'' \<mapsto> vo.json v))"
proof -
  obtain d1 where 1: "open_log_tree S meta_tree d = (Inr (), d1)" "sound d1" "trees d1 = sled_effect (OpenTree meta_tree) (trees d)"
    by (rule open_ok [OF assms])
  obtain d2 where 2: "log_do S vote_write_err (Insert meta_tree (str_bytes ''vote'') (vo.json v)) d1 = (Inr (), d2)" "sound d2"
    "trees d2 = sled_effect (Insert meta_tree (str_bytes ''vote'') (vo.json v)) (trees d1)"
    by (rule do_ok [OF 1(2)])
  obtain d3 where 3: "open_log_tree S meta_tree d2 = (Inr (), d3)" "sound d3" "trees d3 = sled_effect (OpenTree meta_tree) (trees d2)"
    by (rule open_ok [OF 2(2)])
  obtain d4 where 4: "open_log_tree S meta_tree d3 = (Inr (), d4)" "sound d4" "trees d4 = sled_effect (OpenTree meta_tree) (trees d3)"
    by (rule open_ok [OF 3(2)])
  have "tree_of (trees d3) = (tree_of (trees d))(meta_tree := (tree_of (trees d) meta_tree)(str_bytes ''vote'' \<mapsto> vo.json v))"
    by (intro ext) (simp add: 1 2 3)
  moreover have "save_vote S C v d = (Inr (), d3)"
    by (simp add: save_vote_def op_simps vo.js_enc_json 1 2 3 flush_ok)
  moreover have "read_vote S C d3 = (Inr (Some v), d4)"
    by (simp add: read_vote_def op_simps 4(1) get_ok [OF 4(2)] parse_opt_def) (simp add: 2 3 4 vo.js_dec_json op_simps)
  ultimately show ?thesis using that 3(2) by metis
qed

lemma committed_ok:
  assumes "sound d"
  obtains d' d'' where "save_committed S C c d = (Inr (), d')" "read_committed S C d' = (Inr c, d'')" "sound d'"
proof -
  obtain d1 where 1: "open_log_tree S meta_tree d = (Inr (), d1)" "sound d1" "trees d1 = sled_effect (OpenTree meta_tree) (trees d)"
    by (rule open_ok [OF assms])
  let ?cmd = "case c of None \<Rightarrow> Remove meta_tree (str_bytes ''committed'')
    | Some i \<Rightarrow> Insert meta_tree (str_bytes ''committed'') (li.json i)"
  obtain d2 where 2: "log_do S log_write_err ?cmd d1 = (Inr (), d2)" "sound d2"
    "trees d2 = sled_effect ?cmd (trees d1)"
    by (rule do_ok [OF 1(2)])
  obtain d3 where 3: "open_log_tree S meta_tree d2 = (Inr (), d3)" "sound d3" "trees d3 = sled_effect (OpenTree meta_tree) (trees d2)"
    by (rule open_ok [OF 2(2)])
  have "save_committed S C c d = (Inr (), d2)"
    using 2(1) by (cases c) (simp_all add: save_committed_def op_simps li.js_enc_json 1 flush_ok [OF 2(2)])
  moreover have "read_committed S C d2 = (Inr c, d3)"
    using 2(3) by (cases c) (simp_all add: read_committed_def op_simps 3 get_ok parse_opt_def li.js_dec_json)
  ultimately show ?thesis using that 2(2) by metis
qed

end

section \<open>A concrete log\<close>

instance raft_command :: countable by countable_datatype

instance payload :: (countable) countable by countable_datatype

instance log_entry_ext :: (countable, countable) countable
  by (rule countable_classI [of "\<lambda>l. to_nat ((le_log_id l, le_payload l), log_entry.more l)"])
    (auto intro!: log_entry.equality)

definition ref_codecs :: "(nat, nat) log_codecs" where
  "ref_codecs = \<lparr> lc_entry = count_json, lc_log_id = count_json, lc_vote = count_json \<rparr>"

interpretation ref_log: log_api ref_sled ref_trees ref_sound ref_codecs
  unfolding log_api_def ref_codecs_def
  by (simp add: ref_sled.sled_api_axioms count_json.json_api_axioms)

lemma ref_log_empty [simp]: "ref_sound []" "log_wf J (ref_trees [])"
  by (simp_all add: ref_sound_def log_wf_def tree_of_ref ref_tree_def)

definition entry_at :: "u64 \<Rightarrow> nat log_entry" where
  "entry_at i = \<lparr> le_log_id = \<lparr> lid_term = 1, lid_leader = 7, lid_index = i \<rparr>, le_payload = Blank \<rparr>"

section \<open>Properties\<close>

text \<open>
  The index keys: decoding undoes encoding, and the keys sort as the indices do, so that walking
  the tree walks the log in order.
\<close>

theorem index_key_order:
  "decode_index (encode_index i) = Some i \<and> (encode_index i < encode_index j \<longleftrightarrow> i < j)"
  by (simp add: index_key.dec_enc)

text \<open>
  C20. Reading: on a sound database with a well-formed log, a read of any range returns exactly the
  entries of the abstract log whose index is in the range, each once, in the order of their indices.
\<close>

theorem log_read_refines:
  assumes "log_api S trees sound C" "sound d" "log_wf (lc_entry C) (trees d)"
  shows "\<exists>es. fst (try_get_log_entries S C P d) = Inr es \<and>
    sorted_wrt (\<lambda>a b. entry_index a < entry_index b) es \<and>
    set es = {e. log_view (lc_entry C) (trees d) (entry_index e) = Some e \<and> P (entry_index e)}"
proof -
  obtain d' es where "try_get_log_entries S C P d = (Inr es, d')" "sorted_wrt (\<lambda>a b. entry_index a < entry_index b) es"
    "set es = {e \<in> log_set (lc_entry C) (trees d). P (entry_index e)}"
    by (rule log_api.get_entries_ok [OF assms])
  then show ?thesis by (simp add: log_set_def)
qed

text \<open>A log of three entries, appended in another order.\<close>

lemma three_entries:
  obtains d where "append_entries ref_sled ref_codecs [entry_at 5, entry_at 3, entry_at 4] [] = (Inr (), d)" "ref_sound d"
    "log_wf (lc_entry ref_codecs) (ref_trees d)"
    "log_view (lc_entry ref_codecs) (ref_trees d) = [3 \<mapsto> entry_at 3, 4 \<mapsto> entry_at 4, 5 \<mapsto> entry_at 5]"
proof -
  obtain d where d: "append_entries ref_sled ref_codecs [entry_at 5, entry_at 3, entry_at 4] [] = (Inr (), d)" "ref_sound d"
    "log_wf (lc_entry ref_codecs) (ref_trees d)"
    "log_view (lc_entry ref_codecs) (ref_trees d) = log_view (lc_entry ref_codecs) (ref_trees []) ++
       map_of (rev (List.map (\<lambda>e. (entry_index e, e)) [entry_at 5, entry_at 3, entry_at 4]))"
    by (rule ref_log.append_ok [OF ref_log_empty])
  have "log_view (lc_entry ref_codecs) (ref_trees []) = Map.empty"
    by (intro ext) (simp add: log_view_def tree_of_ref ref_tree_def)
  then have "log_view (lc_entry ref_codecs) (ref_trees d) = [3 \<mapsto> entry_at 3, 4 \<mapsto> entry_at 4, 5 \<mapsto> entry_at 5]"
    using d(4) by (auto simp: fun_eq_iff entry_at_def entry_index_def)
  with d show ?thesis using that by blast
qed

theorem log_read_refines_witness:
  "\<exists>d. append_entries ref_sled ref_codecs [entry_at 5, entry_at 3, entry_at 4] [] = (Inr (), d) \<and>
    fst (try_get_log_entries ref_sled ref_codecs (\<lambda>i. i < 5) d) = Inr [entry_at 3, entry_at 4]"
proof -
  obtain d where d: "append_entries ref_sled ref_codecs [entry_at 5, entry_at 3, entry_at 4] [] = (Inr (), d)" "ref_sound d"
    "log_wf (lc_entry ref_codecs) (ref_trees d)"
    "log_view (lc_entry ref_codecs) (ref_trees d) = [3 \<mapsto> entry_at 3, 4 \<mapsto> entry_at 4, 5 \<mapsto> entry_at 5]"
    by (rule three_entries)
  obtain es where es: "fst (try_get_log_entries ref_sled ref_codecs (\<lambda>i. i < 5) d) = Inr es"
    "sorted_wrt (\<lambda>a b. entry_index a < entry_index b) es"
    "set es = {e. log_view (lc_entry ref_codecs) (ref_trees d) (entry_index e) = Some e \<and> entry_index e < 5}"
    using log_read_refines [OF ref_log.log_api_axioms d(2,3), of "\<lambda>i. i < 5"] by blast
  have at: "entry_index (entry_at i) = i" for i by (simp add: entry_at_def entry_index_def)
  have "set es = set [entry_at 3, entry_at 4]" unfolding es(3) d(4) by (auto simp: at split: if_split_asm)
  then have "es = [entry_at 3, entry_at 4]" by (rule sorted_by_unique [OF es(2), rotated]) (simp add: at)
  with d(1) es(1) show ?thesis by blast
qed

text \<open>
  C18. Conflict resolution: truncating at a log id and appending entries succeeds and leaves the
  abstract log that keeps the old entries below the index and has the new ones on top, the last of
  them winning for each index; the vote and the other metadata stay as they are.
\<close>

theorem truncate_append_refines:
  assumes "log_api S trees sound C" "sound d" "log_wf (lc_entry C) (trees d)"
  shows "\<exists>d1 d2. truncate_log S i d = (Inr (), d1) \<and> append_entries S C es d1 = (Inr (), d2) \<and>
    sound d2 \<and> log_wf (lc_entry C) (trees d2) \<and>
    log_view (lc_entry C) (trees d2) =
      (\<lambda>n. if lid_index i \<le> n then None else log_view (lc_entry C) (trees d) n) ++
      map_of (rev (List.map (\<lambda>e. (entry_index e, e)) es)) \<and>
    tree_of (trees d2) meta_tree = tree_of (trees d) meta_tree"
proof -
  note api = assms(1)
  obtain d1 where 1: "truncate_log S i d = (Inr (), d1)" "sound d1" "log_wf (lc_entry C) (trees d1)"
    "tree_of (trees d1) meta_tree = tree_of (trees d) meta_tree"
    "log_view (lc_entry C) (trees d1) = (\<lambda>n. if lid_index i \<le> n then None else log_view (lc_entry C) (trees d) n)"
    by (rule log_api.truncate_ok [OF assms])
  obtain d2 where "append_entries S C es d1 = (Inr (), d2)" "sound d2" "log_wf (lc_entry C) (trees d2)"
    "tree_of (trees d2) meta_tree = tree_of (trees d1) meta_tree"
    "log_view (lc_entry C) (trees d2) = log_view (lc_entry C) (trees d1) ++ map_of (rev (List.map (\<lambda>e. (entry_index e, e)) es))"
    by (rule log_api.append_ok [OF api 1(2,3)])
  with 1 show ?thesis by simp
qed

theorem truncate_append_refines_witness:
  "\<exists>d1 d2. truncate_log ref_sled (le_log_id (entry_at 3)) [] = (Inr (), d1) \<and>
    append_entries ref_sled ref_codecs [entry_at 3, entry_at 4] d1 = (Inr (), d2) \<and>
    ref_sound d2 \<and> log_wf (lc_entry ref_codecs) (ref_trees d2) \<and>
    log_view (lc_entry ref_codecs) (ref_trees d2) =
      (\<lambda>n. if lid_index (le_log_id (entry_at 3)) \<le> n then None else log_view (lc_entry ref_codecs) (ref_trees []) n) ++
      map_of (rev (List.map (\<lambda>e. (entry_index e, e)) [entry_at 3, entry_at 4])) \<and>
    tree_of (ref_trees d2) meta_tree = tree_of (ref_trees []) meta_tree"
  by (rule truncate_append_refines [OF ref_log.log_api_axioms]) simp_all

text \<open>
  C19. Purging up to a log id succeeds, removes exactly the entries up to its index, and the log state
  read afterwards names that id as the last purged one and the greatest remaining entry as the last
  one. When nothing remains the last log id is reported as none, not as the purged id.
\<close>

theorem purge_refines:
  assumes "log_api S trees sound C" "sound d" "log_wf (lc_entry C) (trees d)"
  shows "\<exists>d1 d2 l. purge_log S C i d = (Inr (), d1) \<and>
    log_view (lc_entry C) (trees d1) = (\<lambda>n. if n \<le> lid_index i then None else log_view (lc_entry C) (trees d) n) \<and>
    get_log_state S C d1 = (Inr \<lparr> ls_last_purged = Some i, ls_last_log = l \<rparr>, d2) \<and>
    last_of_log {e. log_view (lc_entry C) (trees d1) (entry_index e) = Some e} l"
proof -
  note api = assms(1)
  have li: "json_api (lc_log_id C)" using api by (simp add: log_api_def)
  obtain d1 where 1: "purge_log S C i d = (Inr (), d1)" "sound d1" "log_wf (lc_entry C) (trees d1)"
    "tree_of (trees d1) meta_tree = (tree_of (trees d) meta_tree)(str_bytes ''last_purged'' \<mapsto> json_api.json (lc_log_id C) i)"
    "log_view (lc_entry C) (trees d1) = (\<lambda>n. if n \<le> lid_index i then None else log_view (lc_entry C) (trees d) n)"
    by (rule log_api.purge_ok [OF assms])
  have "parse_opt log_read_err (lc_log_id C) (tree_of (trees d1) meta_tree (str_bytes ''last_purged'')) = Inr (Some i)"
    by (simp add: 1(4) parse_opt_def op_simps json_api.js_dec_json [OF li])
  then obtain d2 l where "get_log_state S C d1 = (Inr \<lparr> ls_last_purged = Some i, ls_last_log = l \<rparr>, d2)"
    "last_of_log (log_set (lc_entry C) (trees d1)) l"
    by (rule log_api.log_state_ok [OF api 1(2,3)])
  with 1 show ?thesis by (auto simp: log_set_def)
qed

theorem purge_refines_witness:
  "\<exists>d1 d2 l. purge_log ref_sled ref_codecs (le_log_id (entry_at 3)) [] = (Inr (), d1) \<and>
    log_view (lc_entry ref_codecs) (ref_trees d1) =
      (\<lambda>n. if n \<le> lid_index (le_log_id (entry_at 3)) then None else log_view (lc_entry ref_codecs) (ref_trees []) n) \<and>
    get_log_state ref_sled ref_codecs d1 = (Inr \<lparr> ls_last_purged = Some (le_log_id (entry_at 3)), ls_last_log = l \<rparr>, d2) \<and>
    last_of_log {e. log_view (lc_entry ref_codecs) (ref_trees d1) (entry_index e) = Some e} l"
  by (rule purge_refines [OF ref_log.log_api_axioms]) simp_all

text \<open>
  Durable raft state: on a sound database a saved vote and a saved committed id (or the absence
  of one) are what the next read returns, and saving a vote changes nothing but the vote.
\<close>

theorem vote_committed_round_trip:
  assumes "log_api S trees sound C" "sound d"
  shows "\<exists>d1 d2 d3 d4. save_vote S C v d = (Inr (), d1) \<and> read_vote S C d1 = (Inr (Some v), d2) \<and>
    save_committed S C c d1 = (Inr (), d3) \<and> read_committed S C d3 = (Inr c, d4) \<and>
    log_view (lc_entry C) (trees d1) = log_view (lc_entry C) (trees d)"
proof -
  note api = assms(1)
  obtain d1 d2 where 1: "save_vote S C v d = (Inr (), d1)" "read_vote S C d1 = (Inr (Some v), d2)" "sound d1"
    "tree_of (trees d1) = (tree_of (trees d))(meta_tree := (tree_of (trees d) meta_tree)(str_bytes ''vote'' \<mapsto> json_api.json (lc_vote C) v))"
    by (rule log_api.vote_ok [OF assms])
  obtain d3 d4 where 2: "save_committed S C c d1 = (Inr (), d3)" "read_committed S C d3 = (Inr c, d4)"
    by (rule log_api.committed_ok [OF api 1(3)])
  have "log_view (lc_entry C) (trees d1) = log_view (lc_entry C) (trees d)"
    by (intro ext) (simp add: log_view_def 1(4))
  with 1 2 show ?thesis by auto
qed

theorem vote_committed_round_trip_witness:
  "\<exists>d1 d2 d3 d4. save_vote ref_sled ref_codecs 5 [] = (Inr (), d1) \<and> read_vote ref_sled ref_codecs d1 = (Inr (Some 5), d2) \<and>
    save_committed ref_sled ref_codecs (Some (le_log_id (entry_at 2))) d1 = (Inr (), d3) \<and>
    read_committed ref_sled ref_codecs d3 = (Inr (Some (le_log_id (entry_at 2))), d4) \<and>
    log_view (lc_entry ref_codecs) (ref_trees d1) = log_view (lc_entry ref_codecs) (ref_trees [])"
  by (rule vote_committed_round_trip [OF ref_log.log_api_axioms]) simp

end
