(* ===== verification/Common.thy ===== *)
theory Common
  imports External
begin

text \<open>
  The shared vocabulary of \<open>common/src\<close>: identifiers, job and node types, the cluster state; and the
  status codes of gRPC and HTTP answers. A point in time is a number where the code compares it (the
  times of a job record in nanoseconds, an \<open>Instant\<close> in milliseconds) and its RFC 3339 text where the
  code only stores it.
\<close>

section \<open>Identifiers\<close>

text \<open>\<open>define_id!\<close>: four names for a UUID; \<open>Default\<close> is the nil UUID.\<close>

type_synonym node_id = uuid
type_synonym job_id = uuid
type_synonym chunk_name = uuid
type_synonym file_id = uuid

definition id_default :: uuid where
  "id_default = 0"

section \<open>Jobs\<close>

datatype job_status = Queued | Scheduled | Running | Completed | Failed | Cancelled

datatype runtime = Docker | Python | Jar | Executable | Wasm

record job_resources =
  cpu_cores :: u32
  memory_mb :: u32

record job_spec =
  js_id :: job_id
  js_runtime :: runtime
  js_source :: string
  js_command :: "string list"
  js_resources :: job_resources
  js_labels :: "(string \<times> string) list"
  js_created_at :: string

datatype job_event =
    EvStarted job_id node_id string
  | EvOutputLine job_id bool string string
  | EvCompleted job_id i32 string
  | EvFailed job_id string string

text \<open>The names that \<open>{:?}\<close> prints.\<close>

fun status_debug :: "job_status \<Rightarrow> string" where
  "status_debug Queued = ''Queued''"
| "status_debug Scheduled = ''Scheduled''"
| "status_debug Running = ''Running''"
| "status_debug Completed = ''Completed''"
| "status_debug Failed = ''Failed''"
| "status_debug Cancelled = ''Cancelled''"

section \<open>Nodes\<close>

datatype node_status = Online | Suspected | Offline

fun node_status_debug :: "node_status \<Rightarrow> string" where
  "node_status_debug Online = ''Online''"
| "node_status_debug Suspected = ''Suspected''"
| "node_status_debug Offline = ''Offline''"

record node_resources =
  nr_cpu_cores :: u32
  nr_memory_mb :: u32
  nr_disk_mb :: "u64 option"

record node_capabilities =
  cap_docker :: bool
  cap_python :: "string option"
  cap_java :: "string option"
  cap_wasm :: bool
  cap_gpu_enabled :: bool
  cap_storage_node :: bool

record node_profile =
  np_id :: node_id
  np_tier :: u8
  np_availability :: string
  np_quorum_participant :: bool
  np_resources :: node_resources
  np_capabilities :: node_capabilities

record node_info =
  ni_profile :: node_profile
  ni_status :: node_status
  ni_version :: string
  ni_grpc_endpoint :: string
  ni_rest_endpoint :: string

record cluster_state =
  cs_nodes :: "(node_id, node_info) hmap"
  cs_version :: u64

definition cluster_default :: cluster_state where
  "cluster_default = \<lparr> cs_nodes = [], cs_version = 0 \<rparr>"

text \<open>Nodes known by their endpoints only: no resources and no capabilities.\<close>

definition bare_node :: "node_id \<Rightarrow> u8 \<Rightarrow> string \<Rightarrow> string \<Rightarrow> string \<Rightarrow> node_info" where
  "bare_node nid tier version grpc_endpoint rest_endpoint =
     \<lparr> ni_profile = \<lparr> np_id = nid, np_tier = tier, np_availability = [], np_quorum_participant = False,
         np_resources = \<lparr> nr_cpu_cores = 0, nr_memory_mb = 0, nr_disk_mb = None \<rparr>,
         np_capabilities = \<lparr> cap_docker = False, cap_python = None, cap_java = None, cap_wasm = False,
           cap_gpu_enabled = False, cap_storage_node = False \<rparr> \<rparr>,
       ni_status = Online, ni_version = version,
       ni_grpc_endpoint = grpc_endpoint, ni_rest_endpoint = rest_endpoint \<rparr>"

lemma bare_node_simps [simp]:
  "np_id (ni_profile (bare_node nid tier v g r)) = nid" "ni_status (bare_node nid tier v g r) = Online"
  "np_tier (ni_profile (bare_node nid tier v g r)) = tier"
  "ni_grpc_endpoint (bare_node nid tier v g r) = g" "ni_rest_endpoint (bare_node nid tier v g r) = r"
  "\<not> cap_storage_node (np_capabilities (ni_profile (bare_node nid tier v g r)))"
  by (simp_all add: bare_node_def)

section \<open>Answers\<close>

datatype grpc_code = InvalidArgument | GrpcNotFound | GrpcInternal | GrpcUnavailable | Unauthenticated | FailedPrecondition

datatype grpc_status = GrpcStatus grpc_code string

type_synonym http_code = nat

end
