(* ===== verification/Scheduler.thy ===== *)
theory Scheduler
  imports Common
begin

text \<open>
  The scheduler, \<open>agent/src/scheduler/mod.rs\<close>: the first eligible node in the order of the textual ids.
  The cluster's nodes are a hash map, so its values come in any order; the choice must not depend on
  it.
\<close>

section \<open>Operations\<close>

record scheduling_request =
  sr_runtime :: runtime
  sr_tier_min :: u8
  sr_require_docker :: bool

definition runtime_supported :: "node_info \<Rightarrow> scheduling_request \<Rightarrow> bool" where
  "runtime_supported node req =
     (let caps = np_capabilities (ni_profile node) in
      if sr_require_docker req \<and> \<not> cap_docker caps then False
      else case sr_runtime req of
        Docker \<Rightarrow> cap_docker caps
      | Python \<Rightarrow> cap_python caps \<noteq> None
      | Jar \<Rightarrow> cap_java caps \<noteq> None
      | Wasm \<Rightarrow> cap_wasm caps
      | Executable \<Rightarrow> True)"

definition node_key :: "uuid_api \<Rightarrow> node_info \<Rightarrow> string" where
  "node_key U n = uuid_str U (np_id (ni_profile n))"

fun first_supported :: "scheduling_request \<Rightarrow> node_info list \<Rightarrow> node_id option" where
  "first_supported req [] = None"
| "first_supported req (node # nodes) =
     (if \<not> runtime_supported node req then first_supported req nodes
      else Some (np_id (ni_profile node)))"

definition pick_node ::
  "uuid_api \<Rightarrow> node_info \<Rightarrow> cluster_state \<Rightarrow> scheduling_request \<Rightarrow> node_id option"
where
  "pick_node U local_node cluster req =
     (let candidates = filter (\<lambda>n. sr_tier_min req \<le> np_tier (ni_profile n))
            (filter (\<lambda>n. ni_status n = Online) (hvalues (cs_nodes cluster))) in
      if candidates = [] then None
      else first_supported req (sort_key (node_key U) candidates))"

section \<open>What is promised\<close>

text \<open>The key of every node is the id in its profile.\<close>

definition cluster_wf :: "cluster_state \<Rightarrow> bool" where
  "cluster_wf c = (distinct (hkeys (cs_nodes c)) \<and>
     (\<forall>(k, n) \<in> set (cs_nodes c). np_id (ni_profile n) = k))"

definition eligible :: "scheduling_request \<Rightarrow> node_info \<Rightarrow> bool" where
  "eligible req n = (ni_status n = Online \<and> sr_tier_min req \<le> np_tier (ni_profile n) \<and> runtime_supported n req)"

lemma first_supported_Some:
  assumes "sorted (List.map f ns)" "first_supported req ns = Some i"
  shows "\<exists>n \<in> set ns. np_id (ni_profile n) = i \<and> runtime_supported n req \<and>
    (\<forall>m \<in> set ns. runtime_supported m req \<longrightarrow> f n \<le> f m)"
  using assms
proof (induction ns)
  case Nil
  then show ?case by simp
next
  case (Cons n ns)
  show ?case
  proof (cases "runtime_supported n req")
    case True
    with Cons.prems show ?thesis by auto
  next
    case False
    with Cons.prems Cons.IH show ?thesis by auto
  qed
qed

lemma first_supported_None: "first_supported req ns = None \<longleftrightarrow> (\<forall>n \<in> set ns. \<not> runtime_supported n req)"
  by (induction ns) auto

lemma pick_node_sorted:
  "pick_node U l c req = first_supported req (sort_key (node_key U)
     (filter (\<lambda>n. ni_status n = Online \<and> sr_tier_min req \<le> np_tier (ni_profile n)) (hvalues (cs_nodes c))))"
  by (auto simp: pick_node_def Let_def intro: arg_cong [where f = "\<lambda>xs. first_supported req (sort_key (node_key U) xs)"]
      filter_cong)

context uuid_text begin

text \<open>Nodes with the same textual id have the same id, and in a well-formed cluster are the same.\<close>

lemma node_key_inj:
  assumes "cluster_wf c" "(k, n) \<in> set (cs_nodes c)" "(k', n') \<in> set (cs_nodes c)" "node_key U n = node_key U n'"
  shows "n = n'"
proof -
  from assms(4) have "np_id (ni_profile n) = np_id (ni_profile n')"
    by (simp add: node_key_def enc_eq_iff)
  moreover have "np_id (ni_profile n) = k" "np_id (ni_profile n') = k'"
    using assms(1-3) unfolding cluster_wf_def by blast+
  ultimately have "k = k'" by simp
  with assms(1-3) show ?thesis unfolding cluster_wf_def by (meson eq_key_imp_eq_value)
qed

text \<open>The choice is the eligible node with the least textual id.\<close>

lemma pick_node_Some:
  assumes "pick_node U l c req = Some i"
  shows "\<exists>n \<in> set (hvalues (cs_nodes c)). np_id (ni_profile n) = i \<and> eligible req n \<and>
    (\<forall>m \<in> set (hvalues (cs_nodes c)). eligible req m \<longrightarrow> node_key U n \<le> node_key U m)"
proof -
  let ?ns = "sort_key (node_key U) (filter (\<lambda>n. ni_status n = Online \<and> sr_tier_min req \<le> np_tier (ni_profile n)) (hvalues (cs_nodes c)))"
  have "sorted (List.map (node_key U) ?ns)" by (rule sorted_sort_key)
  moreover have "first_supported req ?ns = Some i" using assms by (simp only: pick_node_sorted)
  ultimately obtain n where n: "n \<in> set ?ns" "np_id (ni_profile n) = i" "runtime_supported n req"
    "\<forall>m \<in> set ?ns. runtime_supported m req \<longrightarrow> node_key U n \<le> node_key U m"
    using first_supported_Some [of "node_key U" ?ns req i] by auto
  then have "n \<in> set (hvalues (cs_nodes c))" "eligible req n" by (simp_all add: eligible_def)
  moreover have "node_key U n \<le> node_key U m" if "m \<in> set (hvalues (cs_nodes c))" "eligible req m" for m
    using n(4) that by (simp add: eligible_def)
  ultimately show ?thesis using n(2) by blast
qed

lemma pick_node_None: "pick_node U l c req = None \<longleftrightarrow> (\<forall>n \<in> set (hvalues (cs_nodes c)). \<not> eligible req n)"
  by (auto simp: pick_node_sorted first_supported_None eligible_def)

end

section \<open>Properties\<close>

definition sample_node :: "node_id \<Rightarrow> node_info" where
  "sample_node i = bare_node i 1 ''0.1.0'' ''h:7947'' ''h:7946''"

definition sample_cluster :: "node_id list \<Rightarrow> cluster_state" where
  "sample_cluster is = \<lparr> cs_nodes = List.map (\<lambda>i. (i, sample_node i)) is, cs_version = 0 \<rparr>"

definition sample_request :: scheduling_request where
  "sample_request = \<lparr> sr_runtime = Executable, sr_tier_min = 1, sr_require_docker = False \<rparr>"

lemma sample_cluster_wf [simp]: "distinct is \<Longrightarrow> cluster_wf (sample_cluster is)"
  by (auto simp: cluster_wf_def sample_cluster_def sample_node_def comp_def)

text \<open>
  C22. The scheduler's answer. It names a node exactly when some node of the cluster is online, has
  the wanted tier and supports the runtime, and then the one of these whose textual id is least. The
  resources of the nodes, their load and their availability windows play no part; docs/architecture/scheduler.md says
  that they do.
\<close>

theorem pick_node_least:
  assumes "uuid_text U"
  shows "(pick_node U l c req = None \<longleftrightarrow> (\<forall>n \<in> set (hvalues (cs_nodes c)). \<not> eligible req n)) \<and>
    (\<forall>i. pick_node U l c req = Some i \<longrightarrow>
      (\<exists>n \<in> set (hvalues (cs_nodes c)). np_id (ni_profile n) = i \<and> eligible req n \<and>
        (\<forall>m \<in> set (hvalues (cs_nodes c)). eligible req m \<longrightarrow> node_key U n \<le> node_key U m)))"
  using uuid_text.pick_node_None [OF assms] uuid_text.pick_node_Some [OF assms] by blast

theorem pick_node_least_witness:
  "\<exists>i n. pick_node ref_uuid (sample_node 1) (sample_cluster [2, 1]) sample_request = Some i \<and>
     n \<in> set (hvalues (cs_nodes (sample_cluster [2, 1]))) \<and> np_id (ni_profile n) = i \<and> eligible sample_request n"
proof -
  have "eligible sample_request (sample_node 2)"
    by (simp add: eligible_def sample_request_def sample_node_def runtime_supported_def Let_def)
  moreover have "sample_node 2 \<in> set (hvalues (cs_nodes (sample_cluster [2, 1])))"
    by (simp add: sample_cluster_def)
  ultimately show ?thesis
    using pick_node_least [OF ref_uuid.uuid_text_axioms, of "sample_node 1" "sample_cluster [2, 1]" sample_request]
    by blast
qed

text \<open>
  The choice is deterministic: two well-formed clusters that are the same map, whatever the order
  their hash maps are walked in, and whichever node asks, get the same answer.
\<close>

theorem pick_node_deterministic:
  assumes "uuid_text U" "cluster_wf c" "cluster_wf c'" "hget (cs_nodes c) = hget (cs_nodes c')"
  shows "pick_node U l c req = pick_node U l' c' req"
proof -
  have same: "set (cs_nodes c) = set (cs_nodes c')"
    using mset_hmap_cong [OF _ _ assms(4)] assms(2,3) by (simp add: cluster_wf_def)
  then have vals: "set (hvalues (cs_nodes c)) = set (hvalues (cs_nodes c'))" by simp
  show ?thesis
  proof (cases "pick_node U l c req")
    case None
    then have "\<forall>n \<in> set (hvalues (cs_nodes c')). \<not> eligible req n"
      using uuid_text.pick_node_None [OF assms(1), of l c req] unfolding vals by simp
    then show ?thesis using None uuid_text.pick_node_None [OF assms(1), of l' c' req] by simp
  next
    case (Some i)
    with vals obtain j where j: "pick_node U l' c' req = Some j"
      using uuid_text.pick_node_None [OF assms(1), of l c req] uuid_text.pick_node_None [OF assms(1), of l' c' req]
      unfolding vals by (cases "pick_node U l' c' req") auto
    obtain n where n: "n \<in> set (hvalues (cs_nodes c))" "np_id (ni_profile n) = i" "eligible req n"
      "\<forall>m \<in> set (hvalues (cs_nodes c)). eligible req m \<longrightarrow> node_key U n \<le> node_key U m"
      using uuid_text.pick_node_Some [OF assms(1) Some] by blast
    obtain n' where n': "n' \<in> set (hvalues (cs_nodes c'))" "np_id (ni_profile n') = j" "eligible req n'"
      "\<forall>m \<in> set (hvalues (cs_nodes c')). eligible req m \<longrightarrow> node_key U n' \<le> node_key U m"
      using uuid_text.pick_node_Some [OF assms(1) j] by blast
    have "node_key U n \<le> node_key U n'" using n(4) n'(1,3) unfolding vals by blast
    moreover have "node_key U n' \<le> node_key U n" using n'(4) n(1,3) unfolding vals by blast
    ultimately have "node_key U n = node_key U n'" by (rule order.antisym)
    moreover obtain k where k: "(k, n) \<in> set (cs_nodes c)" using n(1) by auto
    moreover obtain k' where "(k', n') \<in> set (cs_nodes c)" using n'(1) same by auto
    ultimately have "n = n'" using uuid_text.node_key_inj [OF assms(1,2)] by blast
    with n(2) n'(2) Some j show ?thesis by simp
  qed
qed

theorem pick_node_deterministic_witness:
  "pick_node ref_uuid (sample_node 1) (sample_cluster [1, 2, 3]) sample_request =
   pick_node ref_uuid (sample_node 2) (sample_cluster [3, 1, 2]) sample_request"
proof (rule pick_node_deterministic [OF ref_uuid.uuid_text_axioms])
  show "hget (cs_nodes (sample_cluster [1, 2, 3])) = hget (cs_nodes (sample_cluster [3, 1, 2]))"
    by (auto simp: sample_cluster_def)
qed simp_all

end
