(* ===== verification/Cluster.thy ===== *)
theory Cluster
  imports Scheduler
begin

text \<open>
  The view of the cluster a node keeps: discovery (\<open>agent/src/discovery/mod.rs\<close>), the failure detector
  (\<open>agent/src/gossip/mod.rs\<close>), and the handlers of \<open>agent/src/api_rest/mod.rs\<close> that publish it. The
  tasks run concurrently and meet at two locks; each definition below is what one task does, and
  \<open>cluster_step\<close> is one critical section.
\<close>

section \<open>State\<close>

text \<open>\<open>last_seen\<close> holds instants in milliseconds.\<close>

record membership =
  ms_cluster :: cluster_state
  ms_seen :: "(node_id, nat) hmap"

record peer_info =
  pi_id :: string
  pi_tier :: u8
  pi_grpc_endpoint :: string
  pi_rest_endpoint :: string
  pi_status :: node_status

definition bump_version :: "cluster_state \<Rightarrow> cluster_state" where
  "bump_version c = c\<lparr>cs_version := saturating_add (cs_version c) 1\<rparr>"

section \<open>The failure detector\<close>

definition detect :: "node_id \<Rightarrow> nat \<Rightarrow> (node_id, nat) hmap \<Rightarrow> node_id \<Rightarrow> node_status" where
  "detect self_id now seen_snapshot nid =
     (if nid = self_id then Online
      else case hget seen_snapshot nid of
        Some t \<Rightarrow>
          let age = now - t in
          if age \<ge> 100 * 1000 then Offline else if age \<ge> 35 * 1000 then Suspected else Online
      | None \<Rightarrow> Suspected)"

text \<open>One round: the snapshot was taken before the cluster lock.\<close>

definition failure_detector_round ::
  "node_id \<Rightarrow> nat \<Rightarrow> (node_id, nat) hmap \<Rightarrow> cluster_state \<Rightarrow> cluster_state"
where
  "failure_detector_round self_id now seen_snapshot state =
     bump_version (state\<lparr>cs_nodes :=
       List.map (\<lambda>(nid, node). (nid, node\<lparr>ni_status := detect self_id now seen_snapshot nid\<rparr>)) (cs_nodes state)\<rparr>)"

section \<open>Discovery\<close>

definition upsert_cluster :: "node_info \<Rightarrow> cluster_state \<Rightarrow> cluster_state" where
  "upsert_cluster node state =
     bump_version (state\<lparr>cs_nodes := hput (np_id (ni_profile node)) (node\<lparr>ni_status := Online\<rparr>) (cs_nodes state)\<rparr>)"

definition upsert_peer :: "nat \<Rightarrow> node_info \<Rightarrow> membership \<Rightarrow> membership" where
  "upsert_peer now node m =
     m\<lparr>ms_cluster := upsert_cluster node (ms_cluster m),
       ms_seen := hput (np_id (ni_profile node)) now (ms_seen m)\<rparr>"

definition upsert_self :: "node_info \<Rightarrow> cluster_state \<Rightarrow> cluster_state" where
  "upsert_self local_node state =
     bump_version (state\<lparr>cs_nodes := hput (np_id (ni_profile local_node)) local_node (cs_nodes state)\<rparr>)"

definition mark_self_heartbeat :: "nat \<Rightarrow> node_id \<Rightarrow> (node_id, nat) hmap \<Rightarrow> (node_id, nat) hmap" where
  "mark_self_heartbeat now nid seen = hput nid now seen"

text \<open>One entry of a peer list: \<open>entry(id).and_modify(..).or_insert_with(..)\<close>.\<close>

definition merge_peer :: "node_id \<Rightarrow> peer_info \<Rightarrow> (node_id, node_info) hmap \<Rightarrow> (node_id, node_info) hmap" where
  "merge_peer nid peer nodes =
     (if hget nodes nid \<noteq> None
      then hmodify nid (\<lambda>n. n\<lparr>ni_grpc_endpoint := pi_grpc_endpoint peer,
             ni_rest_endpoint := pi_rest_endpoint peer, ni_status := Online\<rparr>) nodes
      else hput nid (bare_node nid (pi_tier peer) [] (pi_grpc_endpoint peer) (pi_rest_endpoint peer)) nodes)"

fun merge_peers :: "uuid_api \<Rightarrow> node_id \<Rightarrow> nat \<Rightarrow> peer_info list \<Rightarrow> membership \<Rightarrow> membership" where
  "merge_peers U self_id now [] m = m"
| "merge_peers U self_id now (peer # peers) m =
     (case uuid_parse U (pi_id peer) of
        None \<Rightarrow> merge_peers U self_id now peers m
      | Some nid \<Rightarrow>
          if nid = self_id then merge_peers U self_id now peers m
          else merge_peers U self_id now peers
            (m\<lparr>ms_cluster := (ms_cluster m)\<lparr>cs_nodes := merge_peer nid peer (cs_nodes (ms_cluster m))\<rparr>,
               ms_seen := hput nid now (ms_seen m)\<rparr>))"

definition apply_peer_list :: "uuid_api \<Rightarrow> node_id \<Rightarrow> nat \<Rightarrow> peer_info list \<Rightarrow> membership \<Rightarrow> membership" where
  "apply_peer_list U self_id now peers m =
     (let m' = merge_peers U self_id now peers m in m'\<lparr>ms_cluster := bump_version (ms_cluster m')\<rparr>)"

text \<open>A seed names the gRPC port; the REST port is the one below.\<close>

definition seed_to_rest :: "string \<Rightarrow> string" where
  "seed_to_rest seed =
     (case rsplit_once CHR '':'' seed of
        None \<Rightarrow> seed
      | Some (host, port_raw) \<Rightarrow>
          (case parse_u16 port_raw of
             None \<Rightarrow> seed
           | Some port \<Rightarrow>
               if port > 0 then host @ '':'' @ show_nat (unat (saturating_sub port 1)) else seed))"

text \<open>
  What the HTTP client answers: for a list of nodes, no usable response, or a success whose body may
  parse, with the instant read afterwards; for a single node, an error or a body that may parse.
\<close>

datatype nodes_answer = NodesFailed | NodesBody "peer_info list option" nat

datatype node_answer = NodeFailed | NodeBody "node_info option" nat

record http_client =
  http_nodes :: "string \<Rightarrow> nodes_answer"
  http_node :: "string \<Rightarrow> node_answer"

definition poll_seed :: "uuid_api \<Rightarrow> http_client \<Rightarrow> node_id \<Rightarrow> string \<Rightarrow> membership \<Rightarrow> membership" where
  "poll_seed U H self_id seed m =
     (let rest_addr = seed_to_rest seed in
      case http_nodes H (''http://'' @ rest_addr @ ''/v1/internal/nodes'') of
        NodesFailed \<Rightarrow>
          (case http_node H (''http://'' @ rest_addr @ ''/v1/internal/node'') of
             NodeFailed \<Rightarrow> m
           | NodeBody None now \<Rightarrow> m
           | NodeBody (Some node) now \<Rightarrow> if np_id (ni_profile node) \<noteq> self_id then upsert_peer now node m else m)
      | NodesBody None now \<Rightarrow> m
      | NodesBody (Some peers) now \<Rightarrow> apply_peer_list U self_id now peers m)"

definition poll_known :: "uuid_api \<Rightarrow> http_client \<Rightarrow> node_id \<Rightarrow> string \<Rightarrow> membership \<Rightarrow> membership" where
  "poll_known U H self_id rest_endpoint m =
     (if rest_endpoint = [] then m
      else case http_nodes H (''http://'' @ rest_endpoint @ ''/v1/internal/nodes'') of
        NodesFailed \<Rightarrow> m
      | NodesBody None now \<Rightarrow> m
      | NodesBody (Some peers) now \<Rightarrow> apply_peer_list U self_id now peers m)"

definition known_endpoints :: "node_id \<Rightarrow> membership \<Rightarrow> string list" where
  "known_endpoints self_id m =
     List.map (\<lambda>(nid, info). ni_rest_endpoint info) (filter (\<lambda>(nid, _). nid \<noteq> self_id) (cs_nodes (ms_cluster m)))"

text \<open>One turn of the loop: the seeds, then every other node known by then.\<close>

definition discovery_round :: "uuid_api \<Rightarrow> http_client \<Rightarrow> string list \<Rightarrow> node_id \<Rightarrow> membership \<Rightarrow> membership" where
  "discovery_round U H seeds self_id m =
     (let m1 = fold (poll_seed U H self_id) seeds m
      in fold (poll_known U H self_id) (known_endpoints self_id m1) m1)"

section \<open>Publishing the view\<close>

text \<open>\<open>GET /v1/internal/nodes\<close>: every node of the view, whatever its status.\<close>

definition get_internal_nodes :: "uuid_api \<Rightarrow> cluster_state \<Rightarrow> peer_info list" where
  "get_internal_nodes U st =
     sort_key pi_id (List.map (\<lambda>n. \<lparr> pi_id = uuid_str U (np_id (ni_profile n)), pi_tier = np_tier (ni_profile n),
       pi_grpc_endpoint = ni_grpc_endpoint n, pi_rest_endpoint = ni_rest_endpoint n, pi_status = ni_status n \<rparr>)
       (hvalues (cs_nodes st)))"

record nodes_response =
  nodes_list :: "node_info list"
  nodes_total :: nat
  nodes_online :: nat
  nodes_offline :: nat

definition get_nodes :: "uuid_api \<Rightarrow> cluster_state \<Rightarrow> nodes_response" where
  "get_nodes U st =
     (let nodes = sort_key (\<lambda>n. uuid_str U (np_id (ni_profile n))) (hvalues (cs_nodes st))
      in \<lparr> nodes_list = nodes, nodes_total = length nodes,
           nodes_online = length (filter (\<lambda>n. ni_status n = Online) nodes),
           nodes_offline = length (filter (\<lambda>n. ni_status n = Offline) nodes) \<rparr>)"

datatype node_reply = BadNodeId | NodeFound node_info | NodeMissing

definition get_node :: "uuid_api \<Rightarrow> cluster_state \<Rightarrow> string \<Rightarrow> http_code \<times> node_reply" where
  "get_node U st s =
     (case uuid_parse U s of
        None \<Rightarrow> (400, BadNodeId)
      | Some nid \<Rightarrow> (case hget (cs_nodes st) nid of Some n \<Rightarrow> (200, NodeFound n) | None \<Rightarrow> (404, NodeMissing)))"

section \<open>Joining\<close>

text \<open>The end of \<open>join\<close> in \<open>grpc_server/mod.rs\<close>: the 32-bit tier is truncated to 8 bits.\<close>

definition join_cluster :: "string \<Rightarrow> nat \<Rightarrow> node_id \<Rightarrow> u32 \<Rightarrow> string \<Rightarrow> string \<Rightarrow> membership \<Rightarrow> membership" where
  "join_cluster version now nid tier grpc_endpoint rest_endpoint m =
     (let joining = bare_node nid (ucast tier) version grpc_endpoint rest_endpoint in
      m\<lparr>ms_cluster := bump_version ((ms_cluster m)\<lparr>cs_nodes := hput nid joining (cs_nodes (ms_cluster m))\<rparr>),
        ms_seen := hput nid now (ms_seen m)\<rparr>)"

section \<open>Steps\<close>

inductive cluster_step :: "uuid_api \<Rightarrow> node_id \<Rightarrow> membership \<Rightarrow> membership \<Rightarrow> bool" for U self_id where
  detector: "cluster_step U self_id m
    (m\<lparr>ms_cluster := failure_detector_round self_id now snapshot (ms_cluster m)\<rparr>)"
| peer_list: "cluster_step U self_id m (apply_peer_list U self_id now peers m)"
| peer_insert: "np_id (ni_profile node) \<noteq> self_id \<Longrightarrow>
    cluster_step U self_id m (m\<lparr>ms_cluster := upsert_cluster node (ms_cluster m)\<rparr>)"
| seen: "cluster_step U self_id m (m\<lparr>ms_seen := hput nid now (ms_seen m)\<rparr>)"
| join: "cluster_step U self_id m (join_cluster version now nid tier g r m)"

inductive_cases cluster_stepE: "cluster_step U self_id m m'"

definition membership_ok :: "node_id \<Rightarrow> membership \<Rightarrow> bool" where
  "membership_ok self_id m = (cluster_wf (ms_cluster m) \<and> self_id \<in> set (hkeys (cs_nodes (ms_cluster m))))"

definition membership_grows :: "membership \<Rightarrow> membership \<Rightarrow> bool" where
  "membership_grows m m' =
     (set (hkeys (cs_nodes (ms_cluster m))) \<subseteq> set (hkeys (cs_nodes (ms_cluster m'))) \<and>
      cs_version (ms_cluster m) \<le> cs_version (ms_cluster m'))"

lemma bump_nodes [simp]: "cs_nodes (bump_version c) = cs_nodes c"
  by (simp add: bump_version_def)

lemma bump_version_le: "cs_version c \<le> cs_version (bump_version c)"
  by (simp add: bump_version_def saturating_add_mono)

lemma cluster_wf_cong: "cs_nodes c = cs_nodes c' \<Longrightarrow> cluster_wf c = cluster_wf c'"
  by (simp add: cluster_wf_def)

lemma cluster_wf_alt:
  "cluster_wf c \<longleftrightarrow> distinct (hkeys (cs_nodes c)) \<and>
     (\<forall>k n. hget (cs_nodes c) k = Some n \<longrightarrow> np_id (ni_profile n) = k)"
  by (auto simp: cluster_wf_def)

lemma wf_put:
  "cluster_wf c \<Longrightarrow> np_id (ni_profile n) = k \<Longrightarrow> cluster_wf (c\<lparr>cs_nodes := hput k n (cs_nodes c)\<rparr>)"
  by (simp add: cluster_wf_alt)

lemma wf_modify:
  assumes "cluster_wf c" "\<And>n. np_id (ni_profile (f n)) = np_id (ni_profile n)"
  shows "cluster_wf (c\<lparr>cs_nodes := hmodify k f (cs_nodes c)\<rparr>)"
  using assms by (auto simp: cluster_wf_alt)

lemma wf_map:
  assumes "cluster_wf c" "\<And>k n. np_id (ni_profile (f k n)) = np_id (ni_profile n)"
  shows "cluster_wf (c\<lparr>cs_nodes := List.map (\<lambda>(k, n). (k, f k n)) (cs_nodes c)\<rparr>)"
  using assms by (auto simp: cluster_wf_alt hget_map_val)

lemma wf_bump [simp]: "cluster_wf (bump_version c) = cluster_wf c"
  by (rule cluster_wf_cong) simp

lemma wf_merge_peer:
  "cluster_wf c \<Longrightarrow> cluster_wf (c\<lparr>cs_nodes := merge_peer nid peer (cs_nodes c)\<rparr>)"
  by (simp add: merge_peer_def wf_put wf_modify)

lemma keys_merge_peer [simp]: "set (hkeys (merge_peer nid peer nodes)) = insert nid (set (hkeys nodes))"
  by (auto simp: merge_peer_def hget_None_iff simp flip: set_map)

lemma merge_peers_wf:
  "cluster_wf (ms_cluster m) \<Longrightarrow> cluster_wf (ms_cluster (merge_peers U self_id now peers m)) \<and>
    set (hkeys (cs_nodes (ms_cluster m))) \<subseteq> set (hkeys (cs_nodes (ms_cluster (merge_peers U self_id now peers m)))) \<and>
    cs_version (ms_cluster (merge_peers U self_id now peers m)) = cs_version (ms_cluster m)"
proof (induction U self_id now peers m rule: merge_peers.induct)
  case (1 U self_id now m)
  then show ?case by simp
next
  case (2 U self_id now peer peers m)
  show ?case
  proof (cases "uuid_parse U (pi_id peer)")
    case None
    with 2 show ?thesis by simp
  next
    case (Some nid)
    show ?thesis
    proof (cases "nid = self_id")
      case True
      with 2 Some show ?thesis by simp
    next
      case False
      let ?m = "m\<lparr>ms_cluster := (ms_cluster m)\<lparr>cs_nodes := merge_peer nid peer (cs_nodes (ms_cluster m))\<rparr>,
               ms_seen := hput nid now (ms_seen m)\<rparr>"
      have "cluster_wf (ms_cluster ?m)" using 2(4) by (simp add: wf_merge_peer)
      from 2(3) [OF Some False this] have IH: "cluster_wf (ms_cluster (merge_peers U self_id now peers ?m))"
        "set (hkeys (cs_nodes (ms_cluster ?m))) \<subseteq> set (hkeys (cs_nodes (ms_cluster (merge_peers U self_id now peers ?m))))"
        "cs_version (ms_cluster (merge_peers U self_id now peers ?m)) = cs_version (ms_cluster ?m)" by blast+
      have "set (hkeys (cs_nodes (ms_cluster m))) \<subseteq> set (hkeys (cs_nodes (ms_cluster ?m)))"
        by (simp del: set_map) blast
      with IH Some False show ?thesis by simp
    qed
  qed
qed

text \<open>Each kind of step keeps the invariant, and loses nothing of the view.\<close>

lemma membership_wf: "membership_ok self_id m \<Longrightarrow> cluster_wf (ms_cluster m)"
  by (simp add: membership_ok_def)

lemma cluster_step_ok:
  assumes "cluster_step U self_id m m'" "membership_ok self_id m" shows "membership_ok self_id m'"
  using assms(1)
proof (cases rule: cluster_step.cases)
  case (detector now snapshot)
  with assms(2) show ?thesis
    by (simp add: membership_ok_def failure_detector_round_def wf_map del: set_map)
next
  case (peer_list now peers)
  with assms(2) merge_peers_wf [of m U self_id now peers] show ?thesis
    by (auto simp: membership_ok_def apply_peer_list_def Let_def simp del: set_map)
next
  case (peer_insert node)
  with assms(2) show ?thesis by (simp add: membership_ok_def upsert_cluster_def wf_put del: set_map)
next
  case (seen nid now)
  with assms(2) show ?thesis by (simp add: membership_ok_def)
next
  case (join version now nid tier g r)
  with assms(2) show ?thesis by (simp add: membership_ok_def join_cluster_def Let_def wf_put del: set_map)
qed

lemma cluster_step_grows:
  assumes "cluster_step U self_id m m'" "membership_ok self_id m" shows "membership_grows m m'"
  using assms(1)
proof (cases rule: cluster_step.cases)
  case (detector now snapshot)
  then show ?thesis by (simp add: membership_grows_def failure_detector_round_def bump_version_def saturating_add_mono del: set_map)
next
  case (peer_list now peers)
  with merge_peers_wf [OF membership_wf [OF assms(2)], of U self_id now peers] show ?thesis
    by (simp add: membership_grows_def apply_peer_list_def Let_def bump_version_def saturating_add_mono del: set_map)
next
  case (peer_insert node)
  then show ?thesis by (auto simp: membership_grows_def upsert_cluster_def bump_version_def saturating_add_mono simp del: set_map)
next
  case (seen nid now)
  then show ?thesis by (simp add: membership_grows_def)
next
  case (join version now nid tier g r)
  then show ?thesis by (auto simp: membership_grows_def join_cluster_def Let_def bump_version_def saturating_add_mono simp del: set_map)
qed

interpretation members: step_system "cluster_step U self_id" "membership_ok self_id" membership_grows for U self_id
proof (unfold_locales, goal_cases)
  case (1 m m')
  then show ?case by (rule cluster_step_ok)
next
  case (2 m m')
  then show ?case by (rule cluster_step_grows)
next
  case (3 m)
  show ?case by (simp add: membership_grows_def)
next
  case (4 m m' m'')
  then show ?case unfolding membership_grows_def by (meson order.trans subset_trans)
qed

text \<open>
  What the discovery task does is a run of the relation, other tasks aside: each answered poll is one
  step, the fallback to a single node two. The guards of the relation are the ones of the task.
\<close>

lemma poll_known_steps: "(cluster_step U self_id)\<^sup>*\<^sup>* m (poll_known U H self_id ep m)"
  by (auto simp: poll_known_def intro: cluster_step.peer_list split: nodes_answer.split option.split)

lemma upsert_peer_steps:
  assumes "np_id (ni_profile node) \<noteq> self_id"
  shows "(cluster_step U self_id)\<^sup>*\<^sup>* m (upsert_peer now node m)"
proof -
  let ?m = "m\<lparr>ms_cluster := upsert_cluster node (ms_cluster m)\<rparr>"
  have "cluster_step U self_id m ?m" by (rule cluster_step.peer_insert [OF assms])
  moreover have "cluster_step U self_id ?m (?m\<lparr>ms_seen := hput (np_id (ni_profile node)) now (ms_seen ?m)\<rparr>)"
    by (rule cluster_step.seen)
  ultimately show ?thesis by (simp add: upsert_peer_def)
qed

lemma poll_seed_steps: "(cluster_step U self_id)\<^sup>*\<^sup>* m (poll_seed U H self_id seed m)"
  by (auto simp: poll_seed_def Let_def intro: cluster_step.peer_list upsert_peer_steps
      split: nodes_answer.split node_answer.split option.split)

lemma fold_steps:
  assumes "\<And>x m. r\<^sup>*\<^sup>* m (f x m)" shows "r\<^sup>*\<^sup>* m (fold f xs m)"
proof (induction xs arbitrary: m)
  case (Cons x xs)
  from assms Cons.IH have "r\<^sup>*\<^sup>* m (fold f xs (f x m))" by (rule rtranclp_trans)
  then show ?case by simp
qed simp

lemma discovery_round_steps: "(cluster_step U self_id)\<^sup>*\<^sup>* m (discovery_round U H seeds self_id m)"
  unfolding discovery_round_def Let_def
  by (rule rtranclp_trans [OF fold_steps fold_steps]) (rule poll_seed_steps poll_known_steps)+

end
