(* ===== verification/Membership.thy ===== *)
theory Membership
  imports Cluster
begin

text \<open>
  What discovery and failure detection give a node: its view only grows, a peer list adds what it
  names and changes nothing else, and how long a node that is gone stays in the views of others.
\<close>

section \<open>The effect of a peer list\<close>

definition first_peer :: "uuid_api \<Rightarrow> node_id \<Rightarrow> peer_info list \<Rightarrow> peer_info option" where
  "first_peer U k peers = find (\<lambda>p. uuid_parse U (pi_id p) = Some k) peers"

definition last_peer :: "uuid_api \<Rightarrow> node_id \<Rightarrow> peer_info list \<Rightarrow> peer_info option" where
  "last_peer U k peers = find (\<lambda>p. uuid_parse U (pi_id p) = Some k) (rev peers)"

lemma find_append: "find P (xs @ ys) = (case find P xs of None \<Rightarrow> find P ys | Some x \<Rightarrow> Some x)"
  by (induction xs) auto

lemma last_peer_Cons:
  "last_peer U k (p # ps) = (case last_peer U k ps of Some q \<Rightarrow> Some q
     | None \<Rightarrow> if uuid_parse U (pi_id p) = Some k then Some p else None)"
  by (simp add: last_peer_def find_append split: option.splits)

lemma first_peer_Cons:
  "first_peer U k (p # ps) = (if uuid_parse U (pi_id p) = Some k then Some p else first_peer U k ps)"
  by (simp add: first_peer_def)

lemma last_peer_None: "last_peer U k ps = None \<longleftrightarrow> first_peer U k ps = None"
  by (simp add: last_peer_def first_peer_def find_None_iff)

lemma find_SomeD: "find P xs = Some x \<Longrightarrow> x \<in> set xs \<and> P x"
  by (induction xs) (auto split: if_split_asm)

definition listed_node :: "uuid_api \<Rightarrow> node_id \<Rightarrow> peer_info list \<Rightarrow> node_info option \<Rightarrow> node_info option" where
  "listed_node U k peers old =
     (case (first_peer U k peers, last_peer U k peers) of
        (Some p, Some q) \<Rightarrow> Some (case old of
            Some n \<Rightarrow> n\<lparr>ni_grpc_endpoint := pi_grpc_endpoint q, ni_rest_endpoint := pi_rest_endpoint q, ni_status := Online\<rparr>
          | None \<Rightarrow> bare_node k (pi_tier p) [] (pi_grpc_endpoint q) (pi_rest_endpoint q))
      | _ \<Rightarrow> old)"

lemma hget_merge_peer:
  "hget (merge_peer nid p nodes) k =
     (if k = nid then Some (case hget nodes k of
         Some n \<Rightarrow> n\<lparr>ni_grpc_endpoint := pi_grpc_endpoint p, ni_rest_endpoint := pi_rest_endpoint p, ni_status := Online\<rparr>
       | None \<Rightarrow> bare_node k (pi_tier p) [] (pi_grpc_endpoint p) (pi_rest_endpoint p))
      else hget nodes k)"
  by (auto simp: merge_peer_def)

lemma listed_node_step:
  assumes "uuid_parse U (pi_id p) = Some k"
  shows "listed_node U k ps (Some (case old of
         Some n \<Rightarrow> n\<lparr>ni_grpc_endpoint := pi_grpc_endpoint p, ni_rest_endpoint := pi_rest_endpoint p, ni_status := Online\<rparr>
       | None \<Rightarrow> bare_node k (pi_tier p) [] (pi_grpc_endpoint p) (pi_rest_endpoint p))) =
     listed_node U k (p # ps) old"
  using last_peer_None [of U k ps]
  by (cases "last_peer U k ps"; cases "first_peer U k ps"; cases old)
    (simp_all add: listed_node_def last_peer_Cons first_peer_Cons assms bare_node_def)

lemma listed_node_skip:
  "uuid_parse U (pi_id p) \<noteq> Some k \<Longrightarrow> listed_node U k (p # ps) old = listed_node U k ps old"
  by (cases "last_peer U k ps") (simp_all add: listed_node_def last_peer_Cons first_peer_Cons)

lemma merge_peers_self:
  "hget (cs_nodes (ms_cluster (merge_peers U self_id now ps m))) self_id = hget (cs_nodes (ms_cluster m)) self_id"
  by (induction ps arbitrary: m) (auto simp: hget_merge_peer split: option.splits)

lemma merge_peers_listed:
  assumes "k \<noteq> self_id"
  shows "hget (cs_nodes (ms_cluster (merge_peers U self_id now ps m))) k =
     listed_node U k ps (hget (cs_nodes (ms_cluster m)) k)"
proof (induction ps arbitrary: m)
  case Nil
  then show ?case by (simp add: listed_node_def first_peer_def)
next
  case (Cons p ps)
  show ?case
  proof (cases "uuid_parse U (pi_id p) = Some k")
    case True
    then show ?thesis using assms by (simp add: Cons.IH hget_merge_peer listed_node_step)
  next
    case False
    then show ?thesis
      by (simp add: Cons.IH listed_node_skip hget_merge_peer split: option.split)
  qed
qed

lemma merge_peers_nodes:
  "hget (cs_nodes (ms_cluster (merge_peers U self_id now ps m))) k =
     (if k = self_id then hget (cs_nodes (ms_cluster m)) k
      else listed_node U k ps (hget (cs_nodes (ms_cluster m)) k))"
  by (simp add: merge_peers_self merge_peers_listed)

lemma merge_peers_seen:
  "hget (ms_seen (merge_peers U self_id now ps m)) k =
     (if k \<noteq> self_id \<and> last_peer U k ps \<noteq> None then Some now else hget (ms_seen m) k)"
proof (induction ps arbitrary: m)
  case Nil
  then show ?case by (simp add: last_peer_def)
next
  case (Cons p ps)
  then show ?case by (auto simp: last_peer_Cons split: option.splits)
qed

lemma apply_peer_list_nodes:
  "hget (cs_nodes (ms_cluster (apply_peer_list U self_id now ps m))) k =
     (if k = self_id then hget (cs_nodes (ms_cluster m)) k
      else listed_node U k ps (hget (cs_nodes (ms_cluster m)) k))"
  by (simp add: apply_peer_list_def Let_def merge_peers_nodes)

lemma apply_peer_list_seen:
  "hget (ms_seen (apply_peer_list U self_id now ps m)) k =
     (if k \<noteq> self_id \<and> last_peer U k ps \<noteq> None then Some now else hget (ms_seen m) k)"
  by (simp add: apply_peer_list_def Let_def merge_peers_seen)

lemma detector_nodes:
  "hget (cs_nodes (failure_detector_round self_id now sn c)) k =
     map_option (\<lambda>n. n\<lparr>ni_status := detect self_id now sn k\<rparr>) (hget (cs_nodes c) k)"
  by (simp add: failure_detector_round_def hget_map_val)

section \<open>Publishing\<close>

context uuid_text begin

lemma internal_nodes_listed:
  assumes "cluster_wf c" "hget (cs_nodes c) k = Some n"
  shows "last_peer U k (get_internal_nodes U c) \<noteq> None"
proof -
  let ?p = "\<lparr> pi_id = uuid_str U (np_id (ni_profile n)), pi_tier = np_tier (ni_profile n),
       pi_grpc_endpoint = ni_grpc_endpoint n, pi_rest_endpoint = ni_rest_endpoint n, pi_status = ni_status n \<rparr>"
  have "(k, n) \<in> set (cs_nodes c)" using assms(2) by (rule map_of_SomeD)
  then have "?p \<in> set (get_internal_nodes U c)"
    by (auto simp: get_internal_nodes_def intro!: image_eqI [of _ _ "(k, n)"])
  moreover have "uuid_parse U (pi_id ?p) = Some k"
    using assms by (simp add: uuid_round cluster_wf_alt)
  ultimately show ?thesis by (auto simp: last_peer_def find_None_iff)
qed

lemma internal_nodes_entry:
  assumes "cluster_wf c" "p \<in> set (get_internal_nodes U c)" "uuid_parse U (pi_id p) = Some k"
  obtains n where "hget (cs_nodes c) k = Some n" "pi_tier p = np_tier (ni_profile n)"
    "pi_grpc_endpoint p = ni_grpc_endpoint n" "pi_rest_endpoint p = ni_rest_endpoint n"
proof -
  from assms(2) obtain k' n where n: "(k', n) \<in> set (cs_nodes c)"
    "p = \<lparr> pi_id = uuid_str U (np_id (ni_profile n)), pi_tier = np_tier (ni_profile n),
       pi_grpc_endpoint = ni_grpc_endpoint n, pi_rest_endpoint = ni_rest_endpoint n, pi_status = ni_status n \<rparr>"
    by (auto simp: get_internal_nodes_def)
  from assms(1) n(1) have "np_id (ni_profile n) = k'" "hget (cs_nodes c) k' = Some n"
    by (auto simp: cluster_wf_def)
  with n(2) assms(3) that show ?thesis by (simp add: uuid_round)
qed

text \<open>Applying the published list of another node.\<close>

lemma apply_published:
  assumes "cluster_wf c" "hget (cs_nodes c) k = Some n" "k \<noteq> self_id"
  shows "\<exists>n'. hget (cs_nodes (ms_cluster (apply_peer_list U self_id now (get_internal_nodes U c) m))) k = Some n' \<and>
      ni_status n' = Online \<and> ni_grpc_endpoint n' = ni_grpc_endpoint n \<and> ni_rest_endpoint n' = ni_rest_endpoint n"
    and "hget (ms_seen (apply_peer_list U self_id now (get_internal_nodes U c) m)) k = Some now"
proof -
  let ?ps = "get_internal_nodes U c"
  obtain q where q: "last_peer U k ?ps = Some q" using internal_nodes_listed [OF assms(1,2)] by blast
  moreover obtain p where "first_peer U k ?ps = Some p" using q last_peer_None [of U k ?ps] by fastforce
  moreover have "q \<in> set ?ps" "uuid_parse U (pi_id q) = Some k"
    using q find_SomeD [of _ "rev ?ps" q] by (auto simp: last_peer_def)
  then have "pi_grpc_endpoint q = ni_grpc_endpoint n" "pi_rest_endpoint q = ni_rest_endpoint n"
    using internal_nodes_entry [OF assms(1)] assms(2) by (metis option.inject)+
  ultimately show "\<exists>n'. hget (cs_nodes (ms_cluster (apply_peer_list U self_id now ?ps m))) k = Some n' \<and>
      ni_status n' = Online \<and> ni_grpc_endpoint n' = ni_grpc_endpoint n \<and> ni_rest_endpoint n' = ni_rest_endpoint n"
    using assms(3) by (auto simp: apply_peer_list_nodes listed_node_def bare_node_def split: option.splits)
  show "hget (ms_seen (apply_peer_list U self_id now ?ps m)) k = Some now"
    using q assms(3) by (simp add: apply_peer_list_seen)
qed

end

lemma apply_peer_list_wf:
  "cluster_wf (ms_cluster m) \<Longrightarrow> cluster_wf (ms_cluster (apply_peer_list U self_id now ps m))"
  using merge_peers_wf [of m U self_id now ps] by (simp add: apply_peer_list_def Let_def)

lemma detector_wf: "cluster_wf c \<Longrightarrow> cluster_wf (failure_detector_round self_id now sn c)"
  by (simp add: failure_detector_round_def wf_map)

lemma ucast_tier: "(ucast (t :: u32) :: u8) = word_of_nat (unat t mod 256)"
proof -
  have "unat (ucast t :: u8) = unat (word_of_nat (unat t mod 256) :: u8)"
    by (simp add: unsigned_ucast_eq unsigned_of_nat take_bit_eq_mod)
  then show ?thesis by (rule unsigned_word_eqI)
qed

section \<open>Properties\<close>

text \<open>
  C21. A node's view along any run of its tasks (failure detection with any stale snapshot, peer lists,
  peers, heartbeats, joins, in any order): nodes are never removed, the key of each node stays the id
  in its profile, the node itself stays in its view, and the version never decreases.
\<close>

theorem view_only_grows:
  assumes "membership_ok self_id m" "(cluster_step U self_id)\<^sup>*\<^sup>* m m'"
  shows "membership_ok self_id m' \<and> membership_grows m m'"
  using members.run_inv [OF assms(2,1)] members.run_rel [OF assms(2,1)] by simp

definition sample_view :: "node_id list \<Rightarrow> membership" where
  "sample_view is = \<lparr> ms_cluster = sample_cluster is, ms_seen = [] \<rparr>"

theorem view_only_grows_witness:
  "membership_ok 1 (apply_peer_list ref_uuid 1 9 [] (sample_view [1])) \<and>
    membership_grows (sample_view [1]) (apply_peer_list ref_uuid 1 9 [] (sample_view [1]))"
  by (rule view_only_grows [where U = ref_uuid, OF _ r_into_rtranclp])
    (simp_all add: membership_ok_def sample_view_def sample_cluster_def cluster_step.peer_list,
      simp add: cluster_wf_def sample_node_def)

text \<open>
  A peer list changes exactly the nodes it names: a known node keeps its profile and version and
  gets the last listed endpoints and the status online, an unknown one is added with no capabilities,
  resources or version, and the node's own entry is left alone whatever the list says about it.
\<close>

theorem peer_list_effect:
  "hget (cs_nodes (ms_cluster (apply_peer_list U self_id now ps m))) k =
     (case (if k = self_id then None else first_peer U k ps) of
        None \<Rightarrow> hget (cs_nodes (ms_cluster m)) k
      | Some p \<Rightarrow> Some (case hget (cs_nodes (ms_cluster m)) k of
          Some n \<Rightarrow> n\<lparr>ni_grpc_endpoint := pi_grpc_endpoint (the (last_peer U k ps)),
            ni_rest_endpoint := pi_rest_endpoint (the (last_peer U k ps)), ni_status := Online\<rparr>
        | None \<Rightarrow> bare_node k (pi_tier p) [] (pi_grpc_endpoint (the (last_peer U k ps)))
            (pi_rest_endpoint (the (last_peer U k ps)))))"
  using last_peer_None [of U k ps]
  by (cases "first_peer U k ps"; cases "last_peer U k ps")
    (simp_all add: apply_peer_list_nodes listed_node_def split: option.split)

text \<open>
  Discovery is complete: after a node applies the list another node publishes, it knows every
  node the other knows (itself apart), under the endpoints the other has, and publishes them in turn.
\<close>

theorem discovery_complete:
  assumes "uuid_text U" "cluster_wf (ms_cluster b)" "hget (cs_nodes (ms_cluster b)) k = Some n" "k \<noteq> self_id"
    and "cluster_wf (ms_cluster a)"
  shows "\<exists>n'. hget (cs_nodes (ms_cluster (apply_peer_list U self_id now (get_internal_nodes U (ms_cluster b)) a))) k = Some n' \<and>
    ni_grpc_endpoint n' = ni_grpc_endpoint n \<and> ni_rest_endpoint n' = ni_rest_endpoint n \<and>
    last_peer U k (get_internal_nodes U (ms_cluster (apply_peer_list U self_id now (get_internal_nodes U (ms_cluster b)) a))) \<noteq> None"
proof -
  obtain n' where n': "hget (cs_nodes (ms_cluster (apply_peer_list U self_id now (get_internal_nodes U (ms_cluster b)) a))) k = Some n'"
    "ni_grpc_endpoint n' = ni_grpc_endpoint n" "ni_rest_endpoint n' = ni_rest_endpoint n"
    using uuid_text.apply_published(1) [OF assms(1-4), of now a] by blast
  moreover have "last_peer U k (get_internal_nodes U (ms_cluster (apply_peer_list U self_id now (get_internal_nodes U (ms_cluster b)) a))) \<noteq> None"
    by (rule uuid_text.internal_nodes_listed [OF assms(1) apply_peer_list_wf [OF assms(5)] n'(1)])
  ultimately show ?thesis by blast
qed

theorem discovery_complete_witness:
  "\<exists>n'. hget (cs_nodes (ms_cluster (apply_peer_list ref_uuid 1 9 (get_internal_nodes ref_uuid (ms_cluster (sample_view [2, 3]))) (sample_view [1])))) 3 = Some n' \<and>
    ni_grpc_endpoint n' = ni_grpc_endpoint (sample_node 3) \<and> ni_rest_endpoint n' = ni_rest_endpoint (sample_node 3) \<and>
    last_peer ref_uuid 3 (get_internal_nodes ref_uuid (ms_cluster
      (apply_peer_list ref_uuid 1 9 (get_internal_nodes ref_uuid (ms_cluster (sample_view [2, 3]))) (sample_view [1])))) \<noteq> None"
  by (rule discovery_complete [OF ref_uuid.uuid_text_axioms])
    (simp_all add: sample_view_def, simp_all add: sample_cluster_def)

text \<open>
  Two nodes that poll each other every five seconds: each applies the other's published list, then
  runs its failure detector five seconds later on what it has seen.
\<close>

definition mutual_round :: "uuid_api \<Rightarrow> node_id \<Rightarrow> node_id \<Rightarrow> nat \<Rightarrow> membership \<times> membership \<Rightarrow> membership \<times> membership" where
  "mutual_round U a b t AB =
     (let (A, B) = AB;
          A = apply_peer_list U a t (get_internal_nodes U (ms_cluster B)) A;
          B = apply_peer_list U b t (get_internal_nodes U (ms_cluster A)) B
      in (A\<lparr>ms_cluster := failure_detector_round a (t + 5000) (ms_seen A) (ms_cluster A)\<rparr>,
          B\<lparr>ms_cluster := failure_detector_round b (t + 5000) (ms_seen B) (ms_cluster B)\<rparr>))"

definition sees_online :: "node_id \<Rightarrow> membership \<Rightarrow> bool" where
  "sees_online k m = (\<exists>n. hget (cs_nodes (ms_cluster m)) k = Some n \<and> ni_status n = Online)"

lemma mutual_round_online:
  assumes U: "uuid_text U" and "cluster_wf (ms_cluster A)" "cluster_wf (ms_cluster B)"
    and n: "hget (cs_nodes (ms_cluster B)) k = Some n" and "k \<noteq> a" "k \<noteq> b"
    and r: "mutual_round U a b t (A, B) = (A', B')"
  shows "cluster_wf (ms_cluster A') \<and> cluster_wf (ms_cluster B') \<and> sees_online k A' \<and> sees_online k B'"
proof -
  let ?A = "apply_peer_list U a t (get_internal_nodes U (ms_cluster B)) A"
  let ?B = "apply_peer_list U b t (get_internal_nodes U (ms_cluster ?A)) B"
  have A': "A' = ?A\<lparr>ms_cluster := failure_detector_round a (t + 5000) (ms_seen ?A) (ms_cluster ?A)\<rparr>"
    and B': "B' = ?B\<lparr>ms_cluster := failure_detector_round b (t + 5000) (ms_seen ?B) (ms_cluster ?B)\<rparr>"
    using r by (simp_all add: mutual_round_def Let_def)
  obtain na where na: "hget (cs_nodes (ms_cluster ?A)) k = Some na" "hget (ms_seen ?A) k = Some t"
    using uuid_text.apply_published [OF U assms(3) n assms(5)] by blast
  obtain nb where nb: "hget (cs_nodes (ms_cluster ?B)) k = Some nb" "hget (ms_seen ?B) k = Some t"
    using uuid_text.apply_published [OF U apply_peer_list_wf [OF assms(2)] na(1) assms(6)] by blast
  have "sees_online k A'" "sees_online k B'"
    using na nb by (simp_all add: A' B' sees_online_def detector_nodes detect_def)
  moreover have "cluster_wf (ms_cluster A')" "cluster_wf (ms_cluster B')"
    using assms(2,3) by (simp_all add: A' B' detector_wf apply_peer_list_wf)
  ultimately show ?thesis by blast
qed

text \<open>
  A node that is gone is never declared gone. Once two other nodes know it, they vouch for it to
  each other: after any positive number of polling rounds, at whatever times they run, both still
  hold it online, although nothing was ever received from it.
\<close>

theorem dead_node_stays_online:
  assumes "uuid_text U" "cluster_wf (ms_cluster A)" "cluster_wf (ms_cluster B)"
    and "hget (cs_nodes (ms_cluster B)) k \<noteq> None" "k \<noteq> a" "k \<noteq> b" "ts \<noteq> []"
  shows "sees_online k (fst (fold (mutual_round U a b) ts (A, B))) \<and>
    sees_online k (snd (fold (mutual_round U a b) ts (A, B)))"
  using assms(2-4,7)
proof (induction ts arbitrary: A B)
  case Nil
  then show ?case by simp
next
  case (Cons t ts)
  obtain A' B' where r: "mutual_round U a b t (A, B) = (A', B')" by fastforce
  from Cons.prems(3) obtain n where "hget (cs_nodes (ms_cluster B)) k = Some n" by blast
  from mutual_round_online [OF assms(1) Cons.prems(1,2) this assms(5,6) r]
  have 1: "cluster_wf (ms_cluster A')" "cluster_wf (ms_cluster B')" "sees_online k A'" "sees_online k B'" by blast+
  show ?case
  proof (cases "ts = []")
    case True
    with 1 r show ?thesis by simp
  next
    case False
    with Cons.IH [OF 1(1,2)] 1(4) show ?thesis by (auto simp: r sees_online_def)
  qed
qed

theorem dead_node_stays_online_witness:
  "sees_online 3 (fst (fold (mutual_round ref_uuid 1 2) [0, 1000000] (sample_view [1, 2], sample_view [2, 3]))) \<and>
    sees_online 3 (snd (fold (mutual_round ref_uuid 1 2) [0, 1000000] (sample_view [1, 2], sample_view [2, 3])))"
  by (rule dead_node_stays_online [OF ref_uuid.uuid_text_axioms])
    (simp_all add: sample_view_def, simp_all add: sample_cluster_def)

text \<open>
  C23. The failure detector: in one round each known node gets the status its age commands (online
  below 35 seconds, suspected below 100, offline from there, suspected when never seen), the node
  itself is online, and nothing but statuses and the version changes. (docs/architecture/overview.md gives 30
  seconds, and 60 more.)
\<close>

theorem failure_detector_exact:
  assumes "hget (cs_nodes c) k = Some n"
  shows "hget (cs_nodes (failure_detector_round self_id now sn c)) k =
      Some (n\<lparr>ni_status := (if k = self_id then Online else case hget sn k of None \<Rightarrow> Suspected
        | Some t \<Rightarrow> if now < t + 35000 then Online else if now < t + 100000 then Suspected else Offline)\<rparr>) \<and>
    hkeys (cs_nodes (failure_detector_round self_id now sn c)) = hkeys (cs_nodes c)"
  using assms
  by (auto simp: detector_nodes detect_def Let_def failure_detector_round_def hget_map_val simp del: map_map
      split: option.splits)

theorem failure_detector_exact_witness:
  "hget (cs_nodes (failure_detector_round 1 50000 [(2, 10000 :: nat)] (sample_cluster [1, 2]))) 2 =
      Some ((sample_node 2)\<lparr>ni_status := (if (2 :: uuid) = 1 then Online else case hget [(2 :: uuid, 10000 :: nat)] 2 of None \<Rightarrow> Suspected
        | Some t \<Rightarrow> if 50000 < t + 35000 then Online else if 50000 < t + 100000 then Suspected else Offline)\<rparr>) \<and>
    hkeys (cs_nodes (failure_detector_round 1 50000 [(2, 10000 :: nat)] (sample_cluster [1, 2]))) = hkeys (cs_nodes (sample_cluster [1, 2]))"
  by (rule failure_detector_exact) (simp add: sample_cluster_def)

text \<open>
  What a node learned from a peer list or a join is good for: the scheduler considers it for
  plain executables only (no Docker, Python, Java or WebAssembly job, whatever the node can run), and
  it never counts as a storage node.
\<close>

theorem listed_nodes_limited:
  assumes "hget (cs_nodes (ms_cluster m)) k = None" "k \<noteq> self_id"
    and "hget (cs_nodes (ms_cluster (apply_peer_list U self_id now ps m))) k = Some n \<or>
      hget (cs_nodes (ms_cluster (join_cluster v now k tier g r m))) k = Some n"
  shows "(runtime_supported n req \<longleftrightarrow> sr_runtime req = Executable \<and> \<not> sr_require_docker req) \<and>
    \<not> cap_storage_node (np_capabilities (ni_profile n))"
proof -
  obtain t v' g' r' where "n = bare_node k t v' g' r'"
    using assms by (auto simp: apply_peer_list_nodes listed_node_def join_cluster_def Let_def split: option.split_asm)
  then show ?thesis by (cases "sr_runtime req") (auto simp: runtime_supported_def Let_def bare_node_def)
qed

theorem listed_nodes_limited_witness:
  "(runtime_supported (bare_node 5 2 ''0.1.0'' ''h:1'' ''h:2'') sample_request \<longleftrightarrow>
      sr_runtime sample_request = Executable \<and> \<not> sr_require_docker sample_request) \<and>
    \<not> cap_storage_node (np_capabilities (ni_profile (bare_node 5 2 ''0.1.0'' ''h:1'' ''h:2'')))"
  by (rule listed_nodes_limited [where m = "sample_view [1]" and k = 5 and self_id = 1 and v = "''0.1.0''" and now = 9
        and tier = 2 and g = "''h:1''" and r = "''h:2''"])
    (simp_all add: sample_view_def sample_cluster_def join_cluster_def Let_def)

text \<open>
  Joining under the id of the issuing node itself: the request is not refused, and it replaces the
  node's own profile, capabilities and endpoints in its view by the bare ones of the request, whose
  tier is reduced modulo 256.
\<close>

theorem join_overwrites_self:
  "hget (cs_nodes (ms_cluster (join_cluster v now self_id tier g r m))) self_id =
     Some (bare_node self_id (word_of_nat (unat tier mod 256)) v g r)"
  by (simp add: join_cluster_def Let_def ucast_tier)

text \<open>
  Seeds: for a host and a positive port the REST address is the port below on the same host, also
  when the host has colons (an IPv6 address), and a seed without a colon is used as it is.
\<close>

theorem seed_to_rest_port:
  fixes p :: u16
  assumes "0 < p" "CHR '':'' \<notin> set plain"
  shows "seed_to_rest (host @ '':'' @ show_nat (unat p)) = host @ '':'' @ show_nat (unat p - 1) \<and>
    seed_to_rest plain = plain"
proof -
  have "CHR '':'' \<notin> set (show_nat (unat p))" by (rule digit_char_not) (simp add: char_digit_def)
  then have "rsplit_once CHR '':'' (host @ '':'' @ show_nat (unat p)) = Some (host, show_nat (unat p))"
    by (simp add: rsplit_once_append)
  moreover have "unat (saturating_sub p 1) = unat p - 1"
    using assms(1) by (simp add: saturating_sub_def word_le_nat_alt unat_sub_if' word_less_nat_alt)
  moreover have "rsplit_once CHR '':'' plain = None"
    using assms(2) by (simp add: rsplit_once_def splitn2_none)
  ultimately show ?thesis using assms(1) by (simp add: seed_to_rest_def)
qed

theorem seed_to_rest_port_witness:
  "seed_to_rest (''::1'' @ '':'' @ show_nat (unat (7947 :: u16))) = ''::1'' @ '':'' @ show_nat (unat (7947 :: u16) - 1) \<and>
    seed_to_rest ''host'' = ''host''"
  by (rule seed_to_rest_port) simp_all

end
