(* ===== verification/Grpc_Client.thy ===== *)
theory Grpc_Client
  imports Common
begin

text \<open>
  The gRPC client, \<open>agent/src/grpc_client/mod.rs\<close>: the messages of \<open>agent/proto/agent.proto\<close>, how the
  agent's types become messages and come back, and the calls. The transport (address parsing,
  connecting, the call itself) is a parameter.
\<close>

section \<open>Names on the wire\<close>

fun runtime_to_string :: "runtime \<Rightarrow> string" where
  "runtime_to_string Docker = ''docker''"
| "runtime_to_string Python = ''python''"
| "runtime_to_string Jar = ''jar''"
| "runtime_to_string Executable = ''executable''"
| "runtime_to_string Wasm = ''wasm''"

fun job_status_to_string :: "job_status \<Rightarrow> string" where
  "job_status_to_string Queued = ''queued''"
| "job_status_to_string Scheduled = ''scheduled''"
| "job_status_to_string Running = ''running''"
| "job_status_to_string Completed = ''completed''"
| "job_status_to_string Failed = ''failed''"
| "job_status_to_string Cancelled = ''cancelled''"

definition job_status_from_string :: "string \<Rightarrow> job_status" where
  "job_status_from_string v =
     (if v = ''queued'' then Queued else if v = ''scheduled'' then Scheduled
      else if v = ''running'' then Running else if v = ''completed'' then Completed
      else if v = ''failed'' then Failed else if v = ''cancelled'' then Cancelled else Failed)"

definition runtime_from_string :: "string \<Rightarrow> runtime" where
  "runtime_from_string v =
     (if v = ''docker'' then Docker else if v = ''python'' then Python else if v = ''jar'' then Jar
      else if v = ''wasm'' then Wasm else if v = ''executable'' then Executable else Executable)"

interpretation runtime_names: round_trip runtime_to_string "\<lambda>v. Some (runtime_from_string v)"
proof (unfold_locales)
  fix r show "Some (runtime_from_string (runtime_to_string r)) = Some r"
    by (cases r) (simp_all add: runtime_from_string_def)
qed

interpretation job_status_names: round_trip job_status_to_string "\<lambda>v. Some (job_status_from_string v)"
proof (unfold_locales)
  fix s show "Some (job_status_from_string (job_status_to_string s)) = Some s"
    by (cases s) (simp_all add: job_status_from_string_def)
qed

section \<open>Messages\<close>

record submit_message =
  sm_runtime :: string
  sm_source :: string
  sm_command :: "string list"
  sm_cpu_cores :: u32
  sm_memory_mb :: u32
  sm_job_id :: string
  sm_origin_endpoint :: string

record report_message =
  rm_job_id :: string
  rm_status :: string
  rm_exit_code :: i32
  rm_error :: string
  rm_source_node_id :: string

record join_message =
  jm_node_id :: string
  jm_csr_pem :: string
  jm_join_secret :: string
  jm_tier :: u32
  jm_grpc_endpoint :: string
  jm_rest_endpoint :: string

record join_answer =
  ja_node_cert_pem :: string
  ja_node_key_pem :: string
  ja_ca_cert_pem :: string
  ja_expires_at_unix :: int

record transfer_message =
  tm_bucket :: string
  tm_key :: string
  tm_shard_index :: u32
  tm_data :: bytes
  tm_hash :: string
  tm_policy :: string
  tm_object_size :: u64
  tm_etag :: string

record transfer_answer =
  ta_accepted :: bool
  ta_error :: string

record fetch_message =
  fm_bucket :: string
  fm_key :: string
  fm_shard_index :: u32

record fetch_answer =
  fa_data :: bytes
  fa_hash :: string
  fa_found :: bool

record submit_constraints =
  sc_tier_min :: u8
  sc_docker :: bool

record submit_request =
  sq_runtime :: runtime
  sq_source :: string
  sq_command :: "string list"
  sq_resources :: job_resources
  sq_constraints :: submit_constraints

definition from_proto :: "submit_message \<Rightarrow> submit_request" where
  "from_proto request =
     \<lparr> sq_runtime = runtime_from_string (sm_runtime request), sq_source = sm_source request,
       sq_command = sm_command request,
       sq_resources = \<lparr> cpu_cores = sm_cpu_cores request, memory_mb = sm_memory_mb request \<rparr>,
       sq_constraints = \<lparr> sc_tier_min = 0, sc_docker = False \<rparr> \<rparr>"

section \<open>Calls\<close>

definition normalize_endpoint :: "string \<Rightarrow> string" where
  "normalize_endpoint endpoint =
     (if starts_with endpoint ''http://'' \<or> starts_with endpoint ''https://'' then endpoint
      else ''http://'' @ endpoint)"

text \<open>\<open>Channel::from_shared\<close>, \<open>connect\<close>, and the call with its answer.\<close>

record ('q, 'r) channel =
  ch_from_shared :: "string \<Rightarrow> string + unit"
  ch_connect :: "string \<Rightarrow> string + unit"
  ch_call :: "string \<Rightarrow> 'q \<Rightarrow> grpc_status + 'r"

definition rpc :: "('q, 'r) channel \<Rightarrow> string \<Rightarrow> 'q \<Rightarrow> grpc_status + 'r" where
  "rpc ch target message =
     bind_res (map_err (GrpcStatus GrpcInternal) (ch_from_shared ch target)) (\<lambda>_.
     bind_res (map_err (GrpcStatus GrpcUnavailable) (ch_connect ch target)) (\<lambda>_.
     ch_call ch target message))"

definition submit_message_of ::
  "uuid_api \<Rightarrow> job_id \<Rightarrow> string \<Rightarrow> submit_request \<Rightarrow> submit_message"
where
  "submit_message_of U jid origin_endpoint request =
     \<lparr> sm_runtime = runtime_to_string (sq_runtime request), sm_source = sq_source request,
       sm_command = sq_command request, sm_cpu_cores = cpu_cores (sq_resources request),
       sm_memory_mb = memory_mb (sq_resources request), sm_job_id = uuid_str U jid,
       sm_origin_endpoint = origin_endpoint \<rparr>"

definition submit_remote ::
  "uuid_api \<Rightarrow> (submit_message, 'r) channel \<Rightarrow> string \<Rightarrow> job_id \<Rightarrow> string \<Rightarrow> submit_request \<Rightarrow> grpc_status + unit"
where
  "submit_remote U ch endpoint jid origin_endpoint request =
     bind_res (rpc ch (normalize_endpoint endpoint) (submit_message_of U jid origin_endpoint request)) (\<lambda>_. Inr ())"

definition report_message_of ::
  "uuid_api \<Rightarrow> job_id \<Rightarrow> job_status \<Rightarrow> i32 option \<Rightarrow> string option \<Rightarrow> node_id \<Rightarrow> report_message"
where
  "report_message_of U jid status exit_code error source_node_id =
     \<lparr> rm_job_id = uuid_str U jid, rm_status = job_status_to_string status,
       rm_exit_code = (case exit_code of None \<Rightarrow> 0 | Some c \<Rightarrow> c),
       rm_error = (case error of None \<Rightarrow> [] | Some e \<Rightarrow> e),
       rm_source_node_id = uuid_str U source_node_id \<rparr>"

definition send_job_status ::
  "uuid_api \<Rightarrow> (report_message, 'r) channel \<Rightarrow> string \<Rightarrow> job_id \<Rightarrow> job_status \<Rightarrow> i32 option \<Rightarrow> string option
   \<Rightarrow> node_id \<Rightarrow> grpc_status + unit"
where
  "send_job_status U ch endpoint jid status exit_code error source_node_id =
     bind_res (rpc ch (normalize_endpoint endpoint)
       (report_message_of U jid status exit_code error source_node_id)) (\<lambda>_. Inr ())"

text \<open>The CA file is read first when one is configured; \<open>read\<close> is the file system's answer.\<close>

definition request_join_with_ca ::
  "uuid_api \<Rightarrow> (string \<Rightarrow> string + string) \<Rightarrow> (join_message, join_answer) channel \<Rightarrow> string \<Rightarrow> uuid
   \<Rightarrow> string option \<Rightarrow> string option \<Rightarrow> u8 \<Rightarrow> string \<Rightarrow> u16 \<Rightarrow> u16 \<Rightarrow> grpc_status + join_answer"
where
  "request_join_with_ca U read_text ch endpoint nid join_secret ca_cert_path tier host grpc_port rest_port =
     bind_res (case ca_cert_path of
         None \<Rightarrow> Inr ()
       | Some ca_path \<Rightarrow> bind_res (map_err (\<lambda>e. GrpcStatus GrpcInternal
           (''Failed to read CA cert at '' @ ca_path @ '': '' @ e)) (read_text ca_path)) (\<lambda>_. Inr ())) (\<lambda>_.
     rpc ch (normalize_endpoint endpoint)
       \<lparr> jm_node_id = uuid_str U nid, jm_csr_pem = [],
         jm_join_secret = (case join_secret of None \<Rightarrow> [] | Some s \<Rightarrow> s), jm_tier = ucast tier,
         jm_grpc_endpoint = host @ '':'' @ show_nat (unat grpc_port),
         jm_rest_endpoint = host @ '':'' @ show_nat (unat rest_port) \<rparr>)"

definition request_join ::
  "uuid_api \<Rightarrow> (string \<Rightarrow> string + string) \<Rightarrow> (join_message, join_answer) channel \<Rightarrow> string \<Rightarrow> uuid
   \<Rightarrow> string option \<Rightarrow> grpc_status + join_answer"
where
  "request_join U read_text ch endpoint nid join_secret =
     request_join_with_ca U read_text ch endpoint nid join_secret None 1 ''127.0.0.1'' 9999 9998"

definition send_chunk ::
  "(transfer_message, transfer_answer) channel \<Rightarrow> string \<Rightarrow> transfer_message \<Rightarrow> grpc_status + unit"
where
  "send_chunk ch endpoint message =
     bind_res (rpc ch (normalize_endpoint endpoint) message) (\<lambda>response.
       if \<not> ta_accepted response then Inl (GrpcStatus GrpcInternal ''Peer rejected shard transfer'') else Inr ())"

definition request_chunk ::
  "(fetch_message, fetch_answer) channel \<Rightarrow> string \<Rightarrow> string \<Rightarrow> string \<Rightarrow> u32 \<Rightarrow> grpc_status + bytes option"
where
  "request_chunk ch endpoint bucket key shard_index =
     bind_res (rpc ch (normalize_endpoint endpoint)
       \<lparr> fm_bucket = bucket, fm_key = key, fm_shard_index = shard_index \<rparr>) (\<lambda>response.
       Inr (if fa_found response then Some (fa_data response) else None))"

section \<open>Lemmas\<close>

lemma runtime_string [simp]: "runtime_from_string (runtime_to_string r) = r"
  using runtime_names.dec_enc [of r] by simp

lemma status_string [simp]: "job_status_from_string (job_status_to_string s) = s"
  using job_status_names.dec_enc [of s] by simp

lemma normalize_idem: "normalize_endpoint (normalize_endpoint e) = normalize_endpoint e"
  by (auto simp: normalize_endpoint_def starts_with_def)

section \<open>Properties\<close>

text \<open>
  A job delegated over the wire arrives with the runtime, source, command, resources and id it
  was sent with; its placement constraints are dropped. Job states survive the wire too, and an
  unknown name is read as a failed job or a plain executable.
\<close>

theorem delegation_round_trip:
  assumes "uuid_text U"
  shows "from_proto (submit_message_of U jid origin req) = req\<lparr>sq_constraints := \<lparr> sc_tier_min = 0, sc_docker = False \<rparr>\<rparr> \<and>
    uuid_parse U (sm_job_id (submit_message_of U jid origin req)) = Some jid \<and>
    job_status_from_string (rm_status (report_message_of U jid s code err src)) = s"
  using uuid_text.uuid_round [OF assms]
  by (simp add: from_proto_def submit_message_of_def report_message_of_def)

definition sample_submit :: submit_request where
  "sample_submit = \<lparr> sq_runtime = Wasm, sq_source = ''m.wasm'', sq_command = [''run''],
     sq_resources = \<lparr> cpu_cores = 2, memory_mb = 64 \<rparr>, sq_constraints = \<lparr> sc_tier_min = 1, sc_docker = True \<rparr> \<rparr>"

theorem delegation_round_trip_witness:
  "from_proto (submit_message_of ref_uuid 7 ''h:1'' sample_submit) = sample_submit\<lparr>sq_constraints := \<lparr> sc_tier_min = 0, sc_docker = False \<rparr>\<rparr> \<and>
    uuid_parse ref_uuid (sm_job_id (submit_message_of ref_uuid 7 ''h:1'' sample_submit)) = Some 7 \<and>
    job_status_from_string (rm_status (report_message_of ref_uuid 7 Cancelled None None 3)) = Cancelled"
  by (rule delegation_round_trip [OF ref_uuid.uuid_text_axioms])

end
