(* ===== verification/Jobs.thy ===== *)
theory Jobs
  imports Membership Grpc_Client
begin

text \<open>
  Jobs on a node: their records and handlers in \<open>agent/src/api_rest/mod.rs\<close> and the executor of
  \<open>agent/src/executor/mod.rs\<close>. Handlers and executor tasks run concurrently and meet at the lock of
  the job table, so each definition is what runs under one hold of that lock; the list of tasks the
  node has spawned is part of the state. The reading of the clock, fresh ids, the answer of the remote
  node and the outcome of a process are arguments.
\<close>

section \<open>State\<close>

record job_record =
  jr_job_id :: job_id
  jr_status :: job_status
  jr_assigned_to :: node_id
  jr_runtime :: runtime
  jr_source :: string
  jr_command :: "string list"
  jr_created_at :: nat
  jr_updated_at :: nat
  jr_exit_code :: "i32 option"
  jr_error :: "string option"

record ops_event =
  oe_at :: nat
  oe_kind :: string
  oe_level :: string
  oe_message :: string
  oe_node_id :: "string option"
  oe_job_id :: "string option"

record completion_callback =
  cb_origin_endpoint :: string
  cb_source_node_id :: node_id

record exec_task =
  xt_job_id :: job_id
  xt_runtime :: runtime
  xt_source :: string
  xt_command :: "string list"
  xt_resources :: job_resources
  xt_callback :: "completion_callback option"

text \<open>
  \<open>app_outputs\<close> and \<open>app_events\<close> are the broadcast channels, as the lines and events sent so far; what a
  subscriber still gets of them is \<open>output_recv\<close> and \<open>ops_recv\<close> below.
  \<open>app_tasks\<close> are the executor tasks spawned and not finished, with whether they have passed their start.
\<close>

record app =
  app_node_id :: node_id
  app_local_node :: node_info
  app_cluster :: cluster_state
  app_jobs :: "(job_id, job_record) hmap"
  app_outputs :: "(job_id, string list) hmap"
  app_events :: "ops_event list"
  app_tasks :: "(exec_task \<times> bool) list"

text \<open>
  The channels keep the last 256 lines of a job and the last 1024 events. A subscriber has a position
  in what was sent; what it gets next is up to \<open>tokio\<close> (\<open>recv\<close>).
\<close>

definition output_capacity :: nat where
  "output_capacity = 256"

definition ops_capacity :: nat where
  "ops_capacity = 1024"

definition output_recv :: "string receiver \<Rightarrow> job_id \<Rightarrow> app \<Rightarrow> nat \<Rightarrow> (string option \<times> nat) option" where
  "output_recv recv jid a pos =
     (case hget (app_outputs a) jid of None \<Rightarrow> None | Some sent \<Rightarrow> recv output_capacity sent pos)"

definition ops_recv :: "ops_event receiver \<Rightarrow> app \<Rightarrow> nat \<Rightarrow> (ops_event option \<times> nat) option" where
  "ops_recv recv a pos = recv ops_capacity (app_events a) pos"

definition publish_ops_event ::
  "uuid_api \<Rightarrow> nat \<Rightarrow> string \<Rightarrow> string \<Rightarrow> string \<Rightarrow> node_id option \<Rightarrow> job_id option \<Rightarrow> app \<Rightarrow> app"
where
  "publish_ops_event U now kind level message nid jid a =
     a\<lparr>app_events := app_events a @ [\<lparr> oe_at = now, oe_kind = kind, oe_level = level, oe_message = message,
        oe_node_id = map_option (uuid_str U) nid, oe_job_id = map_option (uuid_str U) jid \<rparr>]\<rparr>"

section \<open>The executor\<close>

record command_line =
  cl_program :: string
  cl_args :: "string list"
  cl_address_limit :: "u64 option"

text \<open>\<open>RLIMIT_AS\<close>, set in the child before it runs.\<close>

definition memory_limit :: "job_resources \<Rightarrow> u64" where
  "memory_limit resources = saturating_mul (saturating_mul (ucast (memory_mb resources)) 1024) 1024"

fun build_command :: "runtime \<Rightarrow> string \<Rightarrow> string list \<Rightarrow> job_resources \<Rightarrow> command_line" where
  "build_command Executable source args resources =
     \<lparr> cl_program = source, cl_args = args, cl_address_limit = Some (memory_limit resources) \<rparr>"
| "build_command Python source args resources =
     \<lparr> cl_program = ''python3'', cl_args = (if args = [] then [''-c'', source] else args),
       cl_address_limit = Some (memory_limit resources) \<rparr>"
| "build_command Jar source args resources =
     \<lparr> cl_program = ''java'', cl_args = [''-jar'', source] @ args,
       cl_address_limit = Some (memory_limit resources) \<rparr>"
| "build_command Wasm source args resources =
     \<lparr> cl_program = ''wasmtime'', cl_args = source # args,
       cl_address_limit = Some (memory_limit resources) \<rparr>"
| "build_command Docker source args resources =
     (let memory_arg = show_nat (unat (memory_mb resources)) @ ''m'' in
      \<lparr> cl_program = ''docker'', cl_args = [''run'', ''--rm'', ''--memory'', memory_arg, ''--memory-swap'',
          memory_arg, ''--cpus'', show_nat (unat (cpu_cores resources)), source] @ args,
        cl_address_limit = None \<rparr>)"

definition update_job :: "job_id \<Rightarrow> (job_record \<Rightarrow> job_record) \<Rightarrow> app \<Rightarrow> app" where
  "update_job jid f a = a\<lparr>app_jobs := hmodify jid f (app_jobs a)\<rparr>"

text \<open>The start of the task: the job becomes running whatever its status, or the task ends.\<close>

definition exec_start :: "nat \<Rightarrow> exec_task \<Rightarrow> app \<Rightarrow> bool \<times> app" where
  "exec_start now task a =
     (case hget (app_jobs a) (xt_job_id task) of
        None \<Rightarrow> (False, a)
      | Some job \<Rightarrow>
          let a = update_job (xt_job_id task) (\<lambda>job. job\<lparr>jr_status := Running, jr_updated_at := now\<rparr>) a in
          (True, case hget (app_outputs a) (xt_job_id task) of
             Some _ \<Rightarrow> a
           | None \<Rightarrow> a\<lparr>app_outputs := hput (xt_job_id task) [] (app_outputs a)\<rparr>))"

definition exec_output :: "bool \<Rightarrow> string \<Rightarrow> exec_task \<Rightarrow> app \<Rightarrow> app" where
  "exec_output is_stderr line task a =
     a\<lparr>app_outputs := hmodify (xt_job_id task)
        (\<lambda>ls. ls @ [if is_stderr then ''[stderr] '' @ line else line]) (app_outputs a)\<rparr>"

text \<open>How the process ended; a process killed by a signal has no code.\<close>

datatype outcome = SpawnFailed string | Exited "i32 option" | WaitFailed string

definition exit_code_of :: "i32 option \<Rightarrow> i32" where
  "exit_code_of c = (case c of None \<Rightarrow> - 1 | Some v \<Rightarrow> v)"

text \<open>\<open>{code}\<close> of an \<open>i32\<close>.\<close>

definition show_i32 :: "i32 \<Rightarrow> string" where
  "show_i32 c = (if sint c < 0 then ''-'' @ show_nat (nat (- sint c)) else show_nat (nat (sint c)))"

definition exit_error :: "i32 \<Rightarrow> string" where
  "exit_error code = ''process exited with code '' @ show_i32 code"

fun finish_record :: "nat \<Rightarrow> outcome \<Rightarrow> job_record \<Rightarrow> job_record" where
  "finish_record now (SpawnFailed err) job =
     job\<lparr>jr_status := Failed, jr_error := Some (''spawn failed: '' @ err), jr_updated_at := now\<rparr>"
| "finish_record now (Exited c) job =
     (let code = exit_code_of c in
      if jr_status job \<noteq> Cancelled
      then (if code = 0
            then job\<lparr>jr_status := Completed, jr_exit_code := Some 0, jr_updated_at := now\<rparr>
            else job\<lparr>jr_status := Failed, jr_exit_code := Some code, jr_error := Some (exit_error code),
                   jr_updated_at := now\<rparr>)
      else job)"
| "finish_record now (WaitFailed err) job =
     job\<lparr>jr_status := Failed, jr_error := Some (''wait failed: '' @ err), jr_updated_at := now\<rparr>"

text \<open>What the origin node is told, when there is one.\<close>

fun report_of :: "outcome \<Rightarrow> job_status \<times> i32 option \<times> string option" where
  "report_of (SpawnFailed err) = (Failed, None, Some (''spawn failed: '' @ err))"
| "report_of (Exited c) =
     (let code = exit_code_of c in
      if code = 0 then (Completed, Some code, None) else (Failed, Some code, Some (exit_error code)))"
| "report_of (WaitFailed err) = (Failed, None, Some (''wait failed: '' @ err))"

definition exec_finish ::
  "uuid_api \<Rightarrow> nat \<Rightarrow> outcome \<Rightarrow> exec_task \<Rightarrow> app \<Rightarrow> app \<times> (string \<times> report_message) option"
where
  "exec_finish U now out task a =
     (let a1 = (case out of SpawnFailed err \<Rightarrow> exec_output False (''[executor:error] spawn failed: '' @ err) task a
                | _ \<Rightarrow> a);
          (status, code, err) = report_of out in
      (update_job (xt_job_id task) (finish_record now out) a1,
       map_option (\<lambda>cb. (cb_origin_endpoint cb,
         report_message_of U (xt_job_id task) status code err (cb_source_node_id cb))) (xt_callback task)))"

definition spawn_job ::
  "job_id \<Rightarrow> submit_request \<Rightarrow> completion_callback option \<Rightarrow> app \<Rightarrow> app"
where
  "spawn_job jid request callback a =
     a\<lparr>app_tasks := app_tasks a @ [(\<lparr> xt_job_id = jid, xt_runtime = sq_runtime request,
        xt_source = sq_source request, xt_command = sq_command request, xt_resources = sq_resources request,
        xt_callback = callback \<rparr>, False)]\<rparr>"

section \<open>Submitting\<close>

definition bad_resources :: "submit_request \<Rightarrow> bool" where
  "bad_resources request = (cpu_cores (sq_resources request) = 0 \<or> memory_mb (sq_resources request) = 0)"

definition resources_error :: string where
  "resources_error = ''resources.cpu_cores and resources.memory_mb must be > 0''"

definition queued_record :: "nat \<Rightarrow> job_id \<Rightarrow> node_id \<Rightarrow> submit_request \<Rightarrow> job_record" where
  "queued_record now jid assigned request =
     \<lparr> jr_job_id = jid, jr_status = Queued, jr_assigned_to = assigned, jr_runtime = sq_runtime request,
       jr_source = sq_source request, jr_command = sq_command request, jr_created_at = now,
       jr_updated_at = now, jr_exit_code = None, jr_error = None \<rparr>"

definition scheduling_of :: "submit_request \<Rightarrow> scheduling_request" where
  "scheduling_of request = \<lparr> sr_runtime = sq_runtime request, sr_tier_min = sc_tier_min (sq_constraints request),
     sr_require_docker = sc_docker (sq_constraints request) \<rparr>"

record submit_response =
  sp_job_id :: job_id
  sp_status :: job_status
  sp_assigned_to :: node_id
  sp_created_at :: nat

text \<open>After the remote node accepted the job; only a job still queued is marked.\<close>

definition dispatch_accepted :: "uuid_api \<Rightarrow> nat \<Rightarrow> node_id \<Rightarrow> job_id \<Rightarrow> app \<Rightarrow> app" where
  "dispatch_accepted U now assigned jid a =
     publish_ops_event U now ''job.dispatched'' ''info''
       (''Job '' @ uuid_str U jid @ '' dispatched to node '' @ uuid_str U assigned) (Some assigned) (Some jid)
       (update_job jid (\<lambda>job. if jr_status job = Queued
          then job\<lparr>jr_status := Running, jr_assigned_to := assigned, jr_updated_at := now\<rparr> else job) a)"

definition dispatch_to_assigned ::
  "uuid_api \<Rightarrow> (submit_message, 'r) channel \<Rightarrow> nat \<Rightarrow> node_id \<Rightarrow> job_id \<Rightarrow> submit_request \<Rightarrow> app \<Rightarrow> bool \<times> app"
where
  "dispatch_to_assigned U ch now assigned jid request a =
     (if assigned = app_node_id a
      then (True, publish_ops_event U now ''job.started'' ''info''
             (''Job '' @ uuid_str U jid @ '' started on local node '' @ uuid_str U (app_node_id a))
             (Some (app_node_id a)) (Some jid) (spawn_job jid request None a))
      else case map_option ni_grpc_endpoint (hget (cs_nodes (app_cluster a)) assigned) of
        None \<Rightarrow> (False, a)
      | Some endpoint \<Rightarrow>
          if is_ok (submit_remote U ch endpoint jid (ni_grpc_endpoint (app_local_node a)) request)
          then (True, dispatch_accepted U now assigned jid a)
          else (False, publish_ops_event U now ''job.dispatch_failed'' ''warn''
                 (''Job '' @ uuid_str U jid @ '' dispatch to node '' @ uuid_str U assigned @ '' failed'')
                 (Some assigned) (Some jid) a))"

text \<open>The result says whether a retry task was spawned.\<close>

definition enqueue_job ::
  "uuid_api \<Rightarrow> (submit_message, 'r) channel \<Rightarrow> nat \<Rightarrow> job_id \<Rightarrow> submit_request \<Rightarrow> app
   \<Rightarrow> (string + submit_response \<times> bool) \<times> app"
where
  "enqueue_job U ch now jid request a =
     (if bad_resources request then (Inl resources_error, a)
      else let assigned = pick_node U (app_local_node a) (app_cluster a) (scheduling_of request);
               node = (case assigned of Some n \<Rightarrow> n | None \<Rightarrow> app_node_id a);
               a1 = a\<lparr>app_jobs := hput jid (queued_record now jid node request) (app_jobs a)\<rparr>;
               a2 = (case assigned of Some n \<Rightarrow> snd (dispatch_to_assigned U ch now n jid request a1) | None \<Rightarrow> a1)
           in (Inr (\<lparr> sp_job_id = jid, sp_status = Queued, sp_assigned_to = node, sp_created_at = now \<rparr>,
                assigned = None), a2))"

definition enqueue_remote_job ::
  "nat \<Rightarrow> job_id \<Rightarrow> submit_request \<Rightarrow> string option \<Rightarrow> app \<Rightarrow> (string + submit_response) \<times> app"
where
  "enqueue_remote_job now jid request origin_endpoint a =
     (if bad_resources request then (Inl resources_error, a)
      else let a1 = a\<lparr>app_jobs := hput jid (queued_record now jid (app_node_id a) request) (app_jobs a)\<rparr>;
               callback = map_option (\<lambda>e. \<lparr> cb_origin_endpoint = e, cb_source_node_id = app_node_id a \<rparr>) origin_endpoint
           in (Inr \<lparr> sp_job_id = jid, sp_status = Queued, sp_assigned_to = app_node_id a, sp_created_at = now \<rparr>,
               spawn_job jid request callback a1))"

text \<open>One turn of the retry task: \<open>None\<close> ends it, \<open>Some\<close> goes on with the next second.\<close>

definition retry_turn ::
  "uuid_api \<Rightarrow> (submit_message, 'r) channel \<Rightarrow> nat \<Rightarrow> job_id \<Rightarrow> submit_request \<Rightarrow> app \<Rightarrow> bool \<times> app"
where
  "retry_turn U ch now jid request a =
     (case hget (app_jobs a) jid of
        None \<Rightarrow> (False, a)
      | Some job \<Rightarrow>
          if jr_status job \<noteq> Queued then (False, a)
          else case pick_node U (app_local_node a) (app_cluster a) (scheduling_of request) of
            None \<Rightarrow> (True, a)
          | Some next_node \<Rightarrow>
              let (dispatched, a1) = dispatch_to_assigned U ch now next_node jid request a in (\<not> dispatched, a1))"

text \<open>The whole task: during each of at most 60 sleeps the rest of the node does something to the state.\<close>

fun retry_dispatch ::
  "uuid_api \<Rightarrow> (submit_message, 'r) channel \<Rightarrow> job_id \<Rightarrow> submit_request \<Rightarrow> (nat \<times> (app \<Rightarrow> app)) list \<Rightarrow> app \<Rightarrow> app"
where
  "retry_dispatch U ch jid request [] a = a"
| "retry_dispatch U ch jid request ((now, others) # turns) a =
     (let (again, a1) = retry_turn U ch now jid request (others a) in
      if again then retry_dispatch U ch jid request turns a1 else a1)"

definition spawn_retry_dispatch ::
  "uuid_api \<Rightarrow> (submit_message, 'r) channel \<Rightarrow> job_id \<Rightarrow> submit_request \<Rightarrow> (nat \<times> (app \<Rightarrow> app)) list \<Rightarrow> app \<Rightarrow> app"
where
  "spawn_retry_dispatch U ch jid request turns a = retry_dispatch U ch jid request (take 60 turns) a"

section \<open>Updates and queries\<close>

definition apply_terminal_job_update ::
  "uuid_api \<Rightarrow> nat \<Rightarrow> job_id \<Rightarrow> job_status \<Rightarrow> i32 option \<Rightarrow> string option \<Rightarrow> app \<Rightarrow> (string + unit) \<times> app"
where
  "apply_terminal_job_update U now jid status exit_code error a =
     (case hget (app_jobs a) jid of
        None \<Rightarrow> (Inl (''job '' @ uuid_str U jid @ '' not found on origin node''), a)
      | Some job \<Rightarrow>
          (Inr (), publish_ops_event U now ''job.terminal'' (if status = Failed then ''error'' else ''info'')
             (''Job '' @ uuid_str U jid @ '' updated to terminal status '' @ status_debug status)
             (Some (jr_assigned_to job)) (Some jid)
             (update_job jid (\<lambda>job. job\<lparr>jr_status := status, jr_exit_code := exit_code, jr_error := error,
                jr_updated_at := now\<rparr>) a)))"

datatype job_reply = JobError string | JobBody job_record

definition get_job :: "uuid_api \<Rightarrow> string \<Rightarrow> app \<Rightarrow> http_code \<times> job_reply" where
  "get_job U s a =
     (case uuid_parse U s of
        None \<Rightarrow> (400, JobError ''invalid job id'')
      | Some jid \<Rightarrow> (case hget (app_jobs a) jid of
            Some job \<Rightarrow> (200, JobBody job) | None \<Rightarrow> (404, JobError ''job not found'')))"

definition delete_job :: "uuid_api \<Rightarrow> nat \<Rightarrow> string \<Rightarrow> app \<Rightarrow> (http_code \<times> job_reply) \<times> app" where
  "delete_job U now s a =
     (case uuid_parse U s of
        None \<Rightarrow> ((400, JobError ''invalid job id''), a)
      | Some jid \<Rightarrow>
          (case hget (app_jobs a) jid of
             None \<Rightarrow> ((404, JobError ''job not found''), a)
           | Some existing \<Rightarrow>
               if jr_status existing \<in> {Completed, Failed, Cancelled}
               then ((409, JobError ''job already finished''), a)
               else let updated = existing\<lparr>jr_status := Cancelled, jr_updated_at := now\<rparr> in
                 ((200, JobBody updated),
                  publish_ops_event U now ''job.cancelled'' ''warn'' (''Job '' @ uuid_str U jid @ '' was cancelled'')
                    (Some (jr_assigned_to updated)) (Some jid)
                    (a\<lparr>app_jobs := hput jid updated (app_jobs a)\<rparr>))))"

record list_query =
  lq_status :: "string option"
  lq_node_id :: "string option"
  lq_limit :: "nat option"

record list_response =
  lr_jobs :: "job_record list"
  lr_total :: nat

definition job_matches :: "uuid_api \<Rightarrow> list_query \<Rightarrow> job_record \<Rightarrow> bool" where
  "job_matches U q j =
     ((case lq_status q of None \<Rightarrow> True | Some status \<Rightarrow> to_lower (status_debug (jr_status j)) = to_lower status) \<and>
      (case lq_node_id q of None \<Rightarrow> True | Some n \<Rightarrow> uuid_str U (jr_assigned_to j) = n))"

definition list_jobs :: "uuid_api \<Rightarrow> list_query \<Rightarrow> app \<Rightarrow> list_response" where
  "list_jobs U q a =
     (let jobs = sort_key jr_created_at (filter (job_matches U q) (hvalues (app_jobs a)));
          jobs = (case lq_limit q of
              Some limit \<Rightarrow> if length jobs > limit then drop (length jobs - limit) jobs else jobs
            | None \<Rightarrow> jobs)
      in \<lparr> lr_jobs = jobs, lr_total = length jobs \<rparr>)"

text \<open>\<open>GET /v1/jobs/:id/output/stream\<close> opens the channel when there is none yet.\<close>

definition stream_output :: "uuid_api \<Rightarrow> string \<Rightarrow> app \<Rightarrow> (http_code + job_id) \<times> app" where
  "stream_output U s a =
     (case uuid_parse U s of
        None \<Rightarrow> (Inl 400, a)
      | Some jid \<Rightarrow> (Inr jid, case hget (app_outputs a) jid of
            Some _ \<Rightarrow> a | None \<Rightarrow> a\<lparr>app_outputs := hput jid [] (app_outputs a)\<rparr>))"

end
