(* ===== verification/Job_Properties.thy ===== *)
theory Job_Properties
  imports Jobs "HOL-Library.Sublist" "HOL-Library.Multiset"
begin

text \<open>
  The gRPC handlers for jobs (\<open>submit_job\<close> and \<open>report_job_status\<close> of
  \<open>agent/src/grpc_server/mod.rs\<close>), the steps a node's job table can take, and what is promised: the
  table and the event log only grow, a job's outcome reaches the node it was submitted to, and where
  a cancellation or a submission is lost.
\<close>

section \<open>gRPC handlers\<close>

record submit_answer =
  sa_job_id :: string
  sa_status :: string
  sa_assigned_to :: string
  sa_created_at :: string

definition grpc_submit_job ::
  "uuid_api \<Rightarrow> (nat \<Rightarrow> string) \<Rightarrow> (submit_message, 'r) channel \<Rightarrow> nat \<Rightarrow> job_id \<Rightarrow> submit_message \<Rightarrow> app
   \<Rightarrow> (grpc_status + submit_answer) \<times> app"
where
  "grpc_submit_job U rfc3339 ch now fresh request a =
     (let req = from_proto request;
          (submitted, a1) =
            (if trim (sm_job_id request) = []
             then (let (r, a1) = enqueue_job U ch now fresh req a
                   in (map_err (GrpcStatus InvalidArgument) (case r of Inl e \<Rightarrow> Inl e | Inr (p, _) \<Rightarrow> Inr p), a1))
             else case uuid_parse U (sm_job_id request) of
                    None \<Rightarrow> (Inl (GrpcStatus InvalidArgument ''invalid delegated job id''), a)
                  | Some jid \<Rightarrow>
                      let origin = (if trim (sm_origin_endpoint request) = [] then None else Some (sm_origin_endpoint request));
                          (r, a1) = enqueue_remote_job now jid req origin a
                      in (map_err (GrpcStatus InvalidArgument) r, a1))
      in (bind_res submitted (\<lambda>p. Inr \<lparr> sa_job_id = uuid_str U (sp_job_id p), sa_status = ''queued'',
            sa_assigned_to = uuid_str U (sp_assigned_to p), sa_created_at = rfc3339 (sp_created_at p) \<rparr>), a1))"

definition reported_exit_code :: "job_status \<Rightarrow> i32 \<Rightarrow> i32 option" where
  "reported_exit_code status code = (case status of
       Completed \<Rightarrow> Some code
     | Failed \<Rightarrow> if code = 0 then None else Some code
     | _ \<Rightarrow> None)"

definition reported_error :: "string \<Rightarrow> string option" where
  "reported_error e = (if trim e = [] then None else Some e)"

definition grpc_report_job_status ::
  "uuid_api \<Rightarrow> nat \<Rightarrow> report_message \<Rightarrow> app \<Rightarrow> (grpc_status + unit) \<times> app"
where
  "grpc_report_job_status U now payload a =
     (case uuid_parse U (rm_job_id payload) of
        None \<Rightarrow> (Inl (GrpcStatus InvalidArgument ''invalid job id in status report''), a)
      | Some jid \<Rightarrow>
          let status = job_status_from_string (rm_status payload);
              exit_code = reported_exit_code status (rm_exit_code payload);
              error = reported_error (rm_error payload);
              (r, a1) = apply_terminal_job_update U now jid status exit_code error a
          in (map_err (GrpcStatus GrpcNotFound) r, a1))"

section \<open>Steps\<close>

text \<open>
  The tasks are the executor's; a step takes the one at some position. A submission and a turn of the retry
  task are also there in the pieces between which they wait for a lock or for the other node, so that
  other steps come in between.
\<close>

inductive job_step :: "uuid_api \<Rightarrow> app \<Rightarrow> app \<Rightarrow> bool" for U where
  submit: "enqueue_job U (ch :: (submit_message, submit_answer) channel) now jid request a = (r, a') \<Longrightarrow> job_step U a a'"
| remote_submit: "enqueue_remote_job now jid request origin a = (r, a') \<Longrightarrow> job_step U a a'"
| retry: "retry_turn U (ch :: (submit_message, submit_answer) channel) now jid request a = (again, a') \<Longrightarrow> job_step U a a'"
| start: "app_tasks a = xs @ (task, False) # ys \<Longrightarrow> exec_start now task a = (ok, a') \<Longrightarrow>
    job_step U a (a'\<lparr>app_tasks := xs @ (if ok then [(task, True)] else []) @ ys\<rparr>)"
| emit_line: "(task, True) \<in> set (app_tasks a) \<Longrightarrow> job_step U a (exec_output is_stderr line task a)"
| finish: "app_tasks a = xs @ (task, True) # ys \<Longrightarrow> exec_finish U now out task a = (a', report) \<Longrightarrow>
    job_step U a (a'\<lparr>app_tasks := xs @ ys\<rparr>)"
| terminal: "grpc_report_job_status U now payload a = (r, a') \<Longrightarrow> job_step U a a'"
| delete: "delete_job U now s a = (reply, a') \<Longrightarrow> job_step U a a'"
| watch: "stream_output U s a = (reply', a') \<Longrightarrow> job_step U a a'"
| view: "job_step U a (a\<lparr>app_cluster := c\<rparr>)"
| filed: "job_step U a (a\<lparr>app_jobs := hput jid (queued_record now jid node request) (app_jobs a)\<rparr>)"
| dispatched: "dispatch_to_assigned U (ch :: (submit_message, submit_answer) channel) now node jid request a = (ok, a') \<Longrightarrow>
    job_step U a a'"
| accepted: "job_step U a (dispatch_accepted U now node jid a)"
| published: "job_step U a (publish_ops_event U now kind level message nid j a)"

definition jobs_wf :: "app \<Rightarrow> bool" where
  "jobs_wf a = (distinct (hkeys (app_jobs a)) \<and>
     (\<forall>j r. hget (app_jobs a) j = Some r \<longrightarrow> jr_job_id r = j))"

definition jobs_grow :: "app \<Rightarrow> app \<Rightarrow> bool" where
  "jobs_grow a a' = ((\<forall>j. hget (app_jobs a) j \<noteq> None \<longrightarrow> hget (app_jobs a') j \<noteq> None) \<and>
     (\<forall>j. hget (app_outputs a) j \<noteq> None \<longrightarrow> hget (app_outputs a') j \<noteq> None) \<and>
     prefix (app_events a) (app_events a') \<and> app_node_id a' = app_node_id a)"

definition good_change :: "app \<Rightarrow> app \<Rightarrow> bool" where
  "good_change a a' = ((jobs_wf a \<longrightarrow> jobs_wf a') \<and> jobs_grow a a')"

lemma good_refl: "good_change a a"
  by (simp add: good_change_def jobs_grow_def)

lemma good_trans:
  assumes "good_change a b" "good_change b c" shows "good_change a c"
proof -
  have "prefix (app_events a) (app_events c)"
    using assms prefix_order.trans unfolding good_change_def jobs_grow_def by blast
  with assms show ?thesis by (simp add: good_change_def jobs_grow_def)
qed

lemma good_fields [simp]:
  "good_change a (a'\<lparr>app_tasks := t\<rparr>) = good_change a a'"
  "good_change a (a'\<lparr>app_cluster := c\<rparr>) = good_change a a'"
  by (simp_all add: good_change_def jobs_grow_def jobs_wf_def)

lemma good_event:
  assumes "good_change a a'" shows "good_change a (publish_ops_event U now k l m n j a')"
proof (rule good_trans [OF assms])
  show "good_change a' (publish_ops_event U now k l m n j a')"
    by (simp add: good_change_def jobs_grow_def jobs_wf_def publish_ops_event_def)
qed

lemma good_update:
  assumes "\<And>r. jr_job_id (f r) = jr_job_id r"
  shows "good_change a (update_job jid f a)"
proof -
  have "jobs_wf a \<longrightarrow> jobs_wf (update_job jid f a)"
    using assms by (fastforce simp: jobs_wf_def update_job_def map_of_eq_Some_iff split: if_split_asm)
  then show ?thesis by (simp add: good_change_def jobs_grow_def update_job_def)
qed

lemma good_put: "jr_job_id r = jid \<Longrightarrow> good_change a (a\<lparr>app_jobs := hput jid r (app_jobs a)\<rparr>)"
  by (simp add: good_change_def jobs_grow_def jobs_wf_def distinct_hput)

lemma good_output:
  "good_change a (exec_output e l task a)"
  "good_change a (a\<lparr>app_outputs := hput jid [] (app_outputs a)\<rparr>)"
  by (simp_all add: good_change_def jobs_grow_def jobs_wf_def exec_output_def)

lemma finish_record_id: "jr_job_id (finish_record now out r) = jr_job_id r"
  by (cases out) (simp_all add: Let_def)

lemma good_spawn: "good_change a a' \<Longrightarrow> good_change a (spawn_job jid req cb a')"
  by (simp add: spawn_job_def)

lemma good_dispatch: "good_change a (snd (dispatch_to_assigned U ch now n jid req a))"
  by (auto simp: dispatch_to_assigned_def dispatch_accepted_def split: option.split
      intro!: good_event good_spawn good_update good_refl)

lemma good_enqueue: "good_change a (snd (enqueue_job U ch now jid req a))"
proof (cases "bad_resources req")
  case True
  then show ?thesis by (simp add: enqueue_job_def good_refl)
next
  case False
  then show ?thesis
    by (auto simp: enqueue_job_def Let_def queued_record_def good_put split: option.split
        intro: good_trans [OF good_put good_dispatch])
qed

lemma good_exec_start: "good_change a (snd (exec_start now task a))"
  by (auto simp: exec_start_def Let_def good_refl split: option.split
      intro: good_update good_trans [OF good_update good_output(2)])

lemma good_exec_finish: "good_change a (fst (exec_finish U now out task a))"
proof -
  have "good_change a1 (update_job j (finish_record now out) a1)" for a1 j
    by (rule good_update) (rule finish_record_id)
  then show ?thesis
    by (auto simp: exec_finish_def Let_def split: outcome.split prod.split intro: good_trans [OF good_output(1)])
qed

lemma good_terminal: "good_change a (snd (apply_terminal_job_update U now jid st c e a))"
  by (auto simp: apply_terminal_job_update_def good_refl split: option.split intro!: good_event good_update)

lemma good_delete: "jobs_wf a \<Longrightarrow> good_change a (snd (delete_job U now s a))"
  by (auto simp: delete_job_def good_refl Let_def jobs_wf_def split: option.split intro!: good_event good_put)

lemma good_remote: "good_change a (snd (enqueue_remote_job now jid request origin a))"
  by (auto simp: enqueue_remote_job_def Let_def queued_record_def good_refl intro!: good_spawn good_put)

lemma good_retry: "good_change a (snd (retry_turn U ch now jid request a))"
  using good_dispatch by (auto simp: retry_turn_def good_refl split_def Let_def split: option.split)

lemma good_report: "good_change a (snd (grpc_report_job_status U now payload a))"
  using good_terminal by (auto simp: grpc_report_job_status_def good_refl split_def Let_def split: option.split)

lemma job_step_good:
  assumes "job_step U a a'" "jobs_wf a" shows "good_change a a'"
  using assms
proof (cases rule: job_step.cases)
  case (submit ch now jid request r)
  then show ?thesis using good_enqueue by (metis snd_conv)
next
  case (remote_submit now jid request origin r)
  then show ?thesis using good_remote [of a now jid request origin] by simp
next
  case (retry ch now jid request again)
  then show ?thesis using good_retry [of a U ch now jid request] by simp
next
  case (start xs task ys now ok b)
  then show ?thesis using good_exec_start [of a now task] by simp
next
  case (emit_line task e l)
  then show ?thesis by (simp add: good_output)
next
  case (finish xs task ys now out b report)
  then show ?thesis using good_exec_finish [of a U now out task] by simp
next
  case (terminal now payload r)
  then show ?thesis using good_report [of a U now payload] by simp
next
  case (delete now s reply)
  then show ?thesis using good_delete [OF assms(2), of U now s] by simp
next
  case (watch s reply')
  then show ?thesis
    by (auto simp: stream_output_def good_refl split: option.split_asm intro: good_output(2))
next
  case (view c)
  then show ?thesis by (simp add: good_refl)
next
  case (filed jid now node request)
  then show ?thesis by (simp add: good_put queued_record_def)
next
  case (dispatched ch now node jid request ok)
  then show ?thesis using good_dispatch by (metis snd_conv)
next
  case (accepted now node jid)
  then show ?thesis by (auto simp: dispatch_accepted_def intro!: good_event good_update)
next
  case (published now kind level message nid j)
  then show ?thesis by (simp add: good_event good_refl)
qed

interpretation jobs: step_system "job_step U" jobs_wf jobs_grow for U
proof (unfold_locales, goal_cases)
  case (1 a a')
  then show ?case using job_step_good by (simp add: good_change_def)
next
  case (2 a a')
  then show ?case using job_step_good by (simp add: good_change_def)
next
  case (3 a)
  show ?case by (simp add: jobs_grow_def)
next
  case (4 a b c)
  then show ?case by (auto simp: jobs_grow_def)
qed

section \<open>Lemmas\<close>

lemma hget_event [simp]:
  "app_jobs (publish_ops_event U now k l m n j a) = app_jobs a"
  "app_tasks (publish_ops_event U now k l m n j a) = app_tasks a"
  "app_outputs (publish_ops_event U now k l m n j a) = app_outputs a"
  by (simp_all add: publish_ops_event_def)

lemma hget_update_job [simp]:
  "hget (app_jobs (update_job j f a)) k = (if k = j then map_option f (hget (app_jobs a) j) else hget (app_jobs a) k)"
  "app_tasks (update_job j f a) = app_tasks a"
  by (simp_all add: update_job_def)

lemma exec_output_jobs [simp]: "app_jobs (exec_output e l task a) = app_jobs a"
  by (simp add: exec_output_def)


lemma exec_finish_job:
  assumes "hget (app_jobs a) (xt_job_id task) = Some job" "exec_finish U now out task a = (a', rep)"
  shows "hget (app_jobs a') (xt_job_id task) = Some (finish_record now out job)"
  using assms by (auto simp: exec_finish_def Let_def split: outcome.split_asm prod.split_asm)

lemma exec_finish_report:
  assumes "xt_callback task = Some cb" "exec_finish U now out task a = (a', rep)"
  shows "rep = Some (cb_origin_endpoint cb, report_message_of U (xt_job_id task) (fst (report_of out))
    (fst (snd (report_of out))) (snd (snd (report_of out))) (cb_source_node_id cb))"
  using assms by (auto simp: exec_finish_def Let_def split: prod.split_asm)

lemma trim_prefix_nonempty: "\<not> is_whitespace c \<Longrightarrow> trim (c # s) \<noteq> []"
  by (auto simp: trim_def dropWhile_append)

text \<open>Every report the executor makes is read back as it was meant.\<close>

definition readable_report :: "job_status \<times> i32 option \<times> string option \<Rightarrow> bool" where
  "readable_report rep = (case rep of (st, code, err) \<Rightarrow>
     (st = Completed \<and> code \<noteq> None \<or> st = Failed \<and> code \<noteq> Some 0) \<and> (\<forall>e. err = Some e \<longrightarrow> trim e \<noteq> []))"

lemma report_of_readable: "readable_report (report_of out)"
proof -
  have "\<not> is_whitespace (CHR ''s'')" "\<not> is_whitespace (CHR ''p'')" "\<not> is_whitespace (CHR ''w'')"
    by (simp_all add: is_whitespace_def)
  then show ?thesis
    by (cases out) (simp_all add: readable_report_def exit_error_def trim_prefix_nonempty Let_def)
qed

lemma report_codes:
  assumes "readable_report (st, code, err)"
  shows "reported_exit_code st (case code of None \<Rightarrow> 0 | Some c \<Rightarrow> c) = code"
    and "reported_error (case err of None \<Rightarrow> [] | Some e \<Rightarrow> e) = err"
  using assms by (auto simp: readable_report_def reported_exit_code_def reported_error_def trim_def split: option.split)

lemma terminal_update_job:
  assumes "hget (app_jobs a) jid = Some job"
  shows "fst (apply_terminal_job_update U now jid st code err a) = Inr ()"
    and "hget (app_jobs (snd (apply_terminal_job_update U now jid st code err a))) jid =
      Some (job\<lparr>jr_status := st, jr_exit_code := code, jr_error := err, jr_updated_at := now\<rparr>)"
  using assms by (simp_all add: apply_terminal_job_update_def)

lemma report_round:
  assumes "uuid_text U" "hget (app_jobs a) jid = Some job" "readable_report (st, code, err)"
    "grpc_report_job_status U now (report_message_of U jid st code err src) a = (r, a')"
  shows "r = Inr () \<and> hget (app_jobs a') jid =
    Some (job\<lparr>jr_status := st, jr_exit_code := code, jr_error := err, jr_updated_at := now\<rparr>)"
proof -
  have "grpc_report_job_status U now (report_message_of U jid st code err src) a =
      (map_err (GrpcStatus GrpcNotFound) (fst (apply_terminal_job_update U now jid st code err a)),
       snd (apply_terminal_job_update U now jid st code err a))"
    by (simp add: grpc_report_job_status_def report_message_of_def uuid_text.uuid_round [OF assms(1)]
        report_codes [OF assms(3)] split_beta)
  then have "r = Inr ()" "a' = snd (apply_terminal_job_update U now jid st code err a)"
    using assms(4) by (simp_all add: terminal_update_job [OF assms(2)])
  then show ?thesis by (simp add: terminal_update_job [OF assms(2)])
qed

section \<open>Properties\<close>

text \<open>
  C15. Whatever requests, reports and executor tasks are interleaved, each job id keeps exactly one
  record, filed under its own id, and no job and no output channel is removed. What was published stays readable for
  a while only: a subscriber that has not read an event yet still gets it, unchanged and in its place, as long as
  at most 1024 events were published from it on; later the event is lost to it, and it
  goes on with the oldest of the last 1024.
\<close>

theorem job_table_run:
  assumes "broadcast_api recv" "(job_step U)\<^sup>*\<^sup>* a a'" "jobs_wf a"
  shows "jobs_wf a' \<and> jobs_grow a a' \<and>
    (\<forall>pos < length (app_events a). ops_recv recv a' pos =
      (if length (app_events a') \<le> pos + 1024 then Some (Some (app_events a ! pos), Suc pos)
       else Some (None, length (app_events a') - 1024)))"
proof -
  have grow: "jobs_grow a a'" using jobs.run_rel [OF assms(2,3)] .
  then obtain es where es: "app_events a' = app_events a @ es" unfolding jobs_grow_def prefix_def by blast
  have "ops_recv recv a' pos = (if length (app_events a') \<le> pos + 1024 then Some (Some (app_events a ! pos), Suc pos)
      else Some (None, length (app_events a') - 1024))" if "pos < length (app_events a)" for pos
    using that broadcast_api.recv_kept [OF assms(1), of pos "app_events a'" 1024]
      broadcast_api.recv_lagged [OF assms(1), of pos 1024 "app_events a'"]
    by (simp add: ops_recv_def ops_capacity_def es nth_append)
  then show ?thesis using jobs.run_inv [OF assms(2,3)] grow by blast
qed

definition sample_app :: app where
  "sample_app = \<lparr> app_node_id = 1, app_local_node = sample_node 1, app_cluster = sample_cluster [1, 2],
     app_jobs = [(7, queued_record 0 7 1 sample_submit)], app_outputs = [], app_events = [], app_tasks = [] \<rparr>"

theorem job_table_run_witness:
  "\<exists>e. app_events (snd (delete_job ref_uuid 5 (uuid_str ref_uuid 7) (sample_app\<lparr>app_events := [e]\<rparr>))) \<noteq> [e] \<and>
   jobs_wf (snd (delete_job ref_uuid 5 (uuid_str ref_uuid 7) (sample_app\<lparr>app_events := [e]\<rparr>))) \<and>
   jobs_grow (sample_app\<lparr>app_events := [e]\<rparr>) (snd (delete_job ref_uuid 5 (uuid_str ref_uuid 7) (sample_app\<lparr>app_events := [e]\<rparr>))) \<and>
   ops_recv ref_recv (snd (delete_job ref_uuid 5 (uuid_str ref_uuid 7) (sample_app\<lparr>app_events := [e]\<rparr>))) 0 = Some (Some e, 1)"
proof -
  define e where "e = \<lparr> oe_at = 0, oe_kind = ''k'', oe_level = ''info'', oe_message = [], oe_node_id = None, oe_job_id = None \<rparr>"
  let ?a = "sample_app\<lparr>app_events := [e]\<rparr>"
  let ?a' = "snd (delete_job ref_uuid 5 (uuid_str ref_uuid 7) ?a)"
  have "(job_step ref_uuid)\<^sup>*\<^sup>* ?a ?a'" by (rule r_into_rtranclp, rule job_step.delete, rule prod.collapse [symmetric])
  moreover have "jobs_wf ?a" by (simp add: jobs_wf_def sample_app_def queued_record_def)
  moreover note job_table_run [OF ref_recv.broadcast_api_axioms calculation]
  moreover have "length (app_events ?a') = 2"
    by (simp add: ref_uuid_round delete_job_def sample_app_def queued_record_def publish_ops_event_def Let_def)
  ultimately show ?thesis by (intro exI [of _ e]) auto
qed

text \<open>The task a node spawns for a delegated job.\<close>

definition remote_task :: "app \<Rightarrow> job_id \<Rightarrow> string \<Rightarrow> submit_request \<Rightarrow> exec_task" where
  "remote_task b jid origin req = \<lparr> xt_job_id = jid, xt_runtime = sq_runtime req, xt_source = sq_source req,
     xt_command = sq_command req, xt_resources = sq_resources req,
     xt_callback = Some \<lparr> cb_origin_endpoint = origin, cb_source_node_id = app_node_id b \<rparr> \<rparr>"

lemma delegated_submit:
  assumes "uuid_text U" "\<not> bad_resources req" "trim origin \<noteq> []"
  shows "grpc_submit_job U rfc ch now fresh (submit_message_of U jid origin req) b =
    (Inr \<lparr> sa_job_id = uuid_str U jid, sa_status = ''queued'', sa_assigned_to = uuid_str U (app_node_id b),
       sa_created_at = rfc now \<rparr>,
     b\<lparr>app_jobs := hput jid (queued_record now jid (app_node_id b) req) (app_jobs b),
       app_tasks := app_tasks b @ [(remote_task b jid origin req, False)]\<rparr>)"
  using assms(2,3) uuid_text.uuid_round [OF assms(1)] uuid_text.uuid_trim [OF assms(1)] uuid_text.uuid_nonempty [OF assms(1)]
  by (simp add: grpc_submit_job_def submit_message_of_def from_proto_def enqueue_remote_job_def bad_resources_def
      spawn_job_def remote_task_def queued_record_def bind_res_def)

text \<open>
  C8. A delegated job, end to end. The message of the origin node is accepted by the other node, which
  files the job and spawns one task with exactly the job that was submitted. However the task's
  process ends, and whatever either node has done in between, the report it sends goes to the origin
  and leaves the status, exit code and error of that outcome on the origin's record. All this also
  when the other node already has a job of that id: its record is replaced by a queued one and a second task is
  spawned, where docs/decisions/002-no-central-node.md has the node return the current state and launch nothing.
\<close>

theorem delegated_job_outcome:
  assumes "uuid_text U" "\<not> bad_resources req" "trim origin \<noteq> []"
    "grpc_submit_job U rfc ch now fresh (submit_message_of U jid origin req) b = (answer, b1)"
    "exec_finish U t2 out (remote_task b jid origin req) b2 = (b3, rep)"
    "hget (app_jobs a) jid = Some job"
  shows "is_ok answer \<and> app_tasks b1 = app_tasks b @ [(remote_task b jid origin req, False)] \<and>
    hget (app_jobs b1) jid = Some (queued_record now jid (app_node_id b) req) \<and>
    (\<exists>message a'. rep = Some (origin, message) \<and> grpc_report_job_status U t3 message a = (Inr (), a') \<and>
      (case report_of out of (st, code, err) \<Rightarrow> hget (app_jobs a') jid =
        Some (job\<lparr>jr_status := st, jr_exit_code := code, jr_error := err, jr_updated_at := t3\<rparr>)))"
proof -
  obtain st code err where rep_of: "report_of out = (st, code, err)" by (rule prod_cases3)
  let ?msg = "report_message_of U jid st code err (app_node_id b)"
  have "rep = Some (origin, ?msg)"
    using exec_finish_report [OF _ assms(5)] by (simp add: remote_task_def rep_of)
  moreover obtain r a' where run: "grpc_report_job_status U t3 ?msg a = (r, a')" by fastforce
  then have "r = Inr () \<and> hget (app_jobs a') jid =
      Some (job\<lparr>jr_status := st, jr_exit_code := code, jr_error := err, jr_updated_at := t3\<rparr>)"
    using report_round [OF assms(1,6)] report_of_readable [of out] rep_of by simp
  ultimately show ?thesis using run assms(4) delegated_submit [OF assms(1-3), of rfc ch now fresh jid b] rep_of by auto
qed

definition sample_channel :: "(submit_message, unit) channel" where
  "sample_channel = \<lparr> ch_from_shared = (\<lambda>_. Inr ()), ch_connect = (\<lambda>_. Inl ''refused''), ch_call = (\<lambda>_ _. Inr ()) \<rparr>"

theorem delegated_job_outcome_witness:
  "\<exists>answer b1 b3 rep message a'.
    grpc_submit_job ref_uuid (\<lambda>_. []) sample_channel 3 0
      (submit_message_of ref_uuid 7 ''h:1'' sample_submit) sample_app = (answer, b1) \<and> is_ok answer \<and>
    exec_finish ref_uuid 4 (Exited (Some 2)) (remote_task sample_app 7 ''h:1'' sample_submit) b1 = (b3, rep) \<and>
    rep = Some (''h:1'', message) \<and> grpc_report_job_status ref_uuid 5 message sample_app = (Inr (), a') \<and>
    hget (app_jobs a') 7 = Some ((queued_record 0 7 1 sample_submit)\<lparr>jr_status := Failed,
      jr_exit_code := Some 2, jr_error := Some (exit_error 2), jr_updated_at := 5\<rparr>)"
proof -
  obtain answer b1 where s: "grpc_submit_job ref_uuid (\<lambda>_. []) sample_channel 3 0
      (submit_message_of ref_uuid 7 ''h:1'' sample_submit) sample_app = (answer, b1)" by fastforce
  obtain b3 rep where f: "exec_finish ref_uuid 4 (Exited (Some 2)) (remote_task sample_app 7 ''h:1'' sample_submit) b1 = (b3, rep)"
    by fastforce
  have j: "hget (app_jobs sample_app) 7 = Some (queued_record 0 7 1 sample_submit)"
    by (simp add: sample_app_def)
  have n: "\<not> bad_resources sample_submit" "trim ''h:1'' \<noteq> []"
    by (simp_all add: bad_resources_def sample_submit_def trim_prefix_nonempty is_whitespace_def)
  have o: "report_of (Exited (Some 2)) = (Failed, Some 2, Some (exit_error 2))"
    by (simp add: exit_code_of_def)
  show ?thesis
    using delegated_job_outcome [OF ref_uuid.uuid_text_axioms n s f j, of 5] s f o by auto
qed

text \<open>
  A job cancelled while its process runs stays cancelled on the node that ran it, whatever the
  exit code; only a failure to wait for the process overwrites it. The origin of a delegated job is
  nevertheless told that it completed or failed.
\<close>

theorem cancel_after_start:
  assumes "uuid_text U" "hget (app_jobs a) (xt_job_id task) = Some job"
    "jr_status job \<notin> {Completed, Failed, Cancelled}"
    "delete_job U t1 (uuid_str U (xt_job_id task)) a = (reply, a1)"
    "exec_finish U t2 out task a1 = (a2, rep)"
  shows "fst reply = 200 \<and>
    map_option jr_status (hget (app_jobs a2) (xt_job_id task)) =
      Some (case out of Exited _ \<Rightarrow> Cancelled | _ \<Rightarrow> Failed) \<and>
    (\<forall>cb. xt_callback task = Some cb \<longrightarrow>
      (\<exists>m. rep = Some (cb_origin_endpoint cb, m) \<and> rm_status m \<in> {''completed'', ''failed''}))"
proof -
  have 1: "fst reply = 200 \<and> hget (app_jobs a1) (xt_job_id task) = Some (job\<lparr>jr_status := Cancelled, jr_updated_at := t1\<rparr>)"
    using assms(2-4) by (auto simp: delete_job_def uuid_text.uuid_round [OF assms(1)] Let_def)
  then have 2: "hget (app_jobs a2) (xt_job_id task) = Some (finish_record t2 out (job\<lparr>jr_status := Cancelled, jr_updated_at := t1\<rparr>))"
    using exec_finish_job assms(5) by blast
  have "rm_status (report_message_of U j (fst (report_of out)) c e n) \<in> {''completed'', ''failed''}" for j c e n
    by (cases out) (simp_all add: report_message_of_def Let_def)
  with 1 2 show ?thesis
    using exec_finish_report [OF _ assms(5)] by (cases out) (simp_all add: Let_def)
qed

definition sample_task :: exec_task where
  "sample_task = \<lparr> xt_job_id = 7, xt_runtime = Wasm, xt_source = ''m.wasm'', xt_command = [''run''],
     xt_resources = sq_resources sample_submit,
     xt_callback = Some \<lparr> cb_origin_endpoint = ''o:1'', cb_source_node_id = 1 \<rparr> \<rparr>"

lemma sample_app_job:
  "hget (app_jobs sample_app) (xt_job_id sample_task) = Some (queued_record 0 7 1 sample_submit)"
  "jr_status (queued_record 0 7 1 sample_submit) \<notin> {Completed, Failed, Cancelled}"
  by (simp_all add: sample_app_def sample_task_def queued_record_def)

theorem cancel_after_start_witness:
  "\<exists>reply a1 a2 rep. delete_job ref_uuid 5 (uuid_str ref_uuid (xt_job_id sample_task)) sample_app = (reply, a1) \<and>
    exec_finish ref_uuid 6 (Exited (Some 0)) sample_task a1 = (a2, rep) \<and> fst reply = 200 \<and>
    map_option jr_status (hget (app_jobs a2) (xt_job_id sample_task)) = Some Cancelled"
proof -
  obtain reply a1 where d: "delete_job ref_uuid 5 (uuid_str ref_uuid (xt_job_id sample_task)) sample_app = (reply, a1)"
    by fastforce
  obtain a2 rep where f: "exec_finish ref_uuid 6 (Exited (Some 0)) sample_task a1 = (a2, rep)" by fastforce
  from cancel_after_start [OF ref_uuid.uuid_text_axioms sample_app_job d f] d f show ?thesis by simp
qed



text \<open>
  A submission whose first dispatch fails is accepted and forgotten: when the scheduler has chosen
  another node and that node cannot be reached, the caller is told the job is queued, no task is
  spawned, no retry is started, and the record stays queued. A retry is started only when no node
  was eligible at all.
\<close>

theorem failed_dispatch_forgotten:
  assumes "\<not> bad_resources req" "pick_node U (app_local_node a) (app_cluster a) (scheduling_of req) = Some n"
    "n \<noteq> app_node_id a" "map_option ni_grpc_endpoint (hget (cs_nodes (app_cluster a)) n) = Some ep"
    "\<not> is_ok (submit_remote U ch ep jid (ni_grpc_endpoint (app_local_node a)) req)"
    "enqueue_job U ch now jid req a = (r, a')"
  shows "(\<exists>p. r = Inr (p, False) \<and> sp_status p = Queued \<and> sp_job_id p = jid) \<and>
    hget (app_jobs a') jid = Some (queued_record now jid n req) \<and> app_tasks a' = app_tasks a"
  using assms by (auto simp: enqueue_job_def Let_def dispatch_to_assigned_def)

definition plain_submit :: submit_request where
  "plain_submit = sample_submit\<lparr>sq_runtime := Executable, sq_constraints := \<lparr> sc_tier_min = 0, sc_docker = False \<rparr>\<rparr>"

theorem failed_dispatch_forgotten_witness:
  "\<exists>r a'. enqueue_job ref_uuid sample_channel 9 8 plain_submit
      (sample_app\<lparr>app_node_id := 2, app_cluster := sample_cluster [1]\<rparr>) = (r, a') \<and> is_ok r \<and>
    hget (app_jobs a') 8 = Some (queued_record 9 8 1 plain_submit) \<and> app_tasks a' = []"
proof -
  let ?a = "sample_app\<lparr>app_node_id := 2, app_cluster := sample_cluster [1]\<rparr>"
  obtain r a' where e: "enqueue_job ref_uuid sample_channel 9 8 plain_submit ?a = (r, a')" by fastforce
  have p: "pick_node ref_uuid (app_local_node ?a) (app_cluster ?a) (scheduling_of plain_submit) = Some 1"
    by (simp add: pick_node_sorted sample_app_def sample_cluster_def sample_node_def scheduling_of_def
        plain_submit_def runtime_supported_def Let_def)
  have "\<not> is_ok (submit_remote ref_uuid sample_channel ''h:7947'' 8 (ni_grpc_endpoint (app_local_node ?a)) plain_submit)"
    by (simp add: submit_remote_def rpc_def sample_channel_def bind_res_def)
  moreover have "\<not> bad_resources plain_submit" by (simp add: bad_resources_def plain_submit_def sample_submit_def)
  moreover have "map_option ni_grpc_endpoint (hget (cs_nodes (app_cluster ?a)) 1) = Some ''h:7947''"
    by (simp add: sample_cluster_def sample_node_def bare_node_def)
  ultimately show ?thesis
    using failed_dispatch_forgotten [OF _ p _ _ _ e, of "''h:7947''"] e by (auto simp: sample_app_def)
qed

text \<open>
  Listing jobs: of the jobs that match the filters the newest are returned, oldest first, as many
  as the limit allows, and \<open>total\<close> counts what is returned and not what matched.
\<close>

theorem list_jobs_newest:
  "\<exists>older. mset (older @ lr_jobs (list_jobs U q a)) = mset (filter (job_matches U q) (hvalues (app_jobs a))) \<and>
    sorted (List.map jr_created_at (older @ lr_jobs (list_jobs U q a))) \<and>
    length (lr_jobs (list_jobs U q a)) = (case lq_limit q of
        None \<Rightarrow> length (filter (job_matches U q) (hvalues (app_jobs a)))
      | Some l \<Rightarrow> min l (length (filter (job_matches U q) (hvalues (app_jobs a))))) \<and>
    lr_total (list_jobs U q a) = length (lr_jobs (list_jobs U q a))"
proof -
  let ?m = "filter (job_matches U q) (hvalues (app_jobs a))"
  let ?s = "sort_key jr_created_at ?m"
  define k where "k = (case lq_limit q of None \<Rightarrow> 0 | Some l \<Rightarrow> length ?s - l)"
  have l: "lr_jobs (list_jobs U q a) = drop k ?s"
    by (auto simp: list_jobs_def k_def Let_def split: option.split)
  have "mset (take k ?s @ drop k ?s) = mset ?m" "sorted (List.map jr_created_at (take k ?s @ drop k ?s))"
    by (simp_all only: append_take_drop_id mset_sort sorted_sort_key)
  moreover have "length (drop k ?s) = (case lq_limit q of None \<Rightarrow> length ?m | Some l \<Rightarrow> min l (length ?m))"
    by (auto simp: k_def split: option.split)
  moreover have "lr_total (list_jobs U q a) = length (lr_jobs (list_jobs U q a))"
    by (simp add: list_jobs_def Let_def)
  ultimately show ?thesis unfolding l by blast
qed

text \<open>
  Memory limits. Every process the executor starts directly has its address space limited to
  exactly the megabytes asked for (the two saturating multiplications never saturate); a container is
  given the same figure, swap included, as an option of \<open>docker run\<close> before the image name.
\<close>

theorem command_memory_limit:
  "(case cl_address_limit (build_command rt source args res) of
      Some v \<Rightarrow> rt \<noteq> Docker \<and> unat v = unat (memory_mb res) * 2 ^ 20
    | None \<Rightarrow> rt = Docker \<and> (\<exists>ms. ms = show_nat (unat (memory_mb res)) @ ''m'' \<and>
        take 9 (cl_args (build_command rt source args res)) =
          [''run'', ''--rm'', ''--memory'', ms, ''--memory-swap'', ms, ''--cpus'', show_nat (unat (cpu_cores res)), source]))"
proof -
  have "unat (memory_mb res) < 2 ^ 32" using unsigned_less [of "memory_mb res"] by simp
  then have "unat (memory_limit res) = unat (memory_mb res) * 2 ^ 20"
    by (simp add: memory_limit_def unat_saturating_mul unsigned_ucast_eq take_bit_eq_mod)
  then show ?thesis by (cases rt) (simp_all add: Let_def)
qed

end
