(* ===== verification/Certificates.thy ===== *)
theory Certificates
  imports Filesystem External
begin

text \<open>
  The certificate manager, \<open>agent/src/certificates/mod.rs\<close>: the CA files, node credentials and the
  revocation list under \<open>certs\<close> in the data directory. Key generation (\<open>rcgen\<close>), PEM parsing
  (\<open>rustls\<close>) and JSON are parameters; the clock reading of a revocation is an argument.
\<close>

section \<open>State\<close>

record revoked_node =
  rn_node_id :: uuid
  rn_revoked_at :: string
  rn_revoked_by :: uuid

instance revoked_node_ext :: (countable) countable
  by (rule countable_classI [of "\<lambda>r. to_nat ((rn_node_id r, rn_revoked_at r, rn_revoked_by r), revoked_node.more r)"])
    (auto intro!: revoked_node.equality)

record cert_manager =
  cm_certs_dir :: string
  cm_crl_file :: string

datatype cert_error = CertIo io_error | CertMsg string

fun cert_error_msg :: "cert_error \<Rightarrow> string" where
  "cert_error_msg (CertIo e) = io_msg e"
| "cert_error_msg (CertMsg m) = m"

text \<open>\<open>generate_simple_self_signed\<close>: the certificate and the key in PEM, or an error.\<close>

type_synonym self_signed = "string list \<Rightarrow> string + (string \<times> string)"

record ('c, 'k) pem =
  pem_certs :: "string \<Rightarrow> string + 'c list"
  pem_key :: "string \<Rightarrow> string + 'k"

section \<open>Operations\<close>

definition cert_manager_new :: "string \<Rightarrow> cert_manager" where
  "cert_manager_new data_dir =
     (let certs_dir = path_join data_dir ''certs'' in
      \<lparr> cm_certs_dir = certs_dir, cm_crl_file = path_join certs_dir ''crl.json'' \<rparr>)"

definition cert_path :: "cert_manager \<Rightarrow> string \<Rightarrow> string" where
  "cert_path m name = path_join (cm_certs_dir m) name"

definition cert_io :: "(io_error, fs, 'a) op \<Rightarrow> (cert_error, fs, 'a) op" where
  "cert_io m f = (let (r, g) = m f in (map_err CertIo r, g))"

definition ensure_dirs :: "cert_manager \<Rightarrow> (cert_error, fs, unit) op" where
  "ensure_dirs m = cert_io (fs_create_dir_all (cm_certs_dir m))"

definition has_ca_key :: "cert_manager \<Rightarrow> fs \<Rightarrow> bool" where
  "has_ca_key m f = path_exists f (cert_path m ''ca.key'')"

definition has_node_credentials :: "cert_manager \<Rightarrow> fs \<Rightarrow> bool" where
  "has_node_credentials m f =
     (path_exists f (cert_path m ''node.crt'') \<and> path_exists f (cert_path m ''node.key'') \<and>
      path_exists f (cert_path m ''ca.crt''))"

definition load_ca_pem :: "cert_manager \<Rightarrow> fs \<Rightarrow> cert_error + string" where
  "load_ca_pem m f = map_err CertIo (fs_read_to_string (cert_path m ''ca.crt'') f)"

definition generate_ca_cert :: "self_signed \<Rightarrow> cert_error + (string \<times> string)" where
  "generate_ca_cert gen = map_err CertMsg (gen [''all4one-ca''])"

definition init_ca :: "self_signed \<Rightarrow> cert_manager \<Rightarrow> (cert_error, fs, unit) op" where
  "init_ca gen m =
     bind_op (ensure_dirs m) (\<lambda>_ f.
       let ca_key_path = cert_path m ''ca.key''; ca_crt_path = cert_path m ''ca.crt'' in
       if path_exists f ca_key_path \<and> path_exists f ca_crt_path then (Inr (), f)
       else bind_op (lift_op (generate_ca_cert gen)) (\<lambda>(cert_pem, key_pem).
            bind_op (cert_io (fs_write ca_crt_path (str_bytes cert_pem))) (\<lambda>_.
            bind_op (cert_io (fs_write ca_key_path (str_bytes key_pem))) (\<lambda>_.
            cert_io (fs_set_mode ca_key_path 384)))) f)"

definition generate_node_cert ::
  "uuid_api \<Rightarrow> self_signed \<Rightarrow> cert_manager \<Rightarrow> uuid \<Rightarrow> (cert_error, fs, string \<times> string) op"
where
  "generate_node_cert U gen m nid =
     bind_op (ensure_dirs m) (\<lambda>_. lift_op (map_err CertMsg (gen [uuid_str U nid])))"

definition sign_csr ::
  "uuid_api \<Rightarrow> self_signed \<Rightarrow> cert_manager \<Rightarrow> uuid \<Rightarrow> string \<Rightarrow> (cert_error, fs, string) op"
where
  "sign_csr U gen m nid csr_pem =
     bind_op (generate_node_cert U gen m nid) (\<lambda>(cert, key). ret_op cert)"

text \<open>\<open>load_ca\<close> and \<open>load_node_cert\<close> differ in the file and in two messages.\<close>

definition first_cert ::
  "('c, 'k) pem \<Rightarrow> string \<Rightarrow> string \<Rightarrow> string \<Rightarrow> fs \<Rightarrow> cert_error + 'c"
where
  "first_cert P path parse_msg empty_msg f =
     bind_res (map_err CertIo (fs_read_to_string path f)) (\<lambda>text.
     bind_res (map_err (\<lambda>e. CertMsg (parse_msg @ e)) (pem_certs P text)) (\<lambda>certs.
     case certs of [] \<Rightarrow> Inl (CertMsg empty_msg) | c # _ \<Rightarrow> Inr c))"

definition load_ca :: "('c, 'k) pem \<Rightarrow> cert_manager \<Rightarrow> fs \<Rightarrow> cert_error + 'c" where
  "load_ca P m = first_cert P (cert_path m ''ca.crt'')
     ''Failed to parse CA PEM: '' ''No certificate found in CA file''"

definition load_node_cert :: "('c, 'k) pem \<Rightarrow> cert_manager \<Rightarrow> fs \<Rightarrow> cert_error + 'c" where
  "load_node_cert P m = first_cert P (cert_path m ''node.crt'')
     ''Failed to parse node cert PEM: '' ''No certificate found in node cert file''"

definition load_node_key :: "('c, 'k) pem \<Rightarrow> cert_manager \<Rightarrow> fs \<Rightarrow> cert_error + 'k" where
  "load_node_key P m f =
     bind_res (map_err CertIo (fs_read_to_string (cert_path m ''node.key'') f)) (\<lambda>text.
     map_err (\<lambda>e. CertMsg (''No private key found in node key file: '' @ e)) (pem_key P text))"

definition read_crl :: "revoked_node list json \<Rightarrow> cert_manager \<Rightarrow> fs \<Rightarrow> cert_error + revoked_node list" where
  "read_crl J m f =
     bind_res (map_err CertIo (fs_read_to_string (cm_crl_file m) f)) (\<lambda>text.
     map_err CertMsg (js_dec J (str_bytes text)))"

definition in_crl :: "uuid \<Rightarrow> revoked_node list \<Rightarrow> bool" where
  "in_crl nid crl = list_ex (\<lambda>r. rn_node_id r = nid) crl"

definition is_revoked :: "revoked_node list json \<Rightarrow> cert_manager \<Rightarrow> uuid \<Rightarrow> fs \<Rightarrow> cert_error + bool" where
  "is_revoked J m nid f =
     (if \<not> path_exists f (cm_crl_file m) then Inr False
      else bind_res (read_crl J m f) (\<lambda>crl. Inr (in_crl nid crl)))"

definition add_to_crl ::
  "revoked_node list json \<Rightarrow> string \<Rightarrow> cert_manager \<Rightarrow> uuid \<Rightarrow> uuid \<Rightarrow> (cert_error, fs, unit) op"
where
  "add_to_crl J now m nid revoked_by =
     bind_op (ensure_dirs m) (\<lambda>_ f.
     bind_op (lift_op (if path_exists f (cm_crl_file m) then read_crl J m f else Inr [])) (\<lambda>crl.
     let crl = (if \<not> in_crl nid crl
                then crl @ [\<lparr> rn_node_id = nid, rn_revoked_at = now, rn_revoked_by = revoked_by \<rparr>] else crl) in
     bind_op (lift_op (map_err CertMsg (js_enc J crl))) (\<lambda>text.
     cert_io (fs_write (cm_crl_file m) text))) f)"

definition expires_soon :: "cert_manager \<Rightarrow> int \<Rightarrow> cert_error + bool" where
  "expires_soon m days = Inr False"

definition save_node_cert ::
  "cert_manager \<Rightarrow> string \<Rightarrow> string \<Rightarrow> string \<Rightarrow> (cert_error, fs, unit) op"
where
  "save_node_cert m cert_pem key_pem ca_pem =
     bind_op (ensure_dirs m) (\<lambda>_.
     bind_op (cert_io (fs_write (cert_path m ''node.crt'') (str_bytes cert_pem))) (\<lambda>_.
     bind_op (cert_io (fs_write (cert_path m ''node.key'') (str_bytes key_pem))) (\<lambda>_.
     bind_op (cert_io (fs_set_mode (cert_path m ''node.key'') 384)) (\<lambda>_.
     cert_io (fs_write (cert_path m ''ca.crt'') (str_bytes ca_pem))))))"

section \<open>Lemmas\<close>

lemma cert_io_Inr [simp]: "cert_io m f = (Inr x, g) \<longleftrightarrow> m f = (Inr x, g)"
  by (auto simp: cert_io_def split: prod.split)

lemma certs_dir_nonempty [simp]: "dd \<noteq> [] \<Longrightarrow> cm_certs_dir (cert_manager_new dd) \<noteq> []"
  by (simp add: cert_manager_new_def Let_def)

lemma cert_key:
  "plain_name n \<Longrightarrow> dd \<noteq> [] \<Longrightarrow> path_key (cert_path (cert_manager_new dd) n) =
     (is_absolute (cm_certs_dir (cert_manager_new dd)), components (cm_certs_dir (cert_manager_new dd)) @ [n])"
  by (simp add: cert_path_def path_key_join_plain)

lemma cert_names [simp]:
  "plain_name ''ca.key''" "plain_name ''ca.crt''" "plain_name ''node.crt''" "plain_name ''node.key''"
  "plain_name ''crl.json''"
  by (simp_all add: plain_name_def)

lemma crl_file: "cm_crl_file (cert_manager_new dd) = cert_path (cert_manager_new dd) ''crl.json''"
  by (simp add: cert_manager_new_def cert_path_def Let_def)

lemma set_mode_frame:
  "fs_set_mode p k f = (r, g) \<Longrightarrow> fs_files g = fs_files f \<and> fs_dirs g = fs_dirs f \<and> fs_fault g = fs_fault f"
  by (auto simp: fs_set_mode_def split: option.split_asm if_split_asm)

text \<open>Creating the directory again changes nothing, and no certificate file becomes a directory.\<close>

lemma create_dir_again:
  "fs_create_dir_all p f = (Inr u, g) \<Longrightarrow> fs_fault h = fs_fault g \<Longrightarrow> fs_dirs h = fs_dirs g \<Longrightarrow>
     fs_create_dir_all p h = (Inr (), h)"
  using create_dir_is_dir [of p f u g]
  by (auto simp: fs_create_dir_all_def is_dir_key_def split: option.split_asm if_split_asm)

lemma cert_not_new_dir:
  assumes "fs_create_dir_all (cm_certs_dir (cert_manager_new dd)) f = (r, g)" "plain_name n" "dd \<noteq> []"
  shows "is_dir_key g (path_key (cert_path (cert_manager_new dd) n)) =
    is_dir_key f (path_key (cert_path (cert_manager_new dd) n))"
proof -
  let ?c = "cm_certs_dir (cert_manager_new dd)" and ?k = "path_key (cert_path (cert_manager_new dd) n)"
  have "snd ?k = components ?c @ [n]" using cert_key [OF assms(2,3)] by simp
  moreover have "length (snd k) \<le> length (components ?c)" if "k \<in> set (ancestor_keys (path_key ?c))" for k
    using that by (auto simp: ancestor_keys_def path_key_def)
  ultimately have "?k \<notin> set (ancestor_keys (path_key ?c))" by fastforce
  with assms(1) show ?thesis
    by (auto simp: fs_create_dir_all_def is_dir_key_def split: option.split_asm if_split_asm)
qed

lemma update_same: "map_of m k = Some v \<Longrightarrow> AList.update k v m = m"
  by (induction m) (auto split: if_split_asm)

lemma write_same:
  assumes "fs_write p b f = (Inr u, g)" "fs_fault h = fs_fault g" "fs_dirs h = fs_dirs g" "fs_files h = fs_files g"
  shows "fs_write p b h = (Inr (), h)"
  using assms
  by (auto simp: fs_write_def is_dir_key_def update_same split: option.split_asm if_split_asm)

lemma str_bytes_str [simp]: "str_bytes (bytes_str b) = b"
proof -
  have "of_char (char_of (unat x) :: char) = x" for x :: u8
  proof -
    have "unat x < 256" using unsigned_less [of x] by simp
    then have "unat (of_char (char_of (unat x) :: char) :: u8) = unat x" by (simp add: of_char_u8_nat)
    then show ?thesis by (rule unsigned_word_eqI)
  qed
  then show ?thesis by (simp add: str_bytes_def bytes_str_def comp_def)
qed

lemma read_crl_written:
  assumes "healthy g" "file_at g (cm_crl_file m) = Some b" "valid_utf8 b" "js_dec J b = Inr crl"
  shows "read_crl J m g = Inr crl"
  using assms by (simp add: read_crl_def fs_read_to_string_def fs_read_healthy bind_res_def)

text \<open>What a successful revocation did.\<close>

lemma add_to_crlD:
  assumes "add_to_crl J now m nid rby f = (Inr (), g)"
  shows "\<exists>f1 crl b. fs_create_dir_all (cm_certs_dir m) f = (Inr (), f1) \<and>
    (if path_exists f1 (cm_crl_file m) then read_crl J m f1 else Inr []) = Inr crl \<and>
    js_enc J (if in_crl nid crl then crl
      else crl @ [\<lparr> rn_node_id = nid, rn_revoked_at = now, rn_revoked_by = rby \<rparr>]) = Inr b \<and>
    fs_write (cm_crl_file m) b f1 = (Inr (), g)"
  using assms
  by (auto simp: add_to_crl_def bind_op_Inr ensure_dirs_def lift_op_def Let_def bind_op_def cert_io_def
      split: prod.split_asm sum.split_asm if_split_asm)

text \<open>What the manager leaves alone: every file that is not in its directory, and the faults of the disk.\<close>

definition certs_only :: "string \<Rightarrow> fs \<Rightarrow> fs \<Rightarrow> bool" where
  "certs_only dd f g = (fs_fault g = fs_fault f \<and> (\<forall>k. is_dir_key f k \<longrightarrow> is_dir_key g k) \<and>
     (\<forall>p. (\<forall>n. plain_name n \<longrightarrow> path_key p \<noteq> path_key (cert_path (cert_manager_new dd) n)) \<longrightarrow> file_at g p = file_at f p))"

lemma certs_only_trans: "certs_only dd f g \<Longrightarrow> certs_only dd g h \<Longrightarrow> certs_only dd f h"
  by (simp add: certs_only_def)

lemma certs_only_refl: "certs_only dd f f"
  by (simp add: certs_only_def)

lemma certs_only_dir: "certs_only dd f g \<Longrightarrow> is_dir_key f k \<Longrightarrow> is_dir_key g k"
  by (simp add: certs_only_def del: split_paired_All)

lemma certs_only_mkdir: "fs_create_dir_all q f = (Inr u, g) \<Longrightarrow> certs_only dd f g"
  by (auto simp: certs_only_def create_dir_fault create_dir_file_at)
    (auto simp: fs_create_dir_all_def is_dir_key_def split: option.split_asm if_split_asm)

lemma certs_only_write:
  "fs_write (cert_path (cert_manager_new dd) n) b f = (Inr u, g) \<Longrightarrow> plain_name n \<Longrightarrow> certs_only dd f g"
  using fs_write_fault [of "cert_path (cert_manager_new dd) n" b f] fs_write_dirs [of "cert_path (cert_manager_new dd) n" b f]
    file_at_write [of "cert_path (cert_manager_new dd) n" b f u g]
  by (simp add: certs_only_def is_dir_key_def)

lemma certs_only_mode: "fs_set_mode p m f = (r, g) \<Longrightarrow> certs_only dd f g"
  using set_mode_frame [of p m f r g] by (simp add: certs_only_def is_dir_key_def file_at_def)

lemma write_exists: "fs_write p b f = (Inr u, g) \<Longrightarrow> path_exists g p"
  using file_at_write [of p b f u g p] by (simp add: path_exists_def)

lemma exists_kept_write: "fs_write p b f = (Inr u, g) \<Longrightarrow> path_exists f q \<Longrightarrow> path_exists g q"
  using file_at_write [of p b f u g q] fs_write_dirs [of p b f "Inr u" g] by (auto simp: path_exists_def is_dir_key_def)

lemma exists_kept_mode: "fs_set_mode p m f = (r, g) \<Longrightarrow> path_exists f q \<Longrightarrow> path_exists g q"
  using set_mode_frame [of p m f r g] by (simp add: path_exists_def is_dir_key_def file_at_def)

lemma init_ca_left:
  assumes "init_ca gen (cert_manager_new dd) f = (Inr (), g)"
  shows "certs_only dd f g \<and> is_dir_key g (path_key (cm_certs_dir (cert_manager_new dd))) \<and>
    path_exists g (cert_path (cert_manager_new dd) ''ca.key'') \<and> path_exists g (cert_path (cert_manager_new dd) ''ca.crt'')"
proof -
  let ?m = "cert_manager_new dd"
  let ?key = "cert_path ?m ''ca.key''" and ?crt = "cert_path ?m ''ca.crt''"
  obtain f1 where mk: "fs_create_dir_all (cm_certs_dir ?m) f = (Inr (), f1)"
    and rest: "(if path_exists f1 ?key \<and> path_exists f1 ?crt then (Inr (), f1)
       else bind_op (lift_op (generate_ca_cert gen)) (\<lambda>(cert_pem, key_pem).
            bind_op (cert_io (fs_write ?crt (str_bytes cert_pem))) (\<lambda>_.
            bind_op (cert_io (fs_write ?key (str_bytes key_pem))) (\<lambda>_.
            cert_io (fs_set_mode ?key 384)))) f1) = (Inr (), g)"
    using assms by (auto simp: init_ca_def bind_op_Inr ensure_dirs_def Let_def)
  have "certs_only dd f1 g \<and> path_exists g ?key \<and> path_exists g ?crt"
  proof (cases "path_exists f1 ?key \<and> path_exists f1 ?crt")
    case True
    with rest show ?thesis by (auto simp: certs_only_refl)
  next
    case False
    with rest obtain c k f2 f3 where w: "fs_write ?crt (str_bytes c) f1 = (Inr (), f2)"
      "fs_write ?key (str_bytes k) f2 = (Inr (), f3)" "fs_set_mode ?key 384 f3 = (Inr (), g)"
      by (auto simp: bind_op_Inr lift_op_def split: prod.split_asm)
    have "certs_only dd f1 g"
      using certs_only_write [OF w(1)] certs_only_write [OF w(2)] certs_only_mode [OF w(3)] certs_only_trans by fastforce
    moreover have "path_exists g ?crt" "path_exists g ?key"
      using exists_kept_mode [OF w(3)] exists_kept_write [OF w(2)] write_exists [OF w(1)] write_exists [OF w(2)] by simp_all
    ultimately show ?thesis by simp
  qed
  moreover have "certs_only dd f f1" by (rule certs_only_mkdir [OF mk])
  moreover have "is_dir_key f1 (path_key (cm_certs_dir ?m))" by (rule create_dir_is_dir [OF mk])
  ultimately show ?thesis using certs_only_trans certs_only_dir by blast
qed

lemma init_ca_kept:
  assumes "healthy g" "is_dir_key g (path_key (cm_certs_dir m))" "path_exists g (cert_path m ''ca.key'')"
    "path_exists g (cert_path m ''ca.crt'')"
  shows "init_ca gen m g = (Inr (), g)"
  using assms by (simp add: init_ca_def ensure_dirs_def op_simps cert_io_def fs_create_dir_all_def healthy_def)

lemma save_node_cert_left:
  assumes "save_node_cert (cert_manager_new dd) cert key ca f = (Inr (), g)"
  shows "certs_only dd f g \<and> is_dir_key g (path_key (cm_certs_dir (cert_manager_new dd))) \<and>
    has_node_credentials (cert_manager_new dd) g"
proof -
  let ?m = "cert_manager_new dd"
  obtain f0 f1 f2 f3 where mk: "fs_create_dir_all (cm_certs_dir ?m) f = (Inr (), f0)"
    and w: "fs_write (cert_path ?m ''node.crt'') (str_bytes cert) f0 = (Inr (), f1)"
      "fs_write (cert_path ?m ''node.key'') (str_bytes key) f1 = (Inr (), f2)"
      "fs_set_mode (cert_path ?m ''node.key'') 384 f2 = (Inr (), f3)"
      "fs_write (cert_path ?m ''ca.crt'') (str_bytes ca) f3 = (Inr (), g)"
    using assms by (auto simp: save_node_cert_def bind_op_Inr ensure_dirs_def)
  have "certs_only dd f0 f1" "certs_only dd f1 f2" "certs_only dd f2 f3" "certs_only dd f3 g"
    using certs_only_write [OF w(1)] certs_only_write [OF w(2)] certs_only_mode [OF w(3)] certs_only_write [OF w(4)] by simp_all
  then have "certs_only dd f0 g" using certs_only_trans by blast
  moreover have "certs_only dd f f0" by (rule certs_only_mkdir [OF mk])
  moreover have "is_dir_key f0 (path_key (cm_certs_dir ?m))" by (rule create_dir_is_dir [OF mk])
  moreover have "has_node_credentials ?m g"
    using write_exists [OF w(1)] write_exists [OF w(2)] write_exists [OF w(4)] exists_kept_write [OF w(2)]
      exists_kept_mode [OF w(3)] exists_kept_write [OF w(4)] by (simp add: has_node_credentials_def)
  ultimately show ?thesis using certs_only_trans certs_only_dir by blast
qed

section \<open>Properties\<close>

text \<open>
  Revocation. A revocation that succeeds leaves the revocation list answering exactly as before, except
  that the node is now revoked; revoking it again succeeds and changes nothing.
\<close>

theorem crl_exact:
  assumes "json_api J" "\<And>crl b. js_enc J crl = Inr b \<Longrightarrow> valid_utf8 b" "healthy f" "dd \<noteq> []"
    "add_to_crl J now (cert_manager_new dd) nid rby f = (Inr (), g)"
  shows "is_revoked J (cert_manager_new dd) x g =
      (if x = nid then Inr True else is_revoked J (cert_manager_new dd) x f) \<and>
    add_to_crl J now' (cert_manager_new dd) nid rby' g = (Inr (), g)"
proof -
  let ?m = "cert_manager_new dd"
  obtain f1 crl b where mk: "fs_create_dir_all (cm_certs_dir ?m) f = (Inr (), f1)"
    and old: "(if path_exists f1 (cm_crl_file ?m) then read_crl J ?m f1 else Inr []) = Inr crl"
    and enc: "js_enc J (if in_crl nid crl then crl
      else crl @ [\<lparr> rn_node_id = nid, rn_revoked_at = now, rn_revoked_by = rby \<rparr>]) = Inr b"
    and wr: "fs_write (cm_crl_file ?m) b f1 = (Inr (), g)"
    using add_to_crlD [OF assms(5)] by blast
  let ?new = "if in_crl nid crl then crl
      else crl @ [\<lparr> rn_node_id = nid, rn_revoked_at = now, rn_revoked_by = rby \<rparr>]"
  have h1: "healthy f1" and hg: "healthy g"
    using create_dir_healthy [OF mk assms(3)] fs_write_healthy [OF wr] by simp_all
  have content: "file_at g (cm_crl_file ?m) = Some b" using file_at_write [OF wr] by simp
  then have ex: "path_exists g (cm_crl_file ?m)" by (rule file_at_exists)
  have rd: "read_crl J ?m g = Inr ?new"
    by (rule read_crl_written [OF hg content assms(2) [OF enc] json_api.js_round [OF assms(1) enc]])
  have "path_exists f1 (cm_crl_file ?m) = path_exists f (cm_crl_file ?m)"
    using create_dir_file_at [OF mk] cert_not_new_dir [OF mk _ assms(4), of "''crl.json''"]
    by (simp add: path_exists_def crl_file)
  moreover have "fs_read (cm_crl_file ?m) f1 = fs_read (cm_crl_file ?m) f"
    using create_dir_file_at [OF mk] create_dir_fault [OF mk] cert_not_new_dir [OF mk _ assms(4), of "''crl.json''"]
    by (simp add: fs_read_def crl_file split: option.split)
  then have "read_crl J ?m f1 = read_crl J ?m f" by (simp add: read_crl_def fs_read_to_string_def)
  ultimately have "is_revoked J ?m x f = Inr (in_crl x crl)" for x
    using old by (cases "path_exists f (cm_crl_file ?m)") (auto simp: is_revoked_def bind_res_def in_crl_def)
  moreover have "is_revoked J ?m x g = Inr (x = nid \<or> in_crl x crl)"
    using rd ex by (auto simp: is_revoked_def bind_res_def in_crl_def)
  moreover have "add_to_crl J now' ?m nid rby' g = (Inr (), g)"
  proof -
    have "fs_fault g = fs_fault f1" "fs_dirs g = fs_dirs f1" using fs_simps wr by blast+
    then have "fs_create_dir_all (cm_certs_dir ?m) g = (Inr (), g)" by (rule create_dir_again [OF mk])
    moreover have "in_crl nid ?new" by (simp add: in_crl_def)
    moreover have "fs_write (cm_crl_file ?m) b g = (Inr (), g)" by (rule write_same [OF wr]) simp_all
    ultimately show ?thesis
      using rd ex enc by (simp add: add_to_crl_def ensure_dirs_def op_simps cert_io_def)
  qed
  ultimately show ?thesis by simp
qed

text \<open>A disk with the certificate directory of the data directory \<open>/d\<close> and some files.\<close>

definition certs_fs :: "(path_key \<times> bytes) list \<Rightarrow> fs" where
  "certs_fs files = empty_fs\<lparr>fs_files := files, fs_dirs := ancestor_keys (True, [''d'', ''certs''])\<rparr>"

lemma certs_components:
  "components (cm_certs_dir (cert_manager_new ''/d'')) = [''d'', ''certs'']" "is_absolute (cm_certs_dir (cert_manager_new ''/d''))"
  by (simp_all add: cert_manager_new_def Let_def path_join_def is_absolute_def components_def)

lemma certs_keys:
  "path_key (cm_certs_dir (cert_manager_new ''/d'')) = (True, [''d'', ''certs''])"
  "plain_name n \<Longrightarrow> path_key (cert_path (cert_manager_new ''/d'') n) = (True, [''d'', ''certs'', n])"
  by (simp_all add: path_key_def certs_components cert_key [unfolded path_key_def])

lemma certs_ensure_dirs: "ensure_dirs (cert_manager_new ''/d'') empty_fs = (Inr (), certs_fs [])"
  by (simp add: ensure_dirs_def cert_io_def fs_create_dir_all_def certs_fs_def empty_fs_def is_dir_key_def
      list_ex_iff certs_keys)

lemma certs_fs_simps:
  "fs_fault (certs_fs fs) c = None"
  "plain_name n \<Longrightarrow> path_exists (certs_fs fs) (cert_path (cert_manager_new ''/d'') n) = (hget fs (True, [''d'', ''certs'', n]) \<noteq> None)"
  "plain_name n \<Longrightarrow> fs_write (cert_path (cert_manager_new ''/d'') n) b (certs_fs fs) =
     (Inr (), certs_fs (hput (True, [''d'', ''certs'', n]) b fs))"
  by (simp_all add: fs_write_def certs_keys is_dir_key_def parent_key_def certs_fs_def empty_fs_def
      ancestor_keys_def path_exists_def file_at_def)

lemma crl_first_write:
  "add_to_crl count_json ''t'' (cert_manager_new ''/d'') 5 1 empty_fs =
     (Inr (), snd (add_to_crl count_json ''t'' (cert_manager_new ''/d'') 5 1 empty_fs))"
  by (simp add: add_to_crl_def op_simps certs_ensure_dirs cert_io_def crl_file certs_fs_simps count_json_def)

theorem crl_exact_witness:
  "\<exists>g. is_revoked count_json (cert_manager_new ''/d'') 5 g = Inr True \<and>
     add_to_crl count_json ''u'' (cert_manager_new ''/d'') 5 2 g = (Inr (), g)"
proof -
  have "valid_utf8 b" if "js_enc count_json crl = Inr b" for crl :: "revoked_node list" and b
    using that by (intro valid_utf8_ascii) (auto simp: count_json_def)
  then show ?thesis
    using crl_exact [OF count_json.json_api_axioms _ _ _ crl_first_write, where x = 5 and now' = "''u''" and rby' = 2]
    by (auto simp: healthy_def empty_fs_def)
qed

text \<open>
  The certificate authority. An initialisation that succeeds leaves the CA certificate and key on
  disk; a later one, whatever keys it would generate, succeeds and changes nothing, so the cluster's
  CA is never replaced.
\<close>

theorem init_ca_once:
  assumes "healthy f" "dd \<noteq> []" "init_ca gen (cert_manager_new dd) f = (Inr (), g)"
  shows "has_ca_key (cert_manager_new dd) g \<and> path_exists g (cert_path (cert_manager_new dd) ''ca.crt'') \<and>
    init_ca gen' (cert_manager_new dd) g = (Inr (), g)"
proof -
  have "healthy g" using init_ca_left [OF assms(3)] assms(1) by (simp add: certs_only_def healthy_def)
  then show ?thesis using init_ca_left [OF assms(3)] init_ca_kept [of g] by (simp add: has_ca_key_def)
qed

lemma init_ca_first:
  "init_ca (\<lambda>_. Inr (''c'', ''k'')) (cert_manager_new ''/d'') empty_fs =
     (Inr (), snd (init_ca (\<lambda>_. Inr (''c'', ''k'')) (cert_manager_new ''/d'') empty_fs))"
  by (simp add: init_ca_def op_simps certs_ensure_dirs cert_io_def certs_fs_simps generate_ca_cert_def fs_set_mode_def
      Let_def)

theorem init_ca_once_witness:
  "\<exists>g. has_ca_key (cert_manager_new ''/d'') g \<and>
     init_ca (\<lambda>_. Inr (''other'', ''key'')) (cert_manager_new ''/d'') g = (Inr (), g)"
  using init_ca_once [OF _ _ init_ca_first, of "\<lambda>_. Inr (''other'', ''key'')"]
  by (auto simp: healthy_def empty_fs_def)

end
