(* ===== verification/Node_Config.thy ===== *)
theory Node_Config
  imports Filesystem Common
begin

text \<open>
  Configuration (\<open>agent/src/config\<close>) and the identity and profile of a node (\<open>agent/src/node/mod.rs\<close>).
  TOML parsing is a parameter: the parsed value, and the fields the file gives; the defaults of absent
  fields, the validation and everything else is the agent's.
\<close>

section \<open>The configuration\<close>

record node_config =
  nc_tier :: u8
  nc_availability :: string
  nc_quorum_participant :: bool
  nc_data_dir :: string

record roles_config =
  rc_scheduler :: bool
  rc_executor :: bool
  rc_storage :: bool

record network_config =
  nw_bind_address :: string
  nw_grpc_port :: u16
  nw_rest_port :: u16
  nw_metrics_port :: u16

record discovery_config =
  dc_mdns :: bool
  dc_seeds :: "string list"

record security_config =
  sec_mode :: string
  sec_shared_secret :: string
  sec_ca_cert_path :: string

record executor_config =
  ec_max_concurrent_jobs :: u32
  ec_docker_socket :: string
  ec_cgroups_enabled :: bool
  ec_output_max_bytes :: nat

record capabilities_config =
  cc_docker :: bool
  cc_java :: "string option"
  cc_python :: "string option"
  cc_wasm :: bool
  cc_gpu_enabled :: bool

record logging_config =
  lc_level :: string
  lc_format :: string

record config =
  cfg_node :: node_config
  cfg_roles :: roles_config
  cfg_network :: network_config
  cfg_discovery :: discovery_config
  cfg_security :: security_config
  cfg_executor :: executor_config
  cfg_capabilities :: capabilities_config
  cfg_logging :: logging_config

text \<open>The fields a file gives: a field with a \<open>serde\<close> default may be absent.\<close>

record raw_config =
  raw_tier :: u8
  raw_availability :: string
  raw_quorum_participant :: "bool option"
  raw_data_dir :: string
  raw_scheduler :: "bool option"
  raw_executor :: "bool option"
  raw_storage :: "bool option"
  raw_bind_address :: "string option"
  raw_grpc_port :: "u16 option"
  raw_rest_port :: "u16 option"
  raw_metrics_port :: "u16 option"
  raw_mdns :: "bool option"
  raw_seeds :: "string list option"
  raw_mode :: string
  raw_shared_secret :: "string option"
  raw_ca_cert_path :: "string option"
  raw_max_concurrent_jobs :: "u32 option"
  raw_docker_socket :: "string option"
  raw_cgroups_enabled :: "bool option"
  raw_output_max_bytes :: "nat option"
  raw_docker :: "bool option"
  raw_java :: "string option"
  raw_python :: "string option"
  raw_wasm :: "bool option"
  raw_gpu_enabled :: "bool option"
  raw_level :: "string option"
  raw_format :: "string option"

definition or_default :: "'a option \<Rightarrow> 'a \<Rightarrow> 'a" where
  "or_default x d = (case x of None \<Rightarrow> d | Some v \<Rightarrow> v)"

definition default_true :: bool where "default_true = True"
definition default_bind :: string where "default_bind = ''0.0.0.0''"
definition default_grpc_port :: u16 where "default_grpc_port = 7947"
definition default_rest_port :: u16 where "default_rest_port = 7946"
definition default_metrics_port :: u16 where "default_metrics_port = 9090"
definition default_max_jobs :: u32 where "default_max_jobs = 8"
definition default_docker_socket :: string where "default_docker_socket = ''/var/run/docker.sock''"
definition default_output_max :: nat where "default_output_max = 10 * 1024 * 1024"
definition default_log_level :: string where "default_log_level = ''info''"
definition default_log_format :: string where "default_log_format = ''text''"

definition config_of_raw :: "raw_config \<Rightarrow> config" where
  "config_of_raw r =
     \<lparr> cfg_node = \<lparr> nc_tier = raw_tier r, nc_availability = raw_availability r,
         nc_quorum_participant = or_default (raw_quorum_participant r) False, nc_data_dir = raw_data_dir r \<rparr>,
       cfg_roles = \<lparr> rc_scheduler = or_default (raw_scheduler r) default_true,
         rc_executor = or_default (raw_executor r) default_true, rc_storage = or_default (raw_storage r) False \<rparr>,
       cfg_network = \<lparr> nw_bind_address = or_default (raw_bind_address r) default_bind,
         nw_grpc_port = or_default (raw_grpc_port r) default_grpc_port,
         nw_rest_port = or_default (raw_rest_port r) default_rest_port,
         nw_metrics_port = or_default (raw_metrics_port r) default_metrics_port \<rparr>,
       cfg_discovery = \<lparr> dc_mdns = or_default (raw_mdns r) default_true, dc_seeds = or_default (raw_seeds r) [] \<rparr>,
       cfg_security = \<lparr> sec_mode = raw_mode r, sec_shared_secret = or_default (raw_shared_secret r) [],
         sec_ca_cert_path = or_default (raw_ca_cert_path r) [] \<rparr>,
       cfg_executor = \<lparr> ec_max_concurrent_jobs = or_default (raw_max_concurrent_jobs r) default_max_jobs,
         ec_docker_socket = or_default (raw_docker_socket r) default_docker_socket,
         ec_cgroups_enabled = or_default (raw_cgroups_enabled r) default_true,
         ec_output_max_bytes = or_default (raw_output_max_bytes r) default_output_max \<rparr>,
       cfg_capabilities = \<lparr> cc_docker = or_default (raw_docker r) False, cc_java = raw_java r,
         cc_python = raw_python r, cc_wasm = or_default (raw_wasm r) False,
         cc_gpu_enabled = or_default (raw_gpu_enabled r) False \<rparr>,
       cfg_logging = \<lparr> lc_level = or_default (raw_level r) default_log_level,
         lc_format = or_default (raw_format r) default_log_format \<rparr> \<rparr>"

section \<open>Loading\<close>

datatype toml_value = TomlString string | TomlTable "(string \<times> toml_value) list" | TomlOther

record toml_api =
  tm_value :: "string \<Rightarrow> string + toml_value"
  tm_config :: "string \<Rightarrow> string + raw_config"

fun toml_get :: "toml_value \<Rightarrow> string \<Rightarrow> toml_value option" where
  "toml_get (TomlTable t) part = hget t part"
| "toml_get _ part = None"

fun required_cursor :: "toml_value \<Rightarrow> string list \<Rightarrow> toml_value option" where
  "required_cursor v [] = Some v"
| "required_cursor v (part # parts) = (case toml_get v part of None \<Rightarrow> None | Some w \<Rightarrow> required_cursor w parts)"

definition ensure_required :: "toml_value \<Rightarrow> string \<Rightarrow> string + unit" where
  "ensure_required v key_path =
     (case required_cursor v (split_on CHR ''.'' key_path) of
        None \<Rightarrow> Inl (key_path @ '' is required'')
      | Some (TomlString s) \<Rightarrow> if trim s = [] then Inl (key_path @ '' is required'') else Inr ()
      | Some _ \<Rightarrow> Inr ())"

text \<open>\<open>security.mode must be 'shared-secret' or 'ca'\<close>; character 39 is the quote.\<close>

definition mode_error :: string where
  "mode_error = (let q = [char_of (39 :: nat)] in
     ''security.mode must be '' @ q @ ''shared-secret'' @ q @ '' or '' @ q @ ''ca'' @ q)"

definition load :: "toml_api \<Rightarrow> string \<Rightarrow> fs \<Rightarrow> string + config" where
  "load T path f =
     bind_res (map_err (\<lambda>_. ''cannot read config file: '' @ path) (fs_read_to_string path f)) (\<lambda>raw.
     bind_res (map_err (\<lambda>e. ''invalid TOML in '' @ path @ '': '' @ e) (tm_value T raw)) (\<lambda>value.
     bind_res (ensure_required value ''node.tier'') (\<lambda>_.
     bind_res (ensure_required value ''node.availability'') (\<lambda>_.
     bind_res (ensure_required value ''node.data_dir'') (\<lambda>_.
     bind_res (ensure_required value ''security.mode'') (\<lambda>_.
     bind_res (map_err (\<lambda>e. ''invalid config schema in '' @ path @ '': '' @ e) (tm_config T raw)) (\<lambda>r.
     let parsed = config_of_raw r in
     if nc_tier (cfg_node parsed) > 2 then Inl ''node.tier must be 0, 1, or 2''
     else if sec_mode (cfg_security parsed) \<noteq> ''shared-secret'' \<and> sec_mode (cfg_security parsed) \<noteq> ''ca''
       then Inl mode_error
     else Inr parsed)))))))"

section \<open>Identity\<close>

text \<open>\<open>fresh\<close> is the identifier \<open>NodeId::new\<close> would make.\<close>

definition node_id :: "uuid_api \<Rightarrow> uuid \<Rightarrow> string \<Rightarrow> (string, fs, uuid) op" where
  "node_id U fresh data_dir =
     bind_op (\<lambda>f. let (r, g) = fs_create_dir_all data_dir f in (map_err (\<lambda>_. ''cannot create data_dir '' @ data_dir) r, g)) (\<lambda>_ f.
     let node_id_path = path_join data_dir ''node-id'' in
     if path_exists f node_id_path
     then (bind_res (map_err (\<lambda>_. ''cannot read '' @ node_id_path) (fs_read_to_string node_id_path f)) (\<lambda>raw.
             case uuid_parse U (trim raw) of None \<Rightarrow> Inl ''invalid node-id format'' | Some parsed \<Rightarrow> Inr parsed), f)
     else (let (r, g) = fs_write node_id_path (str_bytes (uuid_str U fresh)) f
           in (bind_res (map_err (\<lambda>_. ''cannot write '' @ node_id_path) r) (\<lambda>_. Inr fresh), g)))"

definition parse_meminfo_kb :: "string \<Rightarrow> string \<Rightarrow> u64 option" where
  "parse_meminfo_kb raw key =
     (case find (\<lambda>line. starts_with line key) (lines_of raw) of
        None \<Rightarrow> None
      | Some line \<Rightarrow> (case split_whitespace line of _ # n # _ \<Rightarrow> parse_u64 n | _ \<Rightarrow> None))"

text \<open>\<open>meminfo\<close> is what \<open>/proc/meminfo\<close> reads as, if it does.\<close>

fun meminfo_mb :: "string \<Rightarrow> string list \<Rightarrow> u32 option" where
  "meminfo_mb raw [] = None"
| "meminfo_mb raw (key # keys) =
     (case parse_meminfo_kb raw key of
        None \<Rightarrow> meminfo_mb raw keys
      | Some v \<Rightarrow> let mb = v div 1024 in if mb > 0 then Some (ucast mb) else meminfo_mb raw keys)"

definition detect_memory_mb :: "string option \<Rightarrow> u32" where
  "detect_memory_mb meminfo =
     or_default (case meminfo of None \<Rightarrow> None | Some raw \<Rightarrow> meminfo_mb raw [''MemAvailable:'', ''MemTotal:'']) 1024"

definition profile :: "nat option \<Rightarrow> string option \<Rightarrow> config \<Rightarrow> uuid \<Rightarrow> node_profile" where
  "profile parallelism meminfo cfg nid =
     \<lparr> np_id = nid, np_tier = nc_tier (cfg_node cfg), np_availability = nc_availability (cfg_node cfg),
       np_quorum_participant = nc_quorum_participant (cfg_node cfg),
       np_resources = \<lparr> nr_cpu_cores = (case parallelism of None \<Rightarrow> 1 | Some n \<Rightarrow> word_of_nat n),
         nr_memory_mb = detect_memory_mb meminfo, nr_disk_mb = None \<rparr>,
       np_capabilities = \<lparr> cap_docker = cc_docker (cfg_capabilities cfg), cap_python = cc_python (cfg_capabilities cfg),
         cap_java = cc_java (cfg_capabilities cfg), cap_wasm = cc_wasm (cfg_capabilities cfg),
         cap_gpu_enabled = cc_gpu_enabled (cfg_capabilities cfg), cap_storage_node = rc_storage (cfg_roles cfg) \<rparr> \<rparr>"

section \<open>Properties\<close>

lemma bind_res_cases: "bind_res m k = Inr y \<Longrightarrow> (\<And>x. m = Inr x \<Longrightarrow> k x = Inr y \<Longrightarrow> P) \<Longrightarrow> P"
  by (auto simp: bind_res_Inr)

text \<open>
  What loading promises, said apart from how it goes about it: a file gives a key of a table when the key is there
  and is no string of white space only, and the values of a configuration are those the file gives, or else
  the schema's defaults.
\<close>

definition gives :: "toml_value \<Rightarrow> string \<Rightarrow> string \<Rightarrow> bool" where
  "gives value table key = (\<exists>entries fields v. value = TomlTable entries \<and> map_of entries table = Some (TomlTable fields) \<and>
     map_of fields key = Some v \<and> (\<forall>s. v = TomlString s \<longrightarrow> (\<exists>c \<in> set s. \<not> is_whitespace c)))"

definition takes :: "'a option \<Rightarrow> 'a \<Rightarrow> 'a \<Rightarrow> bool" where
  "takes given d v = (given = Some v \<or> given = None \<and> v = d)"

definition schema_values :: "raw_config \<Rightarrow> config \<Rightarrow> bool" where
  "schema_values r cfg =
     (nc_tier (cfg_node cfg) = raw_tier r \<and> nc_availability (cfg_node cfg) = raw_availability r \<and>
      takes (raw_quorum_participant r) False (nc_quorum_participant (cfg_node cfg)) \<and>
      nc_data_dir (cfg_node cfg) = raw_data_dir r \<and>
      takes (raw_scheduler r) True (rc_scheduler (cfg_roles cfg)) \<and>
      takes (raw_executor r) True (rc_executor (cfg_roles cfg)) \<and>
      takes (raw_storage r) False (rc_storage (cfg_roles cfg)) \<and>
      takes (raw_bind_address r) ''0.0.0.0'' (nw_bind_address (cfg_network cfg)) \<and>
      takes (raw_grpc_port r) 7947 (nw_grpc_port (cfg_network cfg)) \<and>
      takes (raw_rest_port r) 7946 (nw_rest_port (cfg_network cfg)) \<and>
      takes (raw_metrics_port r) 9090 (nw_metrics_port (cfg_network cfg)) \<and>
      takes (raw_mdns r) True (dc_mdns (cfg_discovery cfg)) \<and>
      takes (raw_seeds r) [] (dc_seeds (cfg_discovery cfg)) \<and>
      sec_mode (cfg_security cfg) = raw_mode r \<and>
      takes (raw_shared_secret r) [] (sec_shared_secret (cfg_security cfg)) \<and>
      takes (raw_ca_cert_path r) [] (sec_ca_cert_path (cfg_security cfg)) \<and>
      takes (raw_max_concurrent_jobs r) 8 (ec_max_concurrent_jobs (cfg_executor cfg)) \<and>
      takes (raw_docker_socket r) ''/var/run/docker.sock'' (ec_docker_socket (cfg_executor cfg)) \<and>
      takes (raw_cgroups_enabled r) True (ec_cgroups_enabled (cfg_executor cfg)) \<and>
      takes (raw_output_max_bytes r) 10485760 (ec_output_max_bytes (cfg_executor cfg)) \<and>
      takes (raw_docker r) False (cc_docker (cfg_capabilities cfg)) \<and>
      cc_java (cfg_capabilities cfg) = raw_java r \<and> cc_python (cfg_capabilities cfg) = raw_python r \<and>
      takes (raw_wasm r) False (cc_wasm (cfg_capabilities cfg)) \<and>
      takes (raw_gpu_enabled r) False (cc_gpu_enabled (cfg_capabilities cfg)) \<and>
      takes (raw_level r) ''info'' (lc_level (cfg_logging cfg)) \<and>
      takes (raw_format r) ''text'' (lc_format (cfg_logging cfg)))"

lemma takes_default: "takes given d v \<longleftrightarrow> v = or_default given d"
  by (auto simp: takes_def or_default_def split: option.split)

lemma schema_values_iff: "schema_values r cfg \<longleftrightarrow> cfg = config_of_raw r"
proof
  note defaults = default_true_def default_bind_def default_grpc_port_def default_rest_port_def default_metrics_port_def
    default_max_jobs_def default_docker_socket_def default_output_max_def default_log_level_def default_log_format_def
  show "schema_values r cfg" if "cfg = config_of_raw r"
    unfolding that by (simp add: schema_values_def takes_default config_of_raw_def defaults)
  assume "schema_values r cfg"
  then show "cfg = config_of_raw r"
    by (intro config.equality node_config.equality roles_config.equality network_config.equality discovery_config.equality
        security_config.equality executor_config.equality capabilities_config.equality logging_config.equality)
      (simp_all add: schema_values_def takes_default config_of_raw_def defaults)
qed

lemma trim_blank: "trim s = [] \<longleftrightarrow> (\<forall>c \<in> set s. is_whitespace c)"
proof -
  have "set s = set (takeWhile is_whitespace s) \<union> set (dropWhile is_whitespace s)"
    by (metis set_append takeWhile_dropWhile_id)
  then show ?thesis by (auto simp: trim_def dropWhile_eq_Nil_conv dest: set_takeWhileD)
qed

lemma toml_get_Some: "toml_get v part = Some w \<longleftrightarrow> (\<exists>t. v = TomlTable t \<and> hget t part = Some w)"
  by (cases v) simp_all

lemma required_pair:
  "required_cursor v [table, key] = Some w \<longleftrightarrow>
     (\<exists>entries fields. v = TomlTable entries \<and> hget entries table = Some (TomlTable fields) \<and> hget fields key = Some w)"
  by (auto simp: toml_get_Some split: option.split)

lemma ensure_required_iff:
  assumes "split_on CHR ''.'' path = [table, key]"
  shows "ensure_required value path = Inr () \<longleftrightarrow> gives value table key"
proof -
  have "ensure_required value path = Inr () \<longleftrightarrow>
      (\<exists>w. required_cursor value [table, key] = Some w \<and> (\<forall>s. w = TomlString s \<longrightarrow> trim s \<noteq> []))"
    unfolding ensure_required_def assms by (auto split: option.split toml_value.split simp del: required_cursor.simps)
  then show ?thesis unfolding required_pair gives_def trim_blank by blast
qed

text \<open>
  C36. A file loads as a configuration exactly when it can be read and parsed, tier, availability, data
  directory and mode are present and not blank strings, the tier is 0, 1 or 2 and the security mode is
  \<open>shared-secret\<close> or \<open>ca\<close> (the mode \<open>dev\<close> of the README is refused); the configuration is then the
  file's values with the schema's defaults, each as \<open>schema_values\<close> spells it.
\<close>

theorem load_validates:
  "load T path f = Inr cfg \<longleftrightarrow>
     nc_tier (cfg_node cfg) \<le> 2 \<and> sec_mode (cfg_security cfg) \<in> {''shared-secret'', ''ca''} \<and>
     (\<exists>raw value r. fs_read_to_string path f = Inr raw \<and> tm_value T raw = Inr value \<and> tm_config T raw = Inr r \<and>
       schema_values r cfg \<and> gives value ''node'' ''tier'' \<and> gives value ''node'' ''availability'' \<and>
       gives value ''node'' ''data_dir'' \<and> gives value ''security'' ''mode'')"
  (is "?lhs \<longleftrightarrow> ?rhs")
proof -
  have required: "ensure_required v ''node.tier'' = Inr () \<longleftrightarrow> gives v ''node'' ''tier''"
    "ensure_required v ''node.availability'' = Inr () \<longleftrightarrow> gives v ''node'' ''availability''"
    "ensure_required v ''node.data_dir'' = Inr () \<longleftrightarrow> gives v ''node'' ''data_dir''"
    "ensure_required v ''security.mode'' = Inr () \<longleftrightarrow> gives v ''security'' ''mode''" for v
    by (rule ensure_required_iff, simp)+
  show ?thesis
  proof
    assume ?lhs
    then show ?rhs unfolding load_def Let_def
      by (elim bind_res_cases) (auto simp: schema_values_iff required split: if_split_asm)
  next
    assume ?rhs
    then show ?lhs by (auto simp: load_def Let_def bind_res_def not_less schema_values_iff simp flip: required)
  qed
qed

definition sample_raw :: raw_config where
  "sample_raw = \<lparr> raw_tier = 1, raw_availability = ''always'', raw_quorum_participant = None, raw_data_dir = ''/d'',
     raw_scheduler = None, raw_executor = None, raw_storage = Some True, raw_bind_address = None, raw_grpc_port = None,
     raw_rest_port = None, raw_metrics_port = None, raw_mdns = None, raw_seeds = Some [''seed:7947''], raw_mode = ''ca'',
     raw_shared_secret = None, raw_ca_cert_path = None, raw_max_concurrent_jobs = None, raw_docker_socket = None,
     raw_cgroups_enabled = None, raw_output_max_bytes = None, raw_docker = None, raw_java = None, raw_python = None,
     raw_wasm = None, raw_gpu_enabled = None, raw_level = None, raw_format = None \<rparr>"

definition sample_toml :: toml_api where
  "sample_toml = \<lparr> tm_value = (\<lambda>_. Inr (TomlTable [
       (''node'', TomlTable [(''tier'', TomlOther), (''availability'', TomlString ''always''), (''data_dir'', TomlString ''/d'')]),
       (''security'', TomlTable [(''mode'', TomlString ''ca'')])])),
     tm_config = (\<lambda>_. Inr sample_raw) \<rparr>"

definition sample_config_fs :: fs where
  "sample_config_fs = empty_fs\<lparr>fs_files := [(path_key ''/c'', [])]\<rparr>"

lemma sample_load: "load sample_toml ''/c'' sample_config_fs = Inr (config_of_raw sample_raw)"
  by (simp add: load_def sample_toml_def sample_config_fs_def empty_fs_def fs_read_to_string_def fs_read_def file_at_def
      ensure_required_def bind_res_def config_of_raw_def sample_raw_def trim_def is_whitespace_def)

text \<open>The same file with a data directory of blanks.\<close>

definition blank_toml :: toml_api where
  "blank_toml = sample_toml\<lparr>tm_value := (\<lambda>_. Inr (TomlTable [
     (''node'', TomlTable [(''tier'', TomlOther), (''availability'', TomlString ''always''), (''data_dir'', TomlString ''  '')]),
     (''security'', TomlTable [(''mode'', TomlString ''ca'')])]))\<rparr>"

theorem load_validates_witness:
  "load sample_toml ''/c'' sample_config_fs = Inr (config_of_raw sample_raw) \<and> schema_values sample_raw (config_of_raw sample_raw) \<and>
   (\<nexists>cfg. load blank_toml ''/c'' sample_config_fs = Inr cfg)"
proof (intro conjI)
  show "load sample_toml ''/c'' sample_config_fs = Inr (config_of_raw sample_raw)" by (rule sample_load)
  with load_validates [of sample_toml "''/c''" sample_config_fs "config_of_raw sample_raw"]
  show "schema_values sample_raw (config_of_raw sample_raw)" by (auto simp: sample_toml_def)
  show "\<nexists>cfg. load blank_toml ''/c'' sample_config_fs = Inr cfg"
    using load_validates [of blank_toml "''/c''" sample_config_fs] by (auto simp: blank_toml_def gives_def is_whitespace_def)
qed

text \<open>What an obtained identity left on disk, and that this is all a later start needs.\<close>

lemma node_id_left:
  assumes "uuid_text U" "\<And>u. valid_utf8 (str_bytes (uuid_str U u))" "healthy f" "node_id U fresh dd f = (Inr i, g)"
  shows "healthy g \<and> is_dir_key g (path_key dd) \<and> path_exists g (path_join dd ''node-id'') \<and>
    (\<exists>raw. fs_read_to_string (path_join dd ''node-id'') g = Inr raw \<and> uuid_parse U (trim raw) = Some i)"
proof -
  let ?p = "path_join dd ''node-id''"
  obtain f1 where mk: "fs_create_dir_all dd f = (Inr (), f1)"
    using assms(4) by (auto simp: node_id_def op_simps split: prod.split_asm sum.split_asm)
  note f1 = create_dir_healthy [OF mk assms(3)] create_dir_is_dir [OF mk]
  show ?thesis
  proof (cases "path_exists f1 ?p")
    case True
    with assms(4) mk have "g = f1" "\<exists>raw. fs_read_to_string ?p f1 = Inr raw \<and> uuid_parse U (trim raw) = Some i"
      by (auto simp: node_id_def op_simps Let_def split: sum.split_asm option.split_asm)
    with f1 True show ?thesis by simp
  next
    case False
    with assms(4) mk have w: "fs_write ?p (str_bytes (uuid_str U fresh)) f1 = (Inr (), g)" and i: "i = fresh"
      by (auto simp: node_id_def op_simps Let_def split: prod.split_asm sum.split_asm)
    have c: "file_at g ?p = Some (str_bytes (uuid_str U fresh))" using file_at_write [OF w] by simp
    have h: "healthy g" using fs_write_healthy [OF w f1(1)] .
    have "fs_read_to_string ?p g = Inr (uuid_str U fresh)" using h c assms(2) by (rule read_to_string_healthy)
    moreover have "is_dir_key g (path_key dd)" using f1(2) fs_write_dirs [OF w] by (simp add: is_dir_key_def)
    ultimately show ?thesis
      using h i file_at_exists [OF c] uuid_text.uuid_round [OF assms(1)] uuid_text.uuid_trim [OF assms(1)] by simp
  qed
qed

lemma node_id_kept:
  assumes "healthy g" "is_dir_key g (path_key dd)" "path_exists g (path_join dd ''node-id'')"
    "fs_read_to_string (path_join dd ''node-id'') g = Inr raw" "uuid_parse U (trim raw) = Some i"
  shows "node_id U fresh dd g = (Inr i, g)"
  using assms by (simp add: node_id_def op_simps Let_def fs_create_dir_all_def healthy_def)

text \<open>
  The identity of a node is persistent: once a start has obtained an identifier, later starts on the
  same disk obtain the same one, whatever fresh identifier they would have made, and change nothing.
\<close>

theorem node_id_persistent:
  assumes "uuid_text U" "\<And>u. valid_utf8 (str_bytes (uuid_str U u))" "healthy f" "node_id U fresh dd f = (Inr i, g)"
  shows "node_id U fresh' dd g = (Inr i, g)"
  using node_id_left [OF assms] node_id_kept by blast

lemma show_nat_utf8: "valid_utf8 (str_bytes (show_nat n))"
proof (rule valid_utf8_ascii)
  fix b assume "b \<in> set (str_bytes (show_nat n))"
  then obtain d where d: "d < 10" "b = of_char (digit_char d)"
    using show_nat_digits [of n] by (auto simp: str_bytes_def)
  have "unat (of_char (digit_char d) :: u8) = 48 + d"
    using d(1) by (simp add: of_char_u8_nat digit_char_def)
  then show "b < 0x80" using d by (simp add: word_less_nat_alt)
qed

lemma node_id_first: "node_id ref_uuid 7 ''/d'' empty_fs = (Inr 7, snd (node_id ref_uuid 7 ''/d'' empty_fs))"
proof -
  have "path_key ''/d'' = (True, [''d''])" "path_key (path_join ''/d'' ''node-id'') = (True, [''d'', ''node-id''])"
    by (simp_all add: path_key_def is_absolute_def components_def path_join_def)
  then show ?thesis
    by (simp add: node_id_def op_simps Let_def empty_fs_def fs_create_dir_all_def is_dir_key_def list_ex_iff
        path_exists_def file_at_def fs_write_def parent_key_def ancestor_keys_def)
qed

theorem node_id_persistent_witness:
  "node_id ref_uuid 9 ''/d'' (snd (node_id ref_uuid 7 ''/d'' empty_fs)) =
     (Inr 7, snd (node_id ref_uuid 7 ''/d'' empty_fs))"
proof (rule node_id_persistent [OF ref_uuid.uuid_text_axioms _ _ node_id_first])
  show "valid_utf8 (str_bytes (uuid_str ref_uuid u))" for u by (simp add: ref_uuid_def show_nat_utf8)
  show "healthy empty_fs" by (simp add: healthy_def empty_fs_def)
qed

end
