(* ===== verification/Grpc_Server.thy ===== *)
theory Grpc_Server
  imports Job_Properties Store_Isolation Certificates Node_Config
begin

text \<open>
  The remaining gRPC handlers of \<open>agent/src/grpc_server/mod.rs\<close>: enrolment (\<open>join\<close>), and the transfer
  and fetching of shards between storage nodes. What is shown: who is let in, and that an object whose
  shards have all been transferred is read back on the receiving node as it was uploaded.
\<close>

section \<open>Enrolment\<close>

text \<open>
  The state a join works on: the files under the data directory and the view of the cluster. \<open>gen_ca\<close>
  and \<open>gen\<close> are the answers of the key generator, \<open>now\<close> the instant of the heartbeat and \<open>unix_now\<close> the
  clock in seconds.
\<close>

definition join_allowed :: "security_config \<Rightarrow> string \<Rightarrow> grpc_status + unit" where
  "join_allowed sec join_secret =
     (let provided = trim join_secret in
      if provided \<noteq> [] then
        if sec_mode sec \<noteq> ''shared-secret''
        then Inl (GrpcStatus Unauthenticated ''join_secret enrollment is only allowed in dev mode'')
        else let configured = trim (sec_shared_secret sec) in
          if configured = [] \<or> provided \<noteq> configured
          then Inl (GrpcStatus Unauthenticated ''invalid join_secret'') else Inr ()
      else Inr ())"

definition issue_credentials ::
  "uuid_api \<Rightarrow> self_signed \<Rightarrow> self_signed \<Rightarrow> cert_manager \<Rightarrow> uuid \<Rightarrow> (grpc_status, fs, string \<times> string \<times> string) op"
where
  "issue_credentials U gen_ca gen cm nid =
     bind_op (\<lambda>f. let (r, g) = init_ca gen_ca cm f in
       (map_err (\<lambda>e. GrpcStatus GrpcInternal (''Failed to initialize CA: '' @ cert_error_msg e)) r, g)) (\<lambda>_.
     bind_op (\<lambda>f. let (r, g) = generate_node_cert U gen cm nid f in
       (map_err (\<lambda>e. GrpcStatus GrpcInternal (''Failed to generate cert: '' @ cert_error_msg e)) r, g)) (\<lambda>(cert, key) f.
     (bind_res (map_err (\<lambda>e. GrpcStatus GrpcInternal (''Failed to load CA cert: '' @ cert_error_msg e)) (load_ca_pem cm f))
       (\<lambda>ca. Inr (cert, key, ca)), f)))"

definition grpc_join ::
  "uuid_api \<Rightarrow> self_signed \<Rightarrow> self_signed \<Rightarrow> string \<Rightarrow> nat \<Rightarrow> int \<Rightarrow> config \<Rightarrow> join_message
   \<Rightarrow> (grpc_status, fs \<times> membership, join_answer) op"
where
  "grpc_join U gen_ca gen version now unix_now cfg payload st =
     (case uuid_parse U (jm_node_id payload) of
        None \<Rightarrow> (Inl (GrpcStatus InvalidArgument ''invalid node_id in join request''), st)
      | Some nid \<Rightarrow>
          let cm = cert_manager_new (nc_data_dir (cfg_node cfg)); (f, m) = st in
          if \<not> has_ca_key cm f
          then (Inl (GrpcStatus FailedPrecondition ''This node is not a certificate issuer (missing CA key)''), st)
          else case join_allowed (cfg_security cfg) (jm_join_secret payload) of
            Inl e \<Rightarrow> (Inl e, st)
          | Inr _ \<Rightarrow>
              (case issue_credentials U gen_ca gen cm nid f of
                 (Inl e, g) \<Rightarrow> (Inl e, (g, m))
               | (Inr (cert, key, ca), g) \<Rightarrow>
                   (Inr \<lparr> ja_node_cert_pem = cert, ja_node_key_pem = key, ja_ca_cert_pem = ca,
                      ja_expires_at_unix = unix_now + 90 * 24 * 3600 \<rparr>,
                    (g, join_cluster version now nid (jm_tier payload) (jm_grpc_endpoint payload)
                       (jm_rest_endpoint payload) m))))"

section \<open>Shards\<close>

definition transfer_chunk ::
  "'d storage_env \<Rightarrow> string \<times> string \<Rightarrow> config \<Rightarrow> transfer_message \<Rightarrow> 'd disk \<Rightarrow> transfer_answer \<times> 'd disk"
where
  "transfer_chunk E now cfg payload s =
     (if \<not> rc_storage (cfg_roles cfg)
      then (\<lparr> ta_accepted = False, ta_error = ''This node does not have the storage role'' \<rparr>, s)
      else let data_dir = nc_data_dir (cfg_node cfg); bucket = tm_bucket payload; key = tm_key payload;
               dir = chunks_dir data_dir bucket; (now1, now2) = now in
        case fs_create_dir_all dir (d_fs s) of
          (Inl e, f) \<Rightarrow> (\<lparr> ta_accepted = False, ta_error = ''Cannot create chunk dir: '' @ io_msg e \<rparr>, s\<lparr>d_fs := f\<rparr>)
        | (Inr _, f) \<Rightarrow>
            let spath = path_join dir (chunk_id (replica_object_id bucket key) (unat (tm_shard_index payload))) in
            case fs_write spath (tm_data payload) f of
              (Inl e, f) \<Rightarrow> (\<lparr> ta_accepted = False, ta_error = ''Write failed: '' @ io_msg e \<rparr>, s\<lparr>d_fs := f\<rparr>)
            | (Inr _, f) \<Rightarrow>
                let f = snd (fs_write (spath @ ''.meta'') (str_bytes (shard_meta_text (unat (tm_shard_index payload))
                          (tm_hash payload) (unat (tm_object_size payload)))) f);
                    s = snd (index_create_bucket E data_dir bucket (s\<lparr>d_fs := f\<rparr>));
                    s = snd (index_put_object E now1 now2 data_dir bucket key (tm_etag payload)
                          (unat (tm_object_size payload)) (policy_from_str (tm_policy payload)) s)
                in (\<lparr> ta_accepted = True, ta_error = [] \<rparr>, s))"

definition fetch_chunk :: "blob_codec \<Rightarrow> config \<Rightarrow> fetch_message \<Rightarrow> fs \<Rightarrow> grpc_status + fetch_answer" where
  "fetch_chunk B cfg payload f =
     (let dir = chunks_dir (nc_data_dir (cfg_node cfg)) (fm_bucket payload);
          spath = path_join dir (chunk_id (replica_object_id (fm_bucket payload) (fm_key payload))
            (unat (fm_shard_index payload))) in
      if \<not> path_exists f spath then Inr \<lparr> fa_data = [], fa_hash = [], fa_found = False \<rparr>
      else case fs_read spath f of
          Inr data \<Rightarrow> Inr \<lparr> fa_data = data, fa_hash = sha_hex B data, fa_found = True \<rparr>
        | Inl e \<Rightarrow> Inl (GrpcStatus GrpcInternal (''Failed to read shard: '' @ io_msg e)))"

text \<open>The message the uploading node sends for one shard, and a peer that receives several.\<close>

definition shard_message ::
  "string \<Rightarrow> string \<Rightarrow> object_metadata \<Rightarrow> nat \<times> string \<times> bytes \<Rightarrow> transfer_message"
where
  "shard_message bucket key meta shard = (case shard of (idx, hash, data) \<Rightarrow>
     \<lparr> tm_bucket = bucket, tm_key = key, tm_shard_index = word_of_nat idx, tm_data = data, tm_hash = hash,
       tm_policy = om_policy meta, tm_object_size = size_bytes meta, tm_etag = etag meta \<rparr>)"

fun receive_chunks ::
  "'d storage_env \<Rightarrow> (nat \<Rightarrow> string \<times> string) \<Rightarrow> config \<Rightarrow> nat \<Rightarrow> transfer_message list \<Rightarrow> 'd disk
   \<Rightarrow> transfer_answer list \<times> 'd disk"
where
  "receive_chunks E clock cfg n [] s = ([], s)"
| "receive_chunks E clock cfg n (m # ms) s =
     (let (r, s1) = transfer_chunk E (clock n) cfg m s; (rs, s2) = receive_chunks E clock cfg (Suc n) ms s1
      in (r # rs, s2))"

section \<open>Receiving an object\<close>

lemma can_store_kept:
  assumes "can_store f dir oid" "fs_fault g = fs_fault f" "fs_create_dir_all dir f = (Inr (), f1)" "fs_dirs g = fs_dirs f1"
    "CHR ''/'' \<notin> set oid" "dir \<noteq> []"
  shows "can_store g dir oid"
proof -
  have "is_dir_key g k = is_dir_key f1 k" for k using assms(4) by (simp add: is_dir_key_def)
  moreover obtain f2 where "fs_create_dir_all dir f = (Inr (), f2)" "healthy f2" "is_dir_key f2 (path_key dir)"
    "\<And>j. \<not> is_dir_key f2 (path_key (shard_path dir oid j))"
    "\<And>j. \<not> is_dir_key f2 (path_key (shard_path dir oid j @ ''.meta''))"
    by (rule can_store_dir [OF assms(1,5,6)]) blast
  moreover have "healthy g" using assms(1,2) by (simp add: can_store_def healthy_def)
  ultimately show ?thesis
    using assms(3) by (simp add: can_store_def fs_create_dir_all_def healthy_def)
qed

text \<open>What the handler does on disk: the directory, the shard, its sidecar file.\<close>

lemma shard_stored:
  assumes "can_store f dir oid" "CHR ''/'' \<notin> set oid" "dir \<noteq> []"
  obtains f1 f2 f3 where "fs_create_dir_all dir f = (Inr (), f1)" "fs_write (shard_path dir oid i) d f1 = (Inr (), f2)"
    "fs_write (shard_path dir oid i @ ''.meta'') mt f2 = (Inr (), f3)" "can_store f3 dir oid"
    "\<forall>j. file_at f3 (shard_path dir oid j) = (if j = i then Some d else file_at f (shard_path dir oid j))"
proof -
  note ns = assms(2) and dn = assms(3)
  let ?sp = "shard_path dir oid"
  obtain f1 where f1: "fs_create_dir_all dir f = (Inr (), f1)" "healthy f1" "is_dir_key f1 (path_key dir)"
    "\<And>j. \<not> is_dir_key f1 (path_key (?sp j))" "\<And>j. \<not> is_dir_key f1 (path_key (?sp j @ ''.meta''))"
    by (rule can_store_dir [OF assms]) blast
  have parent: "parent_key (path_key (?sp j)) = path_key dir" "parent_key (path_key (?sp j @ ''.meta'')) = path_key dir" for j
    using ns dn by (simp_all add: parent_key_def shard_key shard_meta_key) (simp_all add: path_key_def)
  obtain f2 where f2: "fs_write (?sp i) d f1 = (Inr (), f2)"
    using fs_write_into [OF f1(2) f1(4)] parent f1(3) by metis
  have "healthy f2" using fs_write_healthy [OF f2 f1(2)] .
  moreover have "is_dir_key f2 x = is_dir_key f1 x" for x using fs_write_dirs [OF f2] by (simp add: is_dir_key_def)
  ultimately obtain f3 where f3: "fs_write (?sp i @ ''.meta'') mt f2 = (Inr (), f3)"
    using fs_write_into [of f2 "?sp i @ ''.meta''"] parent f1(3,5) by metis
  have "can_store f3 dir oid"
    by (rule can_store_kept [OF assms(1) _ f1(1) _ ns dn])
      (use fs_write_dirs [OF f2] fs_write_dirs [OF f3] fs_write_fault [OF f2] fs_write_fault [OF f3]
         create_dir_fault [OF f1(1)] in simp_all)
  moreover have "file_at f3 (?sp j) = (if j = i then Some d else file_at f (?sp j))" for j
  proof -
    have "path_key (?sp j) \<noteq> path_key (?sp i @ ''.meta'')"
      unfolding shard_key [OF ns dn] shard_meta_key [OF ns dn] using chunk_id_not_meta by simp
    moreover have "path_key (?sp j) = path_key (?sp i) \<longleftrightarrow> j = i"
      using ns dn by (simp add: shard_key)
    ultimately show ?thesis
      using file_at_write [OF f2, of "?sp j"] file_at_write [OF f3, of "?sp j"] create_dir_file_at [OF f1(1)] by simp
  qed
  ultimately show ?thesis using that f1(1) f2 f3 by blast
qed

context storage_api begin

lemma create_bucket_ready:
  assumes "index_ready sound s dd"
  obtains s' where "index_create_bucket E dd b s = (Inr (), s')" "index_ready sound s' dd" "d_fs s' = d_fs s"
    "index_trees trees s' dd = sled_effect (OpenTree (bucket_tree b)) (index_trees trees s dd)"
proof -
  obtain s' where "db_do E SledErr (path_key (db_path dd)) (OpenTree (bucket_tree b)) s = (Inr (), s')"
    "index_ready sound s' dd" "d_fs s' = d_fs s"
    "index_trees trees s' dd = sled_effect (OpenTree (bucket_tree b)) (index_trees trees s dd)"
    by (rule db_do_ready [OF assms])
  then show ?thesis using that by (simp add: index_create_bucket_def bind_op_def get_db_ready [OF assms])
qed

text \<open>One shard: accepted, written under its name, and the metadata of the message is in the index.\<close>

lemma transfer_ok:
  fixes payload :: transfer_message and cfg :: config
  defines "dd \<equiv> nc_data_dir (cfg_node cfg)" and "b \<equiv> tm_bucket payload" and "k \<equiv> tm_key payload"
  defines "sp \<equiv> shard_path (chunks_dir dd b) (object_id b k)"
  assumes "index_ready sound s dd" "dd \<noteq> []" "rc_storage (cfg_roles cfg)" "CHR ''/'' \<notin> set b"
    "can_store (d_fs s) (chunks_dir dd b) (object_id b k)"
  obtains s' md where "transfer_chunk E now cfg payload s = (\<lparr> ta_accepted = True, ta_error = [] \<rparr>, s')"
    "index_ready sound s' dd" "can_store (d_fs s') (chunks_dir dd b) (object_id b k)"
    "\<forall>j. file_at (d_fs s') (sp j) =
       (if j = unat (tm_shard_index payload) then Some (tm_data payload) else file_at (d_fs s) (sp j))"
    "stored_md E (index_trees trees s' dd) b k = Inr md"
    "om_policy md = policy_display (policy_from_str (tm_policy payload))" "etag md = tm_etag payload"
proof -
  let ?i = "unat (tm_shard_index payload)"
  obtain n1 n2 where now: "now = (n1, n2)" by fastforce
  let ?dir = "chunks_dir dd b" and ?oid = "object_id b k"
  have oid: "replica_object_id b k = ?oid" by (rule replica_object_id_plain [OF assms(8)])
  let ?mt = "str_bytes (shard_meta_text ?i (tm_hash payload) (unat (tm_object_size payload)))"
  obtain f1 f2 f3 where f: "fs_create_dir_all ?dir (d_fs s) = (Inr (), f1)" "fs_write (sp ?i) (tm_data payload) f1 = (Inr (), f2)"
    "fs_write (sp ?i @ ''.meta'') ?mt f2 = (Inr (), f3)" "can_store f3 ?dir ?oid"
    "\<forall>j. file_at f3 (sp j) = (if j = ?i then Some (tm_data payload) else file_at (d_fs s) (sp j))"
    unfolding sp_def by (rule shard_stored [OF assms(9) object_id_no_slash chunks_dir_nonempty [OF assms(6)]])
  obtain s1 where s1: "index_create_bucket E dd b (s\<lparr>d_fs := f3\<rparr>) = (Inr (), s1)" "index_ready sound s1 dd" "d_fs s1 = f3"
    using create_bucket_ready [of "s\<lparr>d_fs := f3\<rparr>" dd b] assms(5) by auto
  let ?md = "\<lparr> om_bucket = b, om_key = k, size_bytes = word_of_nat (unat (tm_object_size payload)), om_created_at = n1,
      modified_at = n2, etag = tm_etag payload, om_policy = policy_display (policy_from_str (tm_policy payload)),
      om_replicas = replicas (policy_from_str (tm_policy payload)) \<rparr>"
  obtain s2 where s2: "index_put_object E n1 n2 dd b k (tm_etag payload) (unat (tm_object_size payload))
      (policy_from_str (tm_policy payload)) s1 = (Inr (), s2)" "index_ready sound s2 dd" "d_fs s2 = d_fs s1"
    "index_trees trees s2 dd = sled_effect (Insert (bucket_tree b) (str_bytes k) (js.json ?md))
         (sled_effect (OpenTree (bucket_tree b)) (index_trees trees s1 dd))"
    by (rule put_ready [OF s1(2) refl])
  have run: "transfer_chunk E now cfg payload s = (\<lparr> ta_accepted = True, ta_error = [] \<rparr>, s2)"
    using assms(7) f(1-3) s1(1) s2(1) oid
    by (simp add: transfer_chunk_def now Let_def sp_def shard_path_def
        flip: dd_def b_def k_def)
  have "stored_md E (index_trees trees s2 dd) b k = Inr ?md" by (simp add: s2(4) stored_md_insert)
  then show ?thesis using that [OF run s2(2)] f(4,5) s2(3) s1(3) by simp
qed

text \<open>A list of shards with different numbers, in any order.\<close>

lemma receive_ok:
  fixes cfg :: config
  defines "dd \<equiv> nc_data_dir (cfg_node cfg)"
  assumes "index_ready sound s dd" "dd \<noteq> []" "rc_storage (cfg_roles cfg)" "CHR ''/'' \<notin> set b"
    "can_store (d_fs s) (chunks_dir dd b) (object_id b k)"
    "distinct (List.map fst xs)" "list_all (\<lambda>x. fst x < 2 ^ 32) xs"
  shows "\<exists>rs s'. receive_chunks E clock cfg n (List.map (shard_message b k meta) xs) s = (rs, s') \<and>
    list_all ta_accepted rs \<and> index_ready sound s' dd \<and> can_store (d_fs s') (chunks_dir dd b) (object_id b k) \<and>
    (\<forall>j. file_at (d_fs s') (shard_path (chunks_dir dd b) (object_id b k) j) =
       (case map_of xs j of Some (h, d) \<Rightarrow> Some d | None \<Rightarrow> file_at (d_fs s) (shard_path (chunks_dir dd b) (object_id b k) j))) \<and>
    (xs \<noteq> [] \<longrightarrow> (\<exists>md. stored_md E (index_trees trees s' dd) b k = Inr md \<and>
       om_policy md = policy_display (policy_from_str (om_policy meta)) \<and> etag md = etag meta))"
  using assms(2-)
proof (induction xs arbitrary: n s)
  case Nil
  then show ?case by simp
next
  case (Cons x xs)
  obtain i h d where x: "x = (i, h, d)" by (rule prod_cases3)
  let ?m = "shard_message b k meta x" and ?sp = "shard_path (chunks_dir dd b) (object_id b k)"
  have m: "tm_bucket ?m = b" "tm_key ?m = k" "tm_data ?m = d" "unat (tm_shard_index ?m) = i" "tm_policy ?m = om_policy meta"
    "tm_etag ?m = etag meta"
    using Cons.prems(7) x by (simp_all add: shard_message_def unsigned_of_nat take_bit_eq_mod)
  obtain s1 md where t: "transfer_chunk E (clock n) cfg ?m s = (\<lparr> ta_accepted = True, ta_error = [] \<rparr>, s1)"
    and s1: "index_ready sound s1 dd" "can_store (d_fs s1) (chunks_dir dd b) (object_id b k)"
    and files: "\<forall>j. file_at (d_fs s1) (?sp j) = (if j = i then Some d else file_at (d_fs s) (?sp j))"
    and md: "stored_md E (index_trees trees s1 dd) b k = Inr md"
      "om_policy md = policy_display (policy_from_str (om_policy meta))" "etag md = etag meta"
    using transfer_ok [of s cfg ?m "clock n", folded dd_def, unfolded m] Cons.prems by blast
  have "distinct (List.map fst xs)" "list_all (\<lambda>x. fst x < 2 ^ 32) xs" using Cons.prems(6,7) by simp_all
  from Cons.IH [OF s1(1) Cons.prems(2-4) s1(2) this, of "Suc n"]
  obtain rs s' where r: "receive_chunks E clock cfg (Suc n) (List.map (shard_message b k meta) xs) s1 = (rs, s')"
    "list_all ta_accepted rs" "index_ready sound s' dd" "can_store (d_fs s') (chunks_dir dd b) (object_id b k)"
    "\<forall>j. file_at (d_fs s') (?sp j) = (case map_of xs j of Some (h, d) \<Rightarrow> Some d | None \<Rightarrow> file_at (d_fs s1) (?sp j))"
    and rmd: "xs \<noteq> [] \<longrightarrow> (\<exists>md. stored_md E (index_trees trees s' dd) b k = Inr md \<and>
       om_policy md = policy_display (policy_from_str (om_policy meta)) \<and> etag md = etag meta)"
    by blast
  have "file_at (d_fs s') (?sp j) = (case map_of (x # xs) j of Some (h, d) \<Rightarrow> Some d | None \<Rightarrow> file_at (d_fs s) (?sp j))" for j
  proof (cases "j = i")
    case True
    with Cons.prems(6) x have "map_of xs j = None" by (simp add: hget_None_iff)
    with True x r(5) files show ?thesis by simp
  next
    case False
    with x r(5) files show ?thesis by (simp split: option.split)
  qed
  moreover have "\<exists>md. stored_md E (index_trees trees s' dd) b k = Inr md \<and>
       om_policy md = policy_display (policy_from_str (om_policy meta)) \<and> etag md = etag meta"
    using rmd r(1) md by (cases xs) auto
  ultimately show ?case using t r by simp
qed

end

lemma receive_length: "length (fst (receive_chunks E clock cfg n ms u)) = length ms"
  by (induction ms arbitrary: n u) (auto simp: split_beta Let_def)

text \<open>A node whose index and disk have an object's metadata and all its shards serves the object.\<close>

lemma shards_serve:
  assumes "storage_api E trees sound" "index_ready sound t dd" "can_store (d_fs t) (chunks_dir dd b) (object_id b k)"
    and "stored_md E (index_trees trees t dd) b k = Inr m" "om_policy m = policy_display p" "etag m = sha_hex (se_blob E) data"
    and "compress (se_blob E) data (zstd_level p) = Inr c" "length c < 2 ^ 64 - 8"
    and "encode_erasure c (fst (data_parity p)) (snd (data_parity p)) = Inr sh"
    and "\<And>i. i < length sh \<Longrightarrow> file_at (d_fs t) (shard_path (chunks_dir dd b) (object_id b k) i) = Some (sh ! i)"
  shows "fst (get_object E dd b k t) = Inr data"
proof -
  have "length sh = fst (data_parity p) + snd (data_parity p)" by (rule erasure.encode_length [OF assms(9)])
  then have disk: "shards_on_disk (d_fs t) (chunks_dir dd b) (object_id b k) sh (fst (data_parity p)) (snd (data_parity p))"
    using assms(3,10) by (simp add: shards_on_disk_def can_store_def)
  have "healthy (d_fs t)" using assms(3) by (simp add: can_store_def)
  then have "read_object (se_blob E) (d_fs t) dd b k m = Inr data"
    using assms(1,5-9) disk
    by (intro zstd_api.read_object_ok [where c = c]) (auto simp: storage_api_def erasure_fits_def)
  then show ?thesis
    using storage_api.get_chunks_value [OF assms(1,2)] assms(4) by (simp add: store_defs bind_res_def)
qed

lemma total_shards_small: "total_shards (policy_display p) < 2 ^ 32"
  by (cases p) (simp_all add: total_shards_def)

lemma join_allowed_iff:
  "is_ok (join_allowed sec secret) \<longleftrightarrow> trim secret = [] \<or>
     sec_mode sec = ''shared-secret'' \<and> trim (sec_shared_secret sec) = trim secret"
  by (auto simp: join_allowed_def Let_def)

section \<open>Properties\<close>

text \<open>
  C5. Replication, end to end, for a bucket whose name has no slash. After an upload on a node with a healthy disk, the
  shards \<open>read_shards\<close> finds are sent, as the upload handler sends them, to another storage node with an open
  index and room on its disk. That node accepts every one, and a download from it then returns exactly the
  uploaded data: its index has the policy and digest, its disk the shards, under the names its own download
  looks for. (With a slash in the bucket's name no shard is found: \<open>slash_bucket_not_replicated\<close>.)
\<close>

theorem replicated_object_readable:
  assumes "storage_api E trees sound" "index_ready sound s dd" "dd \<noteq> []"
    and "put_object E (n1, n2, n3, n4) dd b k data p s = (Inr md, s')"
    and "healthy (d_fs s)" "CHR ''/'' \<notin> set b"
    and "compress (se_blob E) data (zstd_level p) = Inr c" "length c < 2 ^ 64 - 8"
    and "index_ready sound t (nc_data_dir (cfg_node cfg))" "nc_data_dir (cfg_node cfg) \<noteq> []"
    and "rc_storage (cfg_roles cfg)"
    and "can_store (d_fs t) (chunks_dir (nc_data_dir (cfg_node cfg)) b) (object_id b k)"
    and "fst (read_shards E dd b k s') = Inr shards"
    and "receive_chunks E clock cfg 0 (List.map (shard_message b k md) shards) t = (answers, t')"
  shows "list_all ta_accepted answers \<and> length answers = total_shards (policy_display p) \<and>
    fst (get_object E (nc_data_dir (cfg_node cfg)) b k t') = Inr data"
proof -
  note api = assms(1)
  let ?dd = "nc_data_dir (cfg_node cfg)" and ?d = "fst (data_parity p)" and ?m = "snd (data_parity p)"
  obtain sh where sh: "fst (read_shards E dd b k s') =
      Inr (List.map (\<lambda>i. (i, sha_hex (se_blob E) (sh ! i), sh ! i)) [0..<total_shards (policy_display p)])"
    "length sh = total_shards (policy_display p)" "encode_erasure c ?d ?m = Inr sh"
    using read_shards_after_put [OF assms(1-8)] by blast
  have shards: "shards = List.map (\<lambda>i. (i, sha_hex (se_blob E) (sh ! i), sh ! i)) [0..<length sh]"
    using sh(1,2) assms(13) by simp
  have md: "om_policy md = policy_display p" "etag md = sha_hex (se_blob E) data"
    using put_chunksD [OF assms(4) [unfolded store_defs]] by (metis object_metadata.select_convs(6,7))+
  have "distinct (List.map fst shards)" "list_all (\<lambda>x. fst x < 2 ^ 32) shards"
    using total_shards_small [of p] sh(2) by (auto simp: shards comp_def list_all_iff)
  from storage_api.receive_ok [OF api assms(9,10,11,6,12) this, of clock 0 md] assms(14)
  have t': "list_all ta_accepted answers" "index_ready sound t' ?dd" "can_store (d_fs t') (chunks_dir ?dd b) (object_id b k)"
    and files: "\<forall>j. file_at (d_fs t') (shard_path (chunks_dir ?dd b) (object_id b k) j) =
       (case map_of shards j of Some (h, d) \<Rightarrow> Some d | None \<Rightarrow> file_at (d_fs t) (shard_path (chunks_dir ?dd b) (object_id b k) j))"
    and idx: "shards \<noteq> [] \<longrightarrow> (\<exists>m. stored_md E (index_trees trees t' ?dd) b k = Inr m \<and>
       om_policy m = policy_display (policy_from_str (om_policy md)) \<and> etag m = etag md)"
    by auto
  have len: "length sh = ?d + ?m" by (rule erasure.encode_length [OF sh(3)])
  then have "shards \<noteq> []" using data_parity_pos [of p] by (simp add: shards)
  with idx md obtain m where m: "stored_md E (index_trees trees t' ?dd) b k = Inr m" "om_policy m = policy_display p"
    "etag m = sha_hex (se_blob E) data" by auto
  have "map_of shards i = Some (sha_hex (se_blob E) (sh ! i), sh ! i)" if "i < length sh" for i
    using that by (simp add: shards map_of_map_restrict)
  with files have "file_at (d_fs t') (shard_path (chunks_dir ?dd b) (object_id b k) i) = Some (sh ! i)" if "i < length sh" for i
    using that by simp
  then have "fst (get_object E ?dd b k t') = Inr data"
    using shards_serve [OF api t'(2,3) m assms(7,8) sh(3)] by blast
  moreover have "length answers = length shards"
    using receive_length [of E clock cfg 0 "List.map (shard_message b k md) shards" t] assms(14) by simp
  ultimately show ?thesis using t'(1) sh(2) by (simp add: shards)
qed

text \<open>A storage node whose data directory is \<open>/data\<close>.\<close>

definition storage_config :: config where
  "storage_config = config_of_raw (sample_raw\<lparr>raw_data_dir := ''/data''\<rparr>)"

lemma storage_config_simps [simp]:
  "nc_data_dir (cfg_node storage_config) = ''/data''" "rc_storage (cfg_roles storage_config)"
  "cfg_security storage_config = \<lparr> sec_mode = ''ca'', sec_shared_secret = [], sec_ca_cert_path = [] \<rparr>"
  by (simp_all add: storage_config_def config_of_raw_def sample_raw_def or_default_def)

theorem replicated_object_readable_witness:
  "\<exists>shards answers t'. fst (read_shards ref_env ''/data'' ''b'' ''k'' (snd (ref_put ''b'' ''k'' [1, 2, 3] Warm ref_disk))) = Inr shards \<and>
     receive_chunks ref_env (\<lambda>_. (''t'', ''t'')) storage_config 0
       (List.map (shard_message ''b'' ''k'' (projr (fst (ref_put ''b'' ''k'' [1, 2, 3] Warm ref_disk)))) shards) ref_disk = (answers, t') \<and>
     length answers = 6 \<and> fst (get_object ref_env ''/data'' ''b'' ''k'' t') = Inr [1, 2, 3]"
proof -
  let ?s' = "snd (ref_put ''b'' ''k'' [1, 2, 3] Warm ref_disk)" and ?md = "projr (fst (ref_put ''b'' ''k'' [1, 2, 3] Warm ref_disk))"
  have h: "healthy (d_fs ref_disk)" by (simp add: ref_disk_def healthy_def empty_fs_def)
  obtain shards where r: "fst (read_shards ref_env ''/data'' ''b'' ''k'' ?s') = Inr shards"
    using read_shards_after_put [where b = "''b''" and k = "''k''" and data = "[1, 2, 3]" and p = Warm,
      OF ref_store.storage_api_axioms ref_disk_ready _ ref_put_ok h _ ref_compress] by auto
  obtain answers t' where c: "receive_chunks ref_env (\<lambda>_. (''t'', ''t'')) storage_config 0
      (List.map (shard_message ''b'' ''k'' ?md) shards) ref_disk = (answers, t')" by fastforce
  have "list_all ta_accepted answers \<and> length answers = total_shards (policy_display Warm) \<and>
      fst (get_object ref_env (nc_data_dir (cfg_node storage_config)) ''b'' ''k'' t') = Inr [1, 2, 3]"
    by (rule replicated_object_readable [OF ref_store.storage_api_axioms ref_disk_ready _ ref_put_ok h _ ref_compress _ _ _ _ _ r c])
      (simp_all add: object_id_no_slash)
  then show ?thesis using r c by (auto simp: total_shards_def)
qed

text \<open>
  Who may join. A join is granted only by a node that holds a CA key, only to a well-formed node
  id, and only without a join secret or, in mode \<open>shared-secret\<close>, with exactly the configured one. A join
  that is refused leaves the view of the cluster as it was.
\<close>

theorem join_gate:
  assumes "grpc_join U gen_ca gen version now unix cfg payload (f, m) = (r, (f', m'))"
  shows "(is_ok r \<longrightarrow> has_ca_key (cert_manager_new (nc_data_dir (cfg_node cfg))) f \<and>
      (\<exists>nid. uuid_parse U (jm_node_id payload) = Some nid \<and>
        m' = join_cluster version now nid (jm_tier payload) (jm_grpc_endpoint payload) (jm_rest_endpoint payload) m) \<and>
      (trim (jm_join_secret payload) = [] \<or> sec_mode (cfg_security cfg) = ''shared-secret'' \<and>
        trim (sec_shared_secret (cfg_security cfg)) = trim (jm_join_secret payload))) \<and>
    (\<not> is_ok r \<longrightarrow> m' = m)"
proof -
  have "is_ok (join_allowed (cfg_security cfg) (jm_join_secret payload)) \<longrightarrow>
      trim (jm_join_secret payload) = [] \<or> sec_mode (cfg_security cfg) = ''shared-secret'' \<and>
        trim (sec_shared_secret (cfg_security cfg)) = trim (jm_join_secret payload)"
    using join_allowed_iff by blast
  then show ?thesis
    using assms by (auto simp: grpc_join_def Let_def split: option.split_asm if_split_asm sum.split_asm prod.split_asm)
qed

text \<open>A join that is let in, at an issuer whose certificate directory is in order.\<close>

lemma join_granted:
  fixes cfg :: config
  defines "cm \<equiv> cert_manager_new (nc_data_dir (cfg_node cfg))"
  assumes "uuid_parse U (jm_node_id payload) = Some nid" "join_allowed (cfg_security cfg) (jm_join_secret payload) = Inr ()"
    and "healthy f" "is_dir_key f (path_key (cm_certs_dir cm))" "path_exists f (cert_path cm ''ca.key'')"
    and "file_at f (cert_path cm ''ca.crt'') = Some (str_bytes pem)" "valid_utf8 (str_bytes pem)"
    and "gen [uuid_str U nid] = Inr (cert, key)"
  shows "grpc_join U gen_ca gen version now unix cfg payload (f, m) =
      (Inr \<lparr> ja_node_cert_pem = cert, ja_node_key_pem = key, ja_ca_cert_pem = pem,
         ja_expires_at_unix = unix + 90 * 24 * 3600 \<rparr>,
       (f, join_cluster version now nid (jm_tier payload) (jm_grpc_endpoint payload) (jm_rest_endpoint payload) m))"
proof -
  have mk: "ensure_dirs cm f = (Inr (), f)"
    using assms(4,5) by (simp add: ensure_dirs_def cert_io_def fs_create_dir_all_def healthy_def)
  have "init_ca gen_ca cm f = (Inr (), f)"
    using assms(6,7) mk by (simp add: init_ca_def bind_op_def Let_def file_at_exists)
  moreover have "generate_node_cert U gen cm nid f = (Inr (cert, key), f)"
    using assms(9) mk by (simp add: generate_node_cert_def op_simps)
  moreover have "load_ca_pem cm f = Inr pem"
    using read_to_string_healthy [OF assms(4,7,8)] by (simp add: load_ca_pem_def)
  ultimately have "issue_credentials U gen_ca gen cm nid f = (Inr (cert, key, pem), f)"
    by (simp add: issue_credentials_def op_simps)
  then show ?thesis
    using assms(2,3,6) by (simp add: grpc_join_def Let_def has_ca_key_def flip: cm_def)
qed

text \<open>
  The secret is optional. Whatever the security mode and the configured secret are, and whoever is
  on the revocation list, an issuer whose certificate directory is in order grants a join that brings
  no secret: the caller gets a key pair and the CA certificate and is online in the view at once.
\<close>

theorem join_without_secret:
  fixes cfg :: config
  defines "cm \<equiv> cert_manager_new (nc_data_dir (cfg_node cfg))"
  assumes "uuid_parse U (jm_node_id payload) = Some nid" "trim (jm_join_secret payload) = []"
    and "healthy f" "is_dir_key f (path_key (cm_certs_dir cm))" "path_exists f (cert_path cm ''ca.key'')"
    and "file_at f (cert_path cm ''ca.crt'') = Some (str_bytes pem)" "valid_utf8 (str_bytes pem)"
    and "gen [uuid_str U nid] = Inr (cert, key)"
  shows "\<exists>m'. grpc_join U gen_ca gen version now unix cfg payload (f, m) =
      (Inr \<lparr> ja_node_cert_pem = cert, ja_node_key_pem = key, ja_ca_cert_pem = pem,
         ja_expires_at_unix = unix + 90 * 24 * 3600 \<rparr>, (f, m')) \<and>
    map_option ni_status (hget (cs_nodes (ms_cluster m')) nid) = Some Online"
proof -
  have "join_allowed (cfg_security cfg) (jm_join_secret payload) = Inr ()"
    using assms(3) by (simp add: join_allowed_def)
  from join_granted [where gen = gen and cfg = cfg, OF assms(2) this assms(4-9) [unfolded cm_def]] show ?thesis
    by (simp add: join_cluster_def Let_def bare_node_def)
qed

definition sample_join :: join_message where
  "sample_join = \<lparr> jm_node_id = ''5'', jm_csr_pem = [], jm_join_secret = [], jm_tier = 1,
     jm_grpc_endpoint = ''h:1'', jm_rest_endpoint = ''h:2'' \<rparr>"

text \<open>An issuer in mode \<open>shared-secret\<close>.\<close>

definition issuer_config :: config where
  "issuer_config = config_of_raw (sample_raw\<lparr>raw_mode := ''shared-secret'', raw_shared_secret := Some ''s3cret''\<rparr>)"

definition issuer_fs :: fs where
  "issuer_fs = certs_fs [((True, [''d'', ''certs'', ''ca.crt'']), str_bytes ''pem''), ((True, [''d'', ''certs'', ''ca.key'']), [])]"

lemma issuer_simps:
  "nc_data_dir (cfg_node issuer_config) = ''/d''"
  "cfg_security issuer_config = \<lparr> sec_mode = ''shared-secret'', sec_shared_secret = ''s3cret'', sec_ca_cert_path = [] \<rparr>"
  by (simp_all add: issuer_config_def config_of_raw_def sample_raw_def or_default_def)

lemma issuer_fs_simps:
  "healthy issuer_fs" "is_dir_key issuer_fs (path_key (cm_certs_dir (cert_manager_new ''/d'')))"
  "path_exists issuer_fs (cert_path (cert_manager_new ''/d'') ''ca.key'')"
  "file_at issuer_fs (cert_path (cert_manager_new ''/d'') ''ca.crt'') = Some (str_bytes ''pem'')"
  by (simp_all add: issuer_fs_def certs_fs_simps healthy_def certs_keys file_at_def)
    (simp_all add: certs_fs_def is_dir_key_def ancestor_keys_def empty_fs_def)

lemma ascii_pem: "valid_utf8 (str_bytes ''pem'')"
  by (rule valid_utf8_ascii) (auto simp: str_bytes_def)

lemma sample_join_id: "uuid_parse ref_uuid (jm_node_id sample_join) = Some 5"
  by (simp add: sample_join_def ref_uuid_def parse_uint_def char_digit_def)

theorem join_without_secret_witness:
  "\<exists>m'. grpc_join ref_uuid (\<lambda>_. Inl []) (\<lambda>_. Inr (''c'', ''k'')) ''0.1.0'' 7 1000 issuer_config sample_join (issuer_fs, sample_view [1, 2]) =
      (Inr \<lparr> ja_node_cert_pem = ''c'', ja_node_key_pem = ''k'', ja_ca_cert_pem = ''pem'',
         ja_expires_at_unix = 1000 + 90 * 24 * 3600 \<rparr>, (issuer_fs, m')) \<and>
    map_option ni_status (hget (cs_nodes (ms_cluster m')) 5) = Some Online"
  by (rule join_without_secret [OF sample_join_id])
    (simp_all add: issuer_simps issuer_fs_simps ascii_pem, simp add: sample_join_def trim_def)

theorem join_gate_witness:
  "\<exists>e. grpc_join ref_uuid (\<lambda>_. Inl []) (\<lambda>_. Inr (''c'', ''k'')) ''0.1.0'' 7 1000 issuer_config
      (sample_join\<lparr>jm_join_secret := ''guess''\<rparr>) (issuer_fs, sample_view [1, 2]) = (Inl e, (issuer_fs, sample_view [1, 2]))"
proof -
  let ?p = "sample_join\<lparr>jm_join_secret := ''guess''\<rparr>"
  obtain r f' m' where run: "grpc_join ref_uuid (\<lambda>_. Inl []) (\<lambda>_. Inr (''c'', ''k'')) ''0.1.0'' 7 1000 issuer_config
      ?p (issuer_fs, sample_view [1, 2]) = (r, (f', m'))" by (rule prod_cases3)
  have "trim ''guess'' = ''guess''" "trim ''s3cret'' = ''s3cret''" by (simp_all add: trim_def is_whitespace_def)
  then have "\<not> is_ok r" using join_gate [OF run] by (auto simp: issuer_simps)
  moreover from this have "m' = sample_view [1, 2]" using join_gate [OF run] by blast
  moreover have "f' = issuer_fs"
    using run \<open>trim ''guess'' = ''guess''\<close> \<open>trim ''s3cret'' = ''s3cret''\<close> sample_join_id
    by (simp add: grpc_join_def Let_def join_allowed_def issuer_simps split: option.split_asm if_split_asm)
  ultimately show ?thesis using run by (cases r) auto
qed

end
