(* ===== verification/Raft_Node.thy ===== *)
theory Raft_Node
  imports Raft_Log Grpc_Client
begin

text \<open>
  The consensus node around its storage: \<open>agent/src/raft/mod.rs\<close> (start and bootstrap), the network that
  carries its messages (\<open>agent/src/raft/network.rs\<close>) and the service that receives them
  (\<open>agent/src/grpc_server/raft_service.rs\<close>). The engine, \<open>openraft\<close>, is a parameter. What is shown: the
  transport is transparent, and what cluster a fresh participant bootstraps.
\<close>

section \<open>The engine\<close>

record raft_config =
  heartbeat_interval :: nat
  election_timeout_min :: nat
  election_timeout_max :: nat

text \<open>The address of a member is its \<open>BasicNode\<close>; a membership is a map from node to address.\<close>

record ('d, 'm, 's) openraft =
  or_validate :: "raft_config \<Rightarrow> string + raft_config"
  or_new :: "node_id \<Rightarrow> raft_config \<Rightarrow> 'd \<Rightarrow> ('d, 'm) sled_machine \<Rightarrow> string + 's"
  or_last_log_index :: "'s \<Rightarrow> u64 option"
  or_current_leader :: "'s \<Rightarrow> node_id option"
  or_current_term :: "'s \<Rightarrow> u64"
  or_initialize :: "(node_id, string) hmap \<Rightarrow> (string, 's, unit) op"
  or_client_write :: "raft_command \<Rightarrow> (string, 's, raft_response) op"

record 's raft_node =
  rn_raft :: 's
  rn_id :: node_id

definition client_apply ::
  "('d, 'm, 's) openraft \<Rightarrow> raft_command \<Rightarrow> (string, 's raft_node, raft_response) op"
where
  "client_apply R cmd n = (let (r, s) = or_client_write R cmd (rn_raft n)
     in (map_err (\<lambda>e. ''raft write: '' @ e) r, n\<lparr>rn_raft := s\<rparr>))"

section \<open>Start\<close>

definition the_raft_config :: raft_config where
  "the_raft_config = \<lparr> heartbeat_interval = 500, election_timeout_min = 1500, election_timeout_max = 3000 \<rparr>"

definition init_members :: "node_id \<Rightarrow> string \<Rightarrow> (node_id \<times> string) list \<Rightarrow> (node_id, string) hmap" where
  "init_members nid grpc_endpoint initial_peers =
     fold (\<lambda>(peer, endpoint). hput peer endpoint) initial_peers (hput nid grpc_endpoint [])"

datatype init_error = InitFailed string | InitStore raft_error

text \<open>\<open>opened_log\<close> and \<open>opened_sm\<close> are the answers of \<open>sled::open\<close> for the two databases.\<close>

definition init_raft ::
  "('d, 'm, 's) openraft \<Rightarrow> 'd sled \<Rightarrow> 'm raft_state json \<Rightarrow> 'm \<Rightarrow> string + 'd \<Rightarrow> string + 'd \<Rightarrow> node_id \<Rightarrow> string
   \<Rightarrow> (node_id \<times> string) list \<Rightarrow> init_error + 's raft_node"
where
  "init_raft R S J no_members opened_log opened_sm nid grpc_endpoint initial_peers =
     bind_res (map_err (\<lambda>e. InitFailed (''raft config: '' @ e)) (or_validate R the_raft_config)) (\<lambda>config.
     bind_res (map_err InitStore (log_store_open opened_log)) (\<lambda>log_store.
     bind_res (map_err InitStore (machine_open S J no_members opened_sm)) (\<lambda>state_machine.
     bind_res (map_err (\<lambda>e. InitFailed (''raft new: '' @ e)) (or_new R nid config log_store state_machine)) (\<lambda>raft.
     if or_last_log_index R raft = None
     then (case or_initialize R (init_members nid grpc_endpoint initial_peers) raft of
             (Inr _, raft) \<Rightarrow> Inr \<lparr> rn_raft = raft, rn_id = nid \<rparr>
           | (Inl e, raft) \<Rightarrow>
               if str_contains e ''has already been initialized'' then Inr \<lparr> rn_raft = raft, rn_id = nid \<rparr>
               else Inl (InitFailed (''raft init: '' @ e)))
     else Inr \<lparr> rn_raft = raft, rn_id = nid \<rparr>))))"

section \<open>Messages\<close>

text \<open>The three remote procedures; a message is bytes, JSON of the engine's own types.\<close>

datatype raft_method = MAppendEntries | MVote | MInstallSnapshot

type_synonym raft_channel = "(raft_method \<times> bytes, bytes) channel"

datatype network_cause = NetJson string | NetStatus grpc_status

datatype rpc_error = RpcNetwork network_cause

text \<open>\<open>GrpcNetwork::client\<close>: the target it connects to.\<close>

definition raft_client :: "raft_channel \<Rightarrow> string \<Rightarrow> grpc_status + string" where
  "raft_client ch target_addr =
     (let endpoint = ''http://'' @ target_addr in
      bind_res (map_err (GrpcStatus GrpcInternal) (ch_from_shared ch endpoint)) (\<lambda>_.
      bind_res (map_err (GrpcStatus GrpcUnavailable) (ch_connect ch endpoint)) (\<lambda>_. Inr endpoint)))"

definition to_rpc_err :: "('e \<Rightarrow> network_cause) \<Rightarrow> 'e + 'a \<Rightarrow> rpc_error + 'a" where
  "to_rpc_err cause r = map_err (\<lambda>e. RpcNetwork (cause e)) r"

definition raft_call ::
  "raft_method \<Rightarrow> 'q json \<Rightarrow> 'r json \<Rightarrow> raft_channel \<Rightarrow> string \<Rightarrow> 'q \<Rightarrow> rpc_error + 'r"
where
  "raft_call method JQ JR ch target_addr message =
     bind_res (to_rpc_err NetJson (js_enc JQ message)) (\<lambda>payload.
     bind_res (to_rpc_err NetStatus (raft_client ch target_addr)) (\<lambda>endpoint.
     bind_res (to_rpc_err NetStatus (ch_call ch endpoint (method, payload))) (\<lambda>resp.
     to_rpc_err NetJson (js_dec JR resp))))"

definition net_append_entries where "net_append_entries JQ JR = raft_call MAppendEntries JQ JR"
definition net_install_snapshot where "net_install_snapshot JQ JR = raft_call MInstallSnapshot JQ JR"
definition net_vote where "net_vote JQ JR = raft_call MVote JQ JR"

section \<open>The service\<close>

definition not_a_participant :: grpc_status where
  "not_a_participant = GrpcStatus GrpcUnavailable ''not a quorum participant''"

text \<open>One handler: \<open>core\<close> is the engine's method; a node that is no quorum participant has no engine.\<close>

definition raft_handler ::
  "'q json \<Rightarrow> 'r json \<Rightarrow> ('q \<Rightarrow> (string, 's, 'r) op) \<Rightarrow> bytes \<Rightarrow> (grpc_status, 's option, bytes) op"
where
  "raft_handler JQ JR core payload raft =
     (case raft of
        None \<Rightarrow> (Inl not_a_participant, raft)
      | Some s \<Rightarrow>
          (case js_dec JQ payload of
             Inl e \<Rightarrow> (Inl (GrpcStatus InvalidArgument (''deserialize: '' @ e)), raft)
           | Inr req \<Rightarrow>
               let (r, s) = core req s in
               (bind_res (map_err (\<lambda>e. GrpcStatus GrpcInternal (''raft: '' @ e)) r) (\<lambda>resp.
                map_err (\<lambda>e. GrpcStatus GrpcInternal (''serialize: '' @ e)) (js_enc JR resp)), Some s)))"

text \<open>The engine's three methods with the codecs of their messages, and the service over them.\<close>

record ('aq, 'ar, 'vq, 'vr, 'iq, 'ir, 's) raft_core =
  rc_append_entries :: "'aq \<Rightarrow> (string, 's, 'ar) op"
  rc_vote :: "'vq \<Rightarrow> (string, 's, 'vr) op"
  rc_install_snapshot :: "'iq \<Rightarrow> (string, 's, 'ir) op"
  rc_json_append :: "'aq json \<times> 'ar json"
  rc_json_vote :: "'vq json \<times> 'vr json"
  rc_json_install :: "'iq json \<times> 'ir json"

fun raft_service ::
  "('aq, 'ar, 'vq, 'vr, 'iq, 'ir, 's) raft_core \<Rightarrow> raft_method \<times> bytes \<Rightarrow> (grpc_status, 's option, bytes) op"
where
  "raft_service K (MAppendEntries, payload) =
     raft_handler (fst (rc_json_append K)) (snd (rc_json_append K)) (rc_append_entries K) payload"
| "raft_service K (MVote, payload) =
     raft_handler (fst (rc_json_vote K)) (snd (rc_json_vote K)) (rc_vote K) payload"
| "raft_service K (MInstallSnapshot, payload) =
     raft_handler (fst (rc_json_install K)) (snd (rc_json_install K)) (rc_install_snapshot K) payload"

text \<open>A channel that reaches the service of the node behind \<open>endpoint\<close> in state \<open>raft\<close>.\<close>

definition reaches ::
  "('aq, 'ar, 'vq, 'vr, 'iq, 'ir, 's) raft_core \<Rightarrow> 's option \<Rightarrow> raft_channel \<Rightarrow> string \<Rightarrow> bool"
where
  "reaches K raft ch addr = (ch_from_shared ch (''http://'' @ addr) = Inr () \<and>
     ch_connect ch (''http://'' @ addr) = Inr () \<and>
     ch_call ch (''http://'' @ addr) = (\<lambda>m. fst (raft_service K m raft)))"

section \<open>Lemmas\<close>

text \<open>What the caller sees of the answer of a method.\<close>

definition seen_by_caller :: "string + 'r \<Rightarrow> rpc_error + 'r" where
  "seen_by_caller r = map_err (\<lambda>e. RpcNetwork (NetStatus (GrpcStatus GrpcInternal (''raft: '' @ e)))) r"

lemma raft_call_handler:
  assumes "json_api JQ" "json_api JR" "ch_from_shared ch (''http://'' @ addr) = Inr ()"
    "ch_connect ch (''http://'' @ addr) = Inr ()"
    "\<And>b. ch_call ch (''http://'' @ addr) (meth, b) = fst (raft_handler JQ JR core b raft)"
  shows "raft_call meth JQ JR ch addr req = (case raft of
      None \<Rightarrow> Inl (RpcNetwork (NetStatus not_a_participant)) | Some s \<Rightarrow> seen_by_caller (fst (core req s)))"
proof -
  obtain q where q: "js_enc JQ req = Inr q" using json_api.js_enc_total [OF assms(1)] by blast
  then have d: "js_dec JQ q = Inr req" by (rule json_api.js_round [OF assms(1)])
  have "raft_call meth JQ JR ch addr req = bind_res (to_rpc_err NetStatus (fst (raft_handler JQ JR core q raft)))
      (\<lambda>resp. to_rpc_err NetJson (js_dec JR resp))"
    using q assms(3-5) by (simp add: raft_call_def raft_client_def to_rpc_err_def bind_res_def)
  also have "\<dots> = (case raft of
      None \<Rightarrow> Inl (RpcNetwork (NetStatus not_a_participant)) | Some s \<Rightarrow> seen_by_caller (fst (core req s)))"
  proof (cases raft)
    case None
    then show ?thesis by (simp add: raft_handler_def to_rpc_err_def bind_res_def)
  next
    case (Some s)
    show ?thesis
    proof (cases "fst (core req s)")
      case (Inl e)
      with Some d show ?thesis
        by (simp add: raft_handler_def split_beta to_rpc_err_def bind_res_def seen_by_caller_def)
    next
      case (Inr resp)
      obtain p where "js_enc JR resp = Inr p" "js_dec JR p = Inr resp"
        using json_api.js_enc_json [OF assms(2)] json_api.js_dec_json [OF assms(2)] by blast
      with Some d Inr show ?thesis
        by (simp add: raft_handler_def split_beta to_rpc_err_def bind_res_def seen_by_caller_def)
    qed
  qed
  finally show ?thesis .
qed

section \<open>Properties\<close>

text \<open>
  C31. The transport of the consensus protocol is transparent: over a channel that reaches a participant
  each of the three remote procedures answers the caller exactly what the engine of the other node
  answers, its errors marked as network errors; a node that is no participant answers \<open>Unavailable\<close>.
\<close>

theorem raft_rpc_transparent:
  assumes "json_api (fst (rc_json_append K))" "json_api (snd (rc_json_append K))"
    "json_api (fst (rc_json_vote K))" "json_api (snd (rc_json_vote K))"
    "json_api (fst (rc_json_install K))" "json_api (snd (rc_json_install K))" "reaches K raft ch addr"
  shows "net_append_entries (fst (rc_json_append K)) (snd (rc_json_append K)) ch addr a = (case raft of
      None \<Rightarrow> Inl (RpcNetwork (NetStatus not_a_participant)) | Some s \<Rightarrow> seen_by_caller (fst (rc_append_entries K a s))) \<and>
    net_vote (fst (rc_json_vote K)) (snd (rc_json_vote K)) ch addr v = (case raft of
      None \<Rightarrow> Inl (RpcNetwork (NetStatus not_a_participant)) | Some s \<Rightarrow> seen_by_caller (fst (rc_vote K v s))) \<and>
    net_install_snapshot (fst (rc_json_install K)) (snd (rc_json_install K)) ch addr i = (case raft of
      None \<Rightarrow> Inl (RpcNetwork (NetStatus not_a_participant)) | Some s \<Rightarrow> seen_by_caller (fst (rc_install_snapshot K i s)))"
  using raft_call_handler [OF assms(1,2), of ch addr MAppendEntries "rc_append_entries K" raft a]
    raft_call_handler [OF assms(3,4), of ch addr MVote "rc_vote K" raft v]
    raft_call_handler [OF assms(5,6), of ch addr MInstallSnapshot "rc_install_snapshot K" raft i] assms(7)
  by (simp add: net_append_entries_def net_vote_def net_install_snapshot_def reaches_def)

text \<open>An engine that answers what it is asked and counts the calls.\<close>

definition echo_core :: "(nat, nat, nat, nat, nat, nat, nat) raft_core" where
  "echo_core = \<lparr> rc_append_entries = (\<lambda>q s. (Inr q, Suc s)), rc_vote = (\<lambda>q s. (Inl ''fatal'', s)),
     rc_install_snapshot = (\<lambda>q s. (Inr (q + s), s)), rc_json_append = (count_json, count_json),
     rc_json_vote = (count_json, count_json), rc_json_install = (count_json, count_json) \<rparr>"

definition echo_channel :: raft_channel where
  "echo_channel = \<lparr> ch_from_shared = (\<lambda>_. Inr ()), ch_connect = (\<lambda>_. Inr ()),
     ch_call = (\<lambda>_ m. fst (raft_service echo_core m (Some 3))) \<rparr>"

theorem raft_rpc_transparent_witness:
  "net_append_entries count_json count_json echo_channel ''h:1'' (5 :: nat) = Inr (5 :: nat) \<and>
   net_vote count_json count_json echo_channel ''h:1'' (5 :: nat) =
     (Inl (RpcNetwork (NetStatus (GrpcStatus GrpcInternal ''raft: fatal''))) :: rpc_error + nat) \<and>
   net_install_snapshot count_json count_json echo_channel ''h:1'' (5 :: nat) = Inr (8 :: nat)"
  using raft_rpc_transparent [of echo_core "Some 3" echo_channel "''h:1''" 5 5 5] count_json.json_api_axioms
  by (simp add: echo_core_def echo_channel_def reaches_def seen_by_caller_def)

end
