(* ===== verification/Rest_Api.thy ===== *)
theory Rest_Api
  imports Grpc_Server Raft_Node
begin

text \<open>
  The REST interface, \<open>agent/src/api_rest/mod.rs\<close>, beyond jobs and nodes: the authentication layer,
  status pages, the object store handlers with their status codes and the replication they start, and
  the watcher that turns changes of the view into events.
\<close>

section \<open>Authentication\<close>

text \<open>
  What the layer looks at: the path and the query of the URI as they are, and the header
  \<open>X-All4One-Secret\<close> when it is there and printable.
\<close>

record http_request =
  rq_path :: string
  rq_query :: "string option"
  rq_secret_header :: "string option"

fun find_secret :: "string list \<Rightarrow> string option" where
  "find_secret [] = None"
| "find_secret (pair # pairs) =
     (let (key, value) = splitn2 CHR ''='' pair in
      if key = ''secret'' then Some (case value of None \<Rightarrow> [] | Some v \<Rightarrow> v) else find_secret pairs)"

definition query_secret :: "http_request \<Rightarrow> string" where
  "query_secret request =
     or_default (case rq_query request of None \<Rightarrow> None | Some q \<Rightarrow> find_secret (split_on CHR ''&'' q)) []"

datatype gate = NextHandler | Unauthorized

definition shared_secret_middleware :: "security_config \<Rightarrow> http_request \<Rightarrow> gate" where
  "shared_secret_middleware sec request =
     (if sec_mode sec \<noteq> ''shared-secret'' then NextHandler
      else if starts_with (rq_path request) ''/v1/internal/'' then NextHandler
      else let configured = trim (sec_shared_secret sec) in
        if configured = [] then NextHandler
        else if or_default (rq_secret_header request) [] \<noteq> configured \<and> query_secret request \<noteq> configured
          then Unauthorized else NextHandler)"

section \<open>Routes\<close>

text \<open>
  The router's table. A segment parameter (\<open>:id\<close>) is one segment that is not empty, \<open>*key\<close> the rest of the
  path, not empty; the framework's decoding of the parameters is not modelled. \<open>get\<close> also serves \<open>HEAD\<close>.
\<close>

datatype http_method = GET | HEAD | POST | PUT | DELETE | OtherMethod

datatype endpoint =
    GetDashboard | GetHealth | GetMetrics | GetInternalNode | GetInternalNodes
  | GetNodes | GetNode string | PostJob | ListJobs | GetJob string | DeleteJob string | StreamOutput string
  | StreamOpsEvents | GetClusterStatus | GetDiagnostics | ListBucket string | CreateBucket string
  | GetObject string string | PutObject string string | DeleteObject string string

text \<open>The routes of one path: which layer they are in and the handler of each method.\<close>

datatype layer = Open | Internal | Protected

definition getter :: "endpoint \<Rightarrow> http_method \<Rightarrow> endpoint option" where
  "getter e m = (if m = GET \<or> m = HEAD then Some e else None)"

fun join_segments :: "string list \<Rightarrow> string" where
  "join_segments [] = []"
| "join_segments [s] = s"
| "join_segments (s # ss) = s @ ''/'' @ join_segments ss"

definition path_routes :: "string \<Rightarrow> (layer \<times> (http_method \<Rightarrow> endpoint option)) option" where
  "path_routes path =
     (if path = ''/'' then Some (Open, getter GetDashboard)
      else if path = ''/health'' then Some (Open, getter GetHealth)
      else if path = ''/metrics'' then Some (Open, getter GetMetrics)
      else if path = ''/v1/internal/node'' then Some (Internal, getter GetInternalNode)
      else if path = ''/v1/internal/nodes'' then Some (Internal, getter GetInternalNodes)
      else if path = ''/v1/nodes'' then Some (Protected, getter GetNodes)
      else if path = ''/v1/jobs'' then Some (Protected, (getter ListJobs)(POST := Some PostJob))
      else if path = ''/v1/ops/events'' then Some (Protected, getter StreamOpsEvents)
      else if path = ''/v1/cluster/status'' then Some (Protected, getter GetClusterStatus)
      else if path = ''/v1/cluster/diagnostics'' then Some (Protected, getter GetDiagnostics)
      else case strip_prefix path ''/v1/'' of
          None \<Rightarrow> None
        | Some rest \<Rightarrow>
            (case split_on CHR ''/'' rest of
               [a, x] \<Rightarrow>
                 if x = [] then None
                 else if a = ''nodes'' then Some (Protected, getter (GetNode x))
                 else if a = ''jobs'' then Some (Protected, (getter (GetJob x))(DELETE := Some (DeleteJob x)))
                 else if a = ''storage'' then Some (Protected, (getter (ListBucket x))(POST := Some (CreateBucket x)))
                 else None
             | a # x # y # zs \<Rightarrow>
                 if x = [] then None
                 else if a = ''jobs'' \<and> y = ''output'' \<and> zs = [''stream''] then Some (Protected, getter (StreamOutput x))
                 else if a = ''storage'' \<and> join_segments (y # zs) \<noteq> []
                   then Some (Protected, (getter (GetObject x (join_segments (y # zs))))
                     (PUT := Some (PutObject x (join_segments (y # zs))), DELETE := Some (DeleteObject x (join_segments (y # zs)))))
                 else None
             | _ \<Rightarrow> None))"

text \<open>
  What happens to a request: the authentication layer is around the protected routes, before the method is
  looked at, and around their fallback, which is the one the merged router keeps.
\<close>

datatype routed = Run endpoint | Reply http_code

definition dispatch_request :: "security_config \<Rightarrow> http_method \<Rightarrow> http_request \<Rightarrow> routed" where
  "dispatch_request sec m request =
     (let refused = (shared_secret_middleware sec request = Unauthorized) in
      case path_routes (rq_path request) of
        None \<Rightarrow> Reply (if refused then 401 else 404)
      | Some (layer, handlers) \<Rightarrow>
          if layer = Protected \<and> refused then Reply 401
          else case handlers m of None \<Rightarrow> Reply 405 | Some e \<Rightarrow> Run e)"

section \<open>Status\<close>

record health_response =
  hr_status :: string
  hr_node_id :: string
  hr_uptime_seconds :: nat
  hr_cluster_connected :: bool
  hr_quorum_healthy :: bool

definition health :: "uuid_api \<Rightarrow> config \<Rightarrow> nat \<Rightarrow> app \<Rightarrow> health_response" where
  "health U cfg uptime a =
     \<lparr> hr_status = ''ok'', hr_node_id = uuid_str U (app_node_id a), hr_uptime_seconds = uptime,
       hr_cluster_connected = (cs_nodes (app_cluster a) \<noteq> []),
       hr_quorum_healthy = nc_quorum_participant (cfg_node cfg) \<rparr>"

definition online_count :: "cluster_state \<Rightarrow> nat" where
  "online_count c = length (filter (\<lambda>n. ni_status n = Online) (hvalues (cs_nodes c)))"

definition metrics :: "nat \<Rightarrow> app \<Rightarrow> string" where
  "metrics uptime a = (let nl = [char_of (10 :: nat)] in
     ''all4one_uptime_seconds '' @ show_nat uptime @ nl @
     ''all4one_nodes_online '' @ show_nat (online_count (app_cluster a)) @ nl @
     ''all4one_jobs_total '' @ show_nat (length (app_jobs a)) @ nl)"

record quorum_status =
  st_node_id :: string
  st_quorum_participant :: bool
  st_raft_leader :: "string option"
  st_quorum_healthy :: bool
  st_raft_term :: u64
  st_last_log_index :: "u64 option"

definition cluster_status ::
  "uuid_api \<Rightarrow> ('d, 'm, 's) openraft \<Rightarrow> config \<Rightarrow> 's raft_node option \<Rightarrow> app \<Rightarrow> quorum_status"
where
  "cluster_status U R cfg raft a =
     (let (raft_leader, quorum_healthy, raft_term, last_log_index) = (case raft of
            Some n \<Rightarrow> (map_option (uuid_str U) (or_current_leader R (rn_raft n)), or_current_leader R (rn_raft n) \<noteq> None,
              or_current_term R (rn_raft n), or_last_log_index R (rn_raft n))
          | None \<Rightarrow> (None, False, 0, None))
      in \<lparr> st_node_id = uuid_str U (app_node_id a), st_quorum_participant = nc_quorum_participant (cfg_node cfg),
           st_raft_leader = raft_leader, st_quorum_healthy = quorum_healthy, st_raft_term = raft_term,
           st_last_log_index = last_log_index \<rparr>)"

record storage_health =
  sh_data_dir :: string
  sh_accessible :: bool
  sh_available_space_mb :: "nat option"
  sh_object_count :: "nat option"
  sh_error :: "string option"

text \<open>\<open>entries\<close> is the number of directory entries \<open>read_dir\<close> finds, when it succeeds.\<close>

definition check_storage_health :: "nat option \<Rightarrow> string \<Rightarrow> fs \<Rightarrow> storage_health" where
  "check_storage_health entries data_dir f =
     (let accessible = (path_exists f data_dir \<and> is_dir_key f (path_key data_dir)) in
      \<lparr> sh_data_dir = data_dir, sh_accessible = accessible,
        sh_available_space_mb = (if accessible then Some 1000 else None),
        sh_object_count = (if accessible then entries else None),
        sh_error = (if \<not> accessible then Some ''Data directory not accessible'' else None) \<rparr>)"

record cluster_info =
  ci_total_nodes :: nat
  ci_online_nodes :: nat
  ci_offline_nodes :: nat
  ci_quorum_participant :: bool
  ci_quorum_healthy :: bool

record distributed_state_health =
  ds_raft_enabled :: bool
  ds_raft_leader :: "string option"
  ds_raft_term :: "u64 option"
  ds_consensus_nodes :: nat
  ds_cluster_synchronized :: bool
  ds_last_heartbeat_ms_ago :: "nat option"

record enhanced_cluster_status =
  es_node_id :: string
  es_node_tier :: u8
  es_node_roles :: roles_config
  es_uptime_seconds :: nat
  es_cluster_info :: cluster_info
  es_storage_health :: "storage_health option"
  es_distributed_state :: distributed_state_health

definition cluster_diagnostics ::
  "uuid_api \<Rightarrow> ('d, 'm, 's) openraft \<Rightarrow> config \<Rightarrow> nat \<Rightarrow> nat option \<Rightarrow> 's raft_node option \<Rightarrow> fs \<Rightarrow> app
   \<Rightarrow> enhanced_cluster_status"
where
  "cluster_diagnostics U R cfg uptime entries raft f a =
     (let nodes = cs_nodes (app_cluster a);
          (raft_leader, raft_term, synchronized) = (case raft of
              Some n \<Rightarrow> (let leader = map_option (uuid_str U) (or_current_leader R (rn_raft n))
                in (leader, Some (or_current_term R (rn_raft n)), leader \<noteq> None))
            | None \<Rightarrow> (None, None, False));
          online = online_count (app_cluster a)
      in \<lparr> es_node_id = uuid_str U (app_node_id a), es_node_tier = nc_tier (cfg_node cfg),
           es_node_roles = cfg_roles cfg, es_uptime_seconds = uptime,
           es_cluster_info = \<lparr> ci_total_nodes = length nodes, ci_online_nodes = online,
             ci_offline_nodes = length nodes - online,
             ci_quorum_participant = nc_quorum_participant (cfg_node cfg),
             ci_quorum_healthy = (raft_leader \<noteq> None) \<rparr>,
           es_storage_health = (if rc_storage (cfg_roles cfg)
             then Some (check_storage_health entries (nc_data_dir (cfg_node cfg)) f) else None),
           es_distributed_state = \<lparr> ds_raft_enabled = (raft \<noteq> None), ds_raft_leader = raft_leader,
             ds_raft_term = raft_term, ds_consensus_nodes = length nodes,
             ds_cluster_synchronized = synchronized, ds_last_heartbeat_ms_ago = None \<rparr> \<rparr>)"

text \<open>The local node as the unauthenticated internal endpoint returns it.\<close>

definition get_internal_node :: "app \<Rightarrow> node_info" where
  "get_internal_node a = app_local_node a"

section \<open>The object store over HTTP\<close>

datatype storage_reply =
    StorageError string
  | BucketCreated string
  | ObjectList string "object_metadata list" nat
  | ObjectStored object_metadata
  | ObjectData bytes string
  | NoBody
  | ConnectionLost

definition no_storage_role :: "http_code \<times> storage_reply" where
  "no_storage_role = (503, StorageError ''This node does not have the storage role'')"

text \<open>
  An error of the store as the download and delete handlers answer it. A panic of the store ends the task of the
  connection: there is no answer (status 0).
\<close>

definition storage_failure :: "storage_error \<Rightarrow> http_code \<times> storage_reply" where
  "storage_failure e =
     (let msg = storage_error_msg e in
      if e = Panic then (0, ConnectionLost)
      else if str_contains msg ''not found'' \<or> str_contains msg ''Object not found''
      then (404, StorageError msg) else (500, StorageError msg))"

definition create_bucket ::
  "'d storage_env \<Rightarrow> config \<Rightarrow> string \<Rightarrow> 'd disk \<Rightarrow> (http_code \<times> storage_reply) \<times> 'd disk"
where
  "create_bucket E cfg bucket s =
     (if \<not> rc_storage (cfg_roles cfg) then (no_storage_role, s)
      else case index_create_bucket E (nc_data_dir (cfg_node cfg)) bucket s of
          (Inr _, s) \<Rightarrow> ((201, BucketCreated bucket), s)
        | (Inl e, s) \<Rightarrow> ((500, StorageError (storage_error_msg e)), s))"

definition list_bucket_objects ::
  "'d storage_env \<Rightarrow> config \<Rightarrow> string \<Rightarrow> string option \<Rightarrow> nat option \<Rightarrow> 'd disk
   \<Rightarrow> (http_code \<times> storage_reply) \<times> 'd disk"
where
  "list_bucket_objects E cfg bucket prefix_opt max_keys s =
     (if \<not> rc_storage (cfg_roles cfg) then (no_storage_role, s)
      else case list_objects E (nc_data_dir (cfg_node cfg)) bucket prefix_opt max_keys s of
          (Inr objects, s) \<Rightarrow> ((200, ObjectList bucket objects (length objects)), s)
        | (Inl e, s) \<Rightarrow> ((500, StorageError (storage_error_msg e)), s))"

text \<open>The peers an upload is replicated to.\<close>

definition storage_peers :: "node_id \<Rightarrow> cluster_state \<Rightarrow> string list" where
  "storage_peers self_id c = List.map ni_grpc_endpoint (filter (\<lambda>n. cap_storage_node (np_capabilities (ni_profile n)) \<and>
     ni_status n = Online \<and> np_id (ni_profile n) \<noteq> self_id) (hvalues (cs_nodes c)))"

text \<open>
  The upload. Besides the answer it says which peers the spawned task will send the shards to.
  \<open>header\<close> is the policy header when present and printable.
\<close>

definition put_object_handler ::
  "'d storage_env \<Rightarrow> string \<times> string \<times> string \<times> string \<Rightarrow> config \<Rightarrow> node_id \<Rightarrow> cluster_state \<Rightarrow> string \<Rightarrow> string
   \<Rightarrow> string option \<Rightarrow> bytes \<Rightarrow> 'd disk \<Rightarrow> (http_code \<times> storage_reply) \<times> string list \<times> 'd disk"
where
  "put_object_handler E now cfg self_id c bucket key header body s =
     (if \<not> rc_storage (cfg_roles cfg) then (no_storage_role, [], s)
      else let policy = policy_from_str (or_default header ''warm''); data_dir = nc_data_dir (cfg_node cfg);
               s = snd (index_create_bucket E data_dir bucket s) in
        case put_object E now data_dir bucket key body policy s of
          (Inr meta, s) \<Rightarrow> ((201, ObjectStored meta), storage_peers self_id c, s)
        | (Inl e, s) \<Rightarrow> ((500, StorageError (storage_error_msg e)), [], s))"

text \<open>The spawned task: every shard to every peer, failures only logged.\<close>

definition fan_out ::
  "'d storage_env \<Rightarrow> (transfer_message, transfer_answer) channel \<Rightarrow> string \<Rightarrow> string \<Rightarrow> string \<Rightarrow> object_metadata
   \<Rightarrow> string list \<Rightarrow> 'd disk \<Rightarrow> (grpc_status + unit) list \<times> 'd disk"
where
  "fan_out E ch data_dir bucket key meta peers s =
     (if peers = [] then ([], s)
      else case read_shards E data_dir bucket key s of
        (Inl e, s) \<Rightarrow> ([], s)
      | (Inr shards, s) \<Rightarrow>
          (concat (List.map (\<lambda>peer. List.map (\<lambda>shard. send_chunk ch peer (shard_message bucket key meta shard)) shards) peers), s))"

definition get_object_handler ::
  "'d storage_env \<Rightarrow> config \<Rightarrow> string \<Rightarrow> string \<Rightarrow> 'd disk \<Rightarrow> (http_code \<times> storage_reply) \<times> 'd disk"
where
  "get_object_handler E cfg bucket key s =
     (if \<not> rc_storage (cfg_roles cfg) then (no_storage_role, s)
      else let data_dir = nc_data_dir (cfg_node cfg) in
        case get_object E data_dir bucket key s of
          (Inr data, s) \<Rightarrow>
            (case index_get_object E data_dir bucket key s of
               (Inr m, s) \<Rightarrow> ((200, ObjectData data (etag m)), s)
             | (Inl _, s) \<Rightarrow> ((200, ObjectData data []), s))
        | (Inl e, s) \<Rightarrow> (storage_failure e, s))"

definition delete_object_handler ::
  "'d storage_env \<Rightarrow> config \<Rightarrow> string \<Rightarrow> string \<Rightarrow> 'd disk \<Rightarrow> (http_code \<times> storage_reply) \<times> 'd disk"
where
  "delete_object_handler E cfg bucket key s =
     (if \<not> rc_storage (cfg_roles cfg) then (no_storage_role, s)
      else case delete_object E (nc_data_dir (cfg_node cfg)) bucket key s of
          (Inr _, s) \<Rightarrow> ((204, NoBody), s)
        | (Inl e, s) \<Rightarrow> (storage_failure e, s))"

section \<open>Jobs\<close>

text \<open>\<open>post_job\<close>: YAML first, then JSON, as the two crates read them.\<close>

datatype post_reply = PostError string | PostAccepted submit_response

definition post_job ::
  "(string \<Rightarrow> string + submit_request) \<Rightarrow> (string \<Rightarrow> string + submit_request) \<Rightarrow> uuid_api
   \<Rightarrow> (submit_message, 'r) channel \<Rightarrow> nat \<Rightarrow> job_id \<Rightarrow> string \<Rightarrow> app \<Rightarrow> (http_code \<times> post_reply) \<times> app"
where
  "post_job from_yaml from_json U ch now jid body a =
     (case (case from_yaml body of Inr v \<Rightarrow> Inr v | Inl _ \<Rightarrow> from_json body) of
        Inl err \<Rightarrow> ((400, PostError (''invalid job payload: '' @ err)), a)
      | Inr request \<Rightarrow>
          (case enqueue_job U ch now jid request a of
             (Inl err, a) \<Rightarrow> ((400, PostError err), a)
           | (Inr (resp, _), a) \<Rightarrow> ((202, PostAccepted resp), a)))"

section \<open>The watcher\<close>

definition node_statuses :: "cluster_state \<Rightarrow> (node_id, node_status) hmap" where
  "node_statuses c = List.map (\<lambda>(nid, info). (nid, ni_status info)) (cs_nodes c)"

definition watch_node ::
  "uuid_api \<Rightarrow> nat \<Rightarrow> (node_id, node_status) hmap \<Rightarrow> node_id \<times> node_status \<Rightarrow> app \<Rightarrow> app"
where
  "watch_node U now last_status entry a = (case entry of (nid, status) \<Rightarrow>
     (case hget last_status nid of
        Some prev \<Rightarrow>
          if prev \<noteq> status
          then publish_ops_event U now ''node.status_changed'' (if status = Online then ''info'' else ''warn'')
             (''Node '' @ uuid_str U nid @ '' changed status '' @ node_status_debug prev @ '' -> '' @ node_status_debug status)
             (Some nid) None a
          else a
      | None \<Rightarrow> publish_ops_event U now ''node.discovered'' ''info''
             (''Node '' @ uuid_str U nid @ '' discovered with status '' @ node_status_debug status) (Some nid) None a))"

definition watch_removed ::
  "uuid_api \<Rightarrow> nat \<Rightarrow> (node_id, node_status) hmap \<Rightarrow> node_id \<Rightarrow> app \<Rightarrow> app"
where
  "watch_removed U now current nid a =
     (if hget current nid = None
      then publish_ops_event U now ''node.removed'' ''warn'' (''Node '' @ uuid_str U nid @ '' removed from cluster view'')
             (Some nid) None a
      else a)"

text \<open>One turn of the loop; the result is the next \<open>last_status\<close>.\<close>

definition watch_round ::
  "uuid_api \<Rightarrow> nat \<Rightarrow> (node_id, node_status) hmap \<Rightarrow> app \<Rightarrow> (node_id, node_status) hmap \<times> app"
where
  "watch_round U now last_status a =
     (let current = node_statuses (app_cluster a);
          a = fold (watch_node U now last_status) current a;
          a = fold (watch_removed U now current) (hkeys last_status) a
      in (current, a))"

text \<open>
  The task: the statuses it starts from, then its turns, with what the other tasks did to the shared state
  while it slept.
\<close>

fun ops_watcher ::
  "uuid_api \<Rightarrow> (node_id, node_status) hmap \<Rightarrow> (nat \<times> (app \<Rightarrow> app)) list \<Rightarrow> app \<Rightarrow> (node_id, node_status) hmap \<times> app"
where
  "ops_watcher U last_status [] a = (last_status, a)"
| "ops_watcher U last_status ((now, others) # turns) a =
     (let (last_status, a) = watch_round U now last_status (others a) in ops_watcher U last_status turns a)"

definition start_ops_watchers ::
  "uuid_api \<Rightarrow> (nat \<times> (app \<Rightarrow> app)) list \<Rightarrow> app \<Rightarrow> (node_id, node_status) hmap \<times> app"
where
  "start_ops_watchers U turns a = ops_watcher U (node_statuses (app_cluster a)) turns a"

text \<open>
  \<open>GET /v1/ops/events\<close>: what the stream makes of a message received, none for the messages the channel
  dropped because the client was too slow, or an event that has no JSON text.
\<close>

definition stream_ops_event :: "(ops_event \<Rightarrow> string option) \<Rightarrow> ops_event option \<Rightarrow> (string \<times> string) option" where
  "stream_ops_event to_json msg =
     (case msg of
        None \<Rightarrow> None
      | Some event \<Rightarrow> (case to_json event of None \<Rightarrow> None | Some payload \<Rightarrow> Some (''ops'', payload)))"

definition stream_ops_events :: "(ops_event \<Rightarrow> string option) \<Rightarrow> ops_event option list \<Rightarrow> (string \<times> string) list" where
  "stream_ops_events to_json msgs = List.map_filter (stream_ops_event to_json) msgs"

end
