(* ===== verification/Rest_Properties.thy ===== *)
theory Rest_Properties
  imports Rest_Api
begin

text \<open>
  What the REST interface promises: who passes the authentication layer, the round trip of an object
  over HTTP with its status codes, which peers receive replicas, and what the watcher publishes.
\<close>

section \<open>Query strings\<close>

text \<open>
  The query carries \<open>s\<close>: one of the pieces between the \<open>&\<close> is \<open>secret=s\<close>, and none before it is
  a \<open>secret\<close> parameter, with or without a value.
\<close>

definition carries_secret :: "string \<Rightarrow> string \<Rightarrow> bool" where
  "carries_secret q s = (\<exists>before after. split_on CHR ''&'' q = before @ (''secret='' @ s) # after \<and>
     (\<forall>p \<in> set before. p \<noteq> ''secret'' \<and> \<not> starts_with p ''secret=''))"

lemma secret_piece:
  "(\<exists>v. splitn2 CHR ''='' p = (''secret'', v)) \<longleftrightarrow> p = ''secret'' \<or> starts_with p ''secret=''"
proof -
  have "(\<exists>v. splitn2 CHR ''='' p = (''secret'', v)) \<longleftrightarrow>
      splitn2 CHR ''='' p = (''secret'', None) \<or> (\<exists>b. splitn2 CHR ''='' p = (''secret'', Some b))"
    by (metis option.exhaust)
  then show ?thesis by (auto simp: splitn2_iff starts_with_iff)
qed

lemma find_secret_iff:
  assumes "s \<noteq> []"
  shows "find_secret pieces = Some s \<longleftrightarrow> (\<exists>before after. pieces = before @ (''secret='' @ s) # after \<and>
    (\<forall>p \<in> set before. p \<noteq> ''secret'' \<and> \<not> starts_with p ''secret=''))" (is "_ \<longleftrightarrow> ?rhs pieces")
proof (induction pieces)
  case (Cons p ps)
  show ?case
  proof (cases "p = ''secret'' \<or> starts_with p ''secret=''")
    case True
    then obtain v where v: "splitn2 CHR ''='' p = (''secret'', v)" using secret_piece by blast
    then have "find_secret (p # ps) = Some s \<longleftrightarrow> v = Some s" using assms by (cases v) auto
    also have "\<dots> \<longleftrightarrow> p = ''secret='' @ s" using v by (auto simp: splitn2_iff dest: sym)
    also have "\<dots> \<longleftrightarrow> ?rhs (p # ps)" using True by (auto simp: Cons_eq_append_conv)
    finally show ?thesis .
  next
    case False
    then have "fst (splitn2 CHR ''='' p) \<noteq> ''secret''" using secret_piece [of p] by (metis prod.collapse)
    then have "find_secret (p # ps) = find_secret ps" by (simp add: split_beta)
    moreover have "?rhs (p # ps) \<longleftrightarrow> ?rhs ps"
    proof
      assume "?rhs (p # ps)"
      then obtain bs as where b: "p # ps = bs @ (''secret='' @ s) # as" "\<forall>p \<in> set bs. p \<noteq> ''secret'' \<and> \<not> starts_with p ''secret=''"
        by blast
      have "bs \<noteq> []" using b(1) False starts_with_append [of "''secret=''" s] by (cases bs) (auto simp del: starts_with_append)
      then obtain bs' where "bs = p # bs'" using b(1) by (cases bs) auto
      with b show "?rhs ps" by (intro exI [of _ bs'] exI [of _ as]) simp
    next
      assume "?rhs ps"
      then obtain bs as where b: "ps = bs @ (''secret='' @ s) # as" "\<forall>p \<in> set bs. p \<noteq> ''secret'' \<and> \<not> starts_with p ''secret=''"
        by blast
      with False show "?rhs (p # ps)" by (intro exI [of _ "p # bs"] exI [of _ as]) simp
    qed
    ultimately show ?thesis using Cons by simp
  qed
qed simp

lemma middleware_iff:
  "shared_secret_middleware sec rq = NextHandler \<longleftrightarrow>
    (sec_mode sec = ''shared-secret'' \<longrightarrow> starts_with (rq_path rq) ''/v1/internal/'' \<or> trim (sec_shared_secret sec) = [] \<or>
       rq_secret_header rq = Some (trim (sec_shared_secret sec)) \<or>
       (\<exists>q. rq_query rq = Some q \<and> carries_secret q (trim (sec_shared_secret sec))))"
proof (cases "trim (sec_shared_secret sec) = []")
  case True
  then show ?thesis by (simp add: shared_secret_middleware_def Let_def)
next
  case False
  have "carries_secret q (trim (sec_shared_secret sec)) \<longleftrightarrow>
      find_secret (split_on CHR ''&'' q) = Some (trim (sec_shared_secret sec))" for q
    unfolding carries_secret_def by (rule find_secret_iff [OF False, symmetric])
  then have "query_secret rq = trim (sec_shared_secret sec) \<longleftrightarrow>
      (\<exists>q. rq_query rq = Some q \<and> carries_secret q (trim (sec_shared_secret sec)))"
    using False by (simp add: query_secret_def or_default_def split: option.split)
  then show ?thesis
    using False by (cases "rq_secret_header rq") (auto simp: shared_secret_middleware_def Let_def or_default_def)
qed

section \<open>Routes\<close>

lemma open_routes:
  "path_routes path = Some (l, h) \<Longrightarrow> h m = Some e \<Longrightarrow> l \<noteq> Protected \<Longrightarrow>
     e \<in> {GetDashboard, GetHealth, GetMetrics, GetInternalNode, GetInternalNodes}"
  by (auto simp: path_routes_def getter_def split: if_split_asm option.split_asm list.split_asm)

lemma protected_not_internal:
  assumes "path_routes path = Some (Protected, h)" shows "\<not> starts_with path ''/v1/internal/''"
proof
  assume "starts_with path ''/v1/internal/''"
  then obtain t where path: "path = ''/v1/internal/'' @ t" by (auto simp: starts_with_iff)
  have "strip_prefix path ''/v1/'' = Some (''internal'' @ ''/'' @ t)"
    unfolding path using strip_prefix_append [of "''/v1/''" "''internal/'' @ t"] by simp
  moreover have "split_on CHR ''/'' (''internal'' @ ''/'' @ t) = ''internal'' # split_on CHR ''/'' t"
    using split_on_append [of "CHR ''/''" "''internal''" t] by simp
  ultimately show False
    using assms unfolding path path_routes_def by (simp split: if_split_asm list.split_asm)
qed

section \<open>Storage\<close>

lemma get_chunks_state: "snd (get_chunks E dd b k s) = snd (index_get_object E dd b k s)"
  by (simp add: get_chunks_def op_simps split: prod.split sum.split)

context storage_api begin

lemma get_handler_value:
  fixes cfg :: config
  defines "dd \<equiv> nc_data_dir (cfg_node cfg)"
  assumes "index_ready sound s dd" "rc_storage (cfg_roles cfg)"
  shows "fst (get_object_handler E cfg b k s) =
    (case stored_md E (index_trees trees s dd) b k of
       Inl e \<Rightarrow> storage_failure e
     | Inr md \<Rightarrow> (case read_object (se_blob E) (d_fs s) dd b k md of
         Inl e \<Rightarrow> storage_failure e | Inr data \<Rightarrow> (200, ObjectData data (etag md))))"
proof -
  obtain s1 where 1: "index_get_object E dd b k s = (stored_md E (index_trees trees s dd) b k, s1)"
    "index_ready sound s1 dd" "index_trees trees s1 dd = sled_effect (OpenTree (bucket_tree b)) (index_trees trees s dd)"
    unfolding stored_md_def by (rule get_index_ready [OF assms(2)])
  obtain s2 where 2: "index_get_object E dd b k s1 = (stored_md E (index_trees trees s1 dd) b k, s2)"
    unfolding stored_md_def by (rule get_index_ready [OF 1(2)])
  have "get_object E dd b k s =
      (bind_res (stored_md E (index_trees trees s dd) b k) (read_object (se_blob E) (d_fs s) dd b k), s1)"
    using get_chunks_value [OF assms(2), of b k] get_chunks_state [of E dd b k s] 1(1)
    by (simp add: store_defs prod_eq_iff)
  then show ?thesis
    using assms(3) 2 1(3)
    by (simp add: get_object_handler_def dd_def [symmetric] stored_md_open bind_res_def split: sum.split)
qed

text \<open>A deletion, as the handlers that follow see it.\<close>

lemma delete_handler_ready:
  fixes cfg :: config
  defines "dd \<equiv> nc_data_dir (cfg_node cfg)"
  assumes "index_ready sound s dd" "rc_storage (cfg_roles cfg)"
  obtains s' where "delete_object_handler E cfg b k s = ((204, NoBody), s')" "index_ready sound s' dd" "d_fs s' = d_fs s"
    "\<And>b' k'. stored_md E (index_trees trees s' dd) b' k' =
       (if b' = b \<and> k' = k then Inl (ObjectNotFound b k) else stored_md E (index_trees trees s dd) b' k')"
proof -
  obtain s' where s': "index_delete_object E dd b k s = (Inr (), s')" "index_ready sound s' dd" "d_fs s' = d_fs s"
    "index_trees trees s' dd = sled_effect (Remove (bucket_tree b) (str_bytes k))
       (sled_effect (OpenTree (bucket_tree b)) (index_trees trees s dd))"
    by (rule delete_ready [OF assms(2)])
  have "stored_md E (index_trees trees s' dd) b' k' =
       (if b' = b \<and> k' = k then Inl (ObjectNotFound b k) else stored_md E (index_trees trees s dd) b' k')" for b' k'
    by (simp add: s'(4) stored_md_def)
  with s' assms(3) show ?thesis
    using that [of s'] by (simp add: delete_object_handler_def store_defs dd_def [symmetric])
qed

end

lemma not_found_reply: "storage_failure (ObjectNotFound b k) = (404, StorageError (''Object not found: '' @ b @ ''/'' @ k))"
proof -
  have "str_contains (''Object not found: '' @ b @ ''/'' @ k) ''not found''"
    unfolding str_contains_iff by (rule exI [of _ "''Object ''"]) simp
  then show ?thesis by (simp add: storage_failure_def)
qed

lemma insufficient_reply: "storage_failure InsufficientShards = (500, StorageError ''Insufficient shards to recover data'')"
  by (simp add: storage_failure_def starts_with_def)

section \<open>Views without the fallback\<close>

text \<open>
  The steps of a view (\<open>cluster_step\<close>) without the insertion of a full profile, which discovery does only
  when a seed fails to answer \<open>/v1/internal/nodes\<close> and then answers \<open>/v1/internal/node\<close>.
\<close>

inductive listed_step :: "uuid_api \<Rightarrow> node_id \<Rightarrow> membership \<Rightarrow> membership \<Rightarrow> bool" for U self_id where
  listed_detector: "listed_step U self_id m
    (m\<lparr>ms_cluster := failure_detector_round self_id now snapshot (ms_cluster m)\<rparr>)"
| listed_peers: "listed_step U self_id m (apply_peer_list U self_id now peers m)"
| listed_seen: "listed_step U self_id m (m\<lparr>ms_seen := hput nid now (ms_seen m)\<rparr>)"
| listed_join: "listed_step U self_id m (join_cluster version now nid tier g r m)"

definition no_storage_peer :: "node_id \<Rightarrow> membership \<Rightarrow> bool" where
  "no_storage_peer self_id m = (cluster_wf (ms_cluster m) \<and>
     (\<forall>k n. hget (cs_nodes (ms_cluster m)) k = Some n \<longrightarrow> k \<noteq> self_id \<longrightarrow>
        \<not> cap_storage_node (np_capabilities (ni_profile n))))"

lemma bare_no_storage [simp]: "\<not> cap_storage_node (np_capabilities (ni_profile (bare_node k t v g r)))"
  by (simp add: bare_node_def)

lemma listed_no_storage:
  assumes "listed_node U k ps old = Some n" "\<And>n. old = Some n \<Longrightarrow> \<not> cap_storage_node (np_capabilities (ni_profile n))"
  shows "\<not> cap_storage_node (np_capabilities (ni_profile n))"
  using assms by (auto simp: listed_node_def split: option.split_asm)

interpretation listed: step_system "listed_step U self_id" "no_storage_peer self_id" "\<lambda>_ _. True" for U self_id
proof (unfold_locales, goal_cases)
  case (1 m m')
  from 1(1) show ?case
  proof (cases rule: listed_step.cases)
    case (listed_detector now snapshot)
    with 1(2) show ?thesis by (auto simp: no_storage_peer_def detector_nodes detector_wf)
  next
    case (listed_peers now peers)
    with 1(2) show ?thesis
      by (auto simp: no_storage_peer_def apply_peer_list_nodes apply_peer_list_wf elim!: listed_no_storage)
  next
    case (listed_seen nid now)
    with 1(2) show ?thesis by (simp add: no_storage_peer_def)
  next
    case (listed_join version now nid tier g r)
    with 1(2) show ?thesis
      by (auto simp: no_storage_peer_def join_cluster_def Let_def wf_put bare_node_def)
  qed
qed simp_all

lemma no_storage_peers: "no_storage_peer self_id m \<Longrightarrow> storage_peers self_id (ms_cluster m) = []"
  by (fastforce simp: no_storage_peer_def storage_peers_def filter_empty_conv cluster_wf_def)

section \<open>The watcher\<close>

definition watch_event :: "uuid_api \<Rightarrow> nat \<Rightarrow> (node_id, node_status) hmap \<Rightarrow> node_id \<times> node_status \<Rightarrow> ops_event list" where
  "watch_event U now last_status entry = app_events (watch_node U now last_status entry
     \<lparr> app_node_id = 0, app_local_node = bare_node 0 0 [] [] [], app_cluster = cluster_default, app_jobs = [],
       app_outputs = [], app_events = [], app_tasks = [] \<rparr>)"

definition removed_event :: "uuid_api \<Rightarrow> nat \<Rightarrow> (node_id, node_status) hmap \<Rightarrow> node_id \<Rightarrow> ops_event list" where
  "removed_event U now current nid = app_events (watch_removed U now current nid
     \<lparr> app_node_id = 0, app_local_node = bare_node 0 0 [] [] [], app_cluster = cluster_default, app_jobs = [],
       app_outputs = [], app_events = [], app_tasks = [] \<rparr>)"

lemma watch_node_event: "watch_node U now l x a = a\<lparr>app_events := app_events a @ watch_event U now l x\<rparr>"
  by (simp add: watch_event_def watch_node_def publish_ops_event_def split: prod.split option.split)

lemma watch_removed_event: "watch_removed U now c k a = a\<lparr>app_events := app_events a @ removed_event U now c k\<rparr>"
  by (simp add: removed_event_def watch_removed_def publish_ops_event_def)

lemma fold_watch: "fold (watch_node U now l) xs a = a\<lparr>app_events := app_events a @ concat (List.map (watch_event U now l) xs)\<rparr>"
  by (induction xs arbitrary: a) (simp_all add: watch_node_event)

lemma fold_removed: "fold (watch_removed U now c) ks a = a\<lparr>app_events := app_events a @ concat (List.map (removed_event U now c) ks)\<rparr>"
  by (induction ks arbitrary: a) (simp_all add: watch_removed_event)

text \<open>What one round says about a node, from its status before and now.\<close>

fun change_kind :: "node_status option \<Rightarrow> node_status option \<Rightarrow> string option" where
  "change_kind None (Some st) = Some ''node.discovered''"
| "change_kind (Some prev) (Some st) = (if prev = st then None else Some ''node.status_changed'')"
| "change_kind (Some prev) None = Some ''node.removed''"
| "change_kind None None = None"

text \<open>A node's part of the events, in their order, and what a series of statuses makes it.\<close>

definition about_nodes :: "ops_event \<Rightarrow> bool" where
  "about_nodes e = starts_with (oe_kind e) ''node.''"

definition node_log :: "uuid_api \<Rightarrow> node_id \<Rightarrow> ops_event list \<Rightarrow> string list" where
  "node_log U k evs = List.map oe_kind (filter (\<lambda>e. about_nodes e \<and> oe_node_id e = Some (uuid_str U k)) evs)"

fun changes :: "node_status option list \<Rightarrow> string list" where
  "changes (x # y # zs) = (case change_kind x y of None \<Rightarrow> [] | Some kind \<Rightarrow> [kind]) @ changes (y # zs)"
| "changes _ = []"

lemma node_log_append [simp]: "node_log U k (xs @ ys) = node_log U k xs @ node_log U k ys"
  by (simp add: node_log_def)

lemma node_log_concat: "node_log U k (concat xss) = concat (List.map (node_log U k) xss)"
  by (induction xss) (simp_all add: node_log_def)

lemma node_log_others: "list_all (\<lambda>e. \<not> about_nodes e) evs \<Longrightarrow> node_log U k evs = []"
  by (auto simp: node_log_def list_all_iff filter_empty_conv)

lemma node_statuses_get: "hget (node_statuses c) k = map_option ni_status (hget (cs_nodes c) k)"
  by (simp add: node_statuses_def hget_map_val)

lemma node_statuses_wf: "cluster_wf c \<Longrightarrow> distinct (hkeys (node_statuses c))"
  by (simp add: node_statuses_def cluster_wf_def)

lemma concat_keyed:
  "distinct (hkeys m) \<Longrightarrow> (\<And>k' v. k' \<noteq> k \<Longrightarrow> f (k', v) = []) \<Longrightarrow>
     concat (List.map f m) = (case hget m k of None \<Rightarrow> [] | Some v \<Rightarrow> f (k, v))"
proof (induction m)
  case (Cons x m)
  obtain k' v where x: "x = (k', v)" by (cases x)
  show ?case
  proof (cases "k' = k")
    case True
    then have "hget m k = None" using Cons.prems(1) x by (simp add: hget_None_iff)
    then show ?thesis using Cons x True by simp
  next
    case False
    then show ?thesis using Cons x by simp
  qed
qed simp

text \<open>One round adds to a node's log what the change of its status since the last round calls for.\<close>

context uuid_text begin

lemma uuid_str_inj: "uuid_str U x = uuid_str U y \<longleftrightarrow> x = y"
  by (metis uuid_round option.inject)

lemma watch_event_log:
  "node_log U k (watch_event U now l (k', st)) =
     (if k' = k then case change_kind (hget l k) (Some st) of None \<Rightarrow> [] | Some kind \<Rightarrow> [kind] else [])"
  by (simp add: node_log_def watch_event_def watch_node_def publish_ops_event_def about_nodes_def starts_with_def
      uuid_str_inj split: option.split)

lemma removed_event_log:
  "node_log U k (removed_event U now c k') = (if k' = k \<and> hget c k = None then [''node.removed''] else [])"
  by (simp add: node_log_def removed_event_def watch_removed_def publish_ops_event_def about_nodes_def starts_with_def
      uuid_str_inj)

lemma watch_round_log:
  assumes "distinct (hkeys l)" "cluster_wf (app_cluster a)"
  shows "\<exists>evs. watch_round U now l a = (node_statuses (app_cluster a), a\<lparr>app_events := app_events a @ evs\<rparr>) \<and>
    node_log U k evs = changes [hget l k, hget (node_statuses (app_cluster a)) k] \<and> list_all about_nodes evs"
proof (intro exI conjI)
  let ?cur = "node_statuses (app_cluster a)"
  let ?evs = "concat (List.map (watch_event U now l) ?cur) @ concat (List.map (\<lambda>x. removed_event U now ?cur (fst x)) l)"
  show "watch_round U now l a = (?cur, a\<lparr>app_events := app_events a @ ?evs\<rparr>)"
    by (simp add: watch_round_def fold_watch fold_removed Let_def comp_def)
  have "node_log U k (concat (List.map (watch_event U now l) ?cur)) =
      (case hget ?cur k of None \<Rightarrow> [] | Some st \<Rightarrow> (case change_kind (hget l k) (Some st) of None \<Rightarrow> [] | Some kind \<Rightarrow> [kind]))"
    unfolding node_log_concat map_map
    by (subst concat_keyed [OF node_statuses_wf [OF assms(2)]]) (auto simp: watch_event_log split: option.split)
  moreover have "node_log U k (concat (List.map (\<lambda>x. removed_event U now ?cur (fst x)) l)) =
      (case hget l k of None \<Rightarrow> [] | Some _ \<Rightarrow> if hget ?cur k = None then [''node.removed''] else [])"
    unfolding node_log_concat map_map
    by (subst concat_keyed [OF assms(1)]) (auto simp: removed_event_log split: option.split)
  ultimately show "node_log U k ?evs = changes [hget l k, hget ?cur k]"
    by (cases "hget l k"; cases "hget ?cur k") simp_all
  show "list_all about_nodes ?evs"
    by (auto simp: list_all_iff watch_event_def watch_node_def removed_event_def watch_removed_def publish_ops_event_def
        about_nodes_def starts_with_def split: option.split_asm if_split_asm)
qed

end

text \<open>A turn of the watcher: the time, the view it finds and what the other tasks published since the last turn.\<close>

definition watch_turn :: "nat \<times> cluster_state \<times> ops_event list \<Rightarrow> nat \<times> (app \<Rightarrow> app)" where
  "watch_turn t = (case t of (now, view, published) \<Rightarrow>
     (now, \<lambda>a. a\<lparr>app_cluster := view, app_events := app_events a @ published\<rparr>))"

section \<open>Properties\<close>

text \<open>
  C29. What is reachable without the secret. In mode \<open>shared-secret\<close> with a secret configured, a request that
  does not carry it, in the header or as the first \<open>secret\<close> parameter of its query, whatever text that is, reaches no handler but the dashboard,
  the health and metrics pages and the two internal node listings. In every other case (another mode, a
  blank secret, the secret presented) the routes alone decide: in mode \<open>ca\<close> every handler is
  reachable by anyone.
\<close>

theorem open_surface:
  fixes sec :: security_config and rq :: http_request
  defines "demanded \<equiv> sec_mode sec = ''shared-secret'' \<and> trim (sec_shared_secret sec) \<noteq> []"
    and "presented \<equiv> rq_secret_header rq = Some (trim (sec_shared_secret sec)) \<or>
      (\<exists>q. rq_query rq = Some q \<and> carries_secret q (trim (sec_shared_secret sec)))"
  shows "(demanded \<and> \<not> presented \<longrightarrow> dispatch_request sec m rq = Run e \<longrightarrow>
      e \<in> {GetDashboard, GetHealth, GetMetrics, GetInternalNode, GetInternalNodes}) \<and>
    (\<not> demanded \<or> presented \<longrightarrow> dispatch_request sec m rq =
      (case path_routes (rq_path rq) of None \<Rightarrow> Reply 404
       | Some (_, handlers) \<Rightarrow> (case handlers m of None \<Rightarrow> Reply 405 | Some e \<Rightarrow> Run e)))"
proof -
  have gate: "shared_secret_middleware sec rq = NextHandler \<longleftrightarrow> \<not> demanded \<or> presented \<or> starts_with (rq_path rq) ''/v1/internal/''"
    using middleware_iff [of sec rq] unfolding demanded_def presented_def by blast
  have refused: "e \<in> {GetDashboard, GetHealth, GetMetrics, GetInternalNode, GetInternalNodes}"
    if d: "demanded \<and> \<not> presented" and run: "dispatch_request sec m rq = Run e"
  proof -
    obtain l h where r: "path_routes (rq_path rq) = Some (l, h)" "h m = Some e"
      "\<not> (l = Protected \<and> shared_secret_middleware sec rq = Unauthorized)"
      using run by (auto simp: dispatch_request_def Let_def split: option.split_asm if_split_asm)
    have "l \<noteq> Protected"
    proof
      assume "l = Protected"
      then have "starts_with (rq_path rq) ''/v1/internal/''" using r(3) gate d by (cases "shared_secret_middleware sec rq") auto
      with protected_not_internal r(1) \<open>l = Protected\<close> show False by blast
    qed
    with r(1,2) show ?thesis by (rule open_routes)
  qed
  have "dispatch_request sec m rq = (case path_routes (rq_path rq) of None \<Rightarrow> Reply 404
       | Some (_, handlers) \<Rightarrow> (case handlers m of None \<Rightarrow> Reply 405 | Some e \<Rightarrow> Run e))"
    if "\<not> demanded \<or> presented"
  proof -
    have "shared_secret_middleware sec rq = NextHandler" using that gate by blast
    then show ?thesis by (auto simp: dispatch_request_def Let_def split: option.split)
  qed
  with refused show ?thesis by blast
qed

theorem open_surface_witness:
  "dispatch_request \<lparr> sec_mode = ''shared-secret'', sec_shared_secret = '' s3 '', sec_ca_cert_path = [] \<rparr> POST
      \<lparr> rq_path = ''/v1/jobs'', rq_query = Some ''limit=5&secret=s3'', rq_secret_header = None \<rparr> = Run PostJob \<and>
   dispatch_request \<lparr> sec_mode = ''shared-secret'', sec_shared_secret = '' s3 '', sec_ca_cert_path = [] \<rparr> POST
      \<lparr> rq_path = ''/v1/jobs'', rq_query = Some ''limit=5&secret&secret=s3'', rq_secret_header = None \<rparr> \<noteq> Run PostJob"
proof -
  let ?sec = "\<lparr> sec_mode = ''shared-secret'', sec_shared_secret = '' s3 '', sec_ca_cert_path = [] \<rparr>"
  have t: "trim '' s3 '' = ''s3''" by (simp add: trim_def is_whitespace_def)
  have r: "path_routes ''/v1/jobs'' = Some (Protected, (getter ListJobs)(POST := Some PostJob))" by (simp add: path_routes_def)
  have yes: "carries_secret ''limit=5&secret=s3'' ''s3''"
    unfolding carries_secret_def by (rule exI [of _ "[''limit=5'']"], rule exI [of _ "[]"]) (simp add: starts_with_def)
  have no: "\<not> carries_secret ''limit=5&secret&secret=s3'' ''s3''"
    by (auto simp: carries_secret_def Cons_eq_append_conv)
  show ?thesis
    using open_surface [where rq = "\<lparr> rq_path = ''/v1/jobs'', rq_query = Some ''limit=5&secret=s3'', rq_secret_header = None \<rparr>"
        and sec = ?sec and m = POST]
      open_surface [where rq = "\<lparr> rq_path = ''/v1/jobs'', rq_query = Some ''limit=5&secret&secret=s3'', rq_secret_header = None \<rparr>"
        and sec = ?sec and m = POST and e = PostJob]
    by (simp add: t r yes no)
qed

text \<open>
  C4. Life cycle of an object over HTTP. On a storage node with a sound index and room on its disk, an upload
  under any key, into a bucket that need not exist, is answered 201; the download that follows is
  answered 200 with exactly the bytes sent and their digest as entity tag; a deletion is answered 204,
  and the download after it 404.
\<close>

theorem http_life_cycle:
  assumes "storage_api E trees sound" "index_ready sound s (nc_data_dir (cfg_node cfg))" "nc_data_dir (cfg_node cfg) \<noteq> []"
    and "rc_storage (cfg_roles cfg)"
    and "can_store (d_fs s) (chunks_dir (nc_data_dir (cfg_node cfg)) b) (object_id b k)"
    and "compress (se_blob E) data (zstd_level (policy_from_str (or_default header ''warm''))) = Inr c" "length c < 2 ^ 64 - 8"
  shows "\<exists>md s1 s2 s3 s4. put_object_handler E (n1, n2, n3, n4) cfg self_id view b k header data s =
      ((201, ObjectStored md), storage_peers self_id view, s1) \<and>
    get_object_handler E cfg b k s1 = ((200, ObjectData data (sha_hex (se_blob E) data)), s2) \<and>
    delete_object_handler E cfg b k s1 = ((204, NoBody), s3) \<and>
    get_object_handler E cfg b k s3 = ((404, StorageError (''Object not found: '' @ b @ ''/'' @ k)), s4)"
proof -
  note api = assms(1)
  let ?dd = "nc_data_dir (cfg_node cfg)" and ?p = "policy_from_str (or_default header ''warm'')"
  obtain s0 where s0: "index_create_bucket E ?dd b s = (Inr (), s0)" "index_ready sound s0 ?dd" "d_fs s0 = d_fs s"
    by (rule storage_api.create_bucket_ready [OF api assms(2)])
  have store: "can_store (d_fs s0) (chunks_dir ?dd b) (object_id b k)" using assms(5) s0(3) by simp
  obtain md s1 where put: "put_chunks E (n1, n2, n3, n4) ?dd b k data ?p s0 = (Inr md, s1)"
    by (rule storage_api.put_chunks_succeeds [OF api s0(2) assms(3) store assms(6)])
  have handler: "put_object_handler E (n1, n2, n3, n4) cfg self_id view b k header data s =
      ((201, ObjectStored md), storage_peers self_id view, s1)"
    using assms(4) s0(1) put by (simp add: put_object_handler_def Let_def store_defs)
  obtain md' where md': "index_ready sound s1 ?dd" "stored_md E (index_trees trees s1 ?dd) b k = Inr md'"
    "etag md' = sha_hex (se_blob E) data"
    by (rule storage_api.put_chunks_stored [OF api s0(2) assms(3) put]) auto
  have "healthy (d_fs s1)" using put_chunks_frame(1) [OF put] store by (simp add: can_store_def healthy_def)
  then have "fst (get_chunks E ?dd b k (s1\<lparr>d_fs := d_fs s1\<rparr>)) = Inr data"
    by (intro storage_api.get_after_put [OF api s0(2) assms(3) put assms(6,7)]) (simp_all add: put_no_dir [OF put store assms(3)])
  then have "read_object (se_blob E) (d_fs s1) ?dd b k md' = Inr data"
    using storage_api.get_chunks_value [OF api md'(1), of b k] md'(2) by (simp add: bind_res_def)
  then have "fst (get_object_handler E cfg b k s1) = (200, ObjectData data (sha_hex (se_blob E) data))"
    using storage_api.get_handler_value [OF api md'(1) assms(4)] md'(2,3) by simp
  moreover obtain s3 where s3: "delete_object_handler E cfg b k s1 = ((204, NoBody), s3)" "index_ready sound s3 ?dd"
    "stored_md E (index_trees trees s3 ?dd) b k = Inl (ObjectNotFound b k)"
    by (rule storage_api.delete_handler_ready [OF api md'(1) assms(4), of b k]) simp
  moreover have "fst (get_object_handler E cfg b k s3) = (404, StorageError (''Object not found: '' @ b @ ''/'' @ k))"
    using storage_api.get_handler_value [OF api s3(2) assms(4)] s3(3) by (simp add: not_found_reply)
  ultimately show ?thesis using handler by (metis prod.collapse)
qed

theorem http_life_cycle_witness:
  "\<exists>md s1 s2 s3 s4. put_object_handler ref_env (''t1'', ''t2'', ''t3'', ''t4'') storage_config 1 (sample_cluster [1, 2])
      ''new'' ''a/b'' (Some ''cold'') [7, 8, 9] ref_disk = ((201, ObjectStored md), storage_peers 1 (sample_cluster [1, 2]), s1) \<and>
    get_object_handler ref_env storage_config ''new'' ''a/b'' s1 = ((200, ObjectData [7, 8, 9] (sha_hex (se_blob ref_env) [7, 8, 9])), s2) \<and>
    delete_object_handler ref_env storage_config ''new'' ''a/b'' s1 = ((204, NoBody), s3) \<and>
    get_object_handler ref_env storage_config ''new'' ''a/b'' s3 = ((404, StorageError (''Object not found: '' @ ''new'' @ ''/'' @ ''a/b'')), s4)"
  by (rule http_life_cycle [OF ref_store.storage_api_axioms _ _ _ _ ref_compress])
    (simp_all add: object_id_no_slash)

text \<open>
  C28. Failing downloads. After an upload, when a data shard's file is gone and the data shards before it are
  intact, the download is answered 500 with the message \<open>Insufficient shards\<close>, not with other data; an
  object that the index does not have is answered 404; and a node without the storage role answers 503 to both,
  whatever its disk holds, and touches nothing.
\<close>

theorem download_errors:
  assumes "storage_api E trees sound" "index_ready sound s (nc_data_dir (cfg_node cfg))" "nc_data_dir (cfg_node cfg) \<noteq> []"
    and "put_object E (n1, n2, n3, n4) (nc_data_dir (cfg_node cfg)) b k data p s = (Inr md, s')"
    and "healthy g" "i < fst (data_parity p)"
    and "\<not> path_exists g (shard_path (chunks_dir (nc_data_dir (cfg_node cfg)) b) (object_id b k) i)"
    and "\<And>j. j < i \<Longrightarrow>
         file_at g (shard_path (chunks_dir (nc_data_dir (cfg_node cfg)) b) (object_id b k) j) =
         file_at (d_fs s') (shard_path (chunks_dir (nc_data_dir (cfg_node cfg)) b) (object_id b k) j)"
    and "rc_storage (cfg_roles cfg)"
    and "stored_md E (index_trees trees s (nc_data_dir (cfg_node cfg))) b' k' = Inl (ObjectNotFound b' k')" "(b', k') \<noteq> (b, k)"
    and "\<not> rc_storage (cfg_roles other)"
  shows "fst (get_object_handler E cfg b k (s'\<lparr>d_fs := g\<rparr>)) = (500, StorageError ''Insufficient shards to recover data'') \<and>
    fst (get_object_handler E cfg b' k' (s'\<lparr>d_fs := g\<rparr>)) = (404, StorageError (''Object not found: '' @ b' @ ''/'' @ k')) \<and>
    get_object_handler E other b k t = ((503, StorageError ''This node does not have the storage role''), t) \<and>
    get_object_handler E other b' k' t = ((503, StorageError ''This node does not have the storage role''), t)"
proof -
  note api = assms(1)
  let ?dd = "nc_data_dir (cfg_node cfg)" and ?t = "s'\<lparr>d_fs := g\<rparr>"
  have put: "put_chunks E (n1, n2, n3, n4) ?dd b k data p s = (Inr md, s')" using assms(4) by (simp add: store_defs)
  obtain md' where md': "index_ready sound s' ?dd"
    "\<forall>b' k'. stored_md E (index_trees trees s' ?dd) b' k' = (if b' = b \<and> k' = k then Inr md' else stored_md E (index_trees trees s ?dd) b' k')"
    by (rule storage_api.put_chunks_stored [OF api assms(2,3) put]) blast
  have ready: "index_ready sound ?t ?dd" using md'(1) by simp
  have trees: "index_trees trees ?t ?dd = index_trees trees s' ?dd" by simp
  have "fst (get_chunks E ?dd b k ?t) = Inl InsufficientShards"
    by (rule storage_api.get_missing_shard [OF api assms(2,3) put assms(5-8)])
  then have "read_object (se_blob E) g ?dd b k md' = Inl InsufficientShards"
    using storage_api.get_chunks_value [OF api ready, of b k] md'(2) trees by (simp add: bind_res_def)
  then have "fst (get_object_handler E cfg b k ?t) = (500, StorageError ''Insufficient shards to recover data'')"
    using storage_api.get_handler_value [OF api ready assms(9), of b k] md'(2) trees by (simp add: insufficient_reply)
  moreover have "fst (get_object_handler E cfg b' k' ?t) = (404, StorageError (''Object not found: '' @ b' @ ''/'' @ k'))"
  proof -
    have "stored_md E (index_trees trees ?t ?dd) b' k' = Inl (ObjectNotFound b' k')"
      using md'(2) trees assms(10,11) by (metis prod.inject)
    then show ?thesis using storage_api.get_handler_value [OF api ready assms(9), of b' k'] by (simp add: not_found_reply)
  qed
  moreover have "get_object_handler E other b k t = ((503, StorageError ''This node does not have the storage role''), t)" for b k
    using assms(12) by (simp add: get_object_handler_def no_storage_role_def)
  ultimately show ?thesis by blast
qed

theorem download_errors_witness:
  "let s = (snd (ref_put ''b'' ''k'' [1, 2, 3] Warm ref_disk))\<lparr>d_fs := fs_remove (shard_path (chunks_dir ''/data'' ''b'') (object_id ''b'' ''k'') 1)
        (d_fs (snd (ref_put ''b'' ''k'' [1, 2, 3] Warm ref_disk)))\<rparr>; other = config_of_raw (sample_raw\<lparr>raw_storage := Some False\<rparr>) in
    fst (get_object_handler ref_env storage_config ''b'' ''k'' s) = (500, StorageError ''Insufficient shards to recover data'') \<and>
    fst (get_object_handler ref_env storage_config ''b'' ''other'' s) = (404, StorageError (''Object not found: '' @ ''b'' @ ''/'' @ ''other'')) \<and>
    get_object_handler ref_env other ''b'' ''k'' s = ((503, StorageError ''This node does not have the storage role''), s) \<and>
    get_object_handler ref_env other ''b'' ''other'' s = ((503, StorageError ''This node does not have the storage role''), s)"
proof -
  have "\<not> rc_storage (cfg_roles (config_of_raw (sample_raw\<lparr>raw_storage := Some False\<rparr>)))"
    by (simp add: config_of_raw_def sample_raw_def or_default_def)
  moreover have "stored_md ref_env (index_trees ref_trees ref_disk ''/data'') ''b'' ''other'' = Inl (ObjectNotFound ''b'' ''other'')"
    by (simp add: stored_md_def index_trees_def index_db_def ref_disk_def tree_of_ref ref_tree_def)
  ultimately show ?thesis
    using download_errors [where cfg = storage_config and i = 1 and b' = "''b''" and k' = "''other''"
        and t = "(snd (ref_put ''b'' ''k'' [1, 2, 3] Warm ref_disk))\<lparr>d_fs := fs_remove (shard_path (chunks_dir ''/data'' ''b'') (object_id ''b'' ''k'') 1)
          (d_fs (snd (ref_put ''b'' ''k'' [1, 2, 3] Warm ref_disk)))\<rparr>"
        and other = "config_of_raw (sample_raw\<lparr>raw_storage := Some False\<rparr>)" and b = "''b''" and k = "''k''" and data = "[1, 2, 3]"
        and p = Warm and g = "fs_remove (shard_path (chunks_dir ''/data'' ''b'') (object_id ''b'' ''k'') 1)
          (d_fs (snd (ref_put ''b'' ''k'' [1, 2, 3] Warm ref_disk)))",
        unfolded storage_config_simps, OF ref_store.storage_api_axioms ref_disk_ready _ ref_put_ok]
    by (simp add: ref_put_healthy ref_put_no_dir data_parity_def path_exists_def)
qed

text \<open>
  C37. Who receives replicas. As long as a view has changed by peer lists, joins, heartbeats and failure
  detection only, starting from one that knows no other node as a storage node, an upload is sent to no
  peer at all, however many storage nodes the view lists: neither the peer list nor a join carries
  that a node is one.
\<close>

theorem uploads_not_replicated:
  assumes "no_storage_peer self_id m" "(listed_step U self_id)\<^sup>*\<^sup>* m m'"
    and "put_object_handler E now cfg self_id (ms_cluster m') b k header data s = (reply, peers, s')"
  shows "peers = [] \<and> fan_out E ch dd b k md peers s' = ([], s')"
proof -
  have "storage_peers self_id (ms_cluster m') = []"
    by (rule no_storage_peers) (rule listed.run_inv [OF assms(2,1)])
  then show ?thesis
    using assms(3) by (auto simp: put_object_handler_def fan_out_def Let_def split: if_split_asm prod.split_asm sum.split_asm)
qed

theorem uploads_not_replicated_witness:
  "\<forall>ch md. fan_out ref_env ch ''/data'' ''b'' ''k'' md (fst (snd (put_object_handler ref_env (''t'', ''t'', ''t'', ''t'') storage_config 1
       (ms_cluster (join_cluster ''0.1.0'' 9 5 2 ''h:1'' ''h:2'' (sample_view [1]))) ''b'' ''k'' None [1] ref_disk))) ref_disk = ([], ref_disk)"
proof -
  have "no_storage_peer 1 (sample_view [1])"
    by (simp add: no_storage_peer_def sample_view_def sample_cluster_def cluster_wf_def sample_node_def)
  moreover have "(listed_step ref_uuid 1)\<^sup>*\<^sup>* (sample_view [1]) (join_cluster ''0.1.0'' 9 5 2 ''h:1'' ''h:2'' (sample_view [1]))"
    by (rule r_into_rtranclp) (rule listed_join)
  ultimately have "fst (snd (put_object_handler ref_env (''t'', ''t'', ''t'', ''t'') storage_config 1
       (ms_cluster (join_cluster ''0.1.0'' 9 5 2 ''h:1'' ''h:2'' (sample_view [1]))) ''b'' ''k'' None [1] ref_disk)) = []"
    using uploads_not_replicated by (metis prod.collapse)
  then show ?thesis by (simp add: fan_out_def)
qed

lemma watch_turn_simp [simp]:
  "watch_turn (now, view, published) = (now, \<lambda>a. a\<lparr>app_cluster := view, app_events := app_events a @ published\<rparr>)"
  by (simp add: watch_turn_def)

lemma ops_watcher_log:
  assumes "uuid_text U" "distinct (hkeys l)"
    and "list_all (\<lambda>(now, view, published). cluster_wf view \<and> list_all (\<lambda>e. \<not> about_nodes e) published) turns"
  shows "\<exists>evs. app_events (snd (ops_watcher U l (List.map watch_turn turns) a)) = app_events a @ evs \<and>
    node_log U k evs = changes (hget l k # List.map (\<lambda>(now, view, published). map_option ni_status (hget (cs_nodes view) k)) turns) \<and>
    filter (\<lambda>e. \<not> about_nodes e) evs = concat (List.map (\<lambda>(now, view, published). published) turns)"
  using assms(2,3)
proof (induction turns arbitrary: l a)
  case (Cons t turns)
  obtain now view published where t: "t = (now, view, published)" by (cases t)
  let ?b = "a\<lparr>app_cluster := view, app_events := app_events a @ published\<rparr>" and ?l = "node_statuses view"
  have wf: "cluster_wf view" and pub: "list_all (\<lambda>e. \<not> about_nodes e) published" using Cons.prems t by simp_all
  from uuid_text.watch_round_log [OF assms(1) Cons.prems(1), of ?b now k] wf obtain es
    where r: "watch_round U now l ?b = (?l, ?b\<lparr>app_events := app_events a @ published @ es\<rparr>)"
      "node_log U k es = changes [hget l k, hget ?l k]" "list_all about_nodes es" by auto
  from Cons.IH [OF node_statuses_wf [OF wf], of "?b\<lparr>app_events := app_events a @ published @ es\<rparr>"] Cons.prems(2) t
  obtain evs where i: "app_events (snd (ops_watcher U ?l (List.map watch_turn turns)
        (?b\<lparr>app_events := app_events a @ published @ es\<rparr>))) = (app_events a @ published @ es) @ evs"
    "node_log U k evs = changes (hget ?l k # List.map (\<lambda>(now, view, published). map_option ni_status (hget (cs_nodes view) k)) turns)"
    "filter (\<lambda>e. \<not> about_nodes e) evs = concat (List.map (\<lambda>(now, view, published). published) turns)" by auto
  have f: "filter (\<lambda>e. \<not> about_nodes e) published = published" "filter (\<lambda>e. \<not> about_nodes e) es = []"
    using pub r(3) by (auto simp: list_all_iff filter_empty_conv)
  show ?case
    using i f r(1,2) node_log_others [OF pub, of U k]
    by (intro exI [of _ "published @ es @ evs"]) (simp add: t node_statuses_get)
qed (simp add: node_log_def)

text \<open>
  C34. What the watcher publishes. However often it wakes, and whatever view it finds and whatever the
  other tasks published meanwhile, the events it leaves about a node are, in order, exactly one for every
  turn in which its status differs from the turn before, of the kind that says how: it appeared,
  changed or was removed. The events of the other tasks stay, in their order, and there are no more.
\<close>

theorem watcher_log_exact:
  assumes "uuid_text U" "cluster_wf (app_cluster a)"
    and "list_all (\<lambda>(now, view, published). cluster_wf view \<and> list_all (\<lambda>e. \<not> about_nodes e) published) turns"
  shows "\<exists>evs. app_events (snd (start_ops_watchers U (List.map watch_turn turns) a)) = app_events a @ evs \<and>
    (\<forall>k. node_log U k evs = changes (List.map (\<lambda>view. map_option ni_status (hget (cs_nodes view) k))
      (app_cluster a # List.map (\<lambda>(now, view, published). view) turns))) \<and>
    filter (\<lambda>e. \<not> about_nodes e) evs = concat (List.map (\<lambda>(now, view, published). published) turns)"
proof -
  note log = ops_watcher_log [OF assms(1) node_statuses_wf [OF assms(2)] assms(3), where a = a]
  obtain evs where e: "app_events (snd (ops_watcher U (node_statuses (app_cluster a)) (List.map watch_turn turns) a)) = app_events a @ evs"
    "filter (\<lambda>e. \<not> about_nodes e) evs = concat (List.map (\<lambda>(now, view, published). published) turns)"
    using log by blast
  moreover have "node_log U k evs = changes (List.map (\<lambda>view. map_option ni_status (hget (cs_nodes view) k))
      (app_cluster a # List.map (\<lambda>(now, view, published). view) turns))" for k
    using log [of k] unfolding e(1) by (auto simp: node_statuses_get case_prod_beta' comp_def)
  ultimately show ?thesis unfolding start_ops_watchers_def by blast
qed

theorem watcher_log_exact_witness:
  "\<exists>evs. app_events (snd (start_ops_watchers ref_uuid (List.map watch_turn
      [(1, sample_cluster [1, 2, 3], []), (2, sample_cluster [1, 3], []), (3, sample_cluster [1, 2, 3], [])]) sample_app)) = evs \<and>
    node_log ref_uuid 2 evs = [''node.removed'', ''node.discovered''] \<and> node_log ref_uuid 3 evs = [''node.discovered'']"
proof -
  have ev: "app_events sample_app @ evs = evs" for evs by (simp add: sample_app_def)
  let ?turns = "[(1, sample_cluster [1, 2, 3], []), (2, sample_cluster [1, 3], []), (3, sample_cluster [1, 2, 3], [])]"
  have "cluster_wf (app_cluster sample_app)"
    "list_all (\<lambda>(now, view, published). cluster_wf view \<and> list_all (\<lambda>e. \<not> about_nodes e) published) ?turns"
    by (simp_all add: sample_app_def)
  note w = watcher_log_exact [OF ref_uuid.uuid_text_axioms this, unfolded ev]
  have "changes (List.map (\<lambda>view. map_option ni_status (hget (cs_nodes view) k))
      (app_cluster sample_app # List.map (\<lambda>(now, view, published). view) ?turns)) =
    (if k = 2 then [''node.removed'', ''node.discovered''] else if k = 3 then [''node.discovered''] else [])" for k
    by (simp add: sample_app_def sample_cluster_def sample_node_def)
  with w show ?thesis by force
qed

end
