(* ===== verification/Agent_Main.thy ===== *)
theory Agent_Main
  imports Rest_Api
begin

text \<open>
  How an agent starts, \<open>agent/src/main.rs\<close>: the addresses it advertises, its identity and first view,
  its credentials (made by itself or obtained from a seed), its consensus engine. The environment
  variables, the host's resources, the clock, fresh identifiers, key generation and the seeds' answers
  are arguments; serving requests starts after what is modelled here.
\<close>

section \<open>Command line and addresses\<close>

fun parse_config_path :: "string list \<Rightarrow> string option" where
  "parse_config_path (a # b # args) = (if a = ''--config'' then Some b else parse_config_path (b # args))"
| "parse_config_path args = None"

text \<open>What the program does with its arguments, the first being its own name.\<close>

datatype main_command = ShowVersion | StartAgent string | ShowUsage

definition main_of :: "string list \<Rightarrow> main_command" where
  "main_of args =
     (if length args \<ge> 2 \<and> args ! 1 = ''--version'' then ShowVersion
      else if length args \<ge> 2 \<and> args ! 1 = ''start''
        then StartAgent (or_default (parse_config_path args) ''/etc/all4one/agent.toml'')
      else ShowUsage)"

text \<open>\<open>var\<close> is \<open>std::env::var\<close>: none when the variable is not set or not Unicode.\<close>

definition advertise_host :: "(string \<Rightarrow> string option) \<Rightarrow> config \<Rightarrow> string" where
  "advertise_host var cfg =
     (let bind_address = nw_bind_address (cfg_network cfg);
          given = (case var ''ALL4ONE_ADVERTISE_HOST'' of None \<Rightarrow> None | Some v \<Rightarrow> if trim v \<noteq> [] then Some v else None)
      in or_default (case given of Some v \<Rightarrow> Some v
           | None \<Rightarrow> if bind_address = ''0.0.0.0'' then var ''HOSTNAME'' else Some bind_address) bind_address)"

definition advertise_port :: "(string \<Rightarrow> string option) \<Rightarrow> string \<Rightarrow> u16 \<Rightarrow> u16" where
  "advertise_port var name port =
     or_default (case var name of None \<Rightarrow> None | Some v \<Rightarrow> parse_u16 (trim v)) port"

definition advertise_grpc_port :: "(string \<Rightarrow> string option) \<Rightarrow> config \<Rightarrow> u16" where
  "advertise_grpc_port var cfg = advertise_port var ''ALL4ONE_ADVERTISE_GRPC_PORT'' (nw_grpc_port (cfg_network cfg))"

definition advertise_rest_port :: "(string \<Rightarrow> string option) \<Rightarrow> config \<Rightarrow> u16" where
  "advertise_rest_port var cfg = advertise_port var ''ALL4ONE_ADVERTISE_REST_PORT'' (nw_rest_port (cfg_network cfg))"

definition host_port :: "string \<Rightarrow> u16 \<Rightarrow> string" where
  "host_port host port = host @ '':'' @ show_nat (unat port)"

section \<open>Enrolment\<close>

text \<open>The surroundings of a start.\<close>

record start_env =
  sx_uuid :: uuid_api
  sx_gen :: self_signed
  sx_var :: "string \<Rightarrow> string option"
  sx_version :: string
  sx_cores :: "nat option"
  sx_meminfo :: "string option"
  sx_now :: nat
  sx_fresh :: uuid
  sx_status_text :: "grpc_status \<Rightarrow> string"

definition enrol_secret :: "security_config \<Rightarrow> string option" where
  "enrol_secret sec =
     (if sec_mode sec = ''shared-secret''
      then let secret = trim (sec_shared_secret sec) in if secret = [] then None else Some secret
      else None)"

definition enrol_ca_path :: "security_config \<Rightarrow> string option" where
  "enrol_ca_path sec = (if sec_ca_cert_path sec = [] then None else Some (sec_ca_cert_path sec))"

definition ask_seed ::
  "start_env \<Rightarrow> (join_message, join_answer) channel \<Rightarrow> config \<Rightarrow> node_id \<Rightarrow> string \<Rightarrow> fs \<Rightarrow> grpc_status + join_answer"
where
  "ask_seed X ch cfg nid seed f =
     request_join_with_ca (sx_uuid X) (\<lambda>p. map_err io_msg (fs_read_to_string p f)) ch seed nid
       (enrol_secret (cfg_security cfg)) (enrol_ca_path (cfg_security cfg)) (nc_tier (cfg_node cfg))
       (advertise_host (sx_var X) cfg) (advertise_grpc_port (sx_var X) cfg) (advertise_rest_port (sx_var X) cfg)"

text \<open>
  The two loops. \<open>net n\<close> is how the network answers the \<open>n\<close>th call. The outcome is what ends the loops
  (the credentials were saved, or could not be) or the last error, with the number of calls so far.
\<close>

datatype enrol = Enrolled "cert_error + unit" | Refused "string option"

fun enrol_seeds ::
  "start_env \<Rightarrow> (nat \<Rightarrow> (join_message, join_answer) channel) \<Rightarrow> config \<Rightarrow> node_id \<Rightarrow> string list \<Rightarrow> string option \<Rightarrow> nat
   \<Rightarrow> fs \<Rightarrow> enrol \<times> nat \<times> fs"
where
  "enrol_seeds X net cfg nid [] last_err n f = (Refused last_err, n, f)"
| "enrol_seeds X net cfg nid (seed # seeds) last_err n f =
     (case ask_seed X (net n) cfg nid seed f of
        Inr bundle \<Rightarrow>
          (let (r, g) = save_node_cert (cert_manager_new (nc_data_dir (cfg_node cfg))) (ja_node_cert_pem bundle)
             (ja_node_key_pem bundle) (ja_ca_cert_pem bundle) f
           in (Enrolled r, Suc n, g))
      | Inl e \<Rightarrow> enrol_seeds X net cfg nid seeds (Some (''seed='' @ seed @ '' join failed: '' @ sx_status_text X e)) (Suc n) f)"

fun enrol_attempts ::
  "start_env \<Rightarrow> (nat \<Rightarrow> (join_message, join_answer) channel) \<Rightarrow> config \<Rightarrow> node_id \<Rightarrow> nat \<Rightarrow> string option \<Rightarrow> nat
   \<Rightarrow> fs \<Rightarrow> enrol \<times> nat \<times> fs"
where
  "enrol_attempts X net cfg nid 0 last_err n f = (Refused last_err, n, f)"
| "enrol_attempts X net cfg nid (Suc k) last_err n f =
     (case enrol_seeds X net cfg nid (dc_seeds (cfg_discovery cfg)) last_err n f of
        (Enrolled r, n, f) \<Rightarrow> (Enrolled r, n, f)
      | (Refused last_err, n, f) \<Rightarrow> enrol_attempts X net cfg nid k last_err n f)"

datatype start_error = StartIdentity string | StartCert cert_error | StartEnrol string

definition enroll_with_seed_ca ::
  "start_env \<Rightarrow> (nat \<Rightarrow> (join_message, join_answer) channel) \<Rightarrow> config \<Rightarrow> node_id \<Rightarrow> (start_error, fs, nat) op"
where
  "enroll_with_seed_ca X net cfg nid f =
     (case enrol_attempts X net cfg nid 20 None 0 f of
        (Enrolled (Inr _), n, g) \<Rightarrow> (Inr n, g)
      | (Enrolled (Inl e), n, g) \<Rightarrow> (Inl (StartCert e), g)
      | (Refused last_err, n, g) \<Rightarrow>
          (Inl (StartEnrol (or_default last_err ''No seed endpoints configured for enrollment'')), g))"

section \<open>Start\<close>

definition local_node_of :: "start_env \<Rightarrow> config \<Rightarrow> node_id \<Rightarrow> node_info" where
  "local_node_of X cfg nid =
     \<lparr> ni_profile = profile (sx_cores X) (sx_meminfo X) cfg nid, ni_status = Online, ni_version = sx_version X,
       ni_grpc_endpoint = host_port (advertise_host (sx_var X) cfg) (advertise_grpc_port (sx_var X) cfg),
       ni_rest_endpoint = host_port (advertise_host (sx_var X) cfg) (advertise_rest_port (sx_var X) cfg) \<rparr>"

definition initial_view :: "start_env \<Rightarrow> config \<Rightarrow> node_id \<Rightarrow> membership" where
  "initial_view X cfg nid =
     \<lparr> ms_cluster = upsert_self (local_node_of X cfg nid) cluster_default,
       ms_seen = mark_self_heartbeat (sx_now X) nid [] \<rparr>"

definition is_bootstrap_issuer :: "config \<Rightarrow> bool" where
  "is_bootstrap_issuer cfg = (nc_tier (cfg_node cfg) = 0 \<or> dc_seeds (cfg_discovery cfg) = [])"

definition start_cert :: "(cert_error, fs, 'a) op \<Rightarrow> (start_error, fs, 'a) op" where
  "start_cert m f = (let (r, g) = m f in (map_err StartCert r, g))"

text \<open>The credentials; the result is the number of calls made to seeds.\<close>

definition start_credentials ::
  "start_env \<Rightarrow> (nat \<Rightarrow> (join_message, join_answer) channel) \<Rightarrow> config \<Rightarrow> node_id \<Rightarrow> (start_error, fs, nat) op"
where
  "start_credentials X net cfg nid =
     (let cm = cert_manager_new (nc_data_dir (cfg_node cfg)) in
      bind_op (start_cert (ensure_dirs cm)) (\<lambda>_ f.
        if is_bootstrap_issuer cfg then bind_op (start_cert (init_ca (sx_gen X) cm)) (\<lambda>_. ret_op 0) f
        else if \<not> has_node_credentials cm f then enroll_with_seed_ca X net cfg nid f
        else (Inr 0, f)))"

text \<open>A failing engine is reported and the agent runs without it.\<close>

definition start_raft ::
  "('d, 'm, 's) openraft \<Rightarrow> 'd sled \<Rightarrow> 'm raft_state json \<Rightarrow> 'm \<Rightarrow> string + 'd \<Rightarrow> string + 'd \<Rightarrow> start_env \<Rightarrow> config
   \<Rightarrow> node_id \<Rightarrow> 's raft_node option"
where
  "start_raft R S J no_members opened_log opened_sm X cfg nid =
     (if nc_quorum_participant (cfg_node cfg)
      then (case init_raft R S J no_members opened_log opened_sm nid
              (host_port (advertise_host (sx_var X) cfg) (nw_grpc_port (cfg_network cfg))) [] of
              Inr node \<Rightarrow> Some node | Inl e \<Rightarrow> None)
      else None)"

definition start_app :: "start_env \<Rightarrow> config \<Rightarrow> node_id \<Rightarrow> app" where
  "start_app X cfg nid =
     \<lparr> app_node_id = nid, app_local_node = local_node_of X cfg nid, app_cluster = ms_cluster (initial_view X cfg nid),
       app_jobs = [], app_outputs = [], app_events = [], app_tasks = [] \<rparr>"

text \<open>From the configuration on; \<open>run_agent\<close> reads it first.\<close>

definition start_node ::
  "start_env \<Rightarrow> (nat \<Rightarrow> (join_message, join_answer) channel) \<Rightarrow> config \<Rightarrow> (start_error, fs, node_id \<times> nat) op"
where
  "start_node X net cfg =
     bind_op (\<lambda>f. let (r, g) = node_id (sx_uuid X) (sx_fresh X) (nc_data_dir (cfg_node cfg)) f in (map_err StartIdentity r, g))
       (\<lambda>nid. bind_op (start_credentials X net cfg nid) (\<lambda>calls. ret_op (nid, calls)))"

record ('s) agent =
  ag_config :: config
  ag_app :: app
  ag_seen :: "(node_id, nat) hmap"
  ag_raft :: "'s raft_node option"

definition run_agent ::
  "toml_api \<Rightarrow> ('d, 'm, 's) openraft \<Rightarrow> 'd sled \<Rightarrow> 'm raft_state json \<Rightarrow> 'm \<Rightarrow> string + 'd \<Rightarrow> string + 'd
   \<Rightarrow> start_env \<Rightarrow> (nat \<Rightarrow> (join_message, join_answer) channel) \<Rightarrow> string \<Rightarrow> (string + start_error, fs, 's agent) op"
where
  "run_agent T R S J no_members opened_log opened_sm X net config_path =
     bind_op (\<lambda>f. (map_err Inl (load T config_path f), f)) (\<lambda>cfg.
     bind_op (\<lambda>f. let (r, g) = start_node X net cfg f in (map_err Inr r, g)) (\<lambda>(nid, calls).
     ret_op \<lparr> ag_config = cfg, ag_app = start_app X cfg nid, ag_seen = ms_seen (initial_view X cfg nid),
       ag_raft = start_raft R S J no_members opened_log opened_sm X cfg nid \<rparr>))"

end
