(* ===== verification/Agent_Start.thy ===== *)
theory Agent_Start
  imports Agent_Main
begin

text \<open>
  What starting an agent promises: enrolment ends and succeeds as soon as a seed answers, a node that
  enrols at an issuer gets credentials of that issuer's cluster and is in its view, a restart on the same disk
  finds the same identity and asks nobody, and what a fresh quorum participant bootstraps.
\<close>

section \<open>The enrolment loops\<close>

definition seed_at :: "config \<Rightarrow> nat \<Rightarrow> string" where
  "seed_at cfg i = dc_seeds (cfg_discovery cfg) ! (i mod length (dc_seeds (cfg_discovery cfg)))"

text \<open>Whether the \<open>i\<close>th call of the loops gets an answer; the calls go round the seeds in order.\<close>

definition seed_answers ::
  "start_env \<Rightarrow> (nat \<Rightarrow> (join_message, join_answer) channel) \<Rightarrow> config \<Rightarrow> node_id \<Rightarrow> fs \<Rightarrow> nat \<Rightarrow> bool"
where
  "seed_answers X net cfg nid f i = is_ok (ask_seed X (net i) cfg nid (seed_at cfg i) f)"

lemma not_ok: "\<not> is_ok r \<longleftrightarrow> (\<exists>e. r = Inl e)"
  by (cases r) simp_all

lemma seeds_refuse:
  assumes "\<And>i. i < length ss \<Longrightarrow> \<not> is_ok (ask_seed X (net (n + i)) cfg nid (ss ! i) f)"
  shows "\<exists>le'. enrol_seeds X net cfg nid ss le n f = (Refused le', n + length ss, f)"
  using assms
proof (induction ss arbitrary: n le)
  case (Cons s ss)
  from Cons.prems [of 0] obtain e where "ask_seed X (net n) cfg nid s f = Inl e" by (auto simp: not_ok)
  moreover have "\<exists>le'. enrol_seeds X net cfg nid ss le'' (Suc n) f = (Refused le', Suc n + length ss, f)" for le''
    by (rule Cons.IH) (use Cons.prems [of "Suc _"] in simp)
  ultimately show ?case by simp
qed simp

lemma seeds_answer:
  assumes "i < length ss" "ask_seed X (net (n + i)) cfg nid (ss ! i) f = Inr ans"
    and "\<And>j. j < i \<Longrightarrow> \<not> is_ok (ask_seed X (net (n + j)) cfg nid (ss ! j) f)"
    and "save_node_cert (cert_manager_new (nc_data_dir (cfg_node cfg))) (ja_node_cert_pem ans) (ja_node_key_pem ans)
      (ja_ca_cert_pem ans) f = (r, g)"
  shows "enrol_seeds X net cfg nid ss le n f = (Enrolled r, Suc (n + i), g)"
  using assms(1-3)
proof (induction ss arbitrary: n le i)
  case (Cons s ss)
  show ?case
  proof (cases i)
    case 0
    then show ?thesis using Cons.prems assms(4) by simp
  next
    case (Suc k)
    from Cons.prems(3) [of 0] Suc obtain e where "ask_seed X (net n) cfg nid s f = Inl e" by (auto simp: not_ok)
    moreover have "enrol_seeds X net cfg nid ss le'' (Suc n) f = (Enrolled r, Suc (Suc n + k), g)" for le''
    proof (rule Cons.IH)
      show "k < length ss" using Cons.prems(1) Suc by simp
      show "ask_seed X (net (Suc n + k)) cfg nid (ss ! k) f = Inr ans" using Cons.prems(2) Suc by simp
      show "\<not> is_ok (ask_seed X (net (Suc n + j)) cfg nid (ss ! j) f)" if "j < k" for j
        using Cons.prems(3) [of "Suc j"] that Suc by simp
    qed
    ultimately show ?thesis using Suc by simp
  qed
qed simp

lemma attempts_refuse:
  assumes "\<And>i. i < k * length (dc_seeds (cfg_discovery cfg)) \<Longrightarrow> \<not> seed_answers X net cfg nid f (m * length (dc_seeds (cfg_discovery cfg)) + i)"
  shows "\<exists>le'. enrol_attempts X net cfg nid k le (m * length (dc_seeds (cfg_discovery cfg))) f =
    (Refused le', (m + k) * length (dc_seeds (cfg_discovery cfg)), f)"
  using assms
proof (induction k arbitrary: m le)
  case (Suc k)
  let ?ss = "dc_seeds (cfg_discovery cfg)"
  have "\<not> is_ok (ask_seed X (net (m * length ?ss + i)) cfg nid (?ss ! i) f)" if "i < length ?ss" for i
    using Suc.prems [of i] that by (simp add: seed_answers_def seed_at_def)
  from seeds_refuse [OF this] obtain le' where
    "enrol_seeds X net cfg nid ?ss le (m * length ?ss) f = (Refused le', Suc m * length ?ss, f)"
    by (fastforce simp: add.commute)
  moreover have "\<exists>le'. enrol_attempts X net cfg nid k le'' (Suc m * length ?ss) f = (Refused le', (Suc m + k) * length ?ss, f)" for le''
    by (rule Suc.IH) (use Suc.prems [of "length ?ss + _"] in \<open>simp add: ac_simps\<close>)
  ultimately show ?case by simp
qed simp

lemma attempts_answer:
  assumes "i < k * length (dc_seeds (cfg_discovery cfg))"
    and "ask_seed X (net (m * length (dc_seeds (cfg_discovery cfg)) + i)) cfg nid (seed_at cfg i) f = Inr ans"
    and "\<And>j. j < i \<Longrightarrow> \<not> seed_answers X net cfg nid f (m * length (dc_seeds (cfg_discovery cfg)) + j)"
    and "save_node_cert (cert_manager_new (nc_data_dir (cfg_node cfg))) (ja_node_cert_pem ans) (ja_node_key_pem ans)
      (ja_ca_cert_pem ans) f = (r, g)"
  shows "enrol_attempts X net cfg nid k le (m * length (dc_seeds (cfg_discovery cfg))) f =
    (Enrolled r, Suc (m * length (dc_seeds (cfg_discovery cfg)) + i), g)"
  using assms(1-3)
proof (induction k arbitrary: m le i)
  case (Suc k)
  let ?ss = "dc_seeds (cfg_discovery cfg)"
  show ?case
  proof (cases "i < length ?ss")
    case True
    have "\<not> is_ok (ask_seed X (net (m * length ?ss + j)) cfg nid (?ss ! j) f)" if "j < i" for j
      using Suc.prems(3) [OF that] that True by (simp add: seed_answers_def seed_at_def)
    moreover have "ask_seed X (net (m * length ?ss + i)) cfg nid (?ss ! i) f = Inr ans"
      using Suc.prems(2) True by (simp add: seed_at_def)
    ultimately show ?thesis using seeds_answer [OF True _ _ assms(4)] by simp
  next
    case False
    then obtain i' where i': "i = length ?ss + i'" by (metis le_Suc_ex not_less)
    have "\<not> is_ok (ask_seed X (net (m * length ?ss + j)) cfg nid (?ss ! j) f)" if "j < length ?ss" for j
      using Suc.prems(3) [of j] that i' by (simp add: seed_answers_def seed_at_def)
    from seeds_refuse [OF this] obtain le' where
      "enrol_seeds X net cfg nid ?ss le (m * length ?ss) f = (Refused le', Suc m * length ?ss, f)"
      by (fastforce simp: add.commute)
    moreover have "enrol_attempts X net cfg nid k le'' (Suc m * length ?ss) f = (Enrolled r, Suc (Suc m * length ?ss + i'), g)" for le''
    proof (rule Suc.IH)
      show "i' < k * length ?ss" using Suc.prems(1) i' by simp
      show "ask_seed X (net (Suc m * length ?ss + i')) cfg nid (seed_at cfg i') f = Inr ans"
        using Suc.prems(2) i' by (simp add: seed_at_def ac_simps)
      show "\<not> seed_answers X net cfg nid f (Suc m * length ?ss + j)" if "j < i'" for j
        using Suc.prems(3) [of "length ?ss + j"] that i' by (simp add: ac_simps)
    qed
    ultimately show ?thesis using i' by (simp add: ac_simps)
  qed
qed simp

text \<open>The loops as a whole: the first call that is answered decides.\<close>

lemma first_answer:
  assumes "i < 20 * length (dc_seeds (cfg_discovery cfg))" "ask_seed X (net i) cfg nid (seed_at cfg i) f = Inr ans"
    and "\<And>j. j < i \<Longrightarrow> \<not> seed_answers X net cfg nid f j"
    and "save_node_cert (cert_manager_new (nc_data_dir (cfg_node cfg))) (ja_node_cert_pem ans) (ja_node_key_pem ans)
      (ja_ca_cert_pem ans) f = (r, g)"
  shows "enrol_attempts X net cfg nid 20 None 0 f = (Enrolled r, Suc i, g)"
proof -
  have "enrol_attempts X net cfg nid 20 None (0 * length (dc_seeds (cfg_discovery cfg))) f =
      (Enrolled r, Suc (0 * length (dc_seeds (cfg_discovery cfg)) + i), g)"
    by (rule attempts_answer [OF assms(1) _ _ assms(4)]) (use assms(2,3) in simp_all)
  then show ?thesis by (simp del: enrol_attempts.simps)
qed

lemma enrol_first_answer:
  assumes "i < 20 * length (dc_seeds (cfg_discovery cfg))" "ask_seed X (net i) cfg nid (seed_at cfg i) f = Inr ans"
    and "\<And>j. j < i \<Longrightarrow> \<not> seed_answers X net cfg nid f j"
    and "save_node_cert (cert_manager_new (nc_data_dir (cfg_node cfg))) (ja_node_cert_pem ans) (ja_node_key_pem ans)
      (ja_ca_cert_pem ans) f = (r, g)"
  shows "enroll_with_seed_ca X net cfg nid f = (bind_res (map_err StartCert r) (\<lambda>_. Inr (Suc i)), g)"
  using first_answer [OF assms] by (cases r) (simp_all add: enroll_with_seed_ca_def op_simps del: enrol_attempts.simps)

lemma no_answer:
  assumes "\<And>i. i < 20 * length (dc_seeds (cfg_discovery cfg)) \<Longrightarrow> \<not> seed_answers X net cfg nid f i"
  shows "\<exists>le. enrol_attempts X net cfg nid 20 None 0 f = (Refused le, 20 * length (dc_seeds (cfg_discovery cfg)), f)"
proof -
  have "\<exists>le'. enrol_attempts X net cfg nid 20 None (0 * length (dc_seeds (cfg_discovery cfg))) f =
      (Refused le', (0 + 20) * length (dc_seeds (cfg_discovery cfg)), f)"
    by (rule attempts_refuse) (use assms in simp)
  then show ?thesis by (simp del: enrol_attempts.simps)
qed

section \<open>Saving credentials\<close>

lemma ensure_dirs_ok: "ensure_dirs cm f = (Inr (), g) \<longleftrightarrow> fs_create_dir_all (cm_certs_dir cm) f = (Inr (), g)"
  by (simp add: ensure_dirs_def)

lemma cert_parent:
  "plain_name n \<Longrightarrow> dd \<noteq> [] \<Longrightarrow>
     parent_key (path_key (cert_path (cert_manager_new dd) n)) = path_key (cm_certs_dir (cert_manager_new dd))"
  by (simp add: parent_key_def cert_key) (simp add: path_key_def)

lemma cert_key_eq:
  "plain_name n \<Longrightarrow> plain_name n' \<Longrightarrow> dd \<noteq> [] \<Longrightarrow>
     path_key (cert_path (cert_manager_new dd) n) = path_key (cert_path (cert_manager_new dd) n') \<longleftrightarrow> n = n'"
  by (simp add: cert_key)

text \<open>A disk whose certificate directory is there and free of directories named like certificate files.\<close>

definition certs_ready :: "string \<Rightarrow> fs \<Rightarrow> bool" where
  "certs_ready dd f = (healthy f \<and> is_dir_key f (path_key (cm_certs_dir (cert_manager_new dd))) \<and>
     (\<forall>n \<in> {''node.crt'', ''node.key'', ''ca.crt''}. \<not> is_dir_key f (path_key (cert_path (cert_manager_new dd) n))))"

lemma write_cert:
  assumes "certs_ready dd f" "n \<in> {''node.crt'', ''node.key'', ''ca.crt''}" "dd \<noteq> []"
  obtains g where "fs_write (cert_path (cert_manager_new dd) n) b f = (Inr (), g)" "certs_ready dd g"
    "\<And>q. file_at g q = (if path_key q = path_key (cert_path (cert_manager_new dd) n) then Some b else file_at f q)"
proof -
  let ?p = "cert_path (cert_manager_new dd) n"
  have n: "plain_name n" using assms(2) by auto
  have h: "healthy f" "\<not> is_dir_key f (path_key ?p)" "is_dir_key f (parent_key (path_key ?p))"
    using assms by (auto simp: certs_ready_def cert_parent [OF n assms(3)])
  from fs_write_into [OF h, of b] obtain g where g: "fs_write ?p b f = (Inr (), g)" by blast
  moreover have "certs_ready dd g"
    using assms(1) fs_write_healthy [OF g] fs_write_dirs [OF g] by (simp add: certs_ready_def is_dir_key_def)
  ultimately show ?thesis using that file_at_write [OF g] by blast
qed

lemma save_node_cert_ok:
  assumes "certs_ready dd f" "dd \<noteq> []"
  obtains g where "save_node_cert (cert_manager_new dd) cert key ca f = (Inr (), g)" "healthy g"
    "file_at g (cert_path (cert_manager_new dd) ''node.crt'') = Some (str_bytes cert)"
    "file_at g (cert_path (cert_manager_new dd) ''node.key'') = Some (str_bytes key)"
    "file_at g (cert_path (cert_manager_new dd) ''ca.crt'') = Some (str_bytes ca)"
proof -
  let ?p = "cert_path (cert_manager_new dd)"
  have keys: "path_key (?p ''node.crt'') \<noteq> path_key (?p ''node.key'')" "path_key (?p ''node.crt'') \<noteq> path_key (?p ''ca.crt'')"
    "path_key (?p ''node.key'') \<noteq> path_key (?p ''ca.crt'')"
    using assms(2) by (simp_all add: cert_key)
  have mk: "ensure_dirs (cert_manager_new dd) f = (Inr (), f)"
    using assms(1) by (simp add: ensure_dirs_def certs_ready_def fs_create_dir_all_def healthy_def)
  obtain f1 where 1: "fs_write (?p ''node.crt'') (str_bytes cert) f = (Inr (), f1)" "certs_ready dd f1"
    "\<And>q. file_at f1 q = (if path_key q = path_key (?p ''node.crt'') then Some (str_bytes cert) else file_at f q)"
    by (rule write_cert [OF assms(1) _ assms(2), of "''node.crt''" "str_bytes cert"]) auto
  obtain f2 where 2: "fs_write (?p ''node.key'') (str_bytes key) f1 = (Inr (), f2)" "certs_ready dd f2"
    "\<And>q. file_at f2 q = (if path_key q = path_key (?p ''node.key'') then Some (str_bytes key) else file_at f1 q)"
    by (rule write_cert [OF 1(2) _ assms(2), of "''node.key''" "str_bytes key"]) auto
  have "path_exists f2 (?p ''node.key'')" using 2(3) by (simp add: path_exists_def)
  then obtain f3 where 3: "fs_set_mode (?p ''node.key'') 384 f2 = (Inr (), f3)"
    using 2(2) by (simp add: fs_set_mode_def certs_ready_def healthy_def)
  note m = set_mode_frame [OF 3]
  have c3: "certs_ready dd f3" using 2(2) m by (simp add: certs_ready_def is_dir_key_def healthy_def)
  obtain g where g: "fs_write (?p ''ca.crt'') (str_bytes ca) f3 = (Inr (), g)" "certs_ready dd g"
    "\<And>q. file_at g q = (if path_key q = path_key (?p ''ca.crt'') then Some (str_bytes ca) else file_at f3 q)"
    by (rule write_cert [OF c3 _ assms(2), of "''ca.crt''" "str_bytes ca"]) auto
  have "file_at f3 q = file_at f2 q" for q using m by (simp add: file_at_def)
  then have "file_at g (?p ''node.crt'') = Some (str_bytes cert)" "file_at g (?p ''node.key'') = Some (str_bytes key)"
    "file_at g (?p ''ca.crt'') = Some (str_bytes ca)"
    using keys by (simp_all add: g(3) 2(3) 1(3))
  moreover have "save_node_cert (cert_manager_new dd) cert key ca f = (Inr (), g)"
    using mk 1(1) 2(1) 3 g(1) by (simp add: save_node_cert_def op_simps cert_io_def)
  ultimately show ?thesis using that g(2) by (simp add: certs_ready_def)
qed

section \<open>The message of an enrolment\<close>

definition enrol_message :: "start_env \<Rightarrow> config \<Rightarrow> node_id \<Rightarrow> join_message" where
  "enrol_message X cfg nid =
     \<lparr> jm_node_id = uuid_str (sx_uuid X) nid, jm_csr_pem = [],
       jm_join_secret = or_default (enrol_secret (cfg_security cfg)) [], jm_tier = ucast (nc_tier (cfg_node cfg)),
       jm_grpc_endpoint = ni_grpc_endpoint (local_node_of X cfg nid),
       jm_rest_endpoint = ni_rest_endpoint (local_node_of X cfg nid) \<rparr>"

lemma ask_seed_message:
  "sec_ca_cert_path (cfg_security cfg) = [] \<Longrightarrow>
     ask_seed X ch cfg nid seed f = rpc ch (normalize_endpoint seed) (enrol_message X cfg nid)"
  by (simp add: ask_seed_def request_join_with_ca_def enrol_ca_path_def enrol_message_def local_node_of_def host_port_def
      or_default_def bind_res_def)

lemma trim_nil: "trim [] = []"
  by (simp add: trim_def)

lemma enrol_secret_allowed:
  assumes "sec_mode a = sec_mode b" "trim (sec_shared_secret a) = trim (sec_shared_secret b)"
  shows "join_allowed a (or_default (enrol_secret b) []) = Inr ()"
  using assms by (simp add: join_allowed_def enrol_secret_def or_default_def Let_def trim_nil)

lemma ucast_u8_u32: "(ucast (ucast (t :: u8) :: u32) :: u8) = t"
  by transfer simp

section \<open>What a start leaves\<close>

lemma certs_only_identity:
  assumes "certs_only dd f g" "dd \<noteq> []" "is_dir_key f (path_key dd)"
    "fs_read_to_string (path_join dd ''node-id'') f = Inr raw"
  shows "is_dir_key g (path_key dd)" "path_exists g (path_join dd ''node-id'')"
    "fs_read_to_string (path_join dd ''node-id'') g = Inr raw"
proof -
  let ?p = "path_join dd ''node-id''"
  have key: "path_key ?p = (is_absolute dd, components dd @ [''node-id''])"
    using assms(2) by (simp add: path_key_join_plain plain_name_def)
  have certs: "components (cm_certs_dir (cert_manager_new dd)) = components dd @ [''certs'']"
    by (simp add: cert_manager_new_def Let_def components_join plain_name_relative plain_name_components plain_name_def)
  have "path_key ?p \<noteq> path_key (cert_path (cert_manager_new dd) n)" if "plain_name n" for n
    using that assms(2) by (simp add: key cert_key certs)
  then have same: "file_at g ?p = file_at f ?p" "fs_fault g = fs_fault f"
    using assms(1) unfolding certs_only_def by blast+
  have "\<exists>b. fs_read ?p f = Inr b \<and> valid_utf8 b \<and> bytes_str b = raw"
    using assms(4) by (auto simp: fs_read_to_string_def bind_res_Inr split: if_split_asm)
  then obtain b where b: "fs_read ?p f = Inr b" "valid_utf8 b" "bytes_str b = raw" by blast
  note at = fs_read_ok [OF b(1)]
  then have "fs_read ?p g = Inr b" using b(1) same by (simp add: fs_read_def split: option.splits)
  then show "fs_read_to_string ?p g = Inr raw" using b(2,3) by (simp add: fs_read_to_string_def bind_res_def)
  show "path_exists g ?p" using at same by (simp add: path_exists_def)
  show "is_dir_key g (path_key dd)" by (rule certs_only_dir [OF assms(1,3)])
qed

lemma enrol_saved:
  assumes "enroll_with_seed_ca X net cfg nid f = (Inr n, g)"
  shows "certs_only (nc_data_dir (cfg_node cfg)) f g \<and>
    is_dir_key g (path_key (cm_certs_dir (cert_manager_new (nc_data_dir (cfg_node cfg))))) \<and>
    has_node_credentials (cert_manager_new (nc_data_dir (cfg_node cfg))) g"
proof -
  let ?saved = "\<lambda>f g. \<exists>c k a. save_node_cert (cert_manager_new (nc_data_dir (cfg_node cfg))) c k a f = (Inr (), g)"
  have seeds: "enrol_seeds X net cfg nid ss le m f = (o', n', g') \<Longrightarrow>
      (case o' of Enrolled (Inr _) \<Rightarrow> ?saved f g' | Enrolled (Inl _) \<Rightarrow> True | Refused _ \<Rightarrow> g' = f)" for ss le m f o' n' g'
    by (induction X net cfg nid ss le m f rule: enrol_seeds.induct)
      (auto simp: Let_def split: sum.split_asm prod.split_asm sum.split enrol.split)
  have "enrol_attempts X net cfg nid k le m f = (o', n', g') \<Longrightarrow>
      (case o' of Enrolled (Inr _) \<Rightarrow> ?saved f g' | Enrolled (Inl _) \<Rightarrow> True | Refused _ \<Rightarrow> g' = f)" for k le m f o' n' g'
  proof (induction k arbitrary: le m f)
    case (Suc k)
    obtain o1 n1 f1 where 1: "enrol_seeds X net cfg nid (dc_seeds (cfg_discovery cfg)) le m f = (o1, n1, f1)" by (rule prod_cases3)
    show ?case
    proof (cases o1)
      case (Enrolled r)
      with 1 Suc.prems have o1: "o1 = o'" "f1 = g'" by simp_all
      show ?thesis using seeds [OF 1] unfolding o1 .
    next
      case (Refused le1)
      with 1 Suc.prems have "enrol_attempts X net cfg nid k le1 n1 f1 = (o', n', g')" by simp
      moreover have "f1 = f" using seeds [OF 1] Refused by simp
      ultimately show ?thesis using Suc.IH by blast
    qed
  qed (auto split: enrol.split)
  then obtain c k a where "save_node_cert (cert_manager_new (nc_data_dir (cfg_node cfg))) c k a f = (Inr (), g)"
    using assms unfolding enroll_with_seed_ca_def
    by (fastforce split: prod.split_asm enrol.split_asm sum.split_asm simp del: enrol_attempts.simps)
  then show ?thesis by (rule save_node_cert_left)
qed

lemma start_credentials_left:
  assumes "start_credentials X net cfg nid f = (Inr n, g)"
  shows "certs_only (nc_data_dir (cfg_node cfg)) f g \<and>
    is_dir_key g (path_key (cm_certs_dir (cert_manager_new (nc_data_dir (cfg_node cfg))))) \<and>
    (if is_bootstrap_issuer cfg
     then path_exists g (cert_path (cert_manager_new (nc_data_dir (cfg_node cfg))) ''ca.key'') \<and>
       path_exists g (cert_path (cert_manager_new (nc_data_dir (cfg_node cfg))) ''ca.crt'')
     else has_node_credentials (cert_manager_new (nc_data_dir (cfg_node cfg))) g)"
proof -
  let ?m = "cert_manager_new (nc_data_dir (cfg_node cfg))"
  obtain f1 where mk: "fs_create_dir_all (cm_certs_dir ?m) f = (Inr (), f1)"
    and rest: "(if is_bootstrap_issuer cfg then bind_op (start_cert (init_ca (sx_gen X) ?m)) (\<lambda>_. ret_op 0) f1
        else if \<not> has_node_credentials ?m f1 then enroll_with_seed_ca X net cfg nid f1 else (Inr 0, f1)) = (Inr n, g)"
    using assms
    by (auto simp: start_credentials_def Let_def bind_op_def start_cert_def ensure_dirs_def cert_io_def
        split: prod.split_asm sum.split_asm)
  have mkd: "certs_only (nc_data_dir (cfg_node cfg)) f f1" "is_dir_key f1 (path_key (cm_certs_dir ?m))"
    by (rule certs_only_mkdir [OF mk], rule create_dir_is_dir [OF mk])
  show ?thesis
  proof (cases "is_bootstrap_issuer cfg")
    case True
    with rest have "init_ca (sx_gen X) ?m f1 = (Inr (), g)"
      by (auto simp: op_simps start_cert_def split: prod.split_asm sum.split_asm)
    from init_ca_left [OF this] mkd(1) True show ?thesis using certs_only_trans by auto
  next
    case False
    show ?thesis
    proof (cases "has_node_credentials ?m f1")
      case True
      with rest False mkd show ?thesis by simp
    next
      case no: False
      with rest False have "enroll_with_seed_ca X net cfg nid f1 = (Inr n, g)" by simp
      from enrol_saved [OF this] mkd(1) False show ?thesis using certs_only_trans by auto
    qed
  qed
qed

section \<open>Properties\<close>

text \<open>
  C30. Enrolment ends, after at most twenty calls per seed made in turn over the seeds. When none of those calls is
  answered, all of them are made, the enrolment fails for want of an answer and the disk is untouched. Otherwise the
  first call that is answered is the last one made, and saving the bundle of that answer decides: when it is saved, the
  enrolment succeeds after that many calls; when not, it fails with the error of saving. The disk is in both cases what
  saving the bundle left.
\<close>

theorem enrolment_bounded:
  fixes cfg :: config
  defines "calls \<equiv> 20 * length (dc_seeds (cfg_discovery cfg))" and "cm \<equiv> cert_manager_new (nc_data_dir (cfg_node cfg))"
  shows "((\<forall>i < calls. \<not> seed_answers X net cfg nid f i) \<longrightarrow>
      (\<exists>le. enrol_attempts X net cfg nid 20 None 0 f = (Refused le, calls, f)) \<and>
      (\<exists>e. enroll_with_seed_ca X net cfg nid f = (Inl (StartEnrol e), f))) \<and>
    (\<forall>i ans r g. i < calls \<and> (\<forall>j < i. \<not> seed_answers X net cfg nid f j) \<and>
        ask_seed X (net i) cfg nid (seed_at cfg i) f = Inr ans \<and>
        save_node_cert cm (ja_node_cert_pem ans) (ja_node_key_pem ans) (ja_ca_cert_pem ans) f = (r, g) \<longrightarrow>
      enrol_attempts X net cfg nid 20 None 0 f = (Enrolled r, Suc i, g) \<and>
      enroll_with_seed_ca X net cfg nid f = (case r of Inr _ \<Rightarrow> Inr (Suc i) | Inl e \<Rightarrow> Inl (StartCert e), g)) \<and>
    fst (snd (enrol_attempts X net cfg nid 20 None 0 f)) \<le> calls"
proof -
  have none: "\<exists>le. enrol_attempts X net cfg nid 20 None 0 f = (Refused le, calls, f)"
    if "\<forall>i < calls. \<not> seed_answers X net cfg nid f i"
    using no_answer [of cfg X net nid f] that unfolding calls_def by blast
  moreover have "\<exists>e. enroll_with_seed_ca X net cfg nid f = (Inl (StartEnrol e), f)"
    if "\<forall>i < calls. \<not> seed_answers X net cfg nid f i"
    using none [OF that] by (auto simp: enroll_with_seed_ca_def simp del: enrol_attempts.simps)
  moreover have some: "enrol_attempts X net cfg nid 20 None 0 f = (Enrolled r, Suc i, g) \<and>
      enroll_with_seed_ca X net cfg nid f = (case r of Inr _ \<Rightarrow> Inr (Suc i) | Inl e \<Rightarrow> Inl (StartCert e), g)"
    if i: "i < calls" "\<forall>j < i. \<not> seed_answers X net cfg nid f j" "ask_seed X (net i) cfg nid (seed_at cfg i) f = Inr ans"
      "save_node_cert cm (ja_node_cert_pem ans) (ja_node_key_pem ans) (ja_ca_cert_pem ans) f = (r, g)" for i ans r g
  proof -
    note first = i(1) [unfolded calls_def] i(3) i(2) [rule_format] i(4) [unfolded cm_def]
    show ?thesis using first_answer [OF first] enrol_first_answer [OF first] by (cases r) (simp_all add: op_simps)
  qed
  moreover have "fst (snd (enrol_attempts X net cfg nid 20 None 0 f)) \<le> calls"
  proof (cases "\<forall>i < calls. \<not> seed_answers X net cfg nid f i")
    case True
    then show ?thesis using none by force
  next
    case False
    define i where "i = (LEAST i. seed_answers X net cfg nid f i)"
    from False obtain i0 where i0: "i0 < calls" "seed_answers X net cfg nid f i0" by blast
    have i: "seed_answers X net cfg nid f i" unfolding i_def by (rule LeastI) (rule i0(2))
    have before: "\<forall>j < i. \<not> seed_answers X net cfg nid f j" using not_less_Least unfolding i_def by blast
    have "i \<le> i0" unfolding i_def by (rule Least_le) (rule i0(2))
    with i0(1) have bound: "i < calls" by simp
    from i obtain ans where "ask_seed X (net i) cfg nid (seed_at cfg i) f = Inr ans"
      by (cases "ask_seed X (net i) cfg nid (seed_at cfg i) f") (simp_all add: seed_answers_def)
    then show ?thesis using some [OF bound before] bound by (metis fst_conv snd_conv Suc_leI surj_pair)
  qed
  ultimately show ?thesis by blast
qed

text \<open>Seeds that cannot be reached.\<close>

definition dead_net :: "nat \<Rightarrow> (join_message, join_answer) channel" where
  "dead_net n = \<lparr> ch_from_shared = (\<lambda>_. Inr ()), ch_connect = (\<lambda>_. Inl ''refused''), ch_call = (\<lambda>_ _. Inl (GrpcStatus GrpcInternal [])) \<rparr>"

definition sample_start :: start_env where
  "sample_start = \<lparr> sx_uuid = ref_uuid, sx_gen = (\<lambda>_. Inr (''c'', ''k'')), sx_var = (\<lambda>_. None), sx_version = ''0.1.0'',
     sx_cores = Some 4, sx_meminfo = None, sx_now = 0, sx_fresh = 5, sx_status_text = (\<lambda>_. ''unavailable'') \<rparr>"

lemma sample_raw_simps:
  "nc_data_dir (cfg_node (config_of_raw sample_raw)) = ''/d''" "nc_tier (cfg_node (config_of_raw sample_raw)) = 1"
  "dc_seeds (cfg_discovery (config_of_raw sample_raw)) = [''seed:7947'']"
  "cfg_security (config_of_raw sample_raw) = \<lparr> sec_mode = ''ca'', sec_shared_secret = [], sec_ca_cert_path = [] \<rparr>"
  by (simp_all add: config_of_raw_def sample_raw_def or_default_def)

text \<open>
  C10. Enrolment end to end, between two agents. A node that is no issuer and has no credentials asks its
  first seed; the seed is an issuer in order, with the same security mode and secret, and the network
  carries the call; no CA certificate path is configured on the node. Then one call suffices: the node's disk holds the
  certificate and the key the issuer generated and the issuer's CA certificate, each in its file, and the issuer's view
  has the node online, with its tier, under the addresses the node advertises, and with no capabilities.
\<close>

theorem enrolment_end_to_end:
  fixes cfgA cfgB :: config
  defines "cmA \<equiv> cert_manager_new (nc_data_dir (cfg_node cfgA))" and "cmB \<equiv> cert_manager_new (nc_data_dir (cfg_node cfgB))"
  assumes "uuid_text (sx_uuid X)" "nc_data_dir (cfg_node cfgB) \<noteq> []" "\<not> is_bootstrap_issuer cfgB"
    and "ensure_dirs cmB fB = (Inr (), fC)" "certs_ready (nc_data_dir (cfg_node cfgB)) fC" "\<not> has_node_credentials cmB fC"
    and "sec_ca_cert_path (cfg_security cfgB) = []" "sec_mode (cfg_security cfgA) = sec_mode (cfg_security cfgB)"
      "trim (sec_shared_secret (cfg_security cfgA)) = trim (sec_shared_secret (cfg_security cfgB))"
    and "healthy fA" "is_dir_key fA (path_key (cm_certs_dir cmA))" "path_exists fA (cert_path cmA ''ca.key'')"
      "file_at fA (cert_path cmA ''ca.crt'') = Some (str_bytes pem)" "valid_utf8 (str_bytes pem)"
      "gen [uuid_str (sx_uuid X) nid] = Inr (cert, key)"
    and "ch_from_shared (net 0) (normalize_endpoint (seed_at cfgB 0)) = Inr ()"
      "ch_connect (net 0) (normalize_endpoint (seed_at cfgB 0)) = Inr ()"
      "\<And>msg. ch_call (net 0) (normalize_endpoint (seed_at cfgB 0)) msg =
         fst (grpc_join (sx_uuid X) gen_ca gen version now unix cfgA msg (fA, mA))"
  shows "\<exists>g mA'. start_credentials X net cfgB nid fB = (Inr 1, g) \<and> has_node_credentials cmB g \<and>
    file_at g (cert_path cmB ''node.crt'') = Some (str_bytes cert) \<and>
    load_ca_pem cmB g = Inr pem \<and> file_at g (cert_path cmB ''node.key'') = Some (str_bytes key) \<and>
    snd (grpc_join (sx_uuid X) gen_ca gen version now unix cfgA (enrol_message X cfgB nid) (fA, mA)) = (fA, mA') \<and>
    hget (cs_nodes (ms_cluster mA')) nid = Some (bare_node nid (nc_tier (cfg_node cfgB)) version
      (ni_grpc_endpoint (local_node_of X cfgB nid)) (ni_rest_endpoint (local_node_of X cfgB nid)))"
proof -
  let ?msg = "enrol_message X cfgB nid" and ?seeds = "dc_seeds (cfg_discovery cfgB)"
  have id: "uuid_parse (sx_uuid X) (jm_node_id ?msg) = Some nid"
    using uuid_text.uuid_round [OF assms(3)] by (simp add: enrol_message_def)
  have "join_allowed (cfg_security cfgA) (jm_join_secret ?msg) = Inr ()"
    using enrol_secret_allowed [OF assms(10,11)] by (simp add: enrol_message_def)
  from join_granted [where gen = gen and cfg = cfgA, OF id this assms(12-17) [unfolded cmA_def]]
  have grant: "grpc_join (sx_uuid X) gen_ca gen version now unix cfgA ?msg (fA, mA) =
      (Inr \<lparr> ja_node_cert_pem = cert, ja_node_key_pem = key, ja_ca_cert_pem = pem, ja_expires_at_unix = unix + 90 * 24 * 3600 \<rparr>,
       (fA, join_cluster version now nid (jm_tier ?msg) (jm_grpc_endpoint ?msg) (jm_rest_endpoint ?msg) mA))" .
  then have ask: "ask_seed X (net 0) cfgB nid (seed_at cfgB 0) fC =
      Inr \<lparr> ja_node_cert_pem = cert, ja_node_key_pem = key, ja_ca_cert_pem = pem, ja_expires_at_unix = unix + 90 * 24 * 3600 \<rparr>"
    using assms(18-20) by (simp add: ask_seed_message [OF assms(9)] rpc_def bind_res_def)
  obtain g where g: "save_node_cert cmB cert key pem fC = (Inr (), g)" "healthy g"
    "file_at g (cert_path cmB ''node.crt'') = Some (str_bytes cert)" "file_at g (cert_path cmB ''node.key'') = Some (str_bytes key)"
    "file_at g (cert_path cmB ''ca.crt'') = Some (str_bytes pem)"
    unfolding cmB_def by (rule save_node_cert_ok [OF assms(7,4)])
  have "0 < 20 * length ?seeds" using assms(5) by (simp add: is_bootstrap_issuer_def)
  from enrol_first_answer [where i = 0 and net = net and X = X and nid = nid, OF this ask] g(1)
  have "enroll_with_seed_ca X net cfgB nid fC = (Inr 1, g)" by (simp add: cmB_def op_simps)
  then have "start_credentials X net cfgB nid fB = (Inr 1, g)"
    using assms(5,6,8) by (simp add: start_credentials_def Let_def op_simps start_cert_def flip: cmB_def)
  moreover have "has_node_credentials cmB g" using g by (simp add: has_node_credentials_def file_at_exists)
  moreover have "load_ca_pem cmB g = Inr pem" using read_to_string_healthy [OF g(2,5) assms(16)] by (simp add: load_ca_pem_def)
  moreover have "hget (cs_nodes (ms_cluster (join_cluster version now nid (jm_tier ?msg) (jm_grpc_endpoint ?msg) (jm_rest_endpoint ?msg) mA))) nid =
      Some (bare_node nid (nc_tier (cfg_node cfgB)) version (ni_grpc_endpoint (local_node_of X cfgB nid)) (ni_rest_endpoint (local_node_of X cfgB nid)))"
    by (simp add: join_cluster_def Let_def enrol_message_def ucast_u8_u32)
  ultimately show ?thesis using g(3,4) grant by auto
qed

text \<open>The network of two machines: every call is the issuer's handler.\<close>

definition sample_issuer_net :: "nat \<Rightarrow> (join_message, join_answer) channel" where
  "sample_issuer_net n = \<lparr> ch_from_shared = (\<lambda>_. Inr ()), ch_connect = (\<lambda>_. Inr ()),
     ch_call = (\<lambda>_ msg. fst (grpc_join ref_uuid (\<lambda>_. Inl []) (\<lambda>_. Inr (''c'', ''k'')) ''0.1.0'' 7 1000 (config_of_raw sample_raw) msg
       (issuer_fs, sample_view [1, 2]))) \<rparr>"

lemma fresh_certs: "certs_ready ''/d'' (certs_fs [])" "\<not> has_node_credentials (cert_manager_new ''/d'') (certs_fs [])"
proof -
  show "certs_ready ''/d'' (certs_fs [])"
    by (simp add: certs_ready_def healthy_def certs_fs_simps certs_keys certs_fs_def is_dir_key_def ancestor_keys_def empty_fs_def)
  show "\<not> has_node_credentials (cert_manager_new ''/d'') (certs_fs [])"
    by (simp add: has_node_credentials_def certs_fs_simps)
qed

theorem enrolment_end_to_end_witness:
  "\<exists>g mA'. start_credentials sample_start sample_issuer_net (config_of_raw sample_raw) 5 empty_fs = (Inr 1, g) \<and>
    file_at g (cert_path (cert_manager_new ''/d'') ''node.crt'') = Some (str_bytes ''c'') \<and>
    load_ca_pem (cert_manager_new ''/d'') g = Inr ''pem'' \<and>
    snd (grpc_join ref_uuid (\<lambda>_. Inl []) (\<lambda>_. Inr (''c'', ''k'')) ''0.1.0'' 7 1000 (config_of_raw sample_raw)
      (enrol_message sample_start (config_of_raw sample_raw) 5) (issuer_fs, sample_view [1, 2])) = (issuer_fs, mA') \<and>
    map_option ni_status (hget (cs_nodes (ms_cluster mA')) 5) = Some Online"
proof -
  have u: "sx_uuid sample_start = ref_uuid" by (simp add: sample_start_def)
  have "\<exists>g mA'. start_credentials sample_start sample_issuer_net (config_of_raw sample_raw) 5 empty_fs = (Inr 1, g) \<and>
    has_node_credentials (cert_manager_new ''/d'') g \<and>
    file_at g (cert_path (cert_manager_new ''/d'') ''node.crt'') = Some (str_bytes ''c'') \<and> load_ca_pem (cert_manager_new ''/d'') g = Inr ''pem'' \<and>
    file_at g (cert_path (cert_manager_new ''/d'') ''node.key'') = Some (str_bytes ''k'') \<and>
    snd (grpc_join (sx_uuid sample_start) (\<lambda>_. Inl []) (\<lambda>_. Inr (''c'', ''k'')) ''0.1.0'' 7 1000 (config_of_raw sample_raw)
      (enrol_message sample_start (config_of_raw sample_raw) 5) (issuer_fs, sample_view [1, 2])) = (issuer_fs, mA') \<and>
    hget (cs_nodes (ms_cluster mA')) 5 = Some (bare_node 5 1 ''0.1.0''
      (ni_grpc_endpoint (local_node_of sample_start (config_of_raw sample_raw) 5))
      (ni_rest_endpoint (local_node_of sample_start (config_of_raw sample_raw) 5)))"
    by (rule enrolment_end_to_end [where cfgA = "config_of_raw sample_raw" and cfgB = "config_of_raw sample_raw",
          unfolded sample_raw_simps, where X = sample_start and cert = "''c''" and fC = "certs_fs []"])
      (simp_all add: u ref_uuid.uuid_text_axioms fresh_certs issuer_fs_simps ascii_pem certs_ensure_dirs
        is_bootstrap_issuer_def sample_raw_simps sample_issuer_net_def)
  then show ?thesis by (auto simp: u bare_node_def)
qed

text \<open>A network that fails on the first call and reaches the issuer from then on.\<close>

definition late_net :: "nat \<Rightarrow> (join_message, join_answer) channel" where
  "late_net n = (if n = 0 then dead_net n else sample_issuer_net n)"

theorem enrolment_bounded_witness:
  "(\<exists>e. enroll_with_seed_ca sample_start dead_net (config_of_raw sample_raw) 5 (certs_fs []) = (Inl (StartEnrol e), certs_fs [])) \<and>
   (\<exists>g. enroll_with_seed_ca sample_start late_net (config_of_raw sample_raw) 5 (certs_fs []) = (Inr 2, g) \<and>
     file_at g (cert_path (cert_manager_new ''/d'') ''node.key'') = Some (str_bytes ''k''))"
proof
  have dead: "ask_seed sample_start (dead_net i) (config_of_raw sample_raw) 5 s f = Inl (GrpcStatus GrpcUnavailable ''refused'')" for i s f
    by (simp add: ask_seed_message sample_raw_simps rpc_def dead_net_def bind_res_def)
  then have "\<not> seed_answers sample_start dead_net (config_of_raw sample_raw) 5 (certs_fs []) i" for i
    by (simp add: seed_answers_def)
  then show "\<exists>e. enroll_with_seed_ca sample_start dead_net (config_of_raw sample_raw) 5 (certs_fs []) = (Inl (StartEnrol e), certs_fs [])"
    using enrolment_bounded [of "config_of_raw sample_raw" sample_start dead_net 5 "certs_fs []"] by blast
  let ?ans = "\<lparr> ja_node_cert_pem = ''c'', ja_node_key_pem = ''k'', ja_ca_cert_pem = ''pem'', ja_expires_at_unix = 1000 + 90 * 24 * 3600 \<rparr>"
  have u: "sx_uuid sample_start = ref_uuid" by (simp add: sample_start_def)
  have id: "uuid_parse ref_uuid (jm_node_id (enrol_message sample_start (config_of_raw sample_raw) 5)) = Some 5"
    by (simp add: enrol_message_def u ref_uuid.uuid_round)
  have allowed: "join_allowed (cfg_security (config_of_raw sample_raw)) (jm_join_secret (enrol_message sample_start (config_of_raw sample_raw) 5)) = Inr ()"
    using enrol_secret_allowed by (simp add: enrol_message_def)
  have ask: "ask_seed sample_start (late_net 1) (config_of_raw sample_raw) 5 (seed_at (config_of_raw sample_raw) 1) (certs_fs []) = Inr ?ans"
    using join_granted [where cfg = "config_of_raw sample_raw" and f = issuer_fs and pem = "''pem''" and cert = "''c''" and key = "''k''"
        and gen = "\<lambda>_. Inr (''c'', ''k'')", unfolded sample_raw_simps, OF id allowed [unfolded sample_raw_simps] issuer_fs_simps ascii_pem refl]
    by (simp add: ask_seed_message sample_raw_simps rpc_def late_net_def sample_issuer_net_def bind_res_def)
  obtain g where g: "save_node_cert (cert_manager_new ''/d'') ''c'' ''k'' ''pem'' (certs_fs []) = (Inr (), g)"
    "file_at g (cert_path (cert_manager_new ''/d'') ''node.key'') = Some (str_bytes ''k'')"
    by (rule save_node_cert_ok [OF fresh_certs(1)]) simp
  have "seed_answers sample_start late_net (config_of_raw sample_raw) 5 (certs_fs []) 0 = False"
    by (simp add: seed_answers_def late_net_def dead)
  then have asked: "1 < 20 * length (dc_seeds (cfg_discovery (config_of_raw sample_raw))) \<and>
      (\<forall>j < 1. \<not> seed_answers sample_start late_net (config_of_raw sample_raw) 5 (certs_fs []) j) \<and>
      ask_seed sample_start (late_net 1) (config_of_raw sample_raw) 5 (seed_at (config_of_raw sample_raw) 1) (certs_fs []) = Inr ?ans \<and>
      save_node_cert (cert_manager_new (nc_data_dir (cfg_node (config_of_raw sample_raw)))) (ja_node_cert_pem ?ans)
        (ja_node_key_pem ?ans) (ja_ca_cert_pem ?ans) (certs_fs []) = (Inr (), g)"
    using ask g(1) by (simp add: sample_raw_simps)
  note decided = enrolment_bounded [of "config_of_raw sample_raw" sample_start late_net 5 "certs_fs []",
      THEN conjunct2, THEN conjunct1, rule_format]
  have "enroll_with_seed_ca sample_start late_net (config_of_raw sample_raw) 5 (certs_fs []) = (Inr 2, g)"
    using decided [OF asked] by (simp add: numeral_2_eq_2)
  with g(2) show "\<exists>g. enroll_with_seed_ca sample_start late_net (config_of_raw sample_raw) 5 (certs_fs []) = (Inr 2, g) \<and>
     file_at g (cert_path (cert_manager_new ''/d'') ''node.key'') = Some (str_bytes ''k'')" by blast
qed

text \<open>
  C11. A restart. Once a start has come as far as its credentials, a start with the same configuration on the
  disk it left finds the same identity, asks no seed, replaces no certificate or key and changes nothing
  on the disk, whatever fresh identifier, keys and answers it would have got.
\<close>

theorem restart_stable:
  assumes "uuid_text (sx_uuid X)" "\<And>u. valid_utf8 (str_bytes (uuid_str (sx_uuid X) u))" "healthy f"
    and "nc_data_dir (cfg_node cfg) \<noteq> []" "start_node X net cfg f = (Inr (nid, calls), g)" "sx_uuid X' = sx_uuid X"
  shows "start_node X' net' cfg g = (Inr (nid, 0), g)"
proof -
  let ?dd = "nc_data_dir (cfg_node cfg)" and ?m = "cert_manager_new (nc_data_dir (cfg_node cfg))"
  obtain f1 where n: "node_id (sx_uuid X) (sx_fresh X) ?dd f = (Inr nid, f1)"
    and c: "start_credentials X net cfg nid f1 = (Inr calls, g)"
    using assms(5) by (auto simp: start_node_def op_simps split: prod.split_asm sum.split_asm)
  from node_id_left [OF assms(1-3) n] obtain raw where raw: "healthy f1" "is_dir_key f1 (path_key ?dd)"
    "fs_read_to_string (path_join ?dd ''node-id'') f1 = Inr raw" "uuid_parse (sx_uuid X) (trim raw) = Some nid" by blast
  from start_credentials_left [OF c] have left: "certs_only ?dd f1 g" "is_dir_key g (path_key (cm_certs_dir ?m))"
    "if is_bootstrap_issuer cfg then path_exists g (cert_path ?m ''ca.key'') \<and> path_exists g (cert_path ?m ''ca.crt'')
     else has_node_credentials ?m g" by blast+
  have h: "healthy g" using left(1) raw(1) by (simp add: certs_only_def healthy_def)
  have "node_id (sx_uuid X') (sx_fresh X') ?dd g = (Inr nid, g)"
    by (rule node_id_kept [OF h certs_only_identity [OF left(1) assms(4) raw(2,3)]]) (simp add: assms(6) raw(4))
  moreover have "start_credentials X' net' cfg nid g = (Inr 0, g)"
  proof -
    have "ensure_dirs ?m g = (Inr (), g)"
      using h left(2) by (simp add: ensure_dirs_def cert_io_def fs_create_dir_all_def healthy_def)
    moreover have "is_bootstrap_issuer cfg \<Longrightarrow> init_ca (sx_gen X') ?m g = (Inr (), g)"
      using left(3) by (intro init_ca_kept [OF h left(2)]) simp_all
    ultimately show ?thesis using left(3) by (simp add: start_credentials_def Let_def op_simps start_cert_def)
  qed
  ultimately show ?thesis by (simp add: start_node_def op_simps)
qed

text \<open>The first start of an issuer, on a disk with its configuration file only.\<close>

definition issuer_start_config :: config where
  "issuer_start_config = config_of_raw (sample_raw\<lparr>raw_seeds := None, raw_quorum_participant := Some True\<rparr>)"

lemma issuer_start_simps:
  "nc_data_dir (cfg_node issuer_start_config) = ''/d''" "is_bootstrap_issuer issuer_start_config"
  "nc_quorum_participant (cfg_node issuer_start_config)" "nw_grpc_port (cfg_network issuer_start_config) = 7947"
  "nw_bind_address (cfg_network issuer_start_config) = ''0.0.0.0''"
  by (simp_all add: issuer_start_config_def config_of_raw_def sample_raw_def or_default_def is_bootstrap_issuer_def
      default_grpc_port_def default_bind_def)

lemma first_start:
  obtains g where "start_node sample_start dead_net issuer_start_config sample_config_fs = (Inr (5, 0), g)"
proof -
  let ?f1 = "sample_config_fs\<lparr>fs_dirs := [(True, [''d''])]\<rparr>" and ?k = "(True, [''d'', ''node-id''])"
  have keys: "path_key ''/d'' = (True, [''d''])" "path_key (path_join ''/d'' ''node-id'') = ?k" "path_key ''/c'' = (True, [''c''])"
    by (simp_all add: path_key_def is_absolute_def components_def path_join_def)
  let ?f2 = "?f1\<lparr>fs_files := [((True, [''c'']), []), (?k, str_bytes (uuid_str ref_uuid 5))]\<rparr>"
  have n: "node_id ref_uuid 5 ''/d'' sample_config_fs = (Inr 5, ?f2)"
    by (simp add: node_id_def op_simps Let_def sample_config_fs_def empty_fs_def fs_create_dir_all_def is_dir_key_def list_ex_iff keys
        path_exists_def file_at_def fs_write_def parent_key_def ancestor_keys_def)
  let ?c = "(True, [''d'', ''certs''])"
  let ?f3 = "?f2\<lparr>fs_dirs := [(True, [''d'']), ?c, (True, [''d''])]\<rparr>"
  have mk: "ensure_dirs (cert_manager_new ''/d'') ?f2 = (Inr (), ?f3)"
    by (simp add: ensure_dirs_def cert_io_def fs_create_dir_all_def certs_keys keys(3) sample_config_fs_def empty_fs_def is_dir_key_def list_ex_iff
        ancestor_keys_def)
  have w: "\<exists>g. init_ca (\<lambda>_. Inr (''c'', ''k'')) (cert_manager_new ''/d'') ?f3 = (Inr (), g)"
    by (simp add: init_ca_def op_simps ensure_dirs_def fs_create_dir_all_def ancestor_keys_def generate_ca_cert_def cert_io_def fs_write_def fs_set_mode_def path_exists_def
        file_at_def certs_keys keys(3) is_dir_key_def parent_key_def sample_config_fs_def empty_fs_def Let_def)
  then obtain g where "init_ca (\<lambda>_. Inr (''c'', ''k'')) (cert_manager_new ''/d'') ?f3 = (Inr (), g)" ..
  then have "start_node sample_start dead_net issuer_start_config sample_config_fs = (Inr (5, 0), g)"
    using n mk issuer_start_simps(2)
    by (simp add: start_node_def start_credentials_def op_simps start_cert_def issuer_start_simps(1) sample_start_def Let_def)
  then show ?thesis using that by blast
qed

theorem restart_stable_witness:
  "\<exists>g. start_node sample_start dead_net issuer_start_config sample_config_fs = (Inr (5, 0), g) \<and>
    start_node (sample_start\<lparr>sx_fresh := 8, sx_gen := (\<lambda>_. Inl ''no entropy'')\<rparr>) dead_net issuer_start_config g = (Inr (5, 0), g)"
proof -
  obtain g where g: "start_node sample_start dead_net issuer_start_config sample_config_fs = (Inr (5, 0), g)" by (rule first_start)
  have "start_node (sample_start\<lparr>sx_fresh := 8, sx_gen := (\<lambda>_. Inl ''no entropy'')\<rparr>) dead_net issuer_start_config g = (Inr (5, 0), g)"
  proof (rule restart_stable [OF _ _ _ _ g])
    show "valid_utf8 (str_bytes (uuid_str (sx_uuid sample_start) u))" for u
      by (simp add: sample_start_def ref_uuid_def show_nat_utf8)
    show "uuid_text (sx_uuid sample_start)" by (simp add: sample_start_def ref_uuid.uuid_text_axioms)
  qed (simp_all add: healthy_def sample_config_fs_def empty_fs_def issuer_start_simps)
  with g show ?thesis by blast
qed

text \<open>
  C40. What a quorum participant bootstraps. Whenever a start leaves a running engine whose log was empty,
  the cluster the engine was initialised with has one member, the node itself, so participants that
  start fresh form one cluster each. The member's address has the configured port; it is the address
  the node advertises exactly when the advertised port is not overridden with another one.
\<close>

theorem participant_bootstraps_alone:
  assumes "start_raft R S J nm opened_log opened_sm X cfg nid = Some node"
    and "or_validate R the_raft_config = Inr rcfg" "log_store_open opened_log = Inr ls" "machine_open S J nm opened_sm = Inr sm"
    and "or_new R nid rcfg ls sm = Inr eng" "or_last_log_index R eng = None"
  shows "rn_id node = nid \<and>
    (\<exists>r. or_initialize R [(nid, host_port (advertise_host (sx_var X) cfg) (nw_grpc_port (cfg_network cfg)))] eng = (r, rn_raft node)) \<and>
    (host_port (advertise_host (sx_var X) cfg) (nw_grpc_port (cfg_network cfg)) = ni_grpc_endpoint (local_node_of X cfg nid) \<longleftrightarrow>
       advertise_grpc_port (sx_var X) cfg = nw_grpc_port (cfg_network cfg))"
proof -
  let ?ep = "host_port (advertise_host (sx_var X) cfg) (nw_grpc_port (cfg_network cfg))"
  have init: "init_raft R S J nm opened_log opened_sm nid ?ep [] = Inr node"
    using assms(1) by (auto simp: start_raft_def split: if_split_asm sum.split_asm)
  have "init_members nid ?ep [] = [(nid, ?ep)]" by (simp add: init_members_def)
  with init have "rn_id node = nid" "\<exists>r. or_initialize R [(nid, ?ep)] eng = (r, rn_raft node)"
    using assms(2-6) by (auto simp: init_raft_def op_simps split: prod.split_asm sum.split_asm if_split_asm)
  moreover have "unat a = unat b \<longleftrightarrow> a = b" for a b :: u16 by (rule unsigned_word_eqI [THEN iffI]) auto
  ultimately show ?thesis by (auto simp: local_node_of_def host_port_def)
qed

text \<open>An engine whose state is the membership it was initialised with.\<close>

definition member_engine :: "(ref_db, nat, (node_id, string) hmap) openraft" where
  "member_engine = \<lparr> or_validate = Inr, or_new = (\<lambda>nid cfg ls sm. Inr []), or_last_log_index = (\<lambda>_. None),
     or_current_leader = (\<lambda>_. None), or_current_term = (\<lambda>_. 0), or_initialize = (\<lambda>ms s. (Inr (), ms)),
     or_client_write = (\<lambda>c s. (Inl [], s)) \<rparr>"

definition blank_json :: "'a json" where
  "blank_json = \<lparr> js_enc = (\<lambda>_. Inr []), js_dec = (\<lambda>_. Inl []) \<rparr>"

theorem participant_bootstraps_alone_witness:
  "\<exists>node. start_raft member_engine ref_sled blank_json (0 :: nat) (Inr []) (Inr []) sample_start issuer_start_config 5 = Some node \<and>
    rn_id node = 5 \<and> rn_raft node = [(5, host_port ''0.0.0.0'' 7947)]"
proof -
  let ?X = sample_start
  have host: "advertise_host (sx_var ?X) issuer_start_config = ''0.0.0.0''"
    by (simp add: advertise_host_def sample_start_def issuer_start_simps or_default_def)
  obtain sm where sm: "machine_open ref_sled blank_json (0 :: nat) (Inr []) = Inr sm"
    by (simp add: machine_open_def op_simps Let_def)
  have e: "log_store_open (Inr []) = Inr []" "or_validate member_engine the_raft_config = Inr the_raft_config"
    "or_new member_engine 5 the_raft_config [] sm = Inr []" "or_last_log_index member_engine [] = None"
    by (simp_all add: log_store_open_def member_engine_def)
  let ?node = "\<lparr> rn_raft = [(5 :: node_id, host_port ''0.0.0.0'' 7947)], rn_id = 5 \<rparr>"
  have "init_raft member_engine ref_sled blank_json (0 :: nat) (Inr []) (Inr []) 5 (host_port ''0.0.0.0'' 7947) [] = Inr ?node"
    by (simp add: init_raft_def bind_res_def sm e(1)) (simp add: member_engine_def init_members_def)
  then have node: "start_raft member_engine ref_sled blank_json (0 :: nat) (Inr []) (Inr []) ?X issuer_start_config 5 = Some ?node"
    by (simp add: start_raft_def issuer_start_simps host)
  from participant_bootstraps_alone [OF node e(2,1) sm e(3,4)] have
    "rn_id ?node = (5 :: node_id)" "\<exists>r. or_initialize member_engine [(5, host_port ''0.0.0.0'' 7947)] [] = (r, rn_raft ?node)"
    by (simp_all only: host issuer_start_simps)
  then show ?thesis using node by auto
qed

end
