(* ===== verification/Socket_Text.thy ===== *)
theory Socket_Text
  imports Rust_Std
begin

text \<open>
  The text form of socket addresses as \<open>std::net\<close> reads it (\<open>str::parse\<close> at \<open>SocketAddr\<close>), which
  \<open>grpc_server/mod.rs\<close> uses for the address it binds. The IPv4 form is modelled in full; the reader of the
  bracketed IPv6 form is an argument. The lemmas state the IPv4 reader as the inverse of printing.
\<close>

section \<open>The reader\<close>

definition is_digit :: "char \<Rightarrow> bool" where
  "is_digit c = (char_digit c \<noteq> None)"

text \<open>
  \<open>read_number\<close>: all leading digits, at most \<open>max_digits\<close> of them, without a leading zero unless one is
  allowed, and a value below the bound of the type.
\<close>

definition read_number :: "nat option \<Rightarrow> bool \<Rightarrow> nat \<Rightarrow> string \<Rightarrow> (nat \<times> string) option" where
  "read_number max_digits allow_zero_prefix bound s =
     (let ds = takeWhile is_digit s; rest = dropWhile is_digit s in
      if ds = [] \<or> (case max_digits of None \<Rightarrow> False | Some m \<Rightarrow> m < length ds) \<or>
        (\<not> allow_zero_prefix \<and> hd ds = CHR ''0'' \<and> 1 < length ds)
      then None
      else case digits_value 0 ds of
          None \<Rightarrow> None
        | Some n \<Rightarrow> if n < bound then Some (n, rest) else None)"

definition read_octet :: "string \<Rightarrow> (u8 \<times> string) option" where
  "read_octet s = map_option (\<lambda>(n, rest). (word_of_nat n, rest)) (read_number (Some 3) False 256 s)"

definition read_given_char :: "char \<Rightarrow> string \<Rightarrow> string option" where
  "read_given_char c s = (case s of [] \<Rightarrow> None | x # rest \<Rightarrow> if x = c then Some rest else None)"

definition read_dot_octet :: "string \<Rightarrow> (u8 \<times> string) option" where
  "read_dot_octet s = Option.bind (read_given_char CHR ''.'' s) read_octet"

definition read_ipv4 :: "string \<Rightarrow> ((u8 \<times> u8 \<times> u8 \<times> u8) \<times> string) option" where
  "read_ipv4 s =
     Option.bind (read_octet s) (\<lambda>(a, s).
     Option.bind (read_dot_octet s) (\<lambda>(b, s).
     Option.bind (read_dot_octet s) (\<lambda>(c, s).
     Option.bind (read_dot_octet s) (\<lambda>(d, s). Some ((a, b, c, d), s)))))"

definition read_port :: "string \<Rightarrow> (u16 \<times> string) option" where
  "read_port s = Option.bind (read_given_char CHR '':'' s) (\<lambda>s.
     map_option (\<lambda>(n, rest). (word_of_nat n, rest)) (read_number None True 65536 s))"

datatype 'v socket_addr = SocketV4 u8 u8 u8 u8 u16 | SocketV6 'v

definition parse_socket_v4 :: "string \<Rightarrow> 'v socket_addr option" where
  "parse_socket_v4 s =
     Option.bind (read_ipv4 s) (\<lambda>((a, b, c, d), s).
     Option.bind (read_port s) (\<lambda>(port, s). if s = [] then Some (SocketV4 a b c d port) else None))"

text \<open>An IPv6 socket address starts with a bracket, which no IPv4 one does.\<close>

definition parse_socket_addr :: "(string \<Rightarrow> 'v option) \<Rightarrow> string \<Rightarrow> 'v socket_addr option" where
  "parse_socket_addr v6 s =
     (case parse_socket_v4 s of
        Some addr \<Rightarrow> Some addr
      | None \<Rightarrow> if take 1 s = ''['' then map_option SocketV6 (v6 s) else None)"

lemma parse_socket_not_v6: "take 1 s \<noteq> ''['' \<Longrightarrow> parse_socket_addr v6 s = parse_socket_v4 s"
  by (simp add: parse_socket_addr_def split: option.split)

definition quad_text :: "u8 \<Rightarrow> u8 \<Rightarrow> u8 \<Rightarrow> u8 \<Rightarrow> string" where
  "quad_text a b c d = show_nat (unat a) @ CHR ''.'' # show_nat (unat b) @ CHR ''.'' #
     show_nat (unat c) @ CHR ''.'' # show_nat (unat d)"

section \<open>Decimal texts without leading zeros\<close>

definition no_digit_first :: "string \<Rightarrow> bool" where
  "no_digit_first s = (s = [] \<or> \<not> is_digit (hd s))"

lemma no_digit_first_simps [simp]:
  "no_digit_first []" "no_digit_first (c # s) = (\<not> is_digit c)"
  by (simp_all add: no_digit_first_def)

lemma char_digit_SomeD: "char_digit c = Some d \<Longrightarrow> c = digit_char d \<and> d < 10"
  by (auto simp: char_digit_def digit_char_def Let_def split: if_split_asm)

lemma is_digit_show_nat: "c \<in> set (show_nat n) \<Longrightarrow> is_digit c"
  using digit_char_not unfolding is_digit_def by blast

lemma digits_value_digits: "digits_value acc ds = Some n \<Longrightarrow> c \<in> set ds \<Longrightarrow> is_digit c"
  by (induction ds arbitrary: acc) (auto simp: is_digit_def split: option.split_asm)

lemma show_nat_0: "show_nat 0 = ''0''"
proof -
  have "digit_char 0 = CHR ''0''" by code_simp
  then show ?thesis by (simp add: show_nat.simps [of 0])
qed

lemma show_nat_hd: "hd (show_nat n) = CHR ''0'' \<Longrightarrow> n = 0"
proof (induction n rule: show_nat.induct)
  case (1 n)
  show ?case
  proof (cases "n < 10")
    case True
    with 1(2) have "char_digit CHR ''0'' = Some n"
      by (metis char_digit_digit_char show_nat.simps list.sel(1))
    then show ?thesis by (simp add: char_digit_def)
  next
    case False
    with 1(2) have "hd (show_nat (n div 10)) = CHR ''0''" by (simp add: show_nat.simps [of n])
    with 1(1) [OF False] False show ?thesis by simp
  qed
qed

lemma canonical_digits:
  assumes "digits_value 0 ds = Some n" "ds \<noteq> []" "hd ds = CHR ''0'' \<longrightarrow> length ds = 1"
  shows "ds = show_nat n"
  using assms
proof (induction ds arbitrary: n rule: rev_induct)
  case Nil
  then show ?case by simp
next
  case (snoc c xs)
  from snoc(2) obtain m d where md: "digits_value 0 xs = Some m" "char_digit c = Some d" "n = 10 * m + d"
    by (auto simp: digits_value_append split: option.split_asm)
  note c = char_digit_SomeD [OF md(2)]
  show ?case
  proof (cases "xs = []")
    case True
    with md c show ?thesis by (simp add: show_nat.simps [of d])
  next
    case False
    with snoc(4) have "hd xs \<noteq> CHR ''0''" by auto
    with snoc(1) [OF md(1) False] have xs: "xs = show_nat m" by simp
    with \<open>hd xs \<noteq> CHR ''0''\<close> have "m \<noteq> 0" using show_nat_0 by (metis list.sel(1))
    with md(3) c have "n div 10 = m" "n mod 10 = d" "\<not> n < 10" by simp_all
    with c xs show ?thesis by (simp add: show_nat.simps [of n])
  qed
qed

lemma length_show_nat: "n < 10 ^ k \<Longrightarrow> 0 < k \<Longrightarrow> length (show_nat n) \<le> k"
proof (induction k arbitrary: n)
  case 0
  then show ?case by simp
next
  case (Suc k)
  show ?case
  proof (cases "n < 10")
    case True
    then show ?thesis by (simp add: show_nat.simps [of n])
  next
    case False
    with Suc(2) have "n div 10 < 10 ^ k" "0 < k" by (auto intro!: gr0I simp: less_mult_imp_div_less)
    with Suc(1) [of "n div 10"] False show ?thesis by (simp add: show_nat.simps [of n])
  qed
qed

section \<open>The reader inverts printing\<close>

lemma takeWhile_digits:
  assumes "\<And>c. c \<in> set ds \<Longrightarrow> is_digit c" "no_digit_first rest"
  shows "takeWhile is_digit (ds @ rest) = ds" "dropWhile is_digit (ds @ rest) = rest"
  using assms by (cases rest; simp)+

lemma dropWhile_no_digit: "no_digit_first (dropWhile is_digit s)"
  unfolding no_digit_first_def using hd_dropWhile by blast

lemma read_octet_iff:
  "read_octet s = Some (w, rest) \<longleftrightarrow> s = show_nat (unat w) @ rest \<and> no_digit_first rest" (is "?lhs \<longleftrightarrow> ?rhs")
proof
  let ?ds = "takeWhile is_digit s"
  assume ?lhs
  then obtain n where n: "digits_value 0 ?ds = Some n" "n < 256" "w = word_of_nat n" "?ds \<noteq> []"
      "hd ?ds = CHR ''0'' \<longrightarrow> length ?ds \<le> 1" "rest = dropWhile is_digit s"
    by (auto simp: read_octet_def read_number_def Let_def split: if_split_asm option.split_asm)
  have "?ds = show_nat n" by (rule canonical_digits [OF n(1,4)]) (use n(4,5) in \<open>auto simp: le_Suc_eq\<close>)
  moreover have "unat w = n" using n(2,3) by (simp add: unat_of_nat)
  ultimately show ?rhs using n(6) dropWhile_no_digit takeWhile_dropWhile_id by metis
next
  let ?ds = "show_nat (unat w)"
  assume r: ?rhs
  have w: "unat w < 256" using unsigned_less [of w] by simp
  have "takeWhile is_digit s = ?ds" "dropWhile is_digit s = rest"
    using r takeWhile_digits [OF is_digit_show_nat] by auto
  moreover have "length ?ds \<le> 3" by (rule length_show_nat) (use w in simp_all)
  moreover have "\<not> (hd ?ds = CHR ''0'' \<and> 1 < length ?ds)"
    using show_nat_hd [of "unat w"] by (auto simp: show_nat_0)
  ultimately show ?lhs
    using w by (auto simp: read_octet_def read_number_def digits_value_show_nat Let_def)
qed

lemma read_given_char_iff: "read_given_char c s = Some rest \<longleftrightarrow> s = c # rest"
  by (auto simp: read_given_char_def split: list.split)

lemma not_digit [simp]: "\<not> is_digit CHR ''.''" "\<not> is_digit CHR '':''"
  by (simp_all add: is_digit_def char_digit_def)

lemma read_dot_octet_iff:
  "read_dot_octet s = Some (w, rest) \<longleftrightarrow> s = CHR ''.'' # show_nat (unat w) @ rest \<and> no_digit_first rest"
  by (auto simp: read_dot_octet_def bind_eq_Some_conv read_given_char_iff read_octet_iff)

lemma read_ipv4_iff:
  "read_ipv4 s = Some ((a, b, c, d), rest) \<longleftrightarrow> s = quad_text a b c d @ rest \<and> no_digit_first rest"
  by (auto simp: read_ipv4_def bind_eq_Some_conv read_octet_iff read_dot_octet_iff quad_text_def)

lemma read_port_show:
  "read_port (CHR '':'' # show_nat (unat p)) = Some (p, [])"
proof -
  have "takeWhile is_digit (show_nat (unat p)) = show_nat (unat p)" "dropWhile is_digit (show_nat (unat p)) = []"
    using takeWhile_digits [of "show_nat (unat p)" "[]"] is_digit_show_nat by (simp_all del: takeWhile_eq_all_conv dropWhile_eq_Nil_conv)
  moreover have "unat p < 65536" using unsigned_less [of p] by simp
  ultimately show ?thesis
    by (simp add: read_port_def read_given_char_def read_number_def digits_value_show_nat Let_def
        del: takeWhile_eq_all_conv dropWhile_eq_Nil_conv)
qed

lemma read_port_end:
  assumes "read_port s = Some (p, [])"
  obtains t where "s = CHR '':'' # t" "CHR '':'' \<notin> set t"
proof -
  obtain t where t: "s = CHR '':'' # t" "dropWhile is_digit t = []"
    using assms
    by (auto simp: read_port_def read_given_char_def read_number_def Let_def
        split: list.split_asm if_split_asm option.split_asm)
  have "CHR '':'' \<notin> set t" using t(2) not_digit(2) by (auto simp: dropWhile_eq_Nil_conv)
  with t(1) show ?thesis by (rule that)
qed

text \<open>
  A host and a port joined by a colon are an IPv4 socket address exactly when the host is a dotted quad, and
  then that quad's.
\<close>

theorem parse_socket_v4_iff:
  "parse_socket_v4 (host @ CHR '':'' # show_nat (unat (port :: u16))) = Some addr \<longleftrightarrow>
     (\<exists>a b c d. host = quad_text a b c d \<and> addr = SocketV4 a b c d port)" (is "?lhs \<longleftrightarrow> ?rhs")
proof
  let ?s = "host @ CHR '':'' # show_nat (unat port)"
  assume ?lhs
  then obtain a b c d rest p where q: "?s = quad_text a b c d @ rest" "read_port rest = Some (p, [])"
      "addr = SocketV4 a b c d p"
    by (auto simp: parse_socket_v4_def bind_eq_Some_conv read_ipv4_iff split: if_split_asm)
  obtain t where t: "rest = CHR '':'' # t" "CHR '':'' \<notin> set t" by (rule read_port_end [OF q(2)])
  have "CHR '':'' \<notin> set (show_nat (unat port))" by (rule digit_char_not) (simp add: char_digit_def)
  then have "rsplit_once CHR '':'' ?s = Some (host, show_nat (unat port))" by (rule rsplit_once_append)
  moreover have "rsplit_once CHR '':'' ?s = Some (quad_text a b c d, t)"
    unfolding q(1) t(1) using t(2) by (rule rsplit_once_append)
  ultimately have e: "host = quad_text a b c d" "t = show_nat (unat port)" by simp_all
  then have "p = port" using q(2) t(1) read_port_show [of port] by simp
  with e(1) q(3) show ?rhs by blast
next
  assume ?rhs
  then obtain a b c d where q: "host = quad_text a b c d" "addr = SocketV4 a b c d port" by blast
  have "read_ipv4 (host @ CHR '':'' # show_nat (unat port)) = Some ((a, b, c, d), CHR '':'' # show_nat (unat port))"
    using q(1) by (simp add: read_ipv4_iff)
  then show ?lhs using q(2) by (simp add: parse_socket_v4_def read_port_show)
qed

end
