(* ===== verification/Agent_Serve.thy ===== *)
theory Agent_Serve
  imports Agent_Start Socket_Text
begin

text \<open>
  The program as a whole (\<open>main\<close> of \<open>agent/src/main.rs\<close>) with the two servers it ends in: the gRPC server
  (\<open>start_background\<close> of \<open>grpc_server/mod.rs\<close>), whose address is parsed, and the REST server
  (\<open>serve\<close> of \<open>api_rest/mod.rs\<close>), whose listener takes the address as a text.
\<close>

section \<open>The servers\<close>

text \<open>
  What becomes of the gRPC server: the text is no socket address and no task is started, the task of the
  server ends with the error of the transport, or the services are served at an address.
\<close>

datatype 'v grpc_server = GrpcBadAddress | GrpcStopped string | GrpcServing "'v socket_addr"

text \<open>
  \<open>start_background\<close>. \<open>listen\<close> is what the operating system answers when the transport binds its socket to
  an address. Both errors are printed only: the caller goes on in each case.
\<close>

definition start_background ::
  "(string \<Rightarrow> 'v option) \<Rightarrow> ('v socket_addr \<Rightarrow> string + unit) \<Rightarrow> config \<Rightarrow> 'v grpc_server"
where
  "start_background v6 listen cfg =
     (case parse_socket_addr v6 (host_port (nw_bind_address (cfg_network cfg)) (nw_grpc_port (cfg_network cfg))) of
        None \<Rightarrow> GrpcBadAddress
      | Some addr \<Rightarrow> (case listen addr of Inl e \<Rightarrow> GrpcStopped e | Inr _ \<Rightarrow> GrpcServing addr))"

text \<open>
  \<open>serve\<close>: the address the REST interface listens on. \<open>bind_to\<close> is what the operating system answers,
  which also looks host names up. The router and the watcher it starts are in \<open>Rest_Api\<close>.
\<close>

definition serve :: "(string \<Rightarrow> io_error + unit) \<Rightarrow> config \<Rightarrow> io_error + string" where
  "serve bind_to cfg =
     (let addr = host_port (nw_bind_address (cfg_network cfg)) (nw_rest_port (cfg_network cfg)) in
      bind_res (bind_to addr) (\<lambda>_. Inr addr))"

text \<open>What becomes of the process: it prints its version, exits with a code, or serves for good.\<close>

datatype ('v, 's) main_result = PrintsVersion | ExitsWith nat | Serves "'s agent" "'v grpc_server" string

text \<open>The end of \<open>run_agent\<close>: the gRPC server in the background, then the REST server.\<close>

definition serve_agent ::
  "(string \<Rightarrow> 'v option) \<Rightarrow> ('v socket_addr \<Rightarrow> string + unit) \<Rightarrow> (string \<Rightarrow> io_error + unit) \<Rightarrow> 's agent
   \<Rightarrow> ('v, 's) main_result"
where
  "serve_agent v6 listen bind_to ag =
     (let grpc = start_background v6 listen (ag_config ag) in
      case serve bind_to (ag_config ag) of Inl e \<Rightarrow> ExitsWith 1 | Inr rest \<Rightarrow> Serves ag grpc rest)"

definition agent_main ::
  "toml_api \<Rightarrow> ('d, 'm, 's) openraft \<Rightarrow> 'd sled \<Rightarrow> 'm raft_state json \<Rightarrow> 'm \<Rightarrow> string + 'd \<Rightarrow> string + 'd
   \<Rightarrow> start_env \<Rightarrow> (nat \<Rightarrow> (join_message, join_answer) channel) \<Rightarrow> (string \<Rightarrow> 'v option)
   \<Rightarrow> ('v socket_addr \<Rightarrow> string + unit) \<Rightarrow> (string \<Rightarrow> io_error + unit) \<Rightarrow> string list \<Rightarrow> fs \<Rightarrow> ('v, 's) main_result \<times> fs"
where
  "agent_main T R S J no_members opened_log opened_sm X net v6 listen bind_to args f =
     (case main_of args of
        ShowVersion \<Rightarrow> (PrintsVersion, f)
      | ShowUsage \<Rightarrow> (ExitsWith 1, f)
      | StartAgent config_path \<Rightarrow>
          (case run_agent T R S J no_members opened_log opened_sm X net config_path f of
             (Inl e, g) \<Rightarrow> (ExitsWith 1, g)
           | (Inr ag, g) \<Rightarrow> (serve_agent v6 listen bind_to ag, g)))"

section \<open>Lemmas\<close>

lemma agent_main_serves:
  assumes "agent_main T R S J nm opened_log opened_sm X net v6 listen bind_to args f = (Serves ag grpc rest, g)"
  obtains path where "main_of args = StartAgent path"
    "run_agent T R S J nm opened_log opened_sm X net path f = (Inr ag, g)"
    "grpc = start_background v6 listen (ag_config ag)" "serve bind_to (ag_config ag) = Inr rest"
  using assms
  by (auto simp: agent_main_def serve_agent_def Let_def split: main_command.split_asm prod.split_asm sum.split_asm)

lemma run_agent_load:
  assumes "run_agent T R S J nm opened_log opened_sm X net path f = (Inr ag, g)"
  shows "load T path f = Inr (ag_config ag)"
  using assms by (auto simp: run_agent_def op_simps split: prod.split_asm sum.split_asm)

lemma host_port_bracket: "take 1 (host_port host port) = ''['' \<longleftrightarrow> take 1 host = ''[''"
  by (cases host) (simp_all add: host_port_def)

lemma bind_text_v4:
  assumes "take 1 (nw_bind_address (cfg_network cfg)) \<noteq> ''[''"
  shows "parse_socket_addr v6 (host_port (nw_bind_address (cfg_network cfg)) (nw_grpc_port (cfg_network cfg))) = Some addr \<longleftrightarrow>
    (\<exists>a b c d. nw_bind_address (cfg_network cfg) = quad_text a b c d \<and> addr = SocketV4 a b c d (nw_grpc_port (cfg_network cfg)))"
proof -
  let ?host = "nw_bind_address (cfg_network cfg)" and ?port = "nw_grpc_port (cfg_network cfg)"
  have "take 1 (host_port ?host ?port) \<noteq> ''[''" using assms host_port_bracket by blast
  then show ?thesis by (simp add: parse_socket_not_v6) (simp add: host_port_def parse_socket_v4_iff)
qed

text \<open>The three outcomes, each by what brings it about.\<close>

lemma start_background_outcomes:
  assumes "take 1 (nw_bind_address (cfg_network cfg)) \<noteq> ''[''"
  defines "at \<equiv> \<lambda>addr. \<exists>a b c d. nw_bind_address (cfg_network cfg) = quad_text a b c d \<and>
    addr = SocketV4 a b c d (nw_grpc_port (cfg_network cfg))"
  shows "start_background v6 listen cfg = GrpcServing addr \<longleftrightarrow> at addr \<and> listen addr = Inr ()"
    and "start_background v6 listen cfg = GrpcStopped e \<longleftrightarrow> (\<exists>addr. at addr \<and> listen addr = Inl e)"
    and "start_background v6 listen cfg = GrpcBadAddress \<longleftrightarrow>
      (\<forall>a b c d. nw_bind_address (cfg_network cfg) \<noteq> quad_text a b c d)"
proof -
  have at: "at a \<longleftrightarrow> parse_socket_addr v6 (host_port (nw_bind_address (cfg_network cfg)) (nw_grpc_port (cfg_network cfg))) = Some a" for a
    unfolding at_def bind_text_v4 [OF assms(1)] ..
  show "start_background v6 listen cfg = GrpcServing addr \<longleftrightarrow> at addr \<and> listen addr = Inr ()"
    by (auto simp: at start_background_def split: option.split sum.split)
  show "start_background v6 listen cfg = GrpcStopped e \<longleftrightarrow> (\<exists>addr. at addr \<and> listen addr = Inl e)"
    by (auto simp: at start_background_def split: option.split sum.split)
  have "start_background v6 listen cfg = GrpcBadAddress \<longleftrightarrow> (\<forall>a. \<not> at a)"
    by (auto simp: at start_background_def split: option.split sum.split)
  then show "start_background v6 listen cfg = GrpcBadAddress \<longleftrightarrow>
      (\<forall>a b c d. nw_bind_address (cfg_network cfg) \<noteq> quad_text a b c d)" unfolding at_def by blast
qed

text \<open>
  C35. What the running program serves. If the program ends up serving, it was started with \<open>start\<close>, the
  configuration it runs with was loaded, and the REST interface listens on \<open>bind_address\<close> and \<open>rest_port\<close>. The gRPC
  services run too exactly when \<open>bind_address\<close> is a dotted quad (or a bracketed IPv6 address, which
  the second hypothesis leaves aside) and the system binds the socket; they are then served at that address and
  \<open>grpc_port\<close>. When the socket cannot be bound, the agent runs without them, and so it does
  whatever the system would answer when \<open>bind_address\<close> is no dotted quad: a host name, which the REST
  listener accepts, leaves an agent that can be reached by no join, no delegated job, no report and no shard.
\<close>

theorem grpc_needs_ip_literal:
  assumes "agent_main T R S J nm opened_log opened_sm X net v6 listen bind_to args f = (Serves ag grpc rest, g)"
    and "take 1 (nw_bind_address (cfg_network (ag_config ag))) \<noteq> ''[''"
  shows "(\<exists>path. main_of args = StartAgent path \<and> load T path f = Inr (ag_config ag)) \<and>
    rest = host_port (nw_bind_address (cfg_network (ag_config ag))) (nw_rest_port (cfg_network (ag_config ag))) \<and>
    bind_to rest = Inr () \<and>
    (\<forall>addr. grpc = GrpcServing addr \<longleftrightarrow> (\<exists>a b c d. nw_bind_address (cfg_network (ag_config ag)) = quad_text a b c d \<and>
       addr = SocketV4 a b c d (nw_grpc_port (cfg_network (ag_config ag)))) \<and> listen addr = Inr ()) \<and>
    (\<forall>e. grpc = GrpcStopped e \<longleftrightarrow> (\<exists>a b c d. nw_bind_address (cfg_network (ag_config ag)) = quad_text a b c d \<and>
       listen (SocketV4 a b c d (nw_grpc_port (cfg_network (ag_config ag)))) = Inl e)) \<and>
    (grpc = GrpcBadAddress \<longleftrightarrow> (\<forall>a b c d. nw_bind_address (cfg_network (ag_config ag)) \<noteq> quad_text a b c d))"
proof -
  obtain path where "main_of args = StartAgent path"
    "run_agent T R S J nm opened_log opened_sm X net path f = (Inr ag, g)"
    "grpc = start_background v6 listen (ag_config ag)" "serve bind_to (ag_config ag) = Inr rest"
    by (rule agent_main_serves [OF assms(1)])
  note started = this
  from started(4) have "bind_to rest = Inr () \<and>
      rest = host_port (nw_bind_address (cfg_network (ag_config ag))) (nw_rest_port (cfg_network (ag_config ag)))"
    by (auto simp: serve_def Let_def bind_res_Inr)
  moreover have "\<exists>path. main_of args = StartAgent path \<and> load T path f = Inr (ag_config ag)"
    using started(1) run_agent_load [OF started(2)] by blast
  ultimately show ?thesis
    by (simp add: started(3) start_background_outcomes [OF assms(2)]) blast
qed

lemma issuer_load:
  "load (sample_toml\<lparr>tm_config := (\<lambda>_. Inr (sample_raw\<lparr>raw_seeds := None, raw_quorum_participant := Some True\<rparr>))\<rparr>) ''/c'' sample_config_fs =
     Inr issuer_start_config"
  by (simp add: load_def sample_toml_def sample_config_fs_def empty_fs_def fs_read_to_string_def fs_read_def file_at_def
      ensure_required_def bind_res_def config_of_raw_def sample_raw_def trim_def is_whitespace_def issuer_start_config_def)

lemma issuer_run:
  obtains ag g where "run_agent (sample_toml\<lparr>tm_config := (\<lambda>_. Inr (sample_raw\<lparr>raw_seeds := None, raw_quorum_participant := Some True\<rparr>))\<rparr>)
      member_engine ref_sled blank_json (0 :: nat) (Inr []) (Inr []) sample_start dead_net ''/c'' sample_config_fs = (Inr ag, g)"
    "ag_config ag = issuer_start_config"
proof -
  obtain g where "start_node sample_start dead_net issuer_start_config sample_config_fs = (Inr (5, 0), g)" by (rule first_start)
  with issuer_load obtain ag where run: "run_agent (sample_toml\<lparr>tm_config := (\<lambda>_. Inr (sample_raw\<lparr>raw_seeds := None, raw_quorum_participant := Some True\<rparr>))\<rparr>)
      member_engine ref_sled blank_json (0 :: nat) (Inr []) (Inr []) sample_start dead_net ''/c'' sample_config_fs = (Inr ag, g)"
    by (simp add: run_agent_def op_simps)
  have "ag_config ag = issuer_start_config" using run_agent_load [OF run] issuer_load by simp
  with run show ?thesis by (rule that)
qed

theorem grpc_needs_ip_literal_witness:
  "\<exists>ag g. agent_main (sample_toml\<lparr>tm_config := (\<lambda>_. Inr (sample_raw\<lparr>raw_seeds := None, raw_quorum_participant := Some True\<rparr>))\<rparr>)
      member_engine ref_sled blank_json (0 :: nat) (Inr []) (Inr []) sample_start dead_net (\<lambda>_. None :: nat option) (\<lambda>_. Inr ()) (\<lambda>_. Inr ())
      [''all4one-agent'', ''start'', ''--config'', ''/c''] sample_config_fs =
      (Serves ag (GrpcServing (SocketV4 0 0 0 0 7947)) (host_port ''0.0.0.0'' 7946), g)"
proof -
  obtain ag g where run: "run_agent (sample_toml\<lparr>tm_config := (\<lambda>_. Inr (sample_raw\<lparr>raw_seeds := None, raw_quorum_participant := Some True\<rparr>))\<rparr>)
      member_engine ref_sled blank_json (0 :: nat) (Inr []) (Inr []) sample_start dead_net ''/c'' sample_config_fs = (Inr ag, g)"
    and cfg: "ag_config ag = issuer_start_config" by (rule issuer_run)
  have net: "nw_bind_address (cfg_network issuer_start_config) = ''0.0.0.0''" "nw_grpc_port (cfg_network issuer_start_config) = 7947"
    "nw_rest_port (cfg_network issuer_start_config) = 7946"
    by (simp_all add: issuer_start_config_def config_of_raw_def sample_raw_def or_default_def default_bind_def
        default_grpc_port_def default_rest_port_def)
  have quad: "quad_text 0 0 0 0 = ''0.0.0.0''" by (simp add: quad_text_def show_nat_0)
  obtain grpc rest where "agent_main (sample_toml\<lparr>tm_config := (\<lambda>_. Inr (sample_raw\<lparr>raw_seeds := None, raw_quorum_participant := Some True\<rparr>))\<rparr>)
      member_engine ref_sled blank_json (0 :: nat) (Inr []) (Inr []) sample_start dead_net (\<lambda>_. None :: nat option) (\<lambda>_. Inr ()) (\<lambda>_. Inr ())
      [''all4one-agent'', ''start'', ''--config'', ''/c''] sample_config_fs = (Serves ag grpc rest, g)"
    using run by (simp add: agent_main_def serve_agent_def main_of_def or_default_def serve_def bind_res_def Let_def)
  note m = this
  from grpc_needs_ip_literal [OF m] have "grpc = GrpcServing (SocketV4 0 0 0 0 7947)" "rest = host_port ''0.0.0.0'' 7946"
    using quad by (simp_all add: cfg net)
  with m show ?thesis by blast
qed

end
