(* ===== verification/Gossip.thy ===== *)
theory Gossip
  imports Membership
begin

text \<open>
  Several agents that run the discovery task of \<open>agent/src/discovery/mod.rs\<close> against each other: the requests
  of one are answered by \<open>get_internal_nodes\<close> (\<open>agent/src/api_rest/mod.rs\<close>) on the view the asked agent has at
  that moment. Shown is how fast knowledge of a node spreads.
\<close>

section \<open>A network of agents\<close>

type_synonym network = "node_id \<Rightarrow> membership"

text \<open>The agents that are up are \<open>nodes\<close>; each serves its REST interface at its address.\<close>

definition net_client :: "uuid_api \<Rightarrow> node_id list \<Rightarrow> (node_id \<Rightarrow> string) \<Rightarrow> nat \<Rightarrow> network \<Rightarrow> http_client" where
  "net_client U nodes addr now net = \<lparr>
     http_nodes = (\<lambda>url. case find (\<lambda>j. ''http://'' @ addr j @ ''/v1/internal/nodes'' = url) nodes of
        None \<Rightarrow> NodesFailed
      | Some j \<Rightarrow> NodesBody (Some (get_internal_nodes U (ms_cluster (net j)))) now),
     http_node = (\<lambda>_. NodeFailed) \<rparr>"

definition agent_round ::
  "uuid_api \<Rightarrow> node_id list \<Rightarrow> (node_id \<Rightarrow> string) \<Rightarrow> (node_id \<Rightarrow> string list) \<Rightarrow> node_id \<times> nat \<Rightarrow> network \<Rightarrow> network"
where
  "agent_round U nodes addr seeds turn net = (case turn of (i, now) \<Rightarrow>
     net(i := discovery_round U (net_client U nodes addr now net) (seeds i) i (net i)))"

definition run_rounds ::
  "uuid_api \<Rightarrow> node_id list \<Rightarrow> (node_id \<Rightarrow> string) \<Rightarrow> (node_id \<Rightarrow> string list) \<Rightarrow> (node_id \<times> nat) list \<Rightarrow> network \<Rightarrow> network"
where
  "run_rounds U nodes addr seeds = fold (agent_round U nodes addr seeds)"

definition knows :: "network \<Rightarrow> node_id \<Rightarrow> node_id \<Rightarrow> bool" where
  "knows net i j = (hget (cs_nodes (ms_cluster (net i))) j \<noteq> None)"

text \<open>Whom an agent can ask: the nodes it knows and the agents its seeds name.\<close>

definition linked :: "node_id list \<Rightarrow> (node_id \<Rightarrow> string) \<Rightarrow> (node_id \<Rightarrow> string list) \<Rightarrow> network \<Rightarrow> node_id \<Rightarrow> node_id \<Rightarrow> bool" where
  "linked nodes addr seeds net i j =
     (i \<in> set nodes \<and> (knows net i j \<or> j \<in> set nodes \<and> addr j \<in> set (List.map seed_to_rest (seeds i))))"

text \<open>A view in order: the agent is in it, and all it holds are agents that are up, under their addresses.\<close>

definition view_true :: "node_id list \<Rightarrow> (node_id \<Rightarrow> string) \<Rightarrow> node_id \<Rightarrow> membership \<Rightarrow> bool" where
  "view_true nodes addr i m = (membership_ok i m \<and>
     (\<forall>k n. hget (cs_nodes (ms_cluster m)) k = Some n \<longrightarrow> k \<in> set nodes \<and> ni_rest_endpoint n = addr k))"

definition network_ok :: "node_id list \<Rightarrow> (node_id \<Rightarrow> string) \<Rightarrow> network \<Rightarrow> bool" where
  "network_ok nodes addr net = (inj_on addr (set nodes) \<and> (\<forall>i \<in> set nodes. addr i \<noteq> [] \<and> view_true nodes addr i (net i)))"

section \<open>One poll\<close>

definition rest_view :: "membership \<Rightarrow> node_id \<Rightarrow> string option" where
  "rest_view m k = map_option ni_rest_endpoint (hget (cs_nodes (ms_cluster m)) k)"

lemma view_true_alt:
  "view_true nodes addr i m \<longleftrightarrow> membership_ok i m \<and> (\<forall>k e. rest_view m k = Some e \<longrightarrow> k \<in> set nodes \<and> e = addr k)"
  by (auto simp: view_true_def rest_view_def)

lemma knows_view: "knows net i j \<longleftrightarrow> rest_view (net i) j \<noteq> None"
  by (simp add: knows_def rest_view_def)

lemma view_true_self: "view_true nodes addr i m \<Longrightarrow> rest_view m i \<noteq> None"
  by (auto simp: view_true_def membership_ok_def rest_view_def hget_None_iff)

text \<open>Applying a published view, seen through the addresses: the published entries on top, but one's own.\<close>

context uuid_text begin

lemma published_view:
  assumes "cluster_wf (ms_cluster b)"
  shows "rest_view (apply_peer_list U i now (get_internal_nodes U (ms_cluster b)) m) = rest_view m ++ (rest_view b)(i := None)"
proof
  fix k
  let ?ps = "get_internal_nodes U (ms_cluster b)"
  show "rest_view (apply_peer_list U i now ?ps m) k = (rest_view m ++ (rest_view b)(i := None)) k"
  proof (cases "k = i")
    case True
    then show ?thesis by (simp add: rest_view_def apply_peer_list_nodes map_add_def)
  next
    case False
    show ?thesis
    proof (cases "hget (cs_nodes (ms_cluster b)) k")
      case None
      then have "\<not> (\<exists>p \<in> set ?ps. uuid_parse U (pi_id p) = Some k)" using internal_nodes_entry [OF assms] by (metis option.distinct(1))
      then have "first_peer U k ?ps = None" by (simp add: first_peer_def find_None_iff)
      with False None show ?thesis by (simp add: rest_view_def apply_peer_list_nodes listed_node_def map_add_def)
    next
      case (Some n)
      from apply_published(1) [OF assms Some False] Some False show ?thesis by (auto simp: rest_view_def map_add_def)
    qed
  qed
qed

end

text \<open>What a poll makes of a view: the agent at the address is asked, if there is one.\<close>

definition ask ::
  "uuid_api \<Rightarrow> node_id list \<Rightarrow> (node_id \<Rightarrow> string) \<Rightarrow> nat \<Rightarrow> network \<Rightarrow> node_id \<Rightarrow> string \<Rightarrow> membership \<Rightarrow> membership"
where
  "ask U nodes addr now net i e m = (case find (\<lambda>j. addr j = e) nodes of None \<Rightarrow> m
     | Some j \<Rightarrow> apply_peer_list U i now (get_internal_nodes U (ms_cluster (net j))) m)"

lemma net_answer:
  "http_nodes (net_client U nodes addr now net) (''http://'' @ e @ ''/v1/internal/nodes'') =
     (case find (\<lambda>j. addr j = e) nodes of None \<Rightarrow> NodesFailed
      | Some j \<Rightarrow> NodesBody (Some (get_internal_nodes U (ms_cluster (net j)))) now)"
  by (simp add: net_client_def)

lemma poll_seed_net: "poll_seed U (net_client U nodes addr now net) i = ask U nodes addr now net i \<circ> seed_to_rest"
  unfolding poll_seed_def net_answer Let_def ask_def by (intro ext) (simp add: net_client_def split: option.split)

lemma poll_known_net:
  assumes "network_ok nodes addr net"
  shows "poll_known U (net_client U nodes addr now net) i = ask U nodes addr now net i"
proof (intro ext)
  fix e m
  have "find (\<lambda>j. addr j = []) nodes = None" using assms by (simp add: network_ok_def find_None_iff)
  then show "poll_known U (net_client U nodes addr now net) i e m = ask U nodes addr now net i e m"
    unfolding poll_known_def net_answer ask_def by (auto split: option.split)
qed

section \<open>One round\<close>

text \<open>A poll against a network in order keeps a view in order, forgets nothing and takes over what it is shown.\<close>

context uuid_text begin

lemma poll_view:
  assumes "view_true nodes addr j (net j)" "j \<in> set nodes" "i \<in> set nodes" "view_true nodes addr i m"
    and "m' = apply_peer_list U i now (get_internal_nodes U (ms_cluster (net j))) m"
  shows "view_true nodes addr i m'" "dom (rest_view m') = dom (rest_view m) \<union> dom (rest_view (net j))"
proof -
  have b: "cluster_wf (ms_cluster (net j))" using assms(1) by (simp add: view_true_def membership_ok_def)
  have v: "rest_view m' = rest_view m ++ (rest_view (net j))(i := None)" unfolding assms(5) by (rule published_view [OF b])
  have "membership_ok i m'"
    using members.step_inv [OF cluster_step.peer_list] assms(4,5) by (simp add: view_true_def)
  then show "view_true nodes addr i m'"
    using assms(1,4) unfolding view_true_alt v by (auto simp: map_add_def split: option.split_asm if_split_asm)
  show "dom (rest_view m') = dom (rest_view m) \<union> dom (rest_view (net j))"
    using view_true_self [OF assms(4)] unfolding v by (auto simp: domIff map_add_def split: option.split if_split_asm)
qed

lemma ask_view:
  assumes "network_ok nodes addr net" "i \<in> set nodes" "view_true nodes addr i m"
  shows "view_true nodes addr i (ask U nodes addr now net i e m)" "dom (rest_view m) \<subseteq> dom (rest_view (ask U nodes addr now net i e m))"
    and "j \<in> set nodes \<Longrightarrow> addr j = e \<Longrightarrow> dom (rest_view (net j)) \<subseteq> dom (rest_view (ask U nodes addr now net i e m))"
proof -
  let ?m = "ask U nodes addr now net i e m"
  have "view_true nodes addr i ?m \<and> dom (rest_view m) \<subseteq> dom (rest_view ?m) \<and>
    (\<forall>j \<in> set nodes. addr j = e \<longrightarrow> dom (rest_view (net j)) \<subseteq> dom (rest_view ?m))"
  proof (cases "find (\<lambda>j. addr j = e) nodes")
    case None
    then have "?m = m" by (simp add: ask_def)
    moreover have "\<forall>j \<in> set nodes. addr j \<noteq> e" using None by (simp add: find_None_iff)
    ultimately show ?thesis using assms(3) by simp
  next
    case (Some j)
    then have j: "j \<in> set nodes" "addr j = e" using find_SomeD [OF Some] by simp_all
    have "view_true nodes addr j (net j)" "inj_on addr (set nodes)" using assms(1) j(1) by (simp_all add: network_ok_def)
    then have "j' = j" if "j' \<in> set nodes" "addr j' = e" for j' using that j by (metis inj_onD)
    moreover have "?m = apply_peer_list U i now (get_internal_nodes U (ms_cluster (net j))) m" using Some by (simp add: ask_def)
    note poll_view [where net = net and j = j, OF \<open>view_true nodes addr j (net j)\<close> j(1) assms(2,3) this]
    ultimately show ?thesis by auto
  qed
  note r = this
  show "view_true nodes addr i ?m" using r by (elim conjE)
  show "dom (rest_view m) \<subseteq> dom (rest_view ?m)" using r by (elim conjE)
  show "dom (rest_view (net j)) \<subseteq> dom (rest_view ?m)" if "j \<in> set nodes" "addr j = e" using r that by simp
qed

lemma asks_view:
  assumes "network_ok nodes addr net" "i \<in> set nodes" "view_true nodes addr i m"
  shows "view_true nodes addr i (fold (ask U nodes addr now net i) es m) \<and>
    dom (rest_view m) \<subseteq> dom (rest_view (fold (ask U nodes addr now net i) es m)) \<and>
    (\<forall>j \<in> set nodes. addr j \<in> set es \<longrightarrow> dom (rest_view (net j)) \<subseteq> dom (rest_view (fold (ask U nodes addr now net i) es m)))"
  using assms(3)
proof (induction es arbitrary: m)
  case (Cons e es)
  note 1 = ask_view [OF assms(1,2) Cons.prems, where now = now and e = e]
  let ?m = "ask U nodes addr now net i e m"
  let ?k = "fold (ask U nodes addr now net i) es ?m"
  from Cons.IH [OF 1(1)] have 2: "view_true nodes addr i ?k" "dom (rest_view ?m) \<subseteq> dom (rest_view ?k)"
    "\<And>j. j \<in> set nodes \<Longrightarrow> addr j \<in> set es \<Longrightarrow> dom (rest_view (net j)) \<subseteq> dom (rest_view ?k)" by simp_all
  have "dom (rest_view (net j)) \<subseteq> dom (rest_view ?k)" if "j \<in> set nodes" "addr j \<in> set (e # es)" for j
    using that(2) 1(3) [OF that(1)] 2(2) 2(3) [OF that(1)] by (cases "addr j = e") auto
  with 1(2) 2(1,2) show ?case by auto
qed simp

lemma round_view:
  fixes seeds :: "node_id \<Rightarrow> string list" and now :: nat
  assumes "network_ok nodes addr net" "i \<in> set nodes"
  defines "m' \<equiv> discovery_round U (net_client U nodes addr now net) (seeds i) i (net i)"
  shows "view_true nodes addr i m'" "dom (rest_view (net i)) \<subseteq> dom (rest_view m')"
    and "linked nodes addr seeds net i j \<Longrightarrow> dom (rest_view (net j)) \<subseteq> dom (rest_view m')"
proof -
  let ?ask = "ask U nodes addr now net i"
  let ?m1 = "fold ?ask (List.map seed_to_rest (seeds i)) (net i)"
  have m': "m' = fold ?ask (known_endpoints i ?m1) ?m1"
    by (simp add: m'_def discovery_round_def poll_seed_net poll_known_net [OF assms(1)] fold_map Let_def)
  have v0: "view_true nodes addr i (net i)" using assms(1,2) by (simp add: network_ok_def)
  note s1 = asks_view [OF assms(1,2) v0, where now = now and es = "List.map seed_to_rest (seeds i)"]
  then have v1: "view_true nodes addr i ?m1" by blast
  note s2 = asks_view [OF assms(1,2) v1, where now = now and es = "known_endpoints i ?m1", folded m']
  show "view_true nodes addr i m'" "dom (rest_view (net i)) \<subseteq> dom (rest_view m')" using s1 s2 by blast+
  show "dom (rest_view (net j)) \<subseteq> dom (rest_view m')" if l: "linked nodes addr seeds net i j"
  proof (cases "j \<in> set nodes \<and> addr j \<in> set (List.map seed_to_rest (seeds i))")
    case True
    with s1 s2 show ?thesis by blast
  next
    case False
    then have "rest_view (net i) j \<noteq> None" using l by (auto simp: linked_def knows_view)
    with s1 have "rest_view ?m1 j \<noteq> None" by blast
    then obtain n where n: "hget (cs_nodes (ms_cluster ?m1)) j = Some n" by (auto simp: rest_view_def)
    then have j: "j \<in> set nodes" "ni_rest_endpoint n = addr j" using v1 by (simp_all add: view_true_def)
    show ?thesis
    proof (cases "j = i")
      case True
      with s1 s2 show ?thesis by blast
    next
      case False
      have "addr j \<in> set (known_endpoints i ?m1)"
        using map_of_SomeD [OF n] j(2) False by (auto simp: known_endpoints_def image_iff) metis
      with s2 j(1) show ?thesis by blast
    qed
  qed
qed

end

lemma knows_dom: "knows net i j \<longleftrightarrow> j \<in> dom (rest_view (net i))"
  by (simp add: knows_view domIff)

lemma network_knows:
  assumes "network_ok nodes addr net" "i \<in> set nodes"
  shows "knows net i i" "knows net i j \<Longrightarrow> j \<in> set nodes"
proof -
  have v: "view_true nodes addr i (net i)" using assms by (simp add: network_ok_def)
  show "knows net i i" using view_true_self [OF v] by (simp add: knows_view)
  show "j \<in> set nodes" if "knows net i j" using v that by (auto simp: view_true_def knows_def)
qed

section \<open>Sweeps\<close>

text \<open>Every agent that is up has at least one round, in any order, at any times.\<close>

definition sweep_of :: "node_id list \<Rightarrow> (node_id \<times> nat) list \<Rightarrow> bool" where
  "sweep_of nodes turns = (set (List.map fst turns) = set nodes)"

context uuid_text begin

lemma agent_round_effect:
  fixes seeds :: "node_id \<Rightarrow> string list"
  assumes "network_ok nodes addr net" "fst t \<in> set nodes"
  defines "net' \<equiv> agent_round U nodes addr seeds t net"
  shows "network_ok nodes addr net'" "knows net \<le> knows net'"
    and "linked nodes addr seeds net (fst t) j \<Longrightarrow> knows net j k \<Longrightarrow> knows net' (fst t) k"
proof -
  obtain i now where t: "t = (i, now)" by (cases t)
  let ?m = "discovery_round U (net_client U nodes addr now net) (seeds i) i (net i)"
  have net': "net' = net(i := ?m)" by (simp add: net'_def agent_round_def t)
  note v = round_view [OF assms(1), where i = i and seeds = seeds and now = now]
  have i: "i \<in> set nodes" using assms(2) t by simp
  show "network_ok nodes addr net'" using assms(1) v(1) [OF i] by (simp add: network_ok_def net')
  show "knows net \<le> knows net'" using v(2) [OF i] by (auto simp: le_fun_def knows_dom net')
  show "knows net' (fst t) k" if "linked nodes addr seeds net (fst t) j" "knows net j k"
    using v(3) [OF i, of j] that by (auto simp: knows_dom net' t)
qed

lemma run_rounds_effect:
  assumes "network_ok nodes addr net" "set (List.map fst turns) \<subseteq> set nodes"
  shows "network_ok nodes addr (run_rounds U nodes addr seeds turns net) \<and>
    knows net \<le> knows (run_rounds U nodes addr seeds turns net) \<and>
    (\<forall>i j k. i \<in> set (List.map fst turns) \<longrightarrow> linked nodes addr seeds net i j \<longrightarrow> knows net j k \<longrightarrow>
       knows (run_rounds U nodes addr seeds turns net) i k)"
  using assms
proof (induction turns arbitrary: net)
  case (Cons t turns)
  have t: "fst t \<in> set nodes" using Cons.prems(2) by simp
  let ?net = "agent_round U nodes addr seeds t net"
  let ?fin = "run_rounds U nodes addr seeds turns ?net"
  note r = agent_round_effect [OF Cons.prems(1) t, of seeds]
  from Cons.IH [OF r(1)] Cons.prems(2) have IH: "network_ok nodes addr ?fin" "knows ?net \<le> knows ?fin"
    "\<And>i j k. i \<in> set (List.map fst turns) \<Longrightarrow> linked nodes addr seeds ?net i j \<Longrightarrow> knows ?net j k \<Longrightarrow> knows ?fin i k"
    by simp_all
  have mono: "knows net i j \<Longrightarrow> knows ?net i j" "knows ?net i j \<Longrightarrow> knows ?fin i j" for i j
    using r(2) IH(2) by (auto simp: le_fun_def)
  have "knows ?fin i k" if "i \<in> set (List.map fst (t # turns))" and l: "linked nodes addr seeds net i j" and k: "knows net j k" for i j k
  proof (cases "i = fst t")
    case True
    then show ?thesis using r(3) [of j k] l k mono(2) by simp
  next
    case False
    have "linked nodes addr seeds ?net i j" using l mono(1) by (auto simp: linked_def)
    with False that(1) mono(1) [OF k] show ?thesis by (intro IH(3)) auto
  qed
  moreover have "knows net \<le> knows ?fin" using r(2) IH(2) by (rule order.trans)
  ultimately show ?case using IH(1) by (simp add: run_rounds_def)
qed (simp add: run_rounds_def)

lemma sweep_effect:
  fixes seeds :: "node_id \<Rightarrow> string list"
  assumes "network_ok nodes addr net" "sweep_of nodes turns"
  defines "net' \<equiv> run_rounds U nodes addr seeds turns net"
  shows "network_ok nodes addr net'" "knows net \<le> knows net'"
    and "linked nodes addr seeds net i j \<Longrightarrow> knows net j k \<Longrightarrow> knows net' i k"
  using run_rounds_effect [OF assms(1), of turns seeds] assms(2)
  by (auto simp: sweep_of_def net'_def linked_def)

text \<open>The distance covered doubles with every sweep.\<close>

lemma sweeps_reach:
  assumes "network_ok nodes addr net" "list_all (sweep_of nodes) sweeps" "length sweeps = Suc r"
    and "n \<le> 2 ^ r" "(linked nodes addr seeds net ^^ n) i j" "i \<in> set nodes"
  shows "network_ok nodes addr (run_rounds U nodes addr seeds (concat sweeps) net) \<and>
    knows (run_rounds U nodes addr seeds (concat sweeps) net) i j"
  using assms(2-6)
proof (induction r arbitrary: sweeps n i j)
  case 0
  then obtain s where s: "sweeps = [s]" "sweep_of nodes s" by (auto simp: length_Suc_conv)
  note e = sweep_effect [OF assms(1) s(2), of seeds]
  have "n = 0 \<or> n = 1" using 0(3) by auto
  then have "knows (run_rounds U nodes addr seeds s net) i j"
  proof
    assume "n = 0"
    then have "knows net i j" using 0(4) network_knows(1) [OF assms(1) 0(5)] by simp
    with e(2) show ?thesis by (auto simp: le_fun_def)
  next
    assume "n = 1"
    then have l: "linked nodes addr seeds net i j" using 0(4) by (simp add: eq_OO)
    then have "j \<in> set nodes" using network_knows(2) [OF assms(1) 0(5)] by (auto simp: linked_def)
    from e(3) [OF l network_knows(1) [OF assms(1) this]] show ?thesis .
  qed
  with e(1) show ?case by (simp add: s(1))
next
  case (Suc r)
  then obtain xs s where x: "sweeps = xs @ [s]" "length xs = Suc r" by (metis length_Suc_conv_rev)
  let ?net = "run_rounds U nodes addr seeds (concat xs) net"
  have run: "run_rounds U nodes addr seeds (concat sweeps) net = run_rounds U nodes addr seeds s ?net" by (simp add: x(1) run_rounds_def)
  have xs: "list_all (sweep_of nodes) xs" and s: "sweep_of nodes s" using Suc.prems(1) x(1) by simp_all
  obtain a b where ab: "n = a + b" "a \<le> 2 ^ r" "b \<le> 2 ^ r"
    using that [of "min n (2 ^ r)" "n - min n (2 ^ r)"] Suc.prems(3) by auto
  then obtain k where k: "(linked nodes addr seeds net ^^ a) i k" "(linked nodes addr seeds net ^^ b) k j"
    using Suc.prems(4) by (auto simp: relpowp_add)
  note 1 = Suc.IH [OF xs x(2) ab(2) k(1) Suc.prems(5)]
  then have "k \<in> set nodes" using network_knows(2) [OF _ Suc.prems(5)] by blast
  note 2 = Suc.IH [OF xs x(2) ab(3) k(2) this]
  have "linked nodes addr seeds ?net i k" using 1 Suc.prems(5) by (simp add: linked_def)
  with 1 2 sweep_effect [OF _ s, of addr ?net seeds] show ?case unfolding run by blast
qed

end

section \<open>Properties\<close>

text \<open>
  C14. Discovery converges. Agents that are up know only agents that are up, under their addresses. Then, after
  \<open>r + 1\<close> sweeps in which each agent has at least one discovery round, in any order, every agent has in its
  view, under its address, each agent that is at most \<open>2 ^ r\<close> steps away from it, a step leading from an agent to
  a node it knew at first or a seed it names; and all views are still in order.
\<close>

theorem discovery_converges:
  assumes "uuid_text U" "network_ok nodes addr net" "list_all (sweep_of nodes) sweeps" "length sweeps = Suc r"
    and "n \<le> 2 ^ r" "(linked nodes addr seeds net ^^ n) i j" "i \<in> set nodes"
  shows "\<exists>v. hget (cs_nodes (ms_cluster (run_rounds U nodes addr seeds (concat sweeps) net i))) j = Some v \<and>
    ni_rest_endpoint v = addr j \<and> network_ok nodes addr (run_rounds U nodes addr seeds (concat sweeps) net)"
proof -
  have r: "network_ok nodes addr (run_rounds U nodes addr seeds (concat sweeps) net)"
    "knows (run_rounds U nodes addr seeds (concat sweeps) net) i j"
    using uuid_text.sweeps_reach [OF assms] by blast+
  then show ?thesis using assms(7) by (auto simp: knows_def network_ok_def view_true_def)
qed

text \<open>Three agents in a row: 1 has a seed that names 2, and 2 knows 3.\<close>

definition chain_addr :: "node_id \<Rightarrow> string" where
  "chain_addr i = (if i = 1 then ''h1:80'' else if i = 2 then ''h2:'' @ show_nat 8000 else ''h3:80'')"

definition chain_seeds :: "node_id \<Rightarrow> string list" where
  "chain_seeds i = (if i = 1 then [''h2:'' @ show_nat 8001] else [])"

definition chain_net :: network where
  "chain_net i = \<lparr> ms_cluster = \<lparr> cs_nodes =
     List.map (\<lambda>k. (k, bare_node k 1 [] [] (chain_addr k))) (if i = 2 then [2, 3] else [i]), cs_version = 0 \<rparr>, ms_seen = [] \<rparr>"

theorem discovery_converges_witness:
  "\<exists>v. hget (cs_nodes (ms_cluster (run_rounds ref_uuid [1, 2, 3] chain_addr chain_seeds
      (concat [[(1, 10), (2, 20), (3, 30)], [(3, 40), (1, 50), (2, 60)]]) chain_net 1))) 3 = Some v \<and>
    ni_rest_endpoint v = chain_addr 3 \<and> network_ok [1, 2, 3] chain_addr (run_rounds ref_uuid [1, 2, 3] chain_addr chain_seeds
      (concat [[(1, 10), (2, 20), (3, 30)], [(3, 40), (1, 50), (2, 60)]]) chain_net)"
proof (rule discovery_converges [OF ref_uuid.uuid_text_axioms, where n = 2 and r = 1])
  show "network_ok [1, 2, 3] chain_addr chain_net"
    by (auto simp: network_ok_def view_true_def membership_ok_def cluster_wf_def chain_net_def chain_addr_def bare_node_def
        split: if_split_asm)
  have "linked [1, 2, 3] chain_addr chain_seeds chain_net 1 2"
  proof -
    have "seed_to_rest (''h2:'' @ show_nat 8001) = ''h2:'' @ show_nat 8000"
      using seed_to_rest_port [where p = 8001 and host = "''h2''" and plain = "[]"] by simp
    then show ?thesis by (simp add: linked_def chain_seeds_def chain_addr_def)
  qed
  moreover have "linked [1, 2, 3] chain_addr chain_seeds chain_net 2 3" by (simp add: linked_def knows_def chain_net_def)
  ultimately show "(linked [1, 2, 3] chain_addr chain_seeds chain_net ^^ 2) 1 3"
    by (auto simp: numeral_2_eq_2)
qed (simp_all add: sweep_of_def, auto)

end
