(* ===== verification/Report_Locks.thy ===== *)
theory Report_Locks
  imports Job_Properties
begin

text \<open>
  The end of a job, lock by lock, across agents. In \<open>agent/src/executor/mod.rs\<close> the guard of the job table that the
  end of a task takes lives to the end of its \<open>match\<close> arm, over the \<open>await\<close> of the report to the origin node, and the
  handler of the report takes the lock of the origin's job table. No call has a timeout; an error of
  the call, of the connection included, is ignored by the executor and ends the \<open>await\<close>.
\<close>

section \<open>Agents and their locks\<close>

text \<open>
  Agents are named by the address of their gRPC interface. \<open>ln_held\<close> is the lock of an agent's job table: free, or held
  by the end of a task that awaits the answer to a report for an origin. \<open>ln_ended\<close> are the tasks whose
  process has ended and that have not taken the lock yet.
\<close>

record lock_net =
  ln_app :: "string \<Rightarrow> app"
  ln_held :: "string \<Rightarrow> (string \<times> report_message) option"
  ln_ended :: "(string \<times> exec_task \<times> outcome) list"

text \<open>
  A report is answered when the agent at the origin's address gets its lock; it fails at once when there is no such
  agent, or when it names no job id. Whatever does not touch the job table goes on while its lock is held.
  \<open>F\<close> are the agents whose report may end with an error of the transport (no connection, or one that breaks before the
  handler got its lock; when only the answer is lost, the step is \<open>answered\<close>, whose result the executor ignores).
\<close>

inductive report_step :: "uuid_api \<Rightarrow> string set \<Rightarrow> string set \<Rightarrow> lock_net \<Rightarrow> lock_net \<Rightarrow> bool" for U agents F where
  ended: "report_step U agents F s (s\<lparr>ln_ended := ln_ended s @ [e]\<rparr>)"
| finish: "ln_ended s = xs @ (i, task, out) # ys \<Longrightarrow> ln_held s i = None \<Longrightarrow> exec_finish U now out task (ln_app s i) = (a, report) \<Longrightarrow>
    report_step U agents F s (s\<lparr>ln_app := (ln_app s)(i := a), ln_held := (ln_held s)(i := report), ln_ended := xs @ ys\<rparr>)"
| answered: "ln_held s i = Some (origin, message) \<Longrightarrow> j \<in> agents \<Longrightarrow> normalize_endpoint origin = normalize_endpoint j \<Longrightarrow>
    ln_held s j = None \<Longrightarrow> grpc_report_job_status U now message (ln_app s j) = (r, a) \<Longrightarrow>
    report_step U agents F s (s\<lparr>ln_app := (ln_app s)(j := a), ln_held := (ln_held s)(i := None)\<rparr>)"
| refused: "ln_held s i = Some (origin, message) \<Longrightarrow> j \<in> agents \<Longrightarrow> normalize_endpoint origin = normalize_endpoint j \<Longrightarrow>
    uuid_parse U (rm_job_id message) = None \<Longrightarrow> report_step U agents F s (s\<lparr>ln_held := (ln_held s)(i := None)\<rparr>)"
| unreachable: "ln_held s i = Some (origin, message) \<Longrightarrow> normalize_endpoint origin \<notin> normalize_endpoint ` agents \<Longrightarrow>
    report_step U agents F s (s\<lparr>ln_held := (ln_held s)(i := None)\<rparr>)"
| dropped: "ln_held s i = Some (origin, message) \<Longrightarrow> i \<in> F \<Longrightarrow> report_step U agents F s (s\<lparr>ln_held := (ln_held s)(i := None)\<rparr>)"
| job: "job_step U (ln_app s i) a \<Longrightarrow> ln_held s i = None \<or> app_jobs a = app_jobs (ln_app s i) \<Longrightarrow>
    report_step U agents F s (s\<lparr>ln_app := (ln_app s)(i := a)\<rparr>)"

section \<open>Deadlock\<close>

text \<open>Every agent of \<open>D\<close> holds its lock and waits for an agent of \<open>D\<close>.\<close>

definition waits_within :: "uuid_api \<Rightarrow> string set \<Rightarrow> lock_net \<Rightarrow> bool" where
  "waits_within U D s = (\<forall>i \<in> D. \<exists>origin message j. ln_held s i = Some (origin, message) \<and> j \<in> D \<and>
     normalize_endpoint origin = normalize_endpoint j \<and> uuid_parse U (rm_job_id message) \<noteq> None)"

text \<open>From here on, whatever happens, the lock is held and the job table stays as it is.\<close>

definition stuck_for_good :: "uuid_api \<Rightarrow> string set \<Rightarrow> string set \<Rightarrow> string \<Rightarrow> lock_net \<Rightarrow> bool" where
  "stuck_for_good U agents F i s = (\<forall>t. (report_step U agents F)\<^sup>*\<^sup>* s t \<longrightarrow>
     ln_held t i \<noteq> None \<and> app_jobs (ln_app t i) = app_jobs (ln_app s i))"

lemma waits_step:
  assumes "inj_on normalize_endpoint agents" "D \<subseteq> agents" "D \<inter> F = {}" "waits_within U D s" "report_step U agents F s t"
  shows "waits_within U D t \<and> (\<forall>i \<in> D. ln_held t i = ln_held s i \<and> app_jobs (ln_app t i) = app_jobs (ln_app s i))"
proof -
  have held: "ln_held s i \<noteq> None" if "i \<in> D" for i using assms(4) that by (auto simp: waits_within_def)
  have "ln_held t i = ln_held s i \<and> app_jobs (ln_app t i) = app_jobs (ln_app s i)" if i: "i \<in> D" for i
    using assms(5)
  proof (cases rule: report_step.cases)
    case (answered i' origin message j now r a)
    have "i' \<noteq> i"
    proof
      assume "i' = i"
      with i assms(4) answered(2) obtain k where k: "k \<in> D" "normalize_endpoint origin = normalize_endpoint k"
        by (auto simp: waits_within_def)
      then have "k = j" using answered(3,4) assms(1,2) by (metis inj_onD subsetD)
      with held k(1) answered(5) show False by blast
    qed
    moreover have "j \<noteq> i" using held [OF i] answered(5) by blast
    ultimately show ?thesis using answered(1) by simp
  next
    case (refused i' origin message j)
    with i assms(4) have "i' \<noteq> i" by (auto simp: waits_within_def)
    then show ?thesis using refused(1) by simp
  next
    case (unreachable i' origin message)
    have "i' \<noteq> i"
    proof
      assume "i' = i"
      with i assms(4) unreachable(2) obtain k where "k \<in> D" "normalize_endpoint origin = normalize_endpoint k"
        by (auto simp: waits_within_def)
      with assms(2) unreachable(3) show False by auto
    qed
    then show ?thesis using unreachable(1) by simp
  next
    case (dropped i' origin message)
    then have "i' \<noteq> i" using i assms(3) by blast
    then show ?thesis using dropped(1) by simp
  qed (use held [OF i] in auto)
  then show ?thesis using assms(4) by (simp add: waits_within_def)
qed

lemma waits_for_good:
  assumes "inj_on normalize_endpoint agents" "D \<subseteq> agents" "D \<inter> F = {}" "waits_within U D s" "i \<in> D"
  shows "stuck_for_good U agents F i s"
  unfolding stuck_for_good_def
proof (intro allI impI)
  fix t assume "(report_step U agents F)\<^sup>*\<^sup>* s t"
  then have "waits_within U D t \<and> app_jobs (ln_app t i) = app_jobs (ln_app s i)"
  proof (induction rule: rtranclp_induct)
    case (step t u)
    with waits_step [OF assms(1-3) _ step(2)] assms(5) show ?case by simp
  qed (simp add: assms(4))
  then show "ln_held t i \<noteq> None \<and> app_jobs (ln_app t i) = app_jobs (ln_app s i)"
    using assms(5) by (auto simp: waits_within_def)
qed

text \<open>The end of a task with a callback leaves the lock held, by a report for its origin.\<close>

lemma finish_holds:
  assumes "uuid_text U" "(i, task, out) \<in> set (ln_ended s)" "ln_held s i = None" "xt_callback task = Some cb"
  obtains t message where "report_step U agents F s t" "uuid_parse U (rm_job_id message) \<noteq> None" "ln_held t = (ln_held s)(i := Some (cb_origin_endpoint cb, message))"
    "set (ln_ended s) - {(i, task, out)} \<subseteq> set (ln_ended t)"
proof -
  obtain xs ys where l: "ln_ended s = xs @ (i, task, out) # ys" using split_list [OF assms(2)] by blast
  obtain a report where f: "exec_finish U 0 out task (ln_app s i) = (a, report)" by fastforce
  then obtain message where m: "report = Some (cb_origin_endpoint cb, message)" "rm_job_id message = uuid_str U (xt_job_id task)"
    using assms(4) by (auto simp: exec_finish_def report_message_of_def Let_def split: prod.split_asm)
  show ?thesis
    by (rule that [OF report_step.finish [OF l assms(3) f]]) (use m l uuid_text.uuid_round [OF assms(1)] in auto)
qed

text \<open>Without such a circle some report can be answered, or fails, and its lock becomes free.\<close>

lemma some_lock_freed:
  assumes "{i. ln_held s i \<noteq> None} \<noteq> {}"
    and "{i. ln_held s i \<noteq> None} \<inter> F = {} \<Longrightarrow> \<not> waits_within U {i. ln_held s i \<noteq> None} s"
  obtains i t where "ln_held s i \<noteq> None" "report_step U agents F s t" "ln_held t = (ln_held s)(i := None)"
proof (cases "{i. ln_held s i \<noteq> None} \<inter> F = {}")
  case False
  then obtain i origin message where i: "ln_held s i = Some (origin, message)" "i \<in> F" by auto
  show ?thesis by (intro that [of i, OF _ report_step.dropped [OF i]]) (simp_all add: i)
next
  case True
  let ?H = "{i. ln_held s i \<noteq> None}"
  from assms(2) [OF True] obtain i where "i \<in> ?H" and no: "\<not> (\<exists>origin message j. ln_held s i = Some (origin, message) \<and> j \<in> ?H \<and>
      normalize_endpoint origin = normalize_endpoint j \<and> uuid_parse U (rm_job_id message) \<noteq> None)"
    unfolding waits_within_def by blast
  then obtain origin message where i: "ln_held s i = Some (origin, message)" by auto
  have away: "uuid_parse U (rm_job_id message) = None \<or> normalize_endpoint origin \<noteq> normalize_endpoint j" if "j \<in> ?H" for j
    using no i that by blast
  show ?thesis
  proof (cases "normalize_endpoint origin \<in> normalize_endpoint ` agents")
    case True
    then obtain j where j: "j \<in> agents" "normalize_endpoint origin = normalize_endpoint j" by blast
    then consider "uuid_parse U (rm_job_id message) = None" | "ln_held s j = None"
      using away [of j] by (cases "ln_held s j") auto
    then show ?thesis
    proof cases
      case 1
      show ?thesis by (intro that [of i, OF _ report_step.refused [OF i j 1]]) (simp_all add: i)
    next
      case 2
      obtain r a where "grpc_report_job_status U 0 message (ln_app s j) = (r, a)" by fastforce
      with 2 show ?thesis by (intro that [of i, OF _ report_step.answered [OF i j]]) (simp_all add: i)
    qed
  next
    case False
    then show ?thesis by (intro that [of i, OF _ report_step.unreachable [OF i]]) (simp_all add: i)
  qed
qed

lemma all_freed:
  assumes "finite {i. ln_held s i \<noteq> None}" "\<And>D. waits_within U D s \<Longrightarrow> D \<inter> F = {} \<Longrightarrow> D = {}"
  shows "\<exists>t. (report_step U agents F)\<^sup>*\<^sup>* s t \<and> ln_held t = (\<lambda>_. None)"
  using assms
proof (induction "card {i. ln_held s i \<noteq> None}" arbitrary: s)
  case 0
  then have "{i. ln_held s i \<noteq> None} = {}" by simp
  then have "ln_held s = (\<lambda>_. None)" by (intro ext) blast
  then show ?case by blast
next
  case (Suc n)
  let ?H = "{i. ln_held s i \<noteq> None}"
  have "?H \<noteq> {}" using Suc.hyps(2) by (metis card.empty nat.distinct(1))
  then obtain i t where i: "ln_held s i \<noteq> None" "report_step U agents F s t" "ln_held t = (ln_held s)(i := None)"
    using some_lock_freed [of s F U agents] Suc.prems(2) by blast
  have H: "{i. ln_held t i \<noteq> None} = ?H - {i}" using i(3) by auto
  then have "n = card {i. ln_held t i \<noteq> None}" using Suc.hyps(2) Suc.prems(1) i(1) by simp
  moreover have "finite {i. ln_held t i \<noteq> None}" using H Suc.prems(1) by simp
  moreover have "D = {}" if w: "waits_within U D t" and "D \<inter> F = {}" for D
  proof (rule Suc.prems(2) [OF _ that(2)])
    have "i \<notin> D" using w i(3) by (auto simp: waits_within_def)
    then show "waits_within U D s" using w i(3) unfolding waits_within_def by (metis fun_upd_other)
  qed
  ultimately obtain u where "(report_step U agents F)\<^sup>*\<^sup>* t u" "ln_held u = (\<lambda>_. None)" using Suc.hyps(1) [of t] by blast
  with i(2) show ?case by (meson converse_rtranclp_into_rtranclp)
qed

section \<open>Properties\<close>

text \<open>
  C16. When the locks get free. Let \<open>F\<close> be the agents whose reports may be ended by an error of the connection. From a
  state in which agents hold the locks of their job tables for a report, a run in which all of them are freed
  exists exactly when there is no circle without such an agent: no set of agents outside \<open>F\<close> each of which
  holds its lock and waits for one of the same set. The agents of such a circle keep theirs for good.
\<close>

theorem locks_freed_iff:
  assumes "finite agents" "inj_on normalize_endpoint agents" "{i. ln_held s i \<noteq> None} \<subseteq> agents"
  shows "((\<exists>t. (report_step U agents F)\<^sup>*\<^sup>* s t \<and> ln_held t = (\<lambda>_. None)) \<longleftrightarrow>
      (\<forall>D. waits_within U D s \<and> D \<inter> F = {} \<longrightarrow> D = {})) \<and>
    (\<forall>D i. waits_within U D s \<and> D \<inter> F = {} \<and> i \<in> D \<longrightarrow> stuck_for_good U agents F i s)"
proof -
  have good: "stuck_for_good U agents F i s" if w: "waits_within U D s" "D \<inter> F = {}" "i \<in> D" for D i
  proof -
    have "D \<subseteq> agents" using w(1) assms(3) by (auto simp: waits_within_def)
    then show ?thesis by (rule waits_for_good [OF assms(2) _ w(2,1,3)])
  qed
  have "D = {}" if t: "(report_step U agents F)\<^sup>*\<^sup>* s t" "ln_held t = (\<lambda>_. None)"
    and w: "waits_within U D s" "D \<inter> F = {}" for t D
    using good [OF w] t unfolding stuck_for_good_def by fastforce
  moreover have "\<exists>t. (report_step U agents F)\<^sup>*\<^sup>* s t \<and> ln_held t = (\<lambda>_. None)"
    if "\<forall>D. waits_within U D s \<and> D \<inter> F = {} \<longrightarrow> D = {}"
    using all_freed [of s U F agents] finite_subset [OF assms(3,1)] that by blast
  ultimately show ?thesis using good by blast
qed

text \<open>Agents at \<open>h:1\<close> and \<open>h:2\<close> with an ended job for each other.\<close>

definition pair_net :: lock_net where
  "pair_net = \<lparr> ln_app = (\<lambda>_. sample_app), ln_held = (\<lambda>_. None),
     ln_ended = [(''h:1'', remote_task sample_app 7 ''h:2'' sample_submit, Exited (Some 0)),
                 (''h:2'', remote_task sample_app 8 ''h:1'' sample_submit, Exited (Some 1))] \<rparr>"

lemma pair_addresses: "inj_on normalize_endpoint {''h:1'', ''h:2''}"
  by (simp add: normalize_endpoint_def starts_with_def)

theorem locks_freed_iff_witness:
  "\<exists>t. (report_step ref_uuid {''h:1'', ''h:2''} {})\<^sup>*\<^sup>* (pair_net\<lparr>ln_held := [''h:1'' \<mapsto> (''h:2'', report_message_of ref_uuid 7 Completed (Some 0) None 1)]\<rparr>) t \<and>
    ln_held t = (\<lambda>_. None)"
proof -
  let ?s = "pair_net\<lparr>ln_held := [''h:1'' \<mapsto> (''h:2'', report_message_of ref_uuid 7 Completed (Some 0) None 1)]\<rparr>"
  have held: "{i. ln_held ?s i \<noteq> None} = {''h:1''}" by auto
  have "D = {}" if "waits_within ref_uuid D ?s" for D
  proof (rule ccontr)
    assume "D \<noteq> {}"
    moreover have "D \<subseteq> {''h:1''}" using that held by (auto simp: waits_within_def)
    ultimately have "D = {''h:1''}" by blast
    with that show False by (simp add: waits_within_def normalize_endpoint_def starts_with_def)
  qed
  then show ?thesis using locks_freed_iff [OF _ pair_addresses, of ?s ref_uuid "{}"] held by simp
qed

text \<open>
  C9. Two agents that work for each other can lock each other out. When the processes of two delegated jobs have
  ended, one on \<open>A\<close> for the origin \<open>B\<close> and one on \<open>B\<close> for the origin \<open>A\<close>, there is a run, without any failure, after
  which both hold the lock of their job table and wait for the other's. Both are then stuck exactly as long as neither
  connection breaks: nothing else that happens afterwards frees either lock or changes either table, so that no
  submission, cancellation, report or retry gets through on either agent again.
\<close>

theorem mutual_reports_deadlock:
  assumes "uuid_text U" "inj_on normalize_endpoint agents" "A \<in> agents" "B \<in> agents" "A \<noteq> B"
    and "ln_held s A = None" "ln_held s B = None"
    and "(A, remote_task a jA B reqA, outA) \<in> set (ln_ended s)" "(B, remote_task b jB A reqB, outB) \<in> set (ln_ended s)"
  shows "\<exists>s'. (report_step U agents {})\<^sup>*\<^sup>* s s' \<and>
    (\<forall>F. stuck_for_good U agents F A s' \<and> stuck_for_good U agents F B s' \<longleftrightarrow> A \<notin> F \<and> B \<notin> F)"
proof -
  obtain t m where t: "report_step U agents {} s t" "uuid_parse U (rm_job_id m) \<noteq> None" "ln_held t = (ln_held s)(A := Some (B, m))"
    "set (ln_ended s) - {(A, remote_task a jA B reqA, outA)} \<subseteq> set (ln_ended t)"
    by (rule finish_holds [OF assms(1,8,6), where cb = "\<lparr> cb_origin_endpoint = B, cb_source_node_id = app_node_id a \<rparr>"  and agents = agents and F = "{}"])
      (simp_all add: remote_task_def)
  have "(B, remote_task b jB A reqB, outB) \<in> set (ln_ended t)" "ln_held t B = None" using t(3,4) assms(5,7,9) by auto
  then obtain u m' where u: "report_step U agents {} t u" "uuid_parse U (rm_job_id m') \<noteq> None" "ln_held u = (ln_held t)(B := Some (A, m'))"
    by (rule finish_holds [OF assms(1), where cb = "\<lparr> cb_origin_endpoint = A, cb_source_node_id = app_node_id b \<rparr>"  and agents = agents and F = "{}"])
      (simp_all add: remote_task_def)
  have w: "waits_within U {A, B} u" using t(2,3) u(2,3) assms(5) by (auto simp: waits_within_def)
  have "(report_step U agents {})\<^sup>*\<^sup>* s u" using t(1) u(1) by (meson rtranclp.simps)
  moreover have "stuck_for_good U agents F i u" if "i \<in> {A, B}" "A \<notin> F \<and> B \<notin> F" for i F
    by (rule waits_for_good [OF assms(2) _ _ w that(1)]) (use assms(3,4) that(2) in auto)
  moreover have "\<not> stuck_for_good U agents F i u" if "i \<in> F" "i \<in> {A, B}" for i F
  proof -
    from that(2) w obtain origin message where "ln_held u i = Some (origin, message)" by (auto simp: waits_within_def)
    then show ?thesis using report_step.dropped [OF _ that(1)] unfolding stuck_for_good_def
      by (metis fun_upd_same lock_net.select_convs(2) lock_net.surjective lock_net.update_convs(2) r_into_rtranclp)
  qed
  ultimately show ?thesis by blast
qed

theorem mutual_reports_deadlock_witness:
  "\<exists>s'. (report_step ref_uuid {''h:1'', ''h:2''} {})\<^sup>*\<^sup>* pair_net s' \<and>
    (\<forall>F. stuck_for_good ref_uuid {''h:1'', ''h:2''} F ''h:1'' s' \<and> stuck_for_good ref_uuid {''h:1'', ''h:2''} F ''h:2'' s' \<longleftrightarrow>
      ''h:1'' \<notin> F \<and> ''h:2'' \<notin> F)"
  by (rule mutual_reports_deadlock [OF ref_uuid.uuid_text_axioms pair_addresses]) (auto simp: pair_net_def)

end
