(* ===== verification/Spec2Isabelle.thy ===== *)
theory Spec2Isabelle
  imports Placement Raft_Replica Raft_Log_Spec Rest_Properties Agent_Serve Gossip Report_Locks
begin

text \<open>
  The all4one agent: a model and its verification.

  The program (\<open>src/agent\<close>, with the shared types in \<open>src/common\<close>) is one binary that runs on every machine of
  a small cluster. Each agent keeps a view of the cluster, takes jobs and runs them or delegates them, stores
  objects in shards with metadata in a local index, issues or obtains certificates, and, as a quorum
  participant, keeps a replicated log with a state machine. Agents talk over gRPC and HTTP. This library
  translates the agent's code into definitions and proves what makes it correct, or where it is not.

  Layers, from the bottom. A theory imports the ones whose operations its code calls.

  Foundations.
  \<open>Prelude\<close>: fallible state-passing operations (\<open>op\<close>, \<open>bind_op\<close>; \<open>Inl\<close> is an error, and the state after an error
  is kept), saturating arithmetic, hash maps as association lists (\<open>hmap\<close>), the locales of round trips,
  step systems and command machines. \<open>Rust_Std\<close>: the parts of \<open>std\<close> with algorithmic content (\<open>str\<close> searching and
  splitting, \<open>trim\<close>, decimal integers, byte forms of \<open>u64\<close>, UTF-8), \<open>Socket_Text\<close> its reader of socket addresses. \<open>Filesystem\<close>: paths and \<open>std::fs\<close>; every call
  can fail as the environment decides (\<open>fs_fault\<close>), a failing write may leave other bytes. \<open>External\<close>: the crates
  the agent calls, as records of functions, their documented contracts as locales (\<open>sled_api\<close>, \<open>json_api\<close>,
  \<open>zstd_api\<close>, \<open>uuid_text\<close>, \<open>broadcast_api\<close>), and a concrete instance of each on which the witnesses run.

  Object store (\<open>agent/src/storage\<close>).
  \<open>Storage_Policy\<close>: the policies, their tables and the metadata record (\<open>mod.rs\<close>). \<open>Erasure\<close>: \<open>encode_erasure\<close> and
  \<open>decode_erasure\<close> (\<open>chunks.rs\<close>). \<open>Index\<close>: the metadata index (\<open>index.rs\<close>) with its refinement to a map from bucket
  and key to metadata. \<open>Chunks\<close>: shard files, upload, download, the shard reader. \<open>Object_Store\<close>: the entry points,
  round trip, integrity, lost shards. \<open>Store_Isolation\<close>: what an upload does to other objects, replication of
  shards, and where the file naming breaks. \<open>Placement\<close>: \<open>placement.rs\<close>.

  Consensus storage (\<open>agent/src/raft\<close>).
  \<open>Raft_Machine\<close>: commands and the persistent state machine (\<open>commands.rs\<close>, \<open>store.rs\<close>). \<open>Raft_Replica\<close>: replicas that
  apply one log, restarts, snapshots. \<open>Raft_Log\<close> and \<open>Raft_Log_Spec\<close>: the log store and its refinement to a map from
  index to entry with a purge mark. \<open>Raft_Node\<close>: start and bootstrap (\<open>mod.rs\<close>), the network (\<open>network.rs\<close>) and the
  service (\<open>grpc_server/raft_service.rs\<close>).

  Cluster and jobs.
  \<open>Common\<close>: the shared types. \<open>Scheduler\<close>: \<open>scheduler/mod.rs\<close>. \<open>Cluster\<close>: the view, discovery and the failure
  detector (\<open>discovery/mod.rs\<close>, \<open>gossip/mod.rs\<close>) as one inductive relation \<open>cluster_step\<close> of critical sections;
  \<open>Membership\<close>: what discovery and detection give one agent; \<open>Gossip\<close>: how fast knowledge of nodes spreads between
  agents. \<open>Grpc_Client\<close>: messages and calls (\<open>grpc_client/mod.rs\<close>). \<open>Jobs\<close>: submission, dispatch, retry, the executor task cut at its locks, reports (\<open>api_rest/mod.rs\<close>, \<open>executor/mod.rs\<close>,
  \<open>grpc_server/mod.rs\<close>); \<open>Job_Properties\<close>: the relation \<open>job_step\<close> over them, its invariants, delegation, cancellation;
  \<open>Report_Locks\<close>: several agents with the locks of their job tables, which the end of a job holds over its report; a
  report ends by an answer or, for the agents named in the relation, by an error of the connection.

  Node.
  \<open>Node_Config\<close>: configuration, identity, resources (\<open>config\<close>, \<open>node/mod.rs\<close>). \<open>Certificates\<close>: \<open>certificates/mod.rs\<close>.
  \<open>Grpc_Server\<close>: join and the shard handlers (\<open>grpc_server/mod.rs\<close>). \<open>Rest_Api\<close> and \<open>Rest_Properties\<close>: routes,
  authentication, status, object store handlers, watcher (\<open>api_rest/mod.rs\<close>). \<open>Agent_Main\<close> and \<open>Agent_Start\<close>: \<open>main.rs\<close> up
  to the servers; \<open>Agent_Serve\<close>: \<open>main\<close> as a whole, with \<open>start_background\<close> and \<open>serve\<close>.
  This theory adds what spans them: every state an agent reaches after its start is sound, and a node
  that was enrolled becomes known to all who poll the issuer.

  How state corresponds. \<open>AppState\<close> is split by what a handler locks: \<open>app\<close> (jobs, output channels, events, view, and the
  pending executor tasks, which are spawned futures in the code; a broadcast channel is the history of what was sent on
  it, and what a subscriber still receives of it within the channel's capacity is \<open>ops_recv\<close> and \<open>output_recv\<close>), \<open>membership\<close> (view and heartbeats), \<open>disk\<close> (files
  and open sled databases; a call that was answered counts as on disk, so that flushing a database has no effect of its
  own), \<open>config\<close>. A handler is a function from these to its answer and the new state; where
  the code releases a lock in between, the handler is cut there and the pieces are steps of a relation, so
  the invariants hold for every interleaving. Clock readings, fresh identifiers, generated keys, the ends of
  processes and the answers of other machines are arguments. Identifiers are 128-bit words, sizes and log
  indexes \<open>u64\<close> words; \<open>usize\<close> is a natural number where it indexes memory.

  What the groups of lemmas show. Refinement: index, log and state machine against maps. Round trips: upload
  and download, on disk and over HTTP; shards; log keys; names on the wire; vote and commit marks. Invariants: job table,
  view, registrations, identity over restarts. Safety: verified downloads, isolation of objects, single-use
  tokens, the gates of authentication and enrolment. Error behaviour: status codes, lost shards, lost
  cancellations. Composition: delegation between two agents, replication to a storage node, enrolment at an issuer,
  the spread of nodes through a network of agents, and when agents that report to each other block for good. Theorems
  that state a defect say what the code does, on a concrete witness.

  Bounds. Integers are kept at their width where overflow matters (saturating counters, the length prefix
  of a stored object, memory limits, the tier of a join). No definition uses fuel: loops over data are structural; the retry task
  has at most 60 turns and enrolment 20 rounds, as in the code, and \<open>enrolment_bounded\<close> gives the number of calls;
  the endless loops (discovery, detector) are modelled by one round and relations over rounds, the watcher by
  any finite number of turns with what the other tasks did in between.

  Not modelled. The consensus engine \<open>openraft\<close>, \<open>sled\<close>, \<open>serde\<close>, \<open>sha2\<close>, \<open>zstd\<close>, \<open>rcgen\<close>, \<open>rustls\<close>, \<open>toml\<close>, \<open>tonic\<close>, \<open>axum\<close> and
  \<open>reqwest\<close>: parameters, with contracts where a proof needs them. The request-id layer,
  keep-alives and path decoding of \<open>api_rest/mod.rs\<close>, which are the web framework's, and the default limits of the
  frameworks on the size of a request body or message; what the operating system answers when a socket is bound (an argument), and the IPv6 form of addresses (an argument too); the poisoning of the lock around the open databases and the files
  \<open>sled\<close> keeps for itself; the abort of a connection whose handler panics (the answer is then \<open>ConnectionLost\<close>, with no status); \<open>dashboard.html\<close>; the build script and protocol files, whose generated messages are
  records of \<open>Grpc_Client\<close>; log lines; the tests of the repository. Symbolic links and \<open>..\<close> are not resolved. Whitespace and
  letter case are the ASCII ones.
\<close>

section \<open>An agent from its start on\<close>

lemma started:
  assumes "run_agent T R S J nm opened_log opened_sm X net path f = (Inr ag, g)"
  shows "\<exists>cfg nid. load T path f = Inr cfg \<and> ag_config ag = cfg \<and> ag_app ag = start_app X cfg nid \<and>
    ag_seen ag = ms_seen (initial_view X cfg nid)"
  using assms
  by (auto simp: run_agent_def op_simps split: prod.split_asm sum.split_asm)

lemma start_app_wf: "jobs_wf (start_app X cfg nid)"
  by (simp add: start_app_def jobs_wf_def)

lemma initial_view_ok: "membership_ok nid (initial_view X cfg nid)"
  by (simp add: membership_ok_def initial_view_def upsert_self_def cluster_default_def local_node_of_def profile_def
      cluster_wf_def bump_version_def)

text \<open>
  C12. Every state an agent reaches is sound. After a start that succeeds, whatever the handlers, executor
  tasks, discovery rounds, joins and detector rounds do in whatever order, the job table has one record per id, filed
  under its id, the view has the agent itself, every node under the id in its profile, and the
  configuration the agent runs with is the one that was loaded and validated.
\<close>

theorem started_agent_sound:
  assumes "run_agent T R S J nm opened_log opened_sm X net path f = (Inr ag, g)"
    and "(job_step U)\<^sup>*\<^sup>* (ag_app ag) a"
    and "(cluster_step U (app_node_id (ag_app ag)))\<^sup>*\<^sup>* \<lparr> ms_cluster = app_cluster (ag_app ag), ms_seen = ag_seen ag \<rparr> m"
  shows "jobs_wf a \<and> membership_ok (app_node_id (ag_app ag)) m \<and> app_node_id a = app_node_id (ag_app ag) \<and>
    load T path f = Inr (ag_config ag)"
proof -
  obtain cfg nid where ag: "load T path f = Inr (ag_config ag)" "ag_app ag = start_app X cfg nid"
    "ag_seen ag = ms_seen (initial_view X cfg nid)" using started [OF assms(1)] by blast
  have "\<lparr> ms_cluster = app_cluster (ag_app ag), ms_seen = ag_seen ag \<rparr> = initial_view X cfg nid"
    "app_node_id (ag_app ag) = nid" using ag by (simp_all add: start_app_def)
  moreover have "jobs_wf (ag_app ag)" using ag(2) by (simp add: start_app_wf)
  moreover note jobs.run_inv [OF assms(2)] jobs.run_rel [OF assms(2)]
  moreover note members.run_inv [OF assms(3)] initial_view_ok [of nid X cfg]
  ultimately show ?thesis using ag(1) by (simp add: jobs_grow_def)
qed

theorem started_agent_sound_witness:
  "\<exists>ag g. run_agent (sample_toml\<lparr>tm_config := (\<lambda>_. Inr (sample_raw\<lparr>raw_seeds := None, raw_quorum_participant := Some True\<rparr>))\<rparr>)
      member_engine ref_sled blank_json (0 :: nat) (Inr []) (Inr []) sample_start dead_net ''/c'' sample_config_fs = (Inr ag, g) \<and>
    jobs_wf (snd (delete_job ref_uuid 5 ''7'' (ag_app ag))) \<and>
    membership_ok (app_node_id (ag_app ag)) (join_cluster ''0.1.0'' 9 8 2 ''h:1'' ''h:2''
      \<lparr> ms_cluster = app_cluster (ag_app ag), ms_seen = ag_seen ag \<rparr>)"
proof -
  let ?T = "sample_toml\<lparr>tm_config := (\<lambda>_. Inr (sample_raw\<lparr>raw_seeds := None, raw_quorum_participant := Some True\<rparr>))\<rparr>"
  obtain ag g where run: "run_agent ?T member_engine ref_sled blank_json (0 :: nat) (Inr []) (Inr []) sample_start dead_net ''/c''
      sample_config_fs = (Inr ag, g)"
    by (rule issuer_run)
  have "(job_step ref_uuid)\<^sup>*\<^sup>* (ag_app ag) (snd (delete_job ref_uuid 5 ''7'' (ag_app ag)))"
    by (rule r_into_rtranclp, rule job_step.delete) (rule prod.collapse [symmetric])
  moreover have "(cluster_step ref_uuid (app_node_id (ag_app ag)))\<^sup>*\<^sup>* \<lparr> ms_cluster = app_cluster (ag_app ag), ms_seen = ag_seen ag \<rparr>
      (join_cluster ''0.1.0'' 9 8 2 ''h:1'' ''h:2'' \<lparr> ms_cluster = app_cluster (ag_app ag), ms_seen = ag_seen ag \<rparr>)"
    by (rule r_into_rtranclp, rule cluster_step.join)
  ultimately show ?thesis using started_agent_sound [OF run] run by blast
qed

text \<open>
  C13. An enrolled node becomes known. When an issuer has granted a node's enrolment, any other agent that
  then polls the issuer has the node in its view, online, under the addresses the node advertises, with
  a heartbeat of that instant.
\<close>

theorem enrolled_node_discovered:
  assumes "uuid_text (sx_uuid X)" "membership_ok issuer m"
    and "grpc_join (sx_uuid X) gen_ca gen version now unix cfgA (enrol_message X cfgB nid) (f, m) = (Inr answer, (f', m'))"
    and "other \<noteq> nid"
  shows "\<exists>n. hget (cs_nodes (ms_cluster (apply_peer_list (sx_uuid X) other t (get_internal_nodes (sx_uuid X) (ms_cluster m')) v))) nid = Some n \<and>
    ni_status n = Online \<and> ni_grpc_endpoint n = ni_grpc_endpoint (local_node_of X cfgB nid) \<and>
    ni_rest_endpoint n = ni_rest_endpoint (local_node_of X cfgB nid) \<and>
    hget (ms_seen (apply_peer_list (sx_uuid X) other t (get_internal_nodes (sx_uuid X) (ms_cluster m')) v)) nid = Some t"
proof -
  let ?msg = "enrol_message X cfgB nid"
  have "uuid_parse (sx_uuid X) (jm_node_id ?msg) = Some nid"
    using uuid_text.uuid_round [OF assms(1)] by (simp add: enrol_message_def)
  then have m': "m' = join_cluster version now nid (jm_tier ?msg) (jm_grpc_endpoint ?msg) (jm_rest_endpoint ?msg) m"
    using assms(3) by (auto simp: grpc_join_def Let_def split: if_split_asm sum.split_asm prod.split_asm)
  then have "hget (cs_nodes (ms_cluster m')) nid = Some (bare_node nid (ucast (jm_tier ?msg)) version
      (ni_grpc_endpoint (local_node_of X cfgB nid)) (ni_rest_endpoint (local_node_of X cfgB nid)))"
    by (simp add: join_cluster_def Let_def enrol_message_def)
  moreover have "cluster_wf (ms_cluster m')"
    using assms(2) m' by (simp add: membership_ok_def join_cluster_def Let_def wf_put bare_node_def)
  ultimately show ?thesis
    using uuid_text.apply_published [OF assms(1), where k = nid and c = "ms_cluster m'" and self_id = other and now = t and m = v]
      assms(4) by (auto simp: bare_node_def)
qed

theorem enrolled_node_discovered_witness:
  "\<exists>answer f' m' n. grpc_join ref_uuid (\<lambda>_. Inl []) (\<lambda>_. Inr (''c'', ''k'')) ''0.1.0'' 7 1000 (config_of_raw sample_raw)
      (enrol_message sample_start (config_of_raw sample_raw) 5) (issuer_fs, sample_view [1, 2]) = (Inr answer, (f', m')) \<and>
    hget (cs_nodes (ms_cluster (apply_peer_list ref_uuid 3 40 (get_internal_nodes ref_uuid (ms_cluster m')) (sample_view [3])))) 5 = Some n \<and>
    ni_status n = Online"
proof -
  have u: "sx_uuid sample_start = ref_uuid" by (simp add: sample_start_def)
  have "uuid_parse ref_uuid (jm_node_id (enrol_message sample_start (config_of_raw sample_raw) 5)) = Some 5"
    by (simp add: enrol_message_def u ref_uuid.uuid_round)
  moreover have "join_allowed (cfg_security (config_of_raw sample_raw)) (jm_join_secret (enrol_message sample_start (config_of_raw sample_raw) 5)) = Inr ()"
    using enrol_secret_allowed by (simp add: enrol_message_def)
  ultimately obtain answer m' where j: "grpc_join ref_uuid (\<lambda>_. Inl []) (\<lambda>_. Inr (''c'', ''k'')) ''0.1.0'' 7 1000 (config_of_raw sample_raw)
      (enrol_message sample_start (config_of_raw sample_raw) 5) (issuer_fs, sample_view [1, 2]) = (Inr answer, (issuer_fs, m'))"
    using join_granted [where cfg = "config_of_raw sample_raw" and f = issuer_fs and pem = "''pem''" and cert = "''c''" and key = "''k''"
        and gen = "\<lambda>_. Inr (''c'', ''k'')", unfolded sample_raw_simps, OF _ _ issuer_fs_simps ascii_pem refl]
    by (metis sample_raw_simps(4))
  have "membership_ok 1 (sample_view [1, 2])"
    by (simp add: membership_ok_def sample_view_def) (simp add: sample_cluster_def)
  from enrolled_node_discovered [OF _ this j [folded u], where other = 3 and t = 40 and v = "sample_view [3]"] j
  show ?thesis by (auto simp: u ref_uuid.uuid_text_axioms)
qed

end
